(* ===== verification/Prelude.thy ===== *)
theory Prelude
  imports Complex_Main "HOL-Library.List_Lexorder" "HOL-Library.Char_ord"
begin

text \<open>
  Shared vocabulary of the development.

  \<^item> Fallible Python code returns \<open>'e + 'a\<close>: \<open>Inl\<close> is a raised exception, \<open>Inr\<close> a returned
    value. \<open>bindE\<close> is sequencing, \<open>checks\<close> a statement list in which each statement may raise,
    \<open>mapE\<close> a loop that collects values.
  \<^item> A Python \<open>dict\<close> is an association list in insertion order: \<open>dget\<close> is \<open>d.get(k)\<close>,
    \<open>dset\<close> is \<open>d[k] = v\<close> (an existing key keeps its place), \<open>dpop\<close> removes a key.
  \<^item> A Python \<open>str\<close> is a \<open>string\<close>: one \<open>char\<close> stands for one code point, so the strings of the
    model are those over U+0000 to U+00FF.
\<close>

named_theorems res_simps \<open>evaluation of the result combinators\<close>
named_theorems dict_simps \<open>lookup laws of the dictionary operations\<close>

section \<open>Results\<close>

type_synonym 'e check = "'e + unit"

fun bindE :: "'e + 'a \<Rightarrow> ('a \<Rightarrow> 'e + 'b) \<Rightarrow> 'e + 'b" where
  "bindE (Inl e) f = Inl e"
| "bindE (Inr x) f = f x"

definition raise_if :: "bool \<Rightarrow> 'e \<Rightarrow> 'e check" where
  "raise_if b e = (if b then Inl e else Inr ())"

text \<open>A list of statements, run in order; the first one that raises decides.\<close>

fun checks :: "'e check list \<Rightarrow> 'e check" where
  "checks [] = Inr ()"
| "checks (c # cs) = (case c of Inl e \<Rightarrow> Inl e | Inr _ \<Rightarrow> checks cs)"

text \<open>\<open>for x in xs: body(x)\<close>, and the comprehension \<open>[f(x) for x in xs]\<close>.\<close>

definition for_each :: "('a \<Rightarrow> 'e check) \<Rightarrow> 'a list \<Rightarrow> 'e check" where
  "for_each f xs = checks (map f xs)"

fun mapE :: "('a \<Rightarrow> 'e + 'b) \<Rightarrow> 'a list \<Rightarrow> 'e + 'b list" where
  "mapE f [] = Inr []"
| "mapE f (x # xs) = bindE (f x) (\<lambda>y. bindE (mapE f xs) (\<lambda>ys. Inr (y # ys)))"

text \<open>A loop that threads an accumulator and may raise.\<close>

fun foldE :: "('s \<Rightarrow> 'a \<Rightarrow> 'e + 's) \<Rightarrow> 's \<Rightarrow> 'a list \<Rightarrow> 'e + 's" where
  "foldE f s [] = Inr s"
| "foldE f s (x # xs) = bindE (f s x) (\<lambda>s'. foldE f s' xs)"

definition is_ok :: "'e + 'a \<Rightarrow> bool" where
  "is_ok r = (case r of Inl _ \<Rightarrow> False | Inr _ \<Rightarrow> True)"

lemma bindE_Inr [res_simps]: "bindE m f = Inr y \<longleftrightarrow> (\<exists>x. m = Inr x \<and> f x = Inr y)"
  by (cases m) auto

lemma bindE_Inl: "bindE m f = Inl e \<longleftrightarrow> m = Inl e \<or> (\<exists>x. m = Inr x \<and> f x = Inl e)"
  by (cases m) auto

lemma raise_if_Inr [simp]: "raise_if b e = Inr u \<longleftrightarrow> \<not> b"
  by (simp add: raise_if_def)

lemma raise_if_Inl [simp]: "raise_if b e = Inl e' \<longleftrightarrow> b \<and> e' = e"
  by (auto simp: raise_if_def)

lemma checks_Inr [simp]: "checks cs = Inr u \<longleftrightarrow> (\<forall>c \<in> set cs. c = Inr ())"
  by (induction cs) (auto split: sum.splits)

lemma checks_Inl_mem: "checks cs = Inl e \<Longrightarrow> Inl e \<in> set cs"
  by (induction cs) (auto split: sum.splits)

lemma checks_append: "checks (xs @ ys) = (case checks xs of Inl e \<Rightarrow> Inl e | Inr _ \<Rightarrow> checks ys)"
proof (induction xs)
  case (Cons c xs)
  then show ?case by (cases c) simp_all
qed simp

lemma for_each_Inr [simp]: "for_each f xs = Inr u \<longleftrightarrow> (\<forall>x \<in> set xs. f x = Inr ())"
  by (simp add: for_each_def)

lemma for_each_Inl_mem: "for_each f xs = Inl e \<Longrightarrow> \<exists>x \<in> set xs. f x = Inl e"
  unfolding for_each_def using checks_Inl_mem by (metis (no_types, lifting) image_iff list.set_map)

lemma for_each_simps:
  "for_each f [] = Inr ()"
  "for_each f (x # xs) = (case f x of Inl e \<Rightarrow> Inl e | Inr _ \<Rightarrow> for_each f xs)"
  by (simp_all add: for_each_def split: sum.split)

lemma for_each_cong [fundef_cong]:
  "xs = ys \<Longrightarrow> (\<And>x. x \<in> set ys \<Longrightarrow> f x = g x) \<Longrightarrow> for_each f xs = for_each g ys"
  by (simp add: for_each_def cong: map_cong)

declare checks.simps(2) [simp del]

lemma mapE_Inr: "mapE f xs = Inr ys \<longleftrightarrow> list_all2 (\<lambda>x y. f x = Inr y) xs ys"
  by (induction xs arbitrary: ys) (auto simp: bindE_Inr list_all2_Cons1)

lemma is_ok_simps [simp]: "is_ok (Inr x)" "\<not> is_ok (Inl e)"
  by (simp_all add: is_ok_def)

lemma is_ok_iff: "is_ok r \<longleftrightarrow> (\<exists>x. r = Inr x)"
  by (cases r) auto

lemma foldE_invariant:
  "foldE f s xs = Inr t \<Longrightarrow> P s \<Longrightarrow>
    (\<And>s x s'. P s \<Longrightarrow> x \<in> set xs \<Longrightarrow> f s x = Inr s' \<Longrightarrow> P s') \<Longrightarrow> P t"
proof (induction xs arbitrary: s)
  case (Cons x xs)
  from Cons.prems(1) obtain s' where s': "f s x = Inr s'" and rest: "foldE f s' xs = Inr t"
    by (auto simp: bindE_Inr)
  from Cons.prems(3) [OF Cons.prems(2) _ s'] have "P s'" by simp
  with rest show ?case by (rule Cons.IH) (rule Cons.prems(3), auto)
qed simp

lemma foldE_append: "foldE f s (xs @ ys) = bindE (foldE f s xs) (\<lambda>s'. foldE f s' ys)"
proof (induction xs arbitrary: s)
  case (Cons x xs)
  then show ?case by (cases "f s x") simp_all
qed simp

lemma foldE_Inl:
  "foldE f s xs = Inl e \<Longrightarrow> P s \<Longrightarrow>
    (\<And>s x s'. P s \<Longrightarrow> x \<in> set xs \<Longrightarrow> f s x = Inr s' \<Longrightarrow> P s') \<Longrightarrow>
    \<exists>s' x. P s' \<and> x \<in> set xs \<and> f s' x = Inl e"
proof (induction xs arbitrary: s)
  case (Cons x xs)
  show ?case
  proof (cases "f s x")
    case (Inl e')
    then show ?thesis using Cons.prems by auto
  next
    case (Inr s')
    have "P s'" by (rule Cons.prems(3) [OF Cons.prems(2) _ Inr]) simp
    moreover have "foldE f s' xs = Inl e" using Cons.prems(1) Inr by simp
    ultimately have "\<exists>s' x. P s' \<and> x \<in> set xs \<and> f s' x = Inl e"
      by (intro Cons.IH) (use Cons.prems(3) in auto)
    then show ?thesis by auto
  qed
qed simp

lemma mapE_mem: "mapE f xs = Inr ys \<Longrightarrow> y \<in> set ys \<Longrightarrow> \<exists>x \<in> set xs. f x = Inr y"
  by (induction xs arbitrary: ys) (auto simp: bindE_Inr)

lemma mapE_total: "(\<And>x. x \<in> set xs \<Longrightarrow> \<exists>y. f x = Inr y) \<Longrightarrow> \<exists>ys. mapE f xs = Inr ys"
proof (induction xs)
  case (Cons x xs)
  then obtain y ys where "f x = Inr y" "mapE f xs = Inr ys" by (metis list.set_intros)
  then show ?case by simp
qed simp

lemma mapE_image: "mapE f xs = Inr ys \<Longrightarrow> x \<in> set xs \<Longrightarrow> \<exists>y \<in> set ys. f x = Inr y"
  by (induction xs arbitrary: ys) (auto simp: bindE_Inr)

section \<open>Dictionaries\<close>

type_synonym 'v dict = "(string \<times> 'v) list"

fun dget :: "'k \<Rightarrow> ('k \<times> 'v) list \<Rightarrow> 'v option" where
  "dget k [] = None"
| "dget k ((k', v) # d) = (if k' = k then Some v else dget k d)"

fun dset :: "'k \<Rightarrow> 'v \<Rightarrow> ('k \<times> 'v) list \<Rightarrow> ('k \<times> 'v) list" where
  "dset k v [] = [(k, v)]"
| "dset k v ((k', v') # d) = (if k' = k then (k, v) # d else (k', v') # dset k v d)"

definition dpop :: "'k \<Rightarrow> ('k \<times> 'v) list \<Rightarrow> ('k \<times> 'v) list" where
  "dpop k d = filter (\<lambda>(k', _). k' \<noteq> k) d"

definition dkeys :: "('k \<times> 'v) list \<Rightarrow> 'k list" where
  "dkeys d = map fst d"

definition dhas :: "'k \<Rightarrow> ('k \<times> 'v) list \<Rightarrow> bool" where
  "dhas k d = (dget k d \<noteq> None)"

text \<open>\<open>{**a, **b}\<close> and \<open>a.update(b)\<close>.\<close>

definition dupdate :: "('k \<times> 'v) list \<Rightarrow> ('k \<times> 'v) list \<Rightarrow> ('k \<times> 'v) list" where
  "dupdate a b = foldl (\<lambda>d (k, v). dset k v d) a b"

lemma dget_map_of: "dget k d = map_of d k"
  by (induction d) auto

lemma dget_dset [simp, dict_simps]: "dget k (dset k' v d) = (if k = k' then Some v else dget k d)"
  by (induction d) auto

lemma dkeys_simps [simp]: "dkeys [] = []" "dkeys ((k, v) # d) = k # dkeys d"
  "dkeys (d @ e) = dkeys d @ dkeys e"
  by (simp_all add: dkeys_def)

lemma dget_mem: "dget k d = Some v \<Longrightarrow> (k, v) \<in> set d"
  by (simp add: dget_map_of map_of_SomeD)

lemma dget_None: "dget k d = None \<longleftrightarrow> k \<notin> set (dkeys d)"
  by (simp add: dget_map_of dkeys_def map_of_eq_None_iff)

lemma dhas_iff: "dhas k d \<longleftrightarrow> k \<in> set (dkeys d)"
  by (simp add: dhas_def dget_None)

lemma dget_is_Some: "k \<in> set (dkeys d) \<longleftrightarrow> (\<exists>v. dget k d = Some v)"
  using dget_None [of k d] by (cases "dget k d") simp_all

lemma dget_dpop [simp, dict_simps]: "dget k (dpop k' d) = (if k = k' then None else dget k d)"
  by (induction d) (auto simp: dpop_def)

lemma dkeys_dset: "set (dkeys (dset k v d)) = insert k (set (dkeys d))"
  by (induction k v d rule: dset.induct) auto

lemma distinct_dset: "distinct (dkeys d) \<Longrightarrow> distinct (dkeys (dset k v d))"
proof (induction d)
  case (Cons p d)
  obtain k' v' where p: "p = (k', v')" by (cases p)
  show ?case
    using Cons dkeys_dset [of k v d] by (auto simp: p)
qed simp

lemma dset_fresh: "k \<notin> set (dkeys d) \<Longrightarrow> dset k v d = d @ [(k, v)]"
  by (induction d) auto

lemma dget_distinct_mem:
  "distinct (dkeys d) \<Longrightarrow> (k, v) \<in> set d \<Longrightarrow> dget k d = Some v"
  by (simp add: dget_map_of dkeys_def map_of_eq_Some_iff)

lemma dget_append [simp, dict_simps]:
  "dget k (d @ e) = (case dget k d of None \<Rightarrow> dget k e | Some v \<Rightarrow> Some v)"
  by (induction d) (auto split: option.splits)

lemma dget_map_snd: "dget k (map (\<lambda>(k, v). (k, f v)) d) = map_option f (dget k d)"
  by (induction d) auto

section \<open>Strings\<close>

definition newline :: char where
  "newline = CHR 0x0A"

definition starts_with :: "string \<Rightarrow> string \<Rightarrow> bool" where
  "starts_with s p = (take (length p) s = p)"

definition ends_with :: "string \<Rightarrow> string \<Rightarrow> bool" where
  "ends_with s p = (length p \<le> length s \<and> drop (length s - length p) s = p)"

text \<open>\<open>s.split(sep)\<close> for a one-character separator: never the empty list.\<close>

fun split_on :: "char \<Rightarrow> string \<Rightarrow> string list" where
  "split_on c [] = [[]]"
| "split_on c (x # xs) =
     (if x = c then [] # split_on c xs
      else case split_on c xs of [] \<Rightarrow> [[x]] | w # ws \<Rightarrow> (x # w) # ws)"

text \<open>\<open>s.partition(sep)\<close> for a one-character separator: head, whether it was found, tail.\<close>

fun partition_on :: "char \<Rightarrow> string \<Rightarrow> string \<times> bool \<times> string" where
  "partition_on c [] = ([], False, [])"
| "partition_on c (x # xs) =
     (if x = c then ([], True, xs) else (case partition_on c xs of (h, f, t) \<Rightarrow> (x # h, f, t)))"

text \<open>\<open>s.replace(old, new)\<close>: left to right, without overlap; the fuel is the length of \<open>s\<close>.\<close>

fun replace_fuel :: "nat \<Rightarrow> string \<Rightarrow> string \<Rightarrow> string \<Rightarrow> string" where
  "replace_fuel 0 old new s = s"
| "replace_fuel (Suc n) old new [] = []"
| "replace_fuel (Suc n) old new (x # xs) =
     (if old \<noteq> [] \<and> starts_with (x # xs) old
      then new @ replace_fuel n old new (drop (length old) (x # xs))
      else x # replace_fuel n old new xs)"

definition replace_str :: "string \<Rightarrow> string \<Rightarrow> string \<Rightarrow> string" where
  "replace_str old new s = replace_fuel (length s) old new s"

fun join_with :: "string \<Rightarrow> string list \<Rightarrow> string" where
  "join_with sep [] = []"
| "join_with sep [w] = w"
| "join_with sep (w # ws) = w @ sep @ join_with sep ws"

fun digit_char :: "nat \<Rightarrow> char" where
  "digit_char n = char_of (48 + n)"

fun show_nat :: "nat \<Rightarrow> string" where
  "show_nat n = (if n < 10 then [digit_char n] else show_nat (n div 10) @ [digit_char (n mod 10)])"

declare show_nat.simps [simp del]

definition is_digit :: "char \<Rightarrow> bool" where
  "is_digit c = (48 \<le> (of_char c :: nat) \<and> (of_char c :: nat) \<le> 57)"

text \<open>\<open>int(s)\<close> on a string of decimal digits.\<close>

definition digits_value :: "string \<Rightarrow> nat" where
  "digits_value s = foldl (\<lambda>n c. 10 * n + (of_char c - 48)) 0 s"

text \<open>\<open>str.isspace\<close> on one code point below U+0100.\<close>

definition is_space :: "char \<Rightarrow> bool" where
  "is_space c = (let n = (of_char c :: nat) in
     n = 32 \<or> (9 \<le> n \<and> n \<le> 13) \<or> (28 \<le> n \<and> n \<le> 31) \<or> n = 133 \<or> n = 160)"

lemma split_on_nonempty [simp]: "split_on c s \<noteq> []"
  by (induction s) (auto split: list.splits)

lemma join_split: "join_with [c] (split_on c s) = s"
proof (induction s)
  case (Cons x xs)
  then show ?case
    by (cases "split_on c xs"; cases "tl (split_on c xs)") auto
qed simp

lemma starts_with_iff: "starts_with s p \<longleftrightarrow> (\<exists>t. s = p @ t)"
  by (auto simp: starts_with_def) (metis append_take_drop_id)

lemma dupdate_simps [simp]:
  "dupdate a [] = a" "dupdate a ((k, v) # b) = dupdate (dset k v a) b"
  by (simp_all add: dupdate_def)

end
