(* ===== verification/Transition_Graph.thy ===== *)
theory Transition_Graph
  imports Prelude
begin

text \<open>
  Transition tables: a state machine of the contracts is a list of states and a list of legal edges.
  \<open>reach\<close> is reachability as a step relation, \<open>path\<close> a run of the machine, \<open>explore\<close> the executable
  search. The locale \<open>transition_table\<close> is what a table has to satisfy for its contract to make
  sense; it is interpreted on every table of the program.
\<close>

type_synonym edges = "(string \<times> string) list"

inductive reach :: "edges \<Rightarrow> string \<Rightarrow> string \<Rightarrow> bool" for E where
  refl: "reach E a a"
| step: "reach E a b \<Longrightarrow> (b, c) \<in> set E \<Longrightarrow> reach E a c"

inductive_cases reach_elim: "reach E a b"

fun path :: "edges \<Rightarrow> string list \<Rightarrow> bool" where
  "path E [] = False"
| "path E [x] = True"
| "path E (x # y # zs) = ((x, y) \<in> set E \<and> path E (y # zs))"

definition closed_under :: "edges \<Rightarrow> string list \<Rightarrow> bool" where
  "closed_under E S = list_all (\<lambda>(a, b). a \<in> set S \<longrightarrow> b \<in> set S) E"

fun explore :: "edges \<Rightarrow> nat \<Rightarrow> string list \<Rightarrow> string list" where
  "explore E 0 S = S"
| "explore E (Suc n) S =
     (let new = remdups (map snd (filter (\<lambda>(a, b). a \<in> set S \<and> b \<notin> set S) E))
      in if new = [] then S else explore E n (S @ new))"

definition reachable :: "edges \<Rightarrow> string \<Rightarrow> string list" where
  "reachable E a = explore E (length E) [a]"

definition without :: "string \<Rightarrow> edges \<Rightarrow> edges" where
  "without c E = filter (\<lambda>(a, b). a \<noteq> c \<and> b \<noteq> c) E"

definition terminal :: "edges \<Rightarrow> string \<Rightarrow> bool" where
  "terminal E a = list_all (\<lambda>(x, y). x \<noteq> a) E"

lemma reach_trans: "reach E b c \<Longrightarrow> reach E a b \<Longrightarrow> reach E a c"
  by (induction rule: reach.induct) (auto intro: reach.step)

lemma reach_edge: "(a, b) \<in> set E \<Longrightarrow> reach E a b"
  by (rule reach.step [OF reach.refl])

lemma reach_closed: "reach E a b \<Longrightarrow> closed_under E S \<Longrightarrow> a \<in> set S \<Longrightarrow> b \<in> set S"
  by (induction rule: reach.induct) (auto simp: closed_under_def list_all_iff)

lemma reach_terminal: "reach E a b \<Longrightarrow> terminal E a \<Longrightarrow> b = a"
  by (induction rule: reach.induct) (auto simp: terminal_def list_all_iff)

lemma explore_sound: "b \<in> set (explore E n S) \<Longrightarrow> \<exists>a \<in> set S. reach E a b"
proof (induction n arbitrary: S)
  case 0
  then show ?case by (auto intro: reach.refl)
next
  case (Suc n)
  define new where "new = remdups (map snd (filter (\<lambda>(a, b). a \<in> set S \<and> b \<notin> set S) E))"
  show ?case
  proof (cases "new = []")
    case True
    with Suc.prems show ?thesis by (auto simp: Let_def new_def intro: reach.refl)
  next
    case False
    with Suc.prems have "b \<in> set (explore E n (S @ new))" by (simp add: Let_def flip: new_def)
    from Suc.IH [OF this] obtain a where a: "a \<in> set (S @ new)" "reach E a b" by blast
    show ?thesis
    proof (cases "a \<in> set S")
      case False
      with a(1) obtain x where "(x, a) \<in> set E" "x \<in> set S" by (auto simp: new_def)
      then show ?thesis using reach_trans [OF a(2) reach_edge] by blast
    qed (use a(2) in blast)
  qed
qed

lemma explore_start: "set S \<subseteq> set (explore E n S)"
proof (induction n arbitrary: S)
  case (Suc n)
  from Suc [of "S @ remdups (map snd (filter (\<lambda>(a, b). a \<in> set S \<and> b \<notin> set S) E))"]
  show ?case by (auto simp: Let_def)
qed simp

lemma reach_iff:
  assumes "closed_under E (reachable E a)"
  shows "reach E a b \<longleftrightarrow> b \<in> set (reachable E a)"
  using explore_sound [of b E "length E" "[a]"] reach_closed [OF _ assms, of a b]
    explore_start [of "[a]" E "length E"]
  by (auto simp: reachable_def)

lemma path_reach: "path E xs \<Longrightarrow> reach E (hd xs) (last xs)"
  by (induction E xs rule: path.induct) (auto intro: reach.refl reach_trans reach_edge)

lemma path_without: "path E xs \<Longrightarrow> c \<notin> set xs \<Longrightarrow> path (without c E) xs"
  by (induction E xs rule: path.induct) (auto simp: without_def)

text \<open>A run that cannot reach its end when a state is removed passes through that state.\<close>

lemma path_through:
  assumes "path E xs" and closed: "closed_under (without c E) S"
    and "hd xs \<in> set S" and "last xs \<notin> set S"
  shows "c \<in> set xs"
proof (rule ccontr)
  assume "c \<notin> set xs"
  with assms(1) have "reach (without c E) (hd xs) (last xs)"
    by (intro path_reach path_without)
  from reach_closed [OF this closed] assms(3,4) show False by simp
qed

section \<open>Tables\<close>

locale transition_table =
  fixes states :: "string list" and edges :: edges
  assumes nonempty: "states \<noteq> []"
    and distinct_states: "distinct states"
    and distinct_edges: "distinct edges"
    and edges_between: "set edges \<subseteq> set states \<times> set states"
    and no_rewrite: "(s, s) \<notin> set edges"
begin

lemma reach_states: "reach edges a b \<Longrightarrow> a \<in> set states \<Longrightarrow> b \<in> set states"
  by (induction rule: reach.induct) (use edges_between in auto)

lemma path_states: "path edges xs \<Longrightarrow> hd xs \<in> set states \<Longrightarrow> set xs \<subseteq> set states"
  by (induction xs rule: induct_list012) (use edges_between in auto)

lemma edge_distinct: "(a, b) \<in> set edges \<Longrightarrow> a \<noteq> b"
  using no_rewrite by auto

end

text \<open>The executable form of the contract.\<close>

definition table_ok :: "string list \<Rightarrow> edges \<Rightarrow> bool" where
  "table_ok states E = (states \<noteq> [] \<and> distinct states \<and> distinct E \<and>
     list_all (\<lambda>(a, b). a \<in> set states \<and> b \<in> set states \<and> a \<noteq> b) E)"

lemma table_okI: "table_ok states E \<Longrightarrow> transition_table states E"
  by unfold_locales (auto simp: table_ok_def list_all_iff)

text \<open>A table whose every edge moves to a later rank has no cycle.\<close>

locale ranked_table = transition_table +
  fixes rank :: "string \<Rightarrow> nat"
  assumes rank_step: "(a, b) \<in> set edges \<Longrightarrow> rank a < rank b"
begin

lemma rank_reach: "reach edges a b \<Longrightarrow> a = b \<or> rank a < rank b"
  by (induction rule: reach.induct) (auto dest: rank_step)

lemma path_rank: "path edges xs \<Longrightarrow> sorted_wrt (\<lambda>a b. rank a < rank b) xs"
proof (induction xs rule: induct_list012)
  case (3 x y zs)
  then show ?case by (auto dest!: rank_step)
qed auto

lemma path_no_repeat: "path edges xs \<Longrightarrow> distinct xs"
  by (drule path_rank) (induction xs; auto)

end

text \<open>
  A table with an authority for each state, in which a change of authority always goes from or to
  nobody: authority is never handed over in one step.
\<close>

locale authority_table = transition_table +
  fixes authority :: "string \<Rightarrow> 'a" and nobody :: 'a
  assumes handover: "(a, b) \<in> set edges \<Longrightarrow>
    authority a = authority b \<or> authority a = nobody \<or> authority b = nobody"
begin

lemma passes_nobody:
  "path edges xs \<Longrightarrow> authority (hd xs) \<noteq> authority (last xs) \<Longrightarrow> \<exists>x \<in> set xs. authority x = nobody"
proof (induction xs rule: induct_list012)
  case (3 x y zs)
  show ?case
  proof (cases "authority x = authority y")
    case True
    then show ?thesis using 3 by auto
  next
    case False
    with 3 handover [of x y] show ?thesis by auto
  qed
qed auto

end

end
