(* ===== verification/Workflow_Tables.thy ===== *)
theory Workflow_Tables
  imports Transition_Graph
begin

text \<open>
  The state and edge tables of internal/contracts/codegen/core_contracts.py, one pair for each state
  machine of the contracts, and the authority of each traffic state. The names are those of the
  source in lower case. Every table is an instance of \<open>transition_table\<close>; what its graph promises
  follows.
\<close>

section \<open>The tables\<close>

definition migration_phase_states :: "string list" where
  "migration_phase_states =
     [''connect'', ''discovery'', ''foundation'', ''provision'', ''snapshot'', ''census'',
      ''design'', ''rehearsal'', ''bulk_load'', ''sync'', ''verify'', ''cutover'', ''watch'',
      ''decommission'', ''complete'']"

definition migration_phase_edges :: "(string \<times> string) list" where
  "migration_phase_edges =
     zip migration_phase_states (tl migration_phase_states)"

definition migration_execution_states :: "string list" where
  "migration_execution_states =
     [''pending'', ''running'', ''waiting_human'', ''blocked'', ''failed_recoverable'',
      ''failed_terminal'', ''succeeded'', ''aborting'', ''aborted'', ''rolling_back'',
      ''rolled_back'']"

definition migration_execution_edges :: "(string \<times> string) list" where
  "migration_execution_edges =
     [(''pending'', ''running''), (''running'', ''waiting_human''), (''running'', ''blocked''),
      (''running'', ''failed_recoverable''), (''running'', ''failed_terminal''),
      (''running'', ''succeeded''), (''running'', ''aborting''), (''running'', ''rolling_back''),
      (''waiting_human'', ''running''), (''waiting_human'', ''blocked''),
      (''waiting_human'', ''aborting''), (''blocked'', ''running''),
      (''blocked'', ''failed_terminal''), (''blocked'', ''aborting''),
      (''failed_recoverable'', ''pending''), (''failed_recoverable'', ''aborting''),
      (''aborting'', ''aborted''), (''rolling_back'', ''rolled_back'')]"

definition migration_edges :: "(string \<times> string) list" where
  "migration_edges =
     migration_phase_edges @ migration_execution_edges"

definition migration_domains :: "((string \<times> string) \<times> string) list" where
  "migration_domains =
     map (\<lambda>e. (e, ''primary_phase'')) migration_phase_edges @
     map (\<lambda>e. (e, ''execution_status'')) migration_execution_edges"

definition traffic_states :: "string list" where
  "traffic_states =
     [''source_primary'', ''source_compatibility_deployed'', ''freezing_source'',
      ''source_fenced_and_drained'', ''target_primary_reverse_armed'',
      ''target_cohorts_activating'', ''watching_target'', ''rollback_draining'',
      ''target_fenced_and_reverse_drained'', ''source_restore_arming'',
      ''source_resume_stream_armed'', ''source_cohorts_activating'', ''source_primary_resynced'',
      ''reverify_for_cutover'', ''target_primary_irreversible'', ''source_retired'',
      ''authority_conflict_frozen'', ''incident_recovery_decision'', ''rebaseline_required'']"

definition traffic_edges :: "(string \<times> string) list" where
  "traffic_edges =
     [(''source_primary'', ''source_compatibility_deployed''),
      (''source_compatibility_deployed'', ''freezing_source''),
      (''freezing_source'', ''source_restore_arming''),
      (''freezing_source'', ''source_fenced_and_drained''),
      (''source_restore_arming'', ''source_resume_stream_armed''),
      (''source_resume_stream_armed'', ''source_cohorts_activating''),
      (''source_cohorts_activating'', ''source_primary_resynced''),
      (''source_fenced_and_drained'', ''source_restore_arming''),
      (''source_fenced_and_drained'', ''target_primary_reverse_armed''),
      (''target_primary_reverse_armed'', ''target_cohorts_activating''),
      (''target_primary_reverse_armed'', ''rollback_draining''),
      (''target_cohorts_activating'', ''watching_target''),
      (''target_cohorts_activating'', ''rollback_draining''),
      (''watching_target'', ''rollback_draining''),
      (''watching_target'', ''target_primary_irreversible''),
      (''rollback_draining'', ''target_fenced_and_reverse_drained''),
      (''target_fenced_and_reverse_drained'', ''source_resume_stream_armed''),
      (''target_primary_irreversible'', ''source_retired''),
      (''source_primary_resynced'', ''reverify_for_cutover''),
      (''reverify_for_cutover'', ''freezing_source'')] @
     map (\<lambda>state. (state, ''authority_conflict_frozen''))
       [''source_fenced_and_drained'', ''target_primary_reverse_armed'',
        ''target_cohorts_activating'', ''watching_target'', ''rollback_draining'',
        ''target_fenced_and_reverse_drained'', ''source_restore_arming'',
        ''source_resume_stream_armed'', ''source_cohorts_activating'',
        ''target_primary_irreversible''] @
     [(''authority_conflict_frozen'', ''incident_recovery_decision''),
      (''incident_recovery_decision'', ''rollback_draining''),
      (''incident_recovery_decision'', ''rebaseline_required'')]"

definition traffic_authority_by_state :: "string dict" where
  "traffic_authority_by_state =
     [(''source_primary'', ''source''), (''source_compatibility_deployed'', ''source''),
      (''freezing_source'', ''none''), (''source_fenced_and_drained'', ''none''),
      (''target_primary_reverse_armed'', ''target''),
      (''target_cohorts_activating'', ''target''), (''watching_target'', ''target''),
      (''rollback_draining'', ''none''), (''target_fenced_and_reverse_drained'', ''none''),
      (''source_restore_arming'', ''none''), (''source_resume_stream_armed'', ''none''),
      (''source_cohorts_activating'', ''source''), (''source_primary_resynced'', ''source''),
      (''reverify_for_cutover'', ''source''), (''target_primary_irreversible'', ''target''),
      (''source_retired'', ''target''), (''authority_conflict_frozen'', ''none''),
      (''incident_recovery_decision'', ''none''), (''rebaseline_required'', ''none'')]"

definition decision_states :: "string list" where
  "decision_states =
     [''draft'', ''computing'', ''awaiting_human'', ''discussing'', ''delegated'', ''resolved'',
      ''superseded'']"

definition decision_edges :: "(string \<times> string) list" where
  "decision_edges =
     [(''draft'', ''computing''), (''computing'', ''awaiting_human''),
      (''awaiting_human'', ''discussing''), (''discussing'', ''awaiting_human''),
      (''awaiting_human'', ''delegated''), (''discussing'', ''delegated''),
      (''awaiting_human'', ''resolved''), (''discussing'', ''resolved''),
      (''delegated'', ''resolved''), (''resolved'', ''superseded'')]"

definition consent_states :: "string list" where
  "consent_states =
     [''closed'', ''ready'', ''challenge_issued'', ''pending_typed_consent'', ''consented'',
      ''executing'', ''executed'', ''declined'', ''expired'', ''invalidated'']"

definition consent_edges :: "(string \<times> string) list" where
  "consent_edges =
     [(''closed'', ''ready''), (''ready'', ''challenge_issued''), (''ready'', ''invalidated''),
      (''challenge_issued'', ''pending_typed_consent''), (''challenge_issued'', ''declined''),
      (''challenge_issued'', ''expired''), (''challenge_issued'', ''invalidated''),
      (''pending_typed_consent'', ''consented''), (''pending_typed_consent'', ''declined''),
      (''pending_typed_consent'', ''expired''), (''pending_typed_consent'', ''invalidated''),
      (''consented'', ''executing''), (''consented'', ''invalidated''),
      (''executing'', ''executed'')]"

definition artifact_states :: "string list" where
  "artifact_states =
     [''declared'', ''writing'', ''sealed'', ''verified'', ''retained'', ''deletion_pending'',
      ''deleted'', ''corrupt'']"

definition artifact_edges :: "(string \<times> string) list" where
  "artifact_edges =
     [(''declared'', ''writing''), (''writing'', ''sealed''), (''writing'', ''corrupt''),
      (''sealed'', ''verified''), (''sealed'', ''corrupt''), (''verified'', ''retained''),
      (''retained'', ''deletion_pending''), (''deletion_pending'', ''deleted'')]"

definition cell_states :: "string list" where
  "cell_states =
     [''planned'', ''provisioning'', ''bootstrapping'', ''ready'', ''active'', ''degraded'',
      ''restarting'', ''failed'', ''revoking'', ''destroying'', ''destroyed'']"

definition cell_edges :: "(string \<times> string) list" where
  "cell_edges =
     [(''planned'', ''provisioning''), (''provisioning'', ''bootstrapping''),
      (''provisioning'', ''failed''), (''bootstrapping'', ''ready''),
      (''bootstrapping'', ''failed''), (''ready'', ''active''), (''ready'', ''failed''),
      (''active'', ''degraded''), (''degraded'', ''restarting''), (''restarting'', ''ready''),
      (''restarting'', ''failed''), (''ready'', ''revoking''), (''active'', ''revoking''),
      (''degraded'', ''revoking''), (''revoking'', ''destroying''),
      (''destroying'', ''destroyed'')]"

definition operation_states :: "string list" where
  "operation_states =
     [''requested'', ''authorized'', ''leased'', ''running'', ''succeeded'',
      ''failed_retryable'', ''failed_terminal'', ''lease_expired'', ''denied'', ''canceled'']"

definition operation_edges :: "(string \<times> string) list" where
  "operation_edges =
     [(''requested'', ''authorized''), (''requested'', ''denied''),
      (''requested'', ''canceled''), (''authorized'', ''leased''), (''authorized'', ''denied''),
      (''authorized'', ''canceled''), (''leased'', ''running''), (''leased'', ''lease_expired''),
      (''running'', ''succeeded''), (''running'', ''failed_retryable''),
      (''running'', ''failed_terminal''), (''failed_retryable'', ''authorized'')]"

definition attempt_states :: "string list" where
  "attempt_states =
     [''declared'', ''queued'', ''running'', ''waiting'', ''succeeded'', ''failed_recoverable'',
      ''failed_terminal'', ''canceled'']"

definition attempt_edges :: "(string \<times> string) list" where
  "attempt_edges =
     [(''declared'', ''queued''), (''queued'', ''running''), (''running'', ''waiting''),
      (''waiting'', ''running''), (''running'', ''succeeded''),
      (''running'', ''failed_recoverable''), (''running'', ''failed_terminal''),
      (''running'', ''canceled'')]"

definition reversibility_states :: "string list" where
  "reversibility_states =
     [''proposed'', ''open'', ''warning'', ''closed'', ''superseded'']"

definition reversibility_edges :: "(string \<times> string) list" where
  "reversibility_edges =
     [(''proposed'', ''open''), (''open'', ''warning''), (''open'', ''superseded''),
      (''warning'', ''closed''), (''warning'', ''superseded'')]"


section \<open>Every table is a transition table\<close>

interpretation migration_table: transition_table
  "migration_phase_states @ migration_execution_states" migration_edges
  by (rule table_okI) code_simp

interpretation decision_table: transition_table decision_states decision_edges
  by (rule table_okI) code_simp

interpretation cell_table: transition_table cell_states cell_edges
  by (rule table_okI) code_simp

interpretation operation_table: transition_table operation_states operation_edges
  by (rule table_okI) code_simp

interpretation attempt_table: transition_table attempt_states attempt_edges
  by (rule table_okI) code_simp

section \<open>Tables that only go forward\<close>

text \<open>\<open>states.index(x)\<close>, for a listed state.\<close>

fun position :: "string list \<Rightarrow> string \<Rightarrow> nat" where
  "position [] x = 0"
| "position (y # ys) x = (if y = x then 0 else Suc (position ys x))"

definition forward :: "string list \<Rightarrow> edges \<Rightarrow> bool" where
  "forward states E = list_all (\<lambda>(a, b). position states a < position states b) E"

lemma rankedI: "table_ok states E \<Longrightarrow> forward states E \<Longrightarrow> ranked_table states E (position states)"
  by (simp add: ranked_table_def table_okI ranked_table_axioms_def)
    (auto simp: forward_def list_all_iff)

interpretation phase_table: ranked_table migration_phase_states migration_phase_edges
    "position migration_phase_states"
  by (rule rankedI) code_simp+

interpretation consent_table: ranked_table consent_states consent_edges "position consent_states"
  by (rule rankedI) code_simp+

interpretation artifact_table: ranked_table artifact_states artifact_edges "position artifact_states"
  by (rule rankedI) code_simp+

interpretation reversibility_table: ranked_table reversibility_states reversibility_edges
    "position reversibility_states"
  by (rule rankedI) code_simp+

text \<open>
  C37: no run of the migration phases, a consent, an artifact or a reversibility record visits a state
  twice: a phase is never re-entered, an invalidated consent never comes back.
\<close>

theorem forward_machines_never_return:
  "E \<in> {migration_phase_edges, consent_edges, artifact_edges, reversibility_edges} \<Longrightarrow>
    path E xs \<Longrightarrow> distinct xs"
  using phase_table.path_no_repeat consent_table.path_no_repeat artifact_table.path_no_repeat
    reversibility_table.path_no_repeat by blast

theorem forward_machines_never_return_witness:
  "distinct [''sealed'', ''verified'', ''retained'']"
  by (rule forward_machines_never_return [of artifact_edges]) (simp_all add: artifact_edges_def)

section \<open>Traffic authority\<close>

definition traffic_authority :: "string \<Rightarrow> string option" where
  "traffic_authority s = dget s traffic_authority_by_state"

interpretation traffic_table: authority_table traffic_states traffic_edges traffic_authority
    "Some ''none''"
proof (intro authority_table.intro authority_table_axioms.intro)
  show "transition_table traffic_states traffic_edges"
    by (rule table_okI) code_simp
  have "list_all (\<lambda>(a, b). traffic_authority a = traffic_authority b \<or>
      traffic_authority a = Some ''none'' \<or> traffic_authority b = Some ''none'') traffic_edges"
    by code_simp
  then show "(a, b) \<in> set traffic_edges \<Longrightarrow> traffic_authority a = traffic_authority b \<or>
      traffic_authority a = Some ''none'' \<or> traffic_authority b = Some ''none''" for a b
    by (auto simp: list_all_iff)
qed

text \<open>
  Write authority is never handed over directly: every run between two states of different
  authority passes a state in which neither side may write.
\<close>

theorem traffic_handover:
  "path traffic_edges xs \<Longrightarrow> traffic_authority (hd xs) \<noteq> traffic_authority (last xs) \<Longrightarrow>
    \<exists>x \<in> set xs. traffic_authority x = Some ''none''"
  by (rule traffic_table.passes_nobody)

theorem traffic_handover_witness:
  "\<exists>x \<in> set [''watching_target'', ''rollback_draining'', ''target_fenced_and_reverse_drained''].
    traffic_authority x = Some ''none''"
  by (rule traffic_handover) code_simp+

text \<open>The states a search without a cut state can still see.\<close>

definition seen_without :: "string \<Rightarrow> edges \<Rightarrow> string \<Rightarrow> string list" where
  "seen_without c E a = explore (without c E) (length E) [a]"

lemma must_pass:
  assumes "path E xs" and "closed_under (without c E) (seen_without c E (hd xs))"
    and "last xs \<notin> set (seen_without c E (hd xs))"
  shows "c \<in> set xs"
  using path_through [OF assms(1,2)] assms(3) explore_start [of "[hd xs]"]
  unfolding seen_without_def by simp

text \<open>
  Traffic only reaches the target after the source was fenced and drained, and only comes back
  to the source after the target was fenced and reverse-drained, whatever happens in between.
\<close>

theorem traffic_fenced:
  assumes "path traffic_edges xs" and "traffic_authority (last xs) = Some there"
    and "(hd xs, there, fence) \<in> {(''source_primary'', ''target'', ''source_fenced_and_drained''),
      (''target_primary_reverse_armed'', ''source'', ''target_fenced_and_reverse_drained'')}"
  shows "fence \<in> set xs"
proof (rule must_pass [OF assms(1)])
  have "list_all (\<lambda>(a, t, c). closed_under (without c traffic_edges) (seen_without c traffic_edges a) \<and>
      list_all (\<lambda>s. traffic_authority s \<noteq> Some t) (seen_without c traffic_edges a))
    [(''source_primary'', ''target'', ''source_fenced_and_drained''),
     (''target_primary_reverse_armed'', ''source'', ''target_fenced_and_reverse_drained'')]"
    by code_simp
  with assms(2,3) show "closed_under (without fence traffic_edges) (seen_without fence traffic_edges (hd xs))"
    and "last xs \<notin> set (seen_without fence traffic_edges (hd xs))"
    by (auto simp: list_all_iff)
qed

theorem traffic_fenced_witness:
  "''source_fenced_and_drained'' \<in> set [''source_primary'', ''source_compatibility_deployed'',
     ''freezing_source'', ''source_fenced_and_drained'', ''target_primary_reverse_armed'']"
  by (rule traffic_fenced [where there = "''target''"]) code_simp+

text \<open>
  C36: the state \<open>target_primary_irreversible\<close> is not a point of no return in the graph: through the
  conflict route the machine can still reach every state but the two initial ones.
\<close>

theorem irreversible_reaches:
  "reach traffic_edges ''target_primary_irreversible'' s \<longleftrightarrow>
    s \<in> set traffic_states - {''source_primary'', ''source_compatibility_deployed''}"
proof -
  let ?R = "reachable traffic_edges ''target_primary_irreversible''"
  have "closed_under traffic_edges ?R" by code_simp
  from reach_iff [OF this] have "reach traffic_edges ''target_primary_irreversible'' s \<longleftrightarrow> s \<in> set ?R" .
  also have "set ?R = set traffic_states - {''source_primary'', ''source_compatibility_deployed''}"
    by code_simp
  finally show ?thesis .
qed

section \<open>Consent and migration\<close>

text \<open>
  A consent is executed only after it was made ready, challenged, typed and given, in a run
  that visits each of these states.
\<close>

theorem consent_sequence:
  assumes "path consent_edges xs" "hd xs = ''closed''" "last xs = ''executed''"
  shows "{''ready'', ''challenge_issued'', ''pending_typed_consent'', ''consented'', ''executing''}
    \<subseteq> set xs"
proof -
  have "list_all (\<lambda>c. closed_under (without c consent_edges) (seen_without c consent_edges ''closed'') \<and>
      ''executed'' \<notin> set (seen_without c consent_edges ''closed''))
    [''ready'', ''challenge_issued'', ''pending_typed_consent'', ''consented'', ''executing'']"
    by code_simp
  with must_pass [OF assms(1)] assms(2,3) show ?thesis by (auto simp: list_all_iff)
qed

theorem consent_sequence_witness:
  "{''ready'', ''challenge_issued'', ''pending_typed_consent'', ''consented'', ''executing''}
    \<subseteq> set (take 7 consent_states)"
  by (rule consent_sequence) code_simp+

text \<open>
  The two dimensions of a migration never mix: from a phase only phases are reached, from an
  execution status only statuses.
\<close>

theorem migration_dimensions:
  "reach migration_edges a b \<Longrightarrow>
    (a \<in> set migration_phase_states \<longrightarrow> b \<in> set migration_phase_states) \<and>
    (a \<in> set migration_execution_states \<longrightarrow> b \<in> set migration_execution_states)"
proof -
  have "closed_under migration_edges migration_phase_states"
    and "closed_under migration_edges migration_execution_states"
    by code_simp+
  then show "reach migration_edges a b \<Longrightarrow>
      (a \<in> set migration_phase_states \<longrightarrow> b \<in> set migration_phase_states) \<and>
      (a \<in> set migration_execution_states \<longrightarrow> b \<in> set migration_execution_states)"
    using reach_closed [of migration_edges a b] by blast
qed

theorem migration_dimensions_witness:
  "''discovery'' \<in> set migration_phase_states"
proof -
  have "reach migration_edges ''connect'' ''discovery''"
    by (rule reach_edge) code_simp
  from migration_dimensions [OF this] show ?thesis
    by (simp add: migration_phase_states_def)
qed

end
