(* ===== verification/Json.thy ===== *)
theory Json
  imports Prelude "HOL-Library.Finite_Map"
begin

text \<open>
  JSON documents as Python holds them after \<open>json.loads\<close>, and the equality the contract
  validator uses on them (\<open>_json_equal\<close> and \<open>_finite_number\<close> of
  internal/contracts/tests/schema_validator.py).

  \<^item> \<open>int\<close> and \<open>float\<close> stay apart: \<open>JInt\<close> is a Python integer, \<open>JFloat\<close> a binary64 value. A finite
    float is the rational number it denotes; the two zeros are one value, since nothing here tells
    them apart.
  \<^item> An object is an association list in insertion order. \<open>json_wf\<close> says that no object repeats
    a key, as in a Python \<open>dict\<close>.
\<close>

section \<open>Numbers\<close>

datatype pyfloat = Fin rat | PosInf | NegInf | NaN

datatype json =
    JNull
  | JBool bool
  | JInt int
  | JFloat pyfloat
  | JStr string
  | JList "json list"
  | JDict "(string \<times> json) list"

text \<open>A Python number that is not a \<open>bool\<close>, as an extended rational; \<open>None\<close> for any other value.\<close>

fun num_of :: "json \<Rightarrow> pyfloat option" where
  "num_of (JInt n) = Some (Fin (of_int n))"
| "num_of (JFloat x) = Some x"
| "num_of _ = None"

text \<open>\<open>isinstance(v, (int, float)) and not isinstance(v, bool)\<close>\<close>

definition is_num :: "json \<Rightarrow> bool" where
  "is_num v = (num_of v \<noteq> None)"

text \<open>The comparisons \<open>a < b\<close> and \<open>a == b\<close> of Python numbers: exact, and false on NaN.\<close>

fun num_less :: "pyfloat \<Rightarrow> pyfloat \<Rightarrow> bool" where
  "num_less NaN _ = False"
| "num_less _ NaN = False"
| "num_less PosInf _ = False"
| "num_less _ NegInf = False"
| "num_less NegInf _ = True"
| "num_less _ PosInf = True"
| "num_less (Fin a) (Fin b) = (a < b)"

fun num_eq :: "pyfloat \<Rightarrow> pyfloat \<Rightarrow> bool" where
  "num_eq (Fin a) (Fin b) = (a = b)"
| "num_eq PosInf PosInf = True"
| "num_eq NegInf NegInf = True"
| "num_eq _ _ = False"

definition num_le :: "pyfloat \<Rightarrow> pyfloat \<Rightarrow> bool" where
  "num_le a b = (num_less a b \<or> num_eq a b)"

text \<open>\<open>_finite_number\<close>\<close>

fun finite_number :: "json \<Rightarrow> bool" where
  "finite_number (JInt n) = True"
| "finite_number (JFloat (Fin x)) = True"
| "finite_number _ = False"

section \<open>Well-formed documents\<close>

fun json_wf :: "json \<Rightarrow> bool" where
  "json_wf (JList xs) = list_all json_wf xs"
| "json_wf (JDict d) = (distinct (dkeys d) \<and> list_all (\<lambda>(k, v). json_wf v) d)"
| "json_wf _ = True"

text \<open>No NaN and no infinity anywhere in the document.\<close>

fun all_finite :: "json \<Rightarrow> bool" where
  "all_finite (JList xs) = list_all all_finite xs"
| "all_finite (JDict d) = list_all (\<lambda>(k, v). all_finite v) d"
| "all_finite (JFloat x) = finite_number (JFloat x)"
| "all_finite _ = True"

definition jget :: "string \<Rightarrow> json \<Rightarrow> json option" where
  "jget k v = (case v of JDict d \<Rightarrow> dget k d | _ \<Rightarrow> None)"

lemma jget_JDict [simp]: "jget k (JDict d) = dget k d"
  by (simp add: jget_def)

lemma mem_size_dict [termination_simp]:
  "(k, v) \<in> set d \<Longrightarrow> size v < Suc (size_list (\<lambda>x. Suc (size (snd x))) d)"
  by (induction d) auto

lemma dget_size [termination_simp]:
  "dget k d = Some v \<Longrightarrow> size v < Suc (size_list (\<lambda>x. Suc (size (snd x))) d)"
  by (rule mem_size_dict) (rule dget_mem)

lemma size_pair: "size_prod (\<lambda>_. 0) size = (\<lambda>x. Suc (size (snd x)))"
  by (auto simp: fun_eq_iff)

lemma size_JDict: "size (JDict d) = Suc (size_list (\<lambda>x. Suc (size (snd x))) d)"
  by (simp add: size_pair)

lemma size_JList: "size (JList xs) = Suc (size_list size xs)"
  by simp

lemma zip_size [termination_simp]:
  "(a, b) \<in> set (zip xs ys) \<Longrightarrow> size a < Suc (size_list size xs)"
  by (drule set_zip_leftD) (auto simp: less_Suc_eq_le intro: size_list_estimation')

section \<open>JSON equality\<close>

text \<open>
  The cases are in the order of the source: null, booleans, numbers, strings, arrays, objects;
  a value of another type on either side makes the answer false.
\<close>

fun json_equal :: "json \<Rightarrow> json \<Rightarrow> bool" where
  "json_equal JNull r = (r = JNull)"
| "json_equal (JBool a) r = (r = JBool a)"
| "json_equal (JInt n) r =
     (case num_of r of None \<Rightarrow> False | Some y \<Rightarrow> finite_number r \<and> num_eq (Fin (of_int n)) y)"
| "json_equal (JFloat x) r =
     (case num_of r of None \<Rightarrow> False
      | Some y \<Rightarrow> finite_number (JFloat x) \<and> finite_number r \<and> num_eq x y)"
| "json_equal (JStr s) r = (r = JStr s)"
| "json_equal (JList xs) r =
     (case r of JList ys \<Rightarrow>
        length xs = length ys \<and> list_all (\<lambda>(a, b). json_equal a b) (zip xs ys)
      | _ \<Rightarrow> False)"
| "json_equal (JDict d) r =
     (case r of JDict e \<Rightarrow>
        set (dkeys d) = set (dkeys e) \<and>
        list_all (\<lambda>(k, v). case dget k e of None \<Rightarrow> False | Some w \<Rightarrow> json_equal v w) d
      | _ \<Rightarrow> False)"

text \<open>
  What \<open>json_equal\<close> decides: the two documents denote the same JSON value, where a number is its
  rational value (so 1 and 1.0 are one number) and an object is a finite map from keys to values.
\<close>

datatype jvalue =
    VNull
  | VBool bool
  | VNum rat
  | VStr string
  | VArr "jvalue list"
  | VObj "(string, jvalue) fmap"

fun fin_value :: "pyfloat \<Rightarrow> rat" where
  "fin_value (Fin x) = x"
| "fin_value _ = 0"

fun denote :: "json \<Rightarrow> jvalue" where
  "denote JNull = VNull"
| "denote (JBool b) = VBool b"
| "denote (JInt n) = VNum (of_int n)"
| "denote (JFloat x) = VNum (fin_value x)"
| "denote (JStr s) = VStr s"
| "denote (JList xs) = VArr (map denote xs)"
| "denote (JDict d) = VObj (fmap_of_list (map (\<lambda>(k, v). (k, denote v)) d))"

lemma fmlookup_denote: "fmlookup (fmap_of_list (map (\<lambda>(k, v). (k, denote v)) d)) k
    = map_option denote (dget k d)"
  by (simp add: fmlookup_of_list dget_map_of map_of_map)

lemma denote_dict_eq:
  assumes d: "distinct (dkeys d)"
  shows "fmap_of_list (map (\<lambda>(k, v). (k, denote v)) d) =
         fmap_of_list (map (\<lambda>(k, v). (k, denote v)) e) \<longleftrightarrow>
    set (dkeys d) = set (dkeys e) \<and>
    (\<forall>(k, v) \<in> set d. case dget k e of None \<Rightarrow> False | Some w \<Rightarrow> denote v = denote w)"
    (is "?l \<longleftrightarrow> ?r")
proof -
  have "?l \<longleftrightarrow> (\<forall>k. map_option denote (dget k d) = map_option denote (dget k e))"
    by (metis fmap_ext fmlookup_denote)
  also have "\<dots> \<longleftrightarrow> ?r"
  proof
    assume eq: "\<forall>k. map_option denote (dget k d) = map_option denote (dget k e)"
    then have "dget k d = None \<longleftrightarrow> dget k e = None" for k
      by (metis option.map_disc_iff)
    then have "set (dkeys d) = set (dkeys e)"
      unfolding set_eq_iff using dget_None [of _ d] dget_None [of _ e] by blast
    moreover have "case dget k e of None \<Rightarrow> False | Some w \<Rightarrow> denote v = denote w"
      if "(k, v) \<in> set d" for k v
      using eq [rule_format, of k] dget_distinct_mem [OF d that] by (cases "dget k e") auto
    ultimately show ?r by auto
  next
    assume r: ?r
    show "\<forall>k. map_option denote (dget k d) = map_option denote (dget k e)"
    proof
      fix k
      show "map_option denote (dget k d) = map_option denote (dget k e)"
      proof (cases "dget k d")
        case None
        then have "k \<notin> set (dkeys e)" using r by (simp add: dget_None)
        then have "dget k e = None" by (simp add: dget_None)
        with None show ?thesis by simp
      next
        case (Some v)
        then have "(k, v) \<in> set d" by (rule dget_mem)
        with r Some show ?thesis by (auto split: option.splits)
      qed
    qed
  qed
  finally show ?thesis .
qed

lemma list_all_zip_denote:
  "(\<And>x. x \<in> set xs \<Longrightarrow> \<forall>y \<in> set ys. f x y = (denote x = denote y)) \<Longrightarrow>
   length xs = length ys \<and> list_all (\<lambda>(a, b). f a b) (zip xs ys) \<longleftrightarrow>
   map denote xs = map denote ys"
proof (induction xs arbitrary: ys)
  case (Cons x xs)
  then show ?case by (cases ys) fastforce+
qed auto

lemma json_equal_denote_aux:
  "json_wf v \<Longrightarrow> all_finite v \<Longrightarrow> json_wf w \<Longrightarrow> all_finite w \<Longrightarrow>
   json_equal v w \<longleftrightarrow> denote v = denote w"
proof (induction v arbitrary: w)
  case JNull
  then show ?case by (cases w) simp_all
next
  case (JBool b)
  then show ?case by (cases w) auto
next
  case (JInt n)
  then show ?case by (cases w rule: denote.cases) (auto elim: finite_number.elims)
next
  case (JFloat x)
  then obtain q where "x = Fin q" by (cases x) auto
  then show ?case using JFloat by (cases w rule: denote.cases) (auto elim: finite_number.elims)
next
  case (JStr s)
  then show ?case by (cases w) auto
next
  case (JList xs)
  show ?case
  proof (cases "\<exists>ys. w = JList ys")
    case True
    then obtain ys where w: "w = JList ys" by blast
    have "json_equal x y = (denote x = denote y)" if "x \<in> set xs" "y \<in> set ys" for x y
      using that JList.prems w by (intro JList.IH) (auto simp: list_all_iff)
    then show ?thesis using w list_all_zip_denote [of xs ys json_equal] by simp
  qed (cases w, auto)
next
  case (JDict d)
  show ?case
  proof (cases "\<exists>e. w = JDict e")
    case True
    then obtain e where w: "w = JDict e" by blast
    have ih: "json_equal v u = (denote v = denote u)" if "(k, v) \<in> set d" "dget k e = Some u" for k v u
    proof -
      have "(k, u) \<in> set e" using that(2) by (rule dget_mem)
      with that(1) JDict.prems w have "json_wf v" "all_finite v" "json_wf u" "all_finite u"
        by (auto simp: list_all_iff)
      then show ?thesis using that(1) by (intro JDict.IH) (auto simp: snds.simps)
    qed
    have "distinct (dkeys d)" using JDict.prems by simp
    from denote_dict_eq [OF this, of e] ih show ?thesis
      unfolding w by (auto simp: list_all_iff split: option.splits)
  qed (cases w, auto)
qed

section \<open>Deciding equality up to a denotation\<close>

text \<open>
  The validator scans lists with an equality test: a value against the candidates of an \<open>enum\<close>,
  every array item against the items before it. What such scans decide only depends on the test
  agreeing with equality of what the values denote, which is the contract stated here.
\<close>

definition eq_mem :: "('a \<Rightarrow> 'a \<Rightarrow> bool) \<Rightarrow> 'a \<Rightarrow> 'a list \<Rightarrow> bool" where
  "eq_mem eq x xs = list_ex (eq x) xs"

text \<open>
  \<open>any(eq(value, prior) for prior in values[:index])\<close> for some index: the list repeats a value.
\<close>

fun has_repeat :: "('a \<Rightarrow> 'a \<Rightarrow> bool) \<Rightarrow> 'a list \<Rightarrow> 'a list \<Rightarrow> bool" where
  "has_repeat eq prior [] = False"
| "has_repeat eq prior (x # xs) = (list_ex (eq x) prior \<or> has_repeat eq (prior @ [x]) xs)"

locale equality_test =
  fixes eq :: "'a \<Rightarrow> 'a \<Rightarrow> bool" and dom :: "'a \<Rightarrow> bool" and abs :: "'a \<Rightarrow> 'b"
  assumes eq_iff: "dom x \<Longrightarrow> dom y \<Longrightarrow> eq x y \<longleftrightarrow> abs x = abs y"
begin

lemma eq_refl: "dom x \<Longrightarrow> eq x x"
  by (simp add: eq_iff)

lemma eq_sym: "dom x \<Longrightarrow> dom y \<Longrightarrow> eq x y \<Longrightarrow> eq y x"
  by (simp add: eq_iff)

lemma eq_trans: "dom x \<Longrightarrow> dom y \<Longrightarrow> dom z \<Longrightarrow> eq x y \<Longrightarrow> eq y z \<Longrightarrow> eq x z"
  by (simp add: eq_iff)

lemma eq_mem_iff:
  "dom x \<Longrightarrow> \<forall>y \<in> set ys. dom y \<Longrightarrow> eq_mem eq x ys \<longleftrightarrow> abs x \<in> abs ` set ys"
  by (auto simp: eq_mem_def list_ex_iff eq_iff)

lemma has_repeat_iff:
  "\<forall>x \<in> set ps \<union> set xs. dom x \<Longrightarrow> has_repeat eq ps xs \<longleftrightarrow>
    \<not> (distinct (map abs xs) \<and> abs ` set ps \<inter> abs ` set xs = {})"
proof (induction xs arbitrary: ps)
  case (Cons x xs)
  then have "list_ex (eq x) ps \<longleftrightarrow> abs x \<in> abs ` set ps"
    by (auto simp: list_ex_iff eq_iff)
  with Cons.IH [of "ps @ [x]"] Cons.prems show ?case by auto
qed simp

end

definition json_ok :: "json \<Rightarrow> bool" where
  "json_ok v = (json_wf v \<and> all_finite v)"

interpretation json: equality_test json_equal json_ok denote
  by unfold_locales (simp add: json_ok_def json_equal_denote_aux)

text \<open>C15: JSON equality of finite, duplicate-free documents is equality of the values denoted.\<close>

theorem json_equal_denote:
  "json_ok v \<Longrightarrow> json_ok w \<Longrightarrow> json_equal v w \<longleftrightarrow> denote v = denote w"
  by (rule json.eq_iff)

theorem json_equal_denote_witness:
  "json_equal (JDict [(''a'', JInt 1), (''b'', JNull)])
     (JDict [(''b'', JNull), (''a'', JFloat (Fin 1))])"
proof -
  let ?v = "JDict [(''a'', JInt 1), (''b'', JNull)]"
  let ?w = "JDict [(''b'', JNull), (''a'', JFloat (Fin 1))]"
  have "json_ok ?v" "json_ok ?w" by (simp_all add: json_ok_def)
  moreover have "denote ?v = denote ?w" by (simp add: fmupd_reorder_neq [of "''a''" "''b''"])
  ultimately show ?thesis using json_equal_denote [of ?v ?w] by simp
qed

end
