(* ===== verification/Regex.thy ===== *)
theory Regex
  imports Prelude
begin

text \<open>
  The part of Python's \<open>re\<close> the repository uses: the syntax of a pattern, its compilation from
  the pattern string, and \<open>re.search\<close>, \<open>re.match\<close> and \<open>re.fullmatch\<close> as questions of whether a
  match exists.

  \<open>ends\<close> is the executable matcher: from a position it lists the positions a match may end at. A
  position is the text that remains, with a flag that says whether it is the start of the string.
  \<open>den\<close> is the declarative meaning, and \<open>ends_iff\<close> says that the two agree. As in Python, \<open>$\<close>
  matches at the end of the string and also before a newline that ends it.

  Syntax outside the subset (back references, look-behind, inline flags, possessive quantifiers)
  does not compile here. No pattern the contracts declare uses it.
\<close>

section \<open>Syntax and meaning\<close>

text \<open>A character set: ranges, and whether it is complemented.\<close>

datatype cset = CSet (cneg: bool) (cranges: "(char \<times> char) list")

definition in_cset :: "cset \<Rightarrow> char \<Rightarrow> bool" where
  "in_cset c x = (cneg c \<noteq> list_ex (\<lambda>(a, b). a \<le> x \<and> x \<le> b) (cranges c))"

datatype re =
    REmpty
  | RSet cset
  | RBegin                          \<comment> \<open>\<open>^\<close> and \<open>\A\<close>\<close>
  | REol                            \<comment> \<open>\<open>$\<close>\<close>
  | REnd                            \<comment> \<open>\<open>\Z\<close>\<close>
  | RSeq re re
  | RAlt re re
  | RRep re nat "nat option"        \<comment> \<open>\<open>r{lo,hi}\<close>, \<open>r{lo,}\<close>\<close>
  | RLook bool re                   \<comment> \<open>look-ahead; \<open>True\<close> is the negative one\<close>

type_synonym pos = "bool \<times> string"

fun copies :: "(bool \<Rightarrow> string \<Rightarrow> string \<Rightarrow> bool) \<Rightarrow> nat \<Rightarrow> bool \<Rightarrow> string \<Rightarrow> string \<Rightarrow> bool" where
  "copies D 0 b u t = (u = [])"
| "copies D (Suc n) b u t =
     (\<exists>u1 u2. u = u1 @ u2 \<and> D b u1 (u2 @ t) \<and> copies D n (b \<and> u1 = []) u2 t)"

text \<open>\<open>den r b u t\<close>: from a position with start flag \<open>b\<close>, \<open>r\<close> can consume \<open>u\<close> and leave \<open>t\<close>.\<close>

primrec den :: "re \<Rightarrow> bool \<Rightarrow> string \<Rightarrow> string \<Rightarrow> bool" where
  "den REmpty b u t = (u = [])"
| "den (RSet c) b u t = (\<exists>x. u = [x] \<and> in_cset c x)"
| "den RBegin b u t = (u = [] \<and> b)"
| "den REol b u t = (u = [] \<and> (t = [] \<or> t = [newline]))"
| "den REnd b u t = (u = [] \<and> t = [])"
| "den (RSeq r s) b u t =
     (\<exists>u1 u2. u = u1 @ u2 \<and> den r b u1 (u2 @ t) \<and> den s (b \<and> u1 = []) u2 t)"
| "den (RAlt r s) b u t = (den r b u t \<or> den s b u t)"
| "den (RRep r lo hi) b u t =
     (\<exists>n \<ge> lo. (case hi of None \<Rightarrow> True | Some h \<Rightarrow> n \<le> h) \<and> copies (den r) n b u t)"
| "den (RLook neg r) b u t =
     (u = [] \<and> neg \<noteq> (\<exists>v t'. t = v @ t' \<and> den r b v t'))"

section \<open>The matcher\<close>

text \<open>Iterating a step: exactly \<open>n\<close> times, at most \<open>n\<close> times, any number of times.\<close>

fun iter_ends :: "('p \<Rightarrow> 'p list) \<Rightarrow> nat \<Rightarrow> 'p \<Rightarrow> 'p list" where
  "iter_ends f 0 p = [p]"
| "iter_ends f (Suc n) p = concat (map (iter_ends f n) (f p))"

fun upto_ends :: "('p \<Rightarrow> 'p list) \<Rightarrow> nat \<Rightarrow> 'p \<Rightarrow> 'p list" where
  "upto_ends f 0 p = [p]"
| "upto_ends f (Suc n) p = p # concat (map (upto_ends f n) (f p))"

text \<open>A step that consumes nothing is not repeated: it would only come back to the same position.\<close>

function star_ends :: "(pos \<Rightarrow> pos list) \<Rightarrow> pos \<Rightarrow> pos list" where
  "star_ends f p =
     p # concat (map (star_ends f) (filter (\<lambda>q. length (snd q) < length (snd p)) (f p)))"
  by pat_completeness auto
termination
  by (relation "measure (\<lambda>(f, p). length (snd p))") auto

declare star_ends.simps [simp del]

fun ends :: "re \<Rightarrow> pos \<Rightarrow> pos list" where
  "ends REmpty p = [p]"
| "ends (RSet c) (b, []) = []"
| "ends (RSet c) (b, x # xs) = (if in_cset c x then [(False, xs)] else [])"
| "ends RBegin (b, xs) = (if b then [(b, xs)] else [])"
| "ends REol (b, xs) = (if xs = [] \<or> xs = [newline] then [(b, xs)] else [])"
| "ends REnd (b, xs) = (if xs = [] then [(b, xs)] else [])"
| "ends (RSeq r s) p = concat (map (ends s) (ends r p))"
| "ends (RAlt r s) p = ends r p @ ends s p"
| "ends (RRep r lo None) p = concat (map (star_ends (ends r)) (iter_ends (ends r) lo p))"
| "ends (RRep r lo (Some h)) p =
     (if h < lo then [] else concat (map (upto_ends (ends r) (h - lo)) (iter_ends (ends r) lo p)))"
| "ends (RLook neg r) p = (if neg = (ends r p = []) then [p] else [])"

text \<open>\<open>r.search(s) is not None\<close>, \<open>r.match(s) is not None\<close>, \<open>r.fullmatch(s) is not None\<close>.\<close>

fun search_from :: "re \<Rightarrow> bool \<Rightarrow> string \<Rightarrow> bool" where
  "search_from r b [] = (ends r (b, []) \<noteq> [])"
| "search_from r b (x # xs) = (ends r (b, x # xs) \<noteq> [] \<or> search_from r False xs)"

definition re_search :: "re \<Rightarrow> string \<Rightarrow> bool" where
  "re_search r s = search_from r True s"

definition re_fullmatch :: "re \<Rightarrow> string \<Rightarrow> bool" where
  "re_fullmatch r s = list_ex (\<lambda>(b, t). t = []) (ends r (True, s))"

section \<open>The matcher computes the meaning\<close>

text \<open>
  A meaning is read as a relation on positions, \<open>steps D\<close>. Sequencing is then composition of
  relations and repetition is their power, which gives the matcher's iterations by algebra.
\<close>

definition steps :: "(bool \<Rightarrow> string \<Rightarrow> string \<Rightarrow> bool) \<Rightarrow> pos \<Rightarrow> pos \<Rightarrow> bool" where
  "steps D p q = (\<exists>u. snd p = u @ snd q \<and> fst q = (fst p \<and> u = []) \<and> D (fst p) u (snd q))"

definition computes :: "('p \<Rightarrow> 'p list) \<Rightarrow> ('p \<Rightarrow> 'p \<Rightarrow> bool) \<Rightarrow> bool" where
  "computes f R = (\<forall>p. set (f p) = Collect (R p))"

lemma computes_set: "computes f R \<Longrightarrow> set (f p) = Collect (R p)"
  by (simp add: computes_def)

lemma computesI: "(\<And>p q. q \<in> set (f p) \<longleftrightarrow> R p q) \<Longrightarrow> computes f R"
  unfolding computes_def by blast

lemma computesD: "computes f R \<Longrightarrow> q \<in> set (f p) \<longleftrightarrow> R p q"
  unfolding computes_def by blast

lemma steps_length: "steps D p q \<Longrightarrow> length (snd q) < length (snd p) \<or> q = p"
  by (cases p; cases q) (auto simp: steps_def)

lemma steps_seq:
  "steps (\<lambda>b u t. \<exists>u1 u2. u = u1 @ u2 \<and> D b u1 (u2 @ t) \<and> E (b \<and> u1 = []) u2 t) = steps D OO steps E"
proof (intro ext iffI)
  fix p q
  assume "steps (\<lambda>b u t. \<exists>u1 u2. u = u1 @ u2 \<and> D b u1 (u2 @ t) \<and> E (b \<and> u1 = []) u2 t) p q"
  then obtain u1 u2 where *: "snd p = (u1 @ u2) @ snd q" "fst q = (fst p \<and> u1 @ u2 = [])"
      "D (fst p) u1 (u2 @ snd q)" "E (fst p \<and> u1 = []) u2 (snd q)"
    unfolding steps_def by (elim exE conjE) simp
  have "steps D p (fst p \<and> u1 = [], u2 @ snd q)"
    unfolding steps_def using * by (intro exI [of _ u1]) simp
  moreover have "steps E (fst p \<and> u1 = [], u2 @ snd q) q"
    unfolding steps_def using * by (intro exI [of _ u2]) auto
  ultimately show "(steps D OO steps E) p q" by blast
next
  fix p q
  assume "(steps D OO steps E) p q"
  then obtain r where "steps D p r" "steps E r q" by blast
  then obtain u1 u2 where "snd p = u1 @ snd r" "fst r = (fst p \<and> u1 = [])" "D (fst p) u1 (snd r)"
      "snd r = u2 @ snd q" "fst q = (fst r \<and> u2 = [])" "E (fst r) u2 (snd q)"
    unfolding steps_def by blast
  then show "steps (\<lambda>b u t. \<exists>u1 u2. u = u1 @ u2 \<and> D b u1 (u2 @ t) \<and> E (b \<and> u1 = []) u2 t) p q"
    unfolding steps_def
    by (intro exI [of _ "u1 @ u2"] conjI exI [of _ u1] exI [of _ u2]) simp_all
qed

lemma steps_copies: "steps (copies D n) = steps D ^^ n"
proof (induction n)
  case 0
  show ?case by (auto simp: fun_eq_iff steps_def)
next
  case (Suc n)
  have "steps (copies D (Suc n)) = steps D OO steps (copies D n)"
    unfolding steps_seq [symmetric] by (rule arg_cong [where f = steps]) (simp add: fun_eq_iff)
  then show ?case by (simp only: Suc relpowp.simps relpowp_commute)
qed

lemma steps_ex: "steps (\<lambda>b u t. \<exists>n. P n \<and> D n b u t) p q \<longleftrightarrow> (\<exists>n. P n \<and> steps (D n) p q)"
  unfolding steps_def by blast

lemma computes_seq:
  "computes f R \<Longrightarrow> computes g S \<Longrightarrow> computes (\<lambda>p. concat (map g (f p))) (R OO S)"
  by (intro computesI) (auto simp: computes_set)

lemma computes_iter: "computes f R \<Longrightarrow> computes (iter_ends f n) (R ^^ n)"
proof (induction n)
  case (Suc n)
  from computes_seq [OF Suc.prems Suc.IH [OF Suc.prems]] show ?case
    by (simp add: computes_def relpowp_commute)
qed (auto intro: computesI)

lemma relpowp_upto: "(\<exists>k \<le> Suc n. (R ^^ k) p q) \<longleftrightarrow> q = p \<or> (R OO (\<lambda>p q. \<exists>k \<le> n. (R ^^ k) p q)) p q"
proof -
  have "(\<exists>k \<le> Suc n. (R ^^ k) p q) \<longleftrightarrow> q = p \<or> (\<exists>k \<le> n. (R ^^ Suc k) p q)"
    by (metis Suc_le_mono le0 not0_implies_Suc relpowp_0_E relpowp_0_I)
  also have "(\<exists>k \<le> n. (R ^^ Suc k) p q) \<longleftrightarrow> (R OO (\<lambda>p q. \<exists>k \<le> n. (R ^^ k) p q)) p q"
    unfolding relpowp.simps relpowp_commute [symmetric] by blast
  finally show ?thesis .
qed

lemma computes_upto: "computes f R \<Longrightarrow> computes (upto_ends f n) (\<lambda>p q. \<exists>k \<le> n. (R ^^ k) p q)"
proof (induction n)
  case (Suc n)
  have "set (upto_ends f (Suc n) p) = Collect (\<lambda>q. \<exists>k \<le> Suc n. (R ^^ k) p q)" for p
    unfolding relpowp_upto upto_ends.simps list.set
      computes_set [OF computes_seq [OF Suc.prems Suc.IH [OF Suc.prems]]] by blast
  then show ?case by (simp only: computes_def) simp
qed (auto intro: computesI)

text \<open>A step that makes no progress stays where it is, so progress steps reach every end of a star.\<close>

lemma star_ends_sound:
  "computes f R \<Longrightarrow> q \<in> set (star_ends f p) \<Longrightarrow> R\<^sup>*\<^sup>* p q"
proof (induction f p rule: star_ends.induct)
  case (1 f p)
  from "1.prems"(2) consider "q = p"
    | r where "r \<in> set (f p)" "length (snd r) < length (snd p)" "q \<in> set (star_ends f r)"
    unfolding star_ends.simps [of f p] by (auto simp del: split_paired_All split_paired_Ex)
  then show ?case
  proof cases
    case 2
    then have "R p r" using computesD [OF "1.prems"(1)] by blast
    moreover have "R\<^sup>*\<^sup>* r q" using 2 by (intro "1.IH" "1.prems"(1)) auto
    ultimately show ?thesis by (rule converse_rtranclp_into_rtranclp)
  qed simp
qed

lemma star_ends_complete:
  assumes f: "computes f R" and progress: "\<And>p q. R p q \<Longrightarrow> length (snd q) < length (snd p) \<or> q = p"
  shows "R\<^sup>*\<^sup>* p q \<Longrightarrow> q \<in> set (star_ends f p)"
proof (induction rule: converse_rtranclp_induct)
  case base
  show ?case by (simp add: star_ends.simps [of f q])
next
  case (step p r)
  show ?case
  proof (cases "r = p")
    case True
    with step show ?thesis by simp
  next
    case False
    with progress [OF step(1)] have "length (snd r) < length (snd p)" by simp
    moreover have "r \<in> set (f p)" using step(1) computesD [OF f] by blast
    ultimately show ?thesis using step.IH unfolding star_ends.simps [of f p] set_simps set_concat
        set_map set_filter by blast
  qed
qed

lemma computes_star:
  "computes f (steps D) \<Longrightarrow> computes (star_ends f) (steps D)\<^sup>*\<^sup>*"
  by (intro computesI iffI) (erule star_ends_sound, assumption, erule star_ends_complete [OF _ steps_length])

lemma relpowp_from: "(R ^^ lo) OO R\<^sup>*\<^sup>* = (\<lambda>p q. \<exists>n \<ge> lo. (R ^^ n) p q)"
proof -
  have "((R ^^ lo) OO R\<^sup>*\<^sup>*) p q \<longleftrightarrow> (\<exists>k. (R ^^ (lo + k)) p q)" for p q
    unfolding rtranclp_power relpowp_add by blast
  then show ?thesis by (auto simp: fun_eq_iff le_iff_add)
qed

lemma relpowp_between:
  "lo \<le> h \<Longrightarrow> (R ^^ lo) OO (\<lambda>p q. \<exists>k \<le> h - lo. (R ^^ k) p q) = (\<lambda>p q. \<exists>n \<ge> lo. n \<le> h \<and> (R ^^ n) p q)"
proof -
  assume "lo \<le> h"
  have "((R ^^ lo) OO (\<lambda>p q. \<exists>k \<le> h - lo. (R ^^ k) p q)) p q \<longleftrightarrow>
      (\<exists>k \<le> h - lo. (R ^^ (lo + k)) p q)" for p q
    unfolding relpowp_add by blast
  also have "(\<exists>k \<le> h - lo. (R ^^ (lo + k)) p q) \<longleftrightarrow> (\<exists>n \<ge> lo. n \<le> h \<and> (R ^^ n) p q)" for p q
    using \<open>lo \<le> h\<close> by (metis add.commute le_add1 le_add_diff_inverse nat_add_left_cancel_le)
  finally show ?thesis by (intro ext)
qed

lemma steps_exists: "(\<exists>q. steps D p q) \<longleftrightarrow> (\<exists>v t. snd p = v @ t \<and> D (fst p) v t)"
proof
  assume "\<exists>v t. snd p = v @ t \<and> D (fst p) v t"
  then obtain v t where "snd p = v @ t" "D (fst p) v t" by blast
  then have "steps D p (fst p \<and> v = [], t)" unfolding steps_def by (intro exI [of _ v]) simp
  then show "\<exists>q. steps D p q" by blast
qed (unfold steps_def, blast)

lemma computes_look:
  assumes f: "computes f (steps D)"
  shows "computes (\<lambda>p. if neg = (f p = []) then [p] else [])
    (steps (\<lambda>b u t. u = [] \<and> neg \<noteq> (\<exists>v t'. t = v @ t' \<and> D b v t')))"
proof -
  have "f p = [] \<longleftrightarrow> \<not> (\<exists>v t'. snd p = v @ t' \<and> D (fst p) v t')" for p
    unfolding steps_exists [symmetric] set_empty [symmetric] computes_set [OF f] by blast
  then show ?thesis by (intro computesI) (auto simp: steps_def)
qed

lemma computes_ends: "computes (ends r) (steps (den r))"
proof (induction r)
  case (RSet c)
  have "q \<in> set (ends (RSet c) p) \<longleftrightarrow> steps (den (RSet c)) p q" for p q
    by (cases "(RSet c, p)" rule: ends.cases; cases q) (auto simp: steps_def)
  then show ?case by (rule computesI)
next
  case (RSeq r1 r2)
  from computes_seq [OF RSeq] show ?case by (simp add: computes_def steps_seq)
next
  case (RAlt r1 r2)
  have "steps (den (RAlt r1 r2)) p q \<longleftrightarrow> steps (den r1) p q \<or> steps (den r2) p q" for p q
    unfolding steps_def den.simps by blast
  then show ?case
    by (intro computesI) (simp only: ends.simps set_append Un_iff computesD [OF RAlt(1)] computesD [OF RAlt(2)])
next
  case (RRep r lo hi)
  show ?case
  proof (cases hi)
    case None
    from computes_seq [OF computes_iter [OF RRep] computes_star [OF RRep], of lo] show ?thesis
      by (simp add: None computes_def relpowp_from steps_ex steps_copies)
  next
    case (Some h)
    show ?thesis
    proof (cases "h < lo")
      case True
      then show ?thesis by (intro computesI) (auto simp: Some steps_def)
    next
      case False
      then have "lo \<le> h" by simp
      from computes_seq [OF computes_iter [OF RRep, of lo] computes_upto [OF RRep, of "h - lo"]]
      have "computes (ends (RRep r lo hi)) (\<lambda>p q. \<exists>n \<ge> lo. n \<le> h \<and> (steps (den r) ^^ n) p q)"
        using False by (simp add: Some computes_def relpowp_between [OF \<open>lo \<le> h\<close>])
      moreover have "steps (den (RRep r lo hi)) =
          (\<lambda>p q. \<exists>n \<ge> lo. n \<le> h \<and> (steps (den r) ^^ n) p q)"
        unfolding steps_copies [symmetric] by (auto simp: fun_eq_iff Some steps_def)
      ultimately show ?thesis by (simp only:)
    qed
  qed
next
  case (RLook neg r)
  from computes_look [OF RLook] show ?case by (simp add: computes_def)
qed (intro computesI; auto simp: steps_def)+

text \<open>The matcher lists a position exactly when the declarative meaning allows it.\<close>

lemma ends_iff:
  "(b', t) \<in> set (ends r (b, s)) \<longleftrightarrow> (\<exists>u. s = u @ t \<and> b' = (b \<and> u = []) \<and> den r b u t)"
  by (simp add: computesD [OF computes_ends] steps_def)

section \<open>Searching\<close>

lemma ends_nonempty: "ends r (b, s) \<noteq> [] \<longleftrightarrow> (\<exists>u t. s = u @ t \<and> den r b u t)"
proof -
  have "ends r (b, s) \<noteq> [] \<longleftrightarrow> (\<exists>b' t. (b', t) \<in> set (ends r (b, s)))"
    by (cases "ends r (b, s)") auto
  then show ?thesis unfolding ends_iff by blast
qed

lemma search_from_iff:
  "search_from r b s \<longleftrightarrow> (\<exists>pre u t. s = pre @ u @ t \<and> den r (b \<and> pre = []) u t)"
proof (induction s arbitrary: b)
  case (Cons x xs)
  have "search_from r b (x # xs) \<longleftrightarrow> (\<exists>u t. x # xs = u @ t \<and> den r b u t) \<or>
      (\<exists>pre u t. xs = pre @ u @ t \<and> den r False u t)"
    by (simp add: ends_nonempty Cons.IH)
  also have "\<dots> \<longleftrightarrow> (\<exists>pre u t. x # xs = pre @ u @ t \<and> den r (b \<and> pre = []) u t)"
    (is "?A \<or> ?B \<longleftrightarrow> ?C")
  proof
    assume "?A \<or> ?B"
    then show ?C
    proof
      assume ?A
      then obtain u t where "x # xs = u @ t" "den r b u t" by blast
      then show ?C by (intro exI [of _ "[]"] exI [of _ u] exI [of _ t]) simp
    next
      assume ?B
      then obtain pre u t where "xs = pre @ u @ t" "den r False u t" by blast
      then show ?C by (intro exI [of _ "x # pre"] exI [of _ u] exI [of _ t]) simp
    qed
  next
    assume ?C
    then obtain pre u t where *: "x # xs = pre @ u @ t" "den r (b \<and> pre = []) u t" by blast
    then show "?A \<or> ?B" by (cases pre) auto
  qed
  finally show ?case .
qed (simp add: ends_nonempty)

text \<open>\<open>re.search\<close> finds a match exactly when some part of the string has the pattern's meaning.\<close>

lemma re_search_iff:
  "re_search r s \<longleftrightarrow> (\<exists>pre u t. s = pre @ u @ t \<and> den r (pre = []) u t)"
  by (simp add: re_search_def search_from_iff)

lemma re_fullmatch_iff: "re_fullmatch r s \<longleftrightarrow> den r True s []"
proof -
  have "re_fullmatch r s \<longleftrightarrow> (\<exists>b'. (b', []) \<in> set (ends r (True, s)))"
    by (auto simp: re_fullmatch_def list_ex_iff)
  then show ?thesis unfolding ends_iff by auto
qed

text \<open>A pattern \<open>^r$\<close> under \<open>re.search\<close>: the whole string, or the string up to a final newline.\<close>

lemma search_anchored:
  "re_search (RSeq RBegin (RSeq r REol)) s \<longleftrightarrow>
     den r True s [] \<or> (\<exists>u. s = u @ [newline] \<and> den r True u [newline])"
  unfolding re_search_iff by auto

text \<open>The pattern's language when its meaning does not depend on the text around the match.\<close>

lemma copies_single:
  assumes D: "\<And>b u t. D b u t \<longleftrightarrow> (\<exists>x. u = [x] \<and> P x)"
  shows "copies D n b u t \<longleftrightarrow> length u = n \<and> list_all P u"
proof (induction n arbitrary: b u)
  case (Suc n)
  have "copies D (Suc n) b u t \<longleftrightarrow> (\<exists>x xs. u = x # xs \<and> P x \<and> copies D n False xs t)"
  proof
    assume "copies D (Suc n) b u t"
    then obtain u1 u2 where u: "u = u1 @ u2" and d: "D b u1 (u2 @ t)"
        and c: "copies D n (b \<and> u1 = []) u2 t"
      unfolding copies.simps by blast
    from d obtain x where "u1 = [x]" "P x" unfolding D by blast
    with u c show "\<exists>x xs. u = x # xs \<and> P x \<and> copies D n False xs t" by simp
  next
    assume "\<exists>x xs. u = x # xs \<and> P x \<and> copies D n False xs t"
    then obtain x xs where "u = x # xs" "P x" "copies D n False xs t" by blast
    then show "copies D (Suc n) b u t"
      unfolding copies.simps D by (intro exI [of _ "[x]"] exI [of _ xs]) simp
  qed
  also have "\<dots> \<longleftrightarrow> length u = Suc n \<and> list_all P u"
    unfolding Suc by (cases u) auto
  finally show ?case .
qed auto

lemma copies_set: "copies (den (RSet c)) n b u t \<longleftrightarrow> length u = n \<and> list_all (in_cset c) u"
  by (rule copies_single) simp

lemma den_set_rep: "den (RRep (RSet c) lo hi) b u t \<longleftrightarrow>
    lo \<le> length u \<and> (case hi of None \<Rightarrow> True | Some h \<Rightarrow> length u \<le> h) \<and> list_all (in_cset c) u"
  unfolding den.simps(8) copies_set by (auto split: option.splits)

end
