(* ===== verification/Regex_Parse.thy ===== *)
theory Regex_Parse
  imports Regex
begin

text \<open>
  \<open>re.compile\<close>: from a pattern string to its syntax tree. The grammar is the one of Python's
  \<open>re\<close> restricted to the constructs listed in \<open>Regex\<close>; \<open>None\<close> is \<open>re.error\<close>, or a construct
  outside the subset. The parser is by recursive descent; the fuel bounds the nesting of calls,
  and four units for each character are always enough, since every fourth call consumes one.
\<close>

section \<open>Character classes\<close>

definition one_char :: "char \<Rightarrow> (char \<times> char) list" where
  "one_char c = [(c, c)]"

text \<open>Digits, word characters and white space among the code points below U+0100.\<close>

definition digit_ranges :: "(char \<times> char) list" where
  "digit_ranges = [(CHR ''0'', CHR ''9'')]"

definition word_ranges :: "(char \<times> char) list" where
  "word_ranges = [(CHR ''0'', CHR ''9''), (CHR ''A'', CHR ''Z''), (CHR ''_'', CHR ''_''),
     (CHR ''a'', CHR ''z''), (CHR 0xAA, CHR 0xAA), (CHR 0xB2, CHR 0xB3), (CHR 0xB5, CHR 0xB5),
     (CHR 0xB9, CHR 0xBA), (CHR 0xBC, CHR 0xBE), (CHR 0xC0, CHR 0xD6), (CHR 0xD8, CHR 0xF6),
     (CHR 0xF8, CHR 0xFF)]"

definition space_ranges :: "(char \<times> char) list" where
  "space_ranges = [(CHR 0x09, CHR 0x0D), (CHR 0x1C, CHR 0x20), (CHR 0x85, CHR 0x85),
     (CHR 0xA0, CHR 0xA0)]"

text \<open>A character no escape gives a meaning: punctuation and white space stand for themselves.\<close>

definition is_punct :: "char \<Rightarrow> bool" where
  "is_punct c = (let n = (of_char c :: nat) in
     n < 128 \<and> \<not> (48 \<le> n \<and> n \<le> 57) \<and> \<not> (65 \<le> n \<and> n \<le> 90) \<and> \<not> (97 \<le> n \<and> n \<le> 122))"

text \<open>The character an escape such as \<open>\n\<close> or \<open>\.\<close> stands for.\<close>

definition escaped_char :: "char \<Rightarrow> char option" where
  "escaped_char c =
     (if c = CHR ''n'' then Some (CHR 0x0A) else if c = CHR ''r'' then Some (CHR 0x0D)
      else if c = CHR ''t'' then Some (CHR 0x09) else if c = CHR ''f'' then Some (CHR 0x0C)
      else if c = CHR ''v'' then Some (CHR 0x0B) else if c = CHR ''a'' then Some (CHR 0x07)
      else if is_punct c then Some c else None)"

definition class_escape :: "char \<Rightarrow> (char \<times> char) list option" where
  "class_escape c =
     (if c = CHR ''d'' then Some digit_ranges else if c = CHR ''w'' then Some word_ranges
      else if c = CHR ''s'' then Some space_ranges else None)"

text \<open>
  One member of a class, as the code point it stands for (\<open>Inl\<close>) or the ranges of a class escape
  (\<open>Inr\<close>), with the text after it.
\<close>

fun class_item :: "string \<Rightarrow> ((char + (char \<times> char) list) \<times> string) option" where
  "class_item [] = None"
| "class_item (c # cs) =
     (if c \<noteq> CHR 0x5C then Some (Inl c, cs)
      else case cs of [] \<Rightarrow> None
        | e # rest \<Rightarrow>
            (case class_escape e of
               Some rs \<Rightarrow> Some (Inr rs, rest)
             | None \<Rightarrow> map_option (\<lambda>x. (Inl x, rest)) (escaped_char e)))"

text \<open>
  The members up to the closing bracket. \<open>first\<close> marks the first one, where a closing bracket
  stands for itself; a hyphen forms a range unless it is the last member.
\<close>

fun class_items :: "nat \<Rightarrow> bool \<Rightarrow> string \<Rightarrow> ((char \<times> char) list \<times> string) option" where
  "class_items 0 first s = None"
| "class_items (Suc n) first s =
     (case s of [] \<Rightarrow> None
      | c # cs \<Rightarrow>
          if c = CHR '']'' \<and> \<not> first then Some ([], cs)
          else case class_item s of
            None \<Rightarrow> None
          | Some (Inr rs, rest) \<Rightarrow>
              map_option (\<lambda>(more, rest'). (rs @ more, rest')) (class_items n False rest)
          | Some (Inl a, rest) \<Rightarrow>
              (case rest of
                 h # h2 # rest2 \<Rightarrow>
                   if h = CHR ''-'' \<and> h2 \<noteq> CHR '']'' then
                     (case class_item (h2 # rest2) of
                        Some (Inl b, rest3) \<Rightarrow>
                          if b < a then None
                          else map_option (\<lambda>(more, rest'). ((a, b) # more, rest'))
                                 (class_items n False rest3)
                      | _ \<Rightarrow> None)
                   else map_option (\<lambda>(more, rest'). (one_char a @ more, rest'))
                          (class_items n False rest)
               | _ \<Rightarrow> map_option (\<lambda>(more, rest'). (one_char a @ more, rest'))
                        (class_items n False rest)))"

section \<open>Quantifiers\<close>

definition digits_prefix :: "string \<Rightarrow> string \<times> string" where
  "digits_prefix s = (takeWhile is_digit s, dropWhile is_digit s)"

text \<open>\<open>{m}\<close>, \<open>{m,}\<close>, \<open>{,n}\<close> or \<open>{m,n}\<close> after the opening brace; anything else is no quantifier.\<close>

definition brace_bounds :: "string \<Rightarrow> ((nat \<times> nat option) \<times> string) option" where
  "brace_bounds s =
     (let (lo, rest) = digits_prefix s; l = digits_value lo in
      case rest of
        c # cs \<Rightarrow>
          if c = CHR ''}'' \<and> lo \<noteq> [] then Some ((l, Some l), cs)
          else if c = CHR '','' then
            (let (hi, rest2) = digits_prefix cs in
             case rest2 of
               d # ds \<Rightarrow>
                 if d = CHR ''}'' then
                   Some ((l, if hi = [] then None else Some (digits_value hi)), ds)
                 else None
             | [] \<Rightarrow> None)
          else None
      | [] \<Rightarrow> None)"

definition quantifier :: "string \<Rightarrow> ((nat \<times> nat option) \<times> string) option" where
  "quantifier s =
     (case s of [] \<Rightarrow> None
      | c # cs \<Rightarrow>
          if c = CHR ''*'' then Some ((0, None), cs)
          else if c = CHR ''+'' then Some ((1, None), cs)
          else if c = CHR ''?'' then Some ((0, Some 1), cs)
          else if c = CHR ''{'' then brace_bounds cs
          else None)"

definition repeatable :: "re \<Rightarrow> bool" where
  "repeatable r = (case r of RBegin \<Rightarrow> False | REol \<Rightarrow> False | REnd \<Rightarrow> False | REmpty \<Rightarrow> False
     | _ \<Rightarrow> True)"

text \<open>
  The quantifier after an item, if there is one. A \<open>?\<close> after it (the lazy form) changes which
  match is preferred and not whether one exists. A second quantifier, and bounds in the wrong
  order, are errors.
\<close>

definition quantified :: "re \<Rightarrow> string \<Rightarrow> (re \<times> string) option" where
  "quantified r s =
     (case quantifier s of
        None \<Rightarrow> Some (r, s)
      | Some ((lo, hi), rest) \<Rightarrow>
          let rest' = (case rest of c # cs \<Rightarrow> if c = CHR ''?'' then cs else rest | [] \<Rightarrow> rest) in
          if \<not> repeatable r \<or> (case hi of None \<Rightarrow> False | Some h \<Rightarrow> h < lo)
             \<or> quantifier rest' \<noteq> None then None
          else Some (RRep r lo hi, rest'))"

section \<open>Patterns\<close>

definition seq_re :: "re \<Rightarrow> re \<Rightarrow> re" where
  "seq_re r s = (if s = REmpty then r else RSeq r s)"

definition dot_set :: cset where
  "dot_set = CSet True (one_char newline)"

definition escape_atom :: "char \<Rightarrow> re option" where
  "escape_atom e =
     (if e = CHR ''A'' then Some RBegin else if e = CHR ''Z'' then Some REnd
      else if e = CHR ''D'' then Some (RSet (CSet True digit_ranges))
      else if e = CHR ''W'' then Some (RSet (CSet True word_ranges))
      else if e = CHR ''S'' then Some (RSet (CSet True space_ranges))
      else case class_escape e of
        Some rs \<Rightarrow> Some (RSet (CSet False rs))
      | None \<Rightarrow> map_option (\<lambda>x. RSet (CSet False (one_char x))) (escaped_char e))"

text \<open>What follows an opening parenthesis: the kind of group, and the text of its body.\<close>

datatype group_kind = Plain | Look bool

definition group_start :: "string \<Rightarrow> (group_kind \<times> string) option" where
  "group_start s =
     (case s of
        q # k # rest \<Rightarrow>
          if q \<noteq> CHR ''?'' then Some (Plain, s)
          else if k = CHR '':'' then Some (Plain, rest)
          else if k = CHR ''='' then Some (Look False, rest)
          else if k = CHR ''!'' then Some (Look True, rest)
          else if k = CHR ''P'' \<and> starts_with rest ''<'' then
            (case partition_on (CHR ''>'') rest of (_, found, body) \<Rightarrow>
               if found then Some (Plain, body) else None)
          else None
      | q # [] \<Rightarrow> if q = CHR ''?'' then None else Some (Plain, s)
      | [] \<Rightarrow> None)"

fun p_alt :: "nat \<Rightarrow> string \<Rightarrow> (re \<times> string) option"
  and p_seq :: "nat \<Rightarrow> string \<Rightarrow> (re \<times> string) option"
  and p_atom :: "nat \<Rightarrow> string \<Rightarrow> (re \<times> string) option" where
  "p_alt 0 s = None"
| "p_alt (Suc n) s =
     (case p_seq n s of
        None \<Rightarrow> None
      | Some (r, rest) \<Rightarrow>
          (case rest of
             c # cs \<Rightarrow>
               if c = CHR ''|'' then map_option (\<lambda>(r2, rest2). (RAlt r r2, rest2)) (p_alt n cs)
               else Some (r, rest)
           | [] \<Rightarrow> Some (r, [])))"
| "p_seq 0 s = None"
| "p_seq (Suc n) s =
     (case s of
        [] \<Rightarrow> Some (REmpty, [])
      | c # cs \<Rightarrow>
          if c = CHR ''|'' \<or> c = CHR '')'' then Some (REmpty, s)
          else case p_atom n s of
            None \<Rightarrow> None
          | Some (a, rest) \<Rightarrow>
              (case quantified a rest of
                 None \<Rightarrow> None
               | Some (q, rest2) \<Rightarrow>
                   map_option (\<lambda>(r, rest3). (seq_re q r, rest3)) (p_seq n rest2)))"
| "p_atom 0 s = None"
| "p_atom (Suc n) s =
     (case s of
        [] \<Rightarrow> None
      | c # cs \<Rightarrow>
          if c = CHR ''^'' then Some (RBegin, cs)
          else if c = CHR ''$'' then Some (REol, cs)
          else if c = CHR ''.'' then Some (RSet dot_set, cs)
          else if c = CHR ''['' then
            (let neg = (case cs of d # ds \<Rightarrow> d = CHR ''^'' | [] \<Rightarrow> False) in
             map_option (\<lambda>(rs, rest). (RSet (CSet neg rs), rest))
               (class_items (length s) True (if neg then tl cs else cs)))
          else if c = CHR ''('' then
            (case group_start cs of
               None \<Rightarrow> None
             | Some (k, body) \<Rightarrow>
                 (case p_alt n body of
                    Some (r, d # rest) \<Rightarrow>
                      if d = CHR '')'' then
                        Some (case k of Plain \<Rightarrow> r | Look neg \<Rightarrow> RLook neg r, rest)
                      else None
                  | _ \<Rightarrow> None))
          else if c = CHR 0x5C then
            (case cs of [] \<Rightarrow> None
             | e # rest \<Rightarrow> map_option (\<lambda>r. (r, rest)) (escape_atom e))
          else if c \<in> {CHR ''*'', CHR ''+'', CHR ''?''} then None
          else Some (RSet (CSet False (one_char c)), cs))"

definition re_compile :: "string \<Rightarrow> re option" where
  "re_compile s =
     (case p_alt (4 * length s + 4) s of Some (r, []) \<Rightarrow> Some r | _ \<Rightarrow> None)"

end
