(* ===== verification/Schema_Def.thy ===== *)
theory Schema_Def
  imports Json Regex_Parse
begin

text \<open>
  Which JSON documents are schemas: \<open>_validate_schema_definition\<close> of
  internal/contracts/tests/schema_validator.py, with its keyword tables. Each statement of the
  function that may raise is one \<open>check\<close>, in the order of the source. The text of a message and
  the path inside the schema are left out; a \<open>reason\<close> names the statement that raised.

  The source walks the sets \<open>SCHEMA_MAP_KEYWORDS\<close>, \<open>SCHEMA_LIST_KEYWORDS\<close> and
  \<open>SCHEMA_VALUE_KEYWORDS\<close> in Python's set order, which is unspecified; the model fixes an order,
  so which of several errors comes first among these keywords is not meaningful.
\<close>

section \<open>Errors\<close>

datatype reason =
    \<comment> \<open>of a schema\<close>
    NotASchema | UnsupportedKeyword | RefNotString | BadTypeDecl | BadEnum | EnumRepeats
  | BadRequired | BadSize | SizesCross | BadNumber | MultipleNotPositive
  | PatternNotString | PatternInvalid | BadUniqueItems | NotASchemaMap | NotASchemaList
  | BadDependents
    \<comment> \<open>of a registry and its references\<close>
  | RegistryNotObject | RegistryWrongId | UnknownReference | BadFragment | NotASchemaTarget
  | BooleanRoot
    \<comment> \<open>of an instance\<close>
  | FalseSchema | NoAnyOf | OneOfCount | ForbiddenByNot | NotConst | NotInEnum | WrongType
  | StringLength | PatternMismatch | MissingFields | PropertyCount | UnknownProperty
  | MissingDependents | ArrayLength | RepeatedItem | ContainsCount | NumberRange
  | ExclusiveMinimum | ExclusiveMaximum | NotAMultiple

text \<open>
  What validation may raise. \<open>RegexError\<close> is \<open>re.error\<close> from a pattern that does not compile,
  \<open>ArithError\<close> an overflow or a NaN in the division of \<open>multipleOf\<close>. \<open>IllFormed\<close> stands for whatever Python does with schema content that
  \<open>sdef\<close> rejects; a well-formed schema never produces it.
\<close>

datatype verr =
    Validation reason | KeyError | TypeError | RegexError | RecursionError | ArithError | IllFormed

abbreviation reject_if :: "bool \<Rightarrow> reason \<Rightarrow> verr check" where
  "reject_if b r \<equiv> raise_if b (Validation r)"

section \<open>Keywords\<close>

definition assertion_keywords :: "string list" where
  "assertion_keywords =
     [''$ref'', ''type'', ''const'', ''enum'', ''required'', ''properties'',
      ''additionalProperties'', ''patternProperties'', ''propertyNames'', ''minProperties'',
      ''maxProperties'', ''items'', ''prefixItems'', ''minItems'', ''maxItems'', ''uniqueItems'',
      ''contains'', ''minContains'', ''maxContains'', ''minimum'', ''maximum'',
      ''exclusiveMinimum'', ''exclusiveMaximum'', ''multipleOf'', ''minLength'', ''maxLength'',
      ''pattern'', ''allOf'', ''anyOf'', ''oneOf'', ''not'', ''if'', ''then'', ''else'',
      ''dependentRequired'']"

definition annotation_keywords :: "string list" where
  "annotation_keywords =
     [''$comment'', ''$id'', ''$schema'', ''$defs'', ''title'', ''description'', ''default'',
      ''examples'', ''deprecated'', ''readOnly'', ''writeOnly'', ''format'', ''contentEncoding'',
      ''contentMediaType'']"

definition schema_map_keywords :: "string list" where
  "schema_map_keywords = [''$defs'', ''properties'', ''patternProperties'']"

definition schema_list_keywords :: "string list" where
  "schema_list_keywords = [''allOf'', ''anyOf'', ''oneOf'', ''prefixItems'']"

definition schema_value_keywords :: "string list" where
  "schema_value_keywords =
     [''additionalProperties'', ''contains'', ''else'', ''if'', ''items'', ''not'',
      ''propertyNames'', ''then'']"

definition known_keyword :: "string \<Rightarrow> bool" where
  "known_keyword k =
     (k \<in> set assertion_keywords \<or> k \<in> set annotation_keywords \<or> starts_with k ''x-'')"

definition json_types :: "string list" where
  "json_types =
     [''array'', ''boolean'', ''integer'', ''null'', ''number'', ''object'', ''string'']"

definition size_keywords :: "string list" where
  "size_keywords =
     [''minItems'', ''maxItems'', ''minLength'', ''maxLength'', ''minProperties'',
      ''maxProperties'', ''minContains'', ''maxContains'']"

definition size_pairs :: "(string \<times> string) list" where
  "size_pairs =
     [(''minItems'', ''maxItems''), (''minLength'', ''maxLength''),
      (''minProperties'', ''maxProperties''), (''minContains'', ''maxContains'')]"

definition number_keywords :: "string list" where
  "number_keywords =
     [''minimum'', ''maximum'', ''exclusiveMinimum'', ''exclusiveMaximum'', ''multipleOf'']"

section \<open>Declarations of one keyword\<close>

text \<open>A JSON array of strings.\<close>

fun str_of :: "json \<Rightarrow> string option" where
  "str_of (JStr s) = Some s"
| "str_of _ = None"

definition str_list :: "json \<Rightarrow> string list option" where
  "str_list v =
     (case v of
        JList xs \<Rightarrow>
          if list_all (\<lambda>x. str_of x \<noteq> None) xs then Some (map (\<lambda>x. the (str_of x)) xs) else None
      | _ \<Rightarrow> None)"

definition unique_strings :: "json \<Rightarrow> bool" where
  "unique_strings v = (case str_list v of None \<Rightarrow> False | Some ss \<Rightarrow> distinct ss)"

definition type_decl_ok :: "json \<Rightarrow> bool" where
  "type_decl_ok v =
     (case v of
        JStr s \<Rightarrow> s \<in> set json_types
      | _ \<Rightarrow> (case str_list v of
           None \<Rightarrow> False
         | Some ss \<Rightarrow> ss \<noteq> [] \<and> distinct ss \<and> set ss \<subseteq> set json_types))"

definition size_ok :: "json \<Rightarrow> bool" where
  "size_ok v = (case v of JInt n \<Rightarrow> 0 \<le> n | _ \<Rightarrow> False)"

definition sizes_cross :: "json \<Rightarrow> json \<Rightarrow> bool" where
  "sizes_cross lo hi = (case (lo, hi) of (JInt a, JInt b) \<Rightarrow> b < a | _ \<Rightarrow> False)"

text \<open>\<open>opt_check k d f\<close>: the statement \<open>f\<close> on \<open>schema[k]\<close> when the keyword is present.\<close>

definition opt_check :: "string \<Rightarrow> json dict \<Rightarrow> (json \<Rightarrow> 'e check) \<Rightarrow> 'e check" where
  "opt_check k d f = (case dget k d of None \<Rightarrow> Inr () | Some v \<Rightarrow> f v)"

lemma opt_check_cong [fundef_cong]:
  "k = k' \<Longrightarrow> d = d' \<Longrightarrow> (\<And>v. dget k' d' = Some v \<Longrightarrow> f v = g v) \<Longrightarrow>
    opt_check k d f = opt_check k' d' g"
  by (simp add: opt_check_def split: option.split)

lemma opt_check_Inr [simp]:
  "opt_check k d f = Inr u \<longleftrightarrow> (\<forall>v. dget k d = Some v \<longrightarrow> f v = Inr ())"
  by (simp add: opt_check_def split: option.split)

definition enum_check :: "json \<Rightarrow> verr check" where
  "enum_check v =
     (case v of
        JList vs \<Rightarrow>
          checks [reject_if (vs = []) BadEnum, reject_if (has_repeat json_equal [] vs) EnumRepeats]
      | _ \<Rightarrow> Inl (Validation BadEnum))"

definition pattern_check :: "json \<Rightarrow> verr check" where
  "pattern_check v =
     (case v of
        JStr p \<Rightarrow> reject_if (re_compile p = None) PatternInvalid
      | _ \<Rightarrow> Inl (Validation PatternNotString))"

definition dependents_ok :: "json \<Rightarrow> bool" where
  "dependents_ok v =
     (case v of JDict d \<Rightarrow> list_all (\<lambda>(k, fields). unique_strings fields) d | _ \<Rightarrow> False)"

text \<open>Every statement of the function before it descends into sub-schemas.\<close>

definition keyword_checks :: "json dict \<Rightarrow> verr check" where
  "keyword_checks d = checks
     [reject_if (\<not> list_all (\<lambda>(k, v). known_keyword k) d) UnsupportedKeyword,
      opt_check ''$ref'' d (\<lambda>v. reject_if (str_of v = None) RefNotString),
      opt_check ''type'' d (\<lambda>v. reject_if (\<not> type_decl_ok v) BadTypeDecl),
      opt_check ''enum'' d enum_check,
      opt_check ''required'' d (\<lambda>v. reject_if (\<not> unique_strings v) BadRequired),
      for_each (\<lambda>k. opt_check k d (\<lambda>v. reject_if (\<not> size_ok v) BadSize)) size_keywords,
      for_each (\<lambda>(lo, hi). opt_check lo d (\<lambda>a. opt_check hi d (\<lambda>b.
        reject_if (sizes_cross a b) SizesCross))) size_pairs,
      for_each (\<lambda>k. opt_check k d (\<lambda>v. reject_if (\<not> (is_num v \<and> finite_number v)) BadNumber))
        number_keywords,
      opt_check ''multipleOf'' d (\<lambda>v. reject_if
        (case num_of v of Some (Fin q) \<Rightarrow> q \<le> 0 | _ \<Rightarrow> False) MultipleNotPositive),
      opt_check ''pattern'' d pattern_check,
      opt_check ''uniqueItems'' d (\<lambda>v. reject_if
        (case v of JBool _ \<Rightarrow> False | _ \<Rightarrow> True) BadUniqueItems)]"

section \<open>Schemas\<close>

text \<open>Descent into the values of an object of schemas, and into a non-empty array of schemas.\<close>

definition each_in_map :: "(json \<Rightarrow> verr check) \<Rightarrow> json \<Rightarrow> verr check" where
  "each_in_map f v =
     (case v of
        JDict children \<Rightarrow> for_each (\<lambda>nc. f (snd nc)) children
      | _ \<Rightarrow> Inl (Validation NotASchemaMap))"

definition each_in_list :: "(json \<Rightarrow> verr check) \<Rightarrow> json \<Rightarrow> verr check" where
  "each_in_list f v =
     (case v of
        JList children \<Rightarrow>
          if children = [] then Inl (Validation NotASchemaList) else for_each f children
      | _ \<Rightarrow> Inl (Validation NotASchemaList))"

lemma each_in_map_cong [fundef_cong]:
  "v = w \<Longrightarrow> (\<And>ch nc. w = JDict ch \<Longrightarrow> nc \<in> set ch \<Longrightarrow> f (snd nc) = g (snd nc)) \<Longrightarrow>
    each_in_map f v = each_in_map g w"
  by (auto simp: each_in_map_def split: json.split intro: for_each_cong)

lemma each_in_list_cong [fundef_cong]:
  "v = w \<Longrightarrow> (\<And>ch c. w = JList ch \<Longrightarrow> c \<in> set ch \<Longrightarrow> f c = g c) \<Longrightarrow>
    each_in_list f v = each_in_list g w"
  by (auto simp: each_in_list_def split: json.split intro: for_each_cong)

lemma each_in_map_Inr [simp]:
  "each_in_map f v = Inr u \<longleftrightarrow> (\<exists>ch. v = JDict ch \<and> (\<forall>nc \<in> set ch. f (snd nc) = Inr ()))"
  by (cases v) (simp_all add: each_in_map_def)

lemma each_in_list_Inr [simp]:
  "each_in_list f v = Inr u \<longleftrightarrow> (\<exists>ch. v = JList ch \<and> ch \<noteq> [] \<and> (\<forall>c \<in> set ch. f c = Inr ()))"
  by (cases v) (simp_all add: each_in_list_def)

function (sequential) sdef :: "json \<Rightarrow> verr check" where
  "sdef (JBool b) = Inr ()"
| "sdef (JDict d) = checks
     [keyword_checks d,
      for_each (\<lambda>k. opt_check k d (each_in_map sdef)) schema_map_keywords,
      for_each (\<lambda>k. opt_check k d (each_in_list sdef)) schema_list_keywords,
      for_each (\<lambda>k. opt_check k d sdef) schema_value_keywords,
      opt_check ''dependentRequired'' d (\<lambda>v. reject_if (\<not> dependents_ok v) BadDependents)]"
| "sdef _ = Inl (Validation NotASchema)"
  by pat_completeness auto

termination
proof (relation "measure size")
  show "wf (measure size)" by simp
next
  fix d :: "json dict" and k v children nc
  assume "dget k d = Some v" "v = JDict children" "nc \<in> set children"
  then show "(snd nc, JDict d) \<in> measure size"
    using dget_size [of k d v] mem_size_dict [of "fst nc" "snd nc" children]
    by (auto simp: size_JDict simp del: json.size)
next
  fix d :: "json dict" and k v children child
  assume "dget k d = Some v" "v = JList children" "child \<in> set children"
  then show "(child, JDict d) \<in> measure size"
    using dget_size [of k d v] size_list_estimation' [of child children "size child" size]
    by (auto simp: size_JDict size_JList simp del: json.size)
next
  fix d :: "json dict" and k v
  assume "dget k d = Some v"
  then show "(v, JDict d) \<in> measure size"
    using dget_size [of k d v] by (auto simp: size_JDict simp del: json.size)
qed

definition schema_wf :: "json \<Rightarrow> bool" where
  "schema_wf s = (sdef s = Inr ())"

lemma schema_wf_JBool [simp]: "schema_wf (JBool b)"
  by (simp add: schema_wf_def)

lemma schema_wf_JDict: "schema_wf (JDict d) \<longleftrightarrow> keyword_checks d = Inr () \<and>
    (\<forall>k \<in> set schema_map_keywords. \<forall>v. dget k d = Some v \<longrightarrow>
       (\<exists>ch. v = JDict ch \<and> (\<forall>nc \<in> set ch. schema_wf (snd nc)))) \<and>
    (\<forall>k \<in> set schema_list_keywords. \<forall>v. dget k d = Some v \<longrightarrow>
       (\<exists>ch. v = JList ch \<and> ch \<noteq> [] \<and> (\<forall>c \<in> set ch. schema_wf c))) \<and>
    (\<forall>k \<in> set schema_value_keywords. \<forall>v. dget k d = Some v \<longrightarrow> schema_wf v) \<and>
    (\<forall>v. dget ''dependentRequired'' d = Some v \<longrightarrow> dependents_ok v)"
  by (simp add: schema_wf_def)

declare sdef.simps(2) [simp del]

lemma schema_wf_cases: "schema_wf s \<Longrightarrow> (\<exists>b. s = JBool b) \<or> (\<exists>d. s = JDict d)"
  by (cases s) (simp_all add: schema_wf_def)

end
