(* ===== verification/Py_Float.thy ===== *)
theory Py_Float
  imports Json
begin

text \<open>
  The binary64 arithmetic behind \<open>multipleOf\<close>: true division, \<open>round\<close> and \<open>math.isclose\<close>, as
  schema_validator.py uses them in \<open>_validate_number\<close>. A finite double is its rational value, and
  each operation rounds the exact result to the nearest double, ties to even.
\<close>

section \<open>Rounding\<close>

definition round_even :: "rat \<Rightarrow> int" where
  "round_even q =
     (let f = \<lfloor>q\<rfloor>; r = q - of_int f in
      if r < 1 / 2 then f else if 1 / 2 < r then f + 1 else if even f then f else f + 1)"

text \<open>The number of binary digits of a positive integer.\<close>

function bit_len :: "int \<Rightarrow> int" where
  "bit_len n = (if n \<le> 0 then 0 else 1 + bit_len (n div 2))"
  by pat_completeness auto
termination
  by (relation "measure nat") auto

declare bit_len.simps [simp del]

text \<open>The exponent \<open>e\<close> with \<open>2 ^ e \<le> q < 2 ^ (e + 1)\<close>, for a positive \<open>q\<close>.\<close>

definition exponent_of :: "rat \<Rightarrow> int" where
  "exponent_of q =
     (let (n, d) = quotient_of q;
          e = bit_len n - bit_len d in
      if 2 powi e \<le> q then e else e - 1)"

definition to_binary64 :: "rat \<Rightarrow> pyfloat" where
  "to_binary64 q =
     (if q = 0 then Fin 0
      else let a = \<bar>q\<bar>; k = max (exponent_of a - 52) (- 1074);
               r = of_int (round_even (a / 2 powi k)) * 2 powi k in
        if 2 ^ 1024 \<le> r then (if q < 0 then NegInf else PosInf)
        else Fin (if q < 0 then - r else r))"

section \<open>Division and closeness\<close>

text \<open>Python raises on division by zero, on \<open>int / int\<close> overflow and on an \<open>int\<close> too big for a float.\<close>

datatype arith_error = ZeroDivision | Overflow | NotANumber

definition finite_or :: "arith_error \<Rightarrow> pyfloat \<Rightarrow> arith_error + pyfloat" where
  "finite_or e x = (case x of Fin q \<Rightarrow> Inr x | _ \<Rightarrow> Inl e)"

fun to_float :: "json \<Rightarrow> arith_error + pyfloat" where
  "to_float (JInt n) = finite_or Overflow (to_binary64 (of_int n))"
| "to_float (JFloat x) = Inr x"
| "to_float _ = Inl NotANumber"

text \<open>\<open>a / b\<close> on floats: a finite quotient that overflows is an infinity, not an error.\<close>

fun float_div :: "pyfloat \<Rightarrow> pyfloat \<Rightarrow> arith_error + pyfloat" where
  "float_div (Fin a) (Fin b) = (if b = 0 then Inl ZeroDivision else Inr (to_binary64 (a / b)))"
| "float_div NaN (Fin b) = (if b = 0 then Inl ZeroDivision else Inr NaN)"
| "float_div PosInf (Fin b) =
     (if b = 0 then Inl ZeroDivision else Inr (if b < 0 then NegInf else PosInf))"
| "float_div NegInf (Fin b) =
     (if b = 0 then Inl ZeroDivision else Inr (if b < 0 then PosInf else NegInf))"
| "float_div _ NaN = Inr NaN"
| "float_div (Fin a) _ = Inr (Fin 0)"
| "float_div _ _ = Inr NaN"

text \<open>\<open>a / b\<close> on Python numbers: \<open>int / int\<close> rounds the exact quotient once.\<close>

fun true_div :: "json \<Rightarrow> json \<Rightarrow> arith_error + pyfloat" where
  "true_div (JInt a) (JInt b) =
     (if b = 0 then Inl ZeroDivision else finite_or Overflow (to_binary64 (of_int a / of_int b)))"
| "true_div a b = bindE (to_float a) (\<lambda>x. bindE (to_float b) (\<lambda>y. float_div x y))"

text \<open>\<open>round(x)\<close>, which raises on an infinity and on NaN.\<close>

fun py_round :: "pyfloat \<Rightarrow> arith_error + int" where
  "py_round (Fin q) = Inr (round_even q)"
| "py_round NaN = Inl NotANumber"
| "py_round _ = Inl Overflow"

text \<open>\<open>math.isclose(a, b)\<close> on finite doubles, with the default tolerances.\<close>

definition rel_tol :: rat where
  "rel_tol = fin_value (to_binary64 (1 / 1000000000))"

definition float_le :: "rat \<Rightarrow> rat \<Rightarrow> bool" where
  "float_le a b = num_le (to_binary64 a) (to_binary64 b)"

definition is_close :: "rat \<Rightarrow> rat \<Rightarrow> bool" where
  "is_close a b =
     (a = b \<or> float_le \<bar>b - a\<bar> (rel_tol * \<bar>b\<bar>) \<or> float_le \<bar>b - a\<bar> (rel_tol * \<bar>a\<bar>)
      \<or> float_le \<bar>b - a\<bar> 0)"

text \<open>\<open>math.isclose(instance / m, round(instance / m))\<close>\<close>

definition is_multiple :: "json \<Rightarrow> json \<Rightarrow> arith_error + bool" where
  "is_multiple v m =
     bindE (true_div v m) (\<lambda>x. bindE (py_round x) (\<lambda>r.
       bindE (to_float (JInt r)) (\<lambda>y. Inr (is_close (fin_value x) (fin_value y)))))"

lemma is_multiple_by_zero: "is_multiple (JInt a) (JInt 0) = Inl ZeroDivision"
  by (simp add: is_multiple_def)

end
