(* ===== verification/Schema_Validator.thy ===== *)
theory Schema_Validator
  imports Schema_Def Py_Float
begin

text \<open>
  The validator itself: \<open>Registry\<close>, \<open>validate\<close>, \<open>_valid\<close> and their helpers of
  internal/contracts/tests/schema_validator.py.

  \<^item> \<open>validate\<close> follows references, so its recursion need not end: a fuel bounds the depth of nested
    calls and running out of it is \<open>RecursionError\<close>, which is what Python raises at its own bound.
    \<open>_valid\<close> does not catch that error, and neither does \<open>verdict\<close>.
  \<^item> One level of the recursion is \<open>validate_step\<close>, a function of the recursive call \<open>rec\<close>. Its
    arguments are the root document, the schema and the instance.
  \<^item> The keywords are tried in the order of the source. The path that only labels messages is left
    out.
\<close>

section \<open>Registry\<close>

type_synonym registry = "json dict"

text \<open>\<open>Registry.__post_init__\<close>\<close>

definition registry_check :: "registry \<Rightarrow> verr check" where
  "registry_check reg = for_each (\<lambda>(ident, doc).
     case doc of
       JDict d \<Rightarrow> checks
         [reject_if (dget ''$id'' d \<noteq> Some (JStr ident)) RegistryWrongId, sdef doc]
     | _ \<Rightarrow> Inl (Validation RegistryNotObject)) reg"

definition unescape_token :: "string \<Rightarrow> string" where
  "unescape_token t = replace_str ''~0'' ''~'' (replace_str ''~1'' ''/'' t)"

fun walk :: "string list \<Rightarrow> json \<Rightarrow> verr + json" where
  "walk [] current = Inr current"
| "walk (t # ts) current =
     (case current of
        JDict d \<Rightarrow>
          (case dget (unescape_token t) d of None \<Rightarrow> Inl KeyError | Some v \<Rightarrow> walk ts v)
      | _ \<Rightarrow> Inl TypeError)"

definition is_schema_shape :: "json \<Rightarrow> bool" where
  "is_schema_shape v = (case v of JDict _ \<Rightarrow> True | JBool _ \<Rightarrow> True | _ \<Rightarrow> False)"

definition resolve_fragment :: "json \<Rightarrow> string \<Rightarrow> verr + json" where
  "resolve_fragment document fragment =
     (if fragment = [] then Inr document
      else if \<not> starts_with fragment ''/'' then Inl (Validation BadFragment)
      else bindE (walk (split_on (CHR ''/'') (tl fragment)) document) (\<lambda>current.
        if is_schema_shape current then Inr current else Inl (Validation NotASchemaTarget)))"

text \<open>\<open>Registry.resolve\<close>\<close>

definition resolve :: "registry \<Rightarrow> string \<Rightarrow> json \<Rightarrow> verr + json" where
  "resolve reg reference rt =
     (if starts_with reference ''#'' then resolve_fragment rt (tl reference)
      else case partition_on (CHR ''#'') reference of (base, marker, fragment) \<Rightarrow>
        (case dget base reg of
           None \<Rightarrow> Inl (Validation UnknownReference)
         | Some document \<Rightarrow> resolve_fragment document (if marker then fragment else [])))"

text \<open>The root for the referenced schema's own local references.\<close>

definition reference_root :: "registry \<Rightarrow> string \<Rightarrow> json \<Rightarrow> verr + json" where
  "reference_root reg reference rt =
     (if starts_with reference ''#'' then Inr rt
      else case dget (fst (partition_on (CHR ''#'') reference)) reg of
        None \<Rightarrow> Inl KeyError | Some document \<Rightarrow> Inr document)"

section \<open>Verdicts\<close>

text \<open>\<open>_valid\<close>: a validation, key or type error is a negative verdict; any other error goes on.\<close>

fun verdict :: "verr check \<Rightarrow> verr + bool" where
  "verdict (Inr _) = Inr True"
| "verdict (Inl (Validation r)) = Inr False"
| "verdict (Inl KeyError) = Inr False"
| "verdict (Inl TypeError) = Inr False"
| "verdict (Inl e) = Inl e"

text \<open>\<open>any(...)\<close> stops at the first positive verdict; \<open>sum(...)\<close> asks for all of them.\<close>

fun any_verdict :: "(verr + bool) list \<Rightarrow> verr + bool" where
  "any_verdict [] = Inr False"
| "any_verdict (v # vs) = bindE v (\<lambda>b. if b then Inr True else any_verdict vs)"

fun sum_verdicts :: "(verr + bool) list \<Rightarrow> verr + nat" where
  "sum_verdicts [] = Inr 0"
| "sum_verdicts (v # vs) =
     bindE v (\<lambda>b. bindE (sum_verdicts vs) (\<lambda>n. Inr (if b then Suc n else n)))"

section \<open>Types and sizes\<close>

definition is_integer_value :: "json \<Rightarrow> bool" where
  "is_integer_value v =
     (case v of JInt _ \<Rightarrow> True | JFloat (Fin q) \<Rightarrow> of_int \<lfloor>q\<rfloor> = q | _ \<Rightarrow> False)"

definition has_type :: "json \<Rightarrow> string \<Rightarrow> bool" where
  "has_type v t =
     (if t = ''null'' then v = JNull
      else if t = ''boolean'' then (case v of JBool _ \<Rightarrow> True | _ \<Rightarrow> False)
      else if t = ''integer'' then is_integer_value v
      else if t = ''number'' then is_num v \<and> finite_number v
      else if t = ''string'' then (case v of JStr _ \<Rightarrow> True | _ \<Rightarrow> False)
      else if t = ''array'' then (case v of JList _ \<Rightarrow> True | _ \<Rightarrow> False)
      else if t = ''object'' then (case v of JDict _ \<Rightarrow> True | _ \<Rightarrow> False)
      else False)"

text \<open>\<open>_validate_type\<close>\<close>

definition validate_type :: "json \<Rightarrow> json \<Rightarrow> verr check" where
  "validate_type v expected =
     (case (case expected of JStr t \<Rightarrow> Some [t] | _ \<Rightarrow> str_list expected) of
        None \<Rightarrow> Inl IllFormed
      | Some ts \<Rightarrow> reject_if (\<not> list_ex (has_type v) ts) WrongType)"

text \<open>\<open>schema.get(key, default)\<close> for a bound: a number of the schema or the default.\<close>

definition bound :: "string \<Rightarrow> pyfloat \<Rightarrow> json dict \<Rightarrow> verr + pyfloat" where
  "bound k dflt d =
     (case dget k d of
        None \<Rightarrow> Inr dflt
      | Some v \<Rightarrow> (case num_of v of None \<Rightarrow> Inl IllFormed | Some x \<Rightarrow> Inr x))"

text \<open>\<open>x < schema.get(lo, a) or x > schema.get(hi, b)\<close> raises \<open>r\<close>.\<close>

definition check_range ::
  "string \<Rightarrow> pyfloat \<Rightarrow> string \<Rightarrow> pyfloat \<Rightarrow> reason \<Rightarrow> json dict \<Rightarrow> pyfloat \<Rightarrow> verr check" where
  "check_range lo a hi b r d x =
     bindE (bound lo a d) (\<lambda>l. if num_less x l then Inl (Validation r)
       else bindE (bound hi b d) (\<lambda>h. reject_if (num_less h x) r))"

definition check_count :: "string \<Rightarrow> string \<Rightarrow> nat \<Rightarrow> reason \<Rightarrow> json dict \<Rightarrow> nat \<Rightarrow> verr check" where
  "check_count lo hi least r d n = check_range lo (Fin (of_nat least)) hi PosInf r d (Fin (of_nat n))"

text \<open>\<open>re.search(pattern, s) is None\<close> raises \<open>r\<close>.\<close>

definition pattern_found :: "string \<Rightarrow> string \<Rightarrow> verr + bool" where
  "pattern_found p s =
     (case re_compile p of None \<Rightarrow> Inl RegexError | Some r \<Rightarrow> Inr (re_search r s))"

section \<open>Scalars\<close>

definition validate_string :: "json dict \<Rightarrow> string \<Rightarrow> verr check" where
  "validate_string d s = checks
     [check_count ''minLength'' ''maxLength'' 0 StringLength d (length s),
      opt_check ''pattern'' d (\<lambda>p. case p of
          JStr p \<Rightarrow> bindE (pattern_found p s) (\<lambda>b. reject_if (\<not> b) PatternMismatch)
        | _ \<Rightarrow> Inl IllFormed)]"

text \<open>\<open>_validate_number\<close>\<close>

definition validate_number :: "json dict \<Rightarrow> json \<Rightarrow> pyfloat \<Rightarrow> verr check" where
  "validate_number d v x = checks
     [check_range ''minimum'' NegInf ''maximum'' PosInf NumberRange d x,
      opt_check ''exclusiveMinimum'' d (\<lambda>m. case num_of m of None \<Rightarrow> Inl IllFormed
        | Some y \<Rightarrow> reject_if (num_le x y) ExclusiveMinimum),
      opt_check ''exclusiveMaximum'' d (\<lambda>m. case num_of m of None \<Rightarrow> Inl IllFormed
        | Some y \<Rightarrow> reject_if (num_le y x) ExclusiveMaximum),
      opt_check ''multipleOf'' d (\<lambda>m. if is_num m then
          (case is_multiple v m of
             Inl _ \<Rightarrow> Inl ArithError
           | Inr b \<Rightarrow> reject_if (\<not> b) NotAMultiple)
        else Inl IllFormed)]"

section \<open>Objects and arrays\<close>

type_synonym validator = "json \<Rightarrow> json \<Rightarrow> json \<Rightarrow> verr check"

definition string_field :: "string \<Rightarrow> json dict \<Rightarrow> verr + string list" where
  "string_field k d =
     (case dget k d of
        None \<Rightarrow> Inr []
      | Some v \<Rightarrow> (case str_list v of None \<Rightarrow> Inl IllFormed | Some ss \<Rightarrow> Inr ss))"

definition dict_field :: "string \<Rightarrow> json dict \<Rightarrow> verr + json dict" where
  "dict_field k d =
     (case dget k d of None \<Rightarrow> Inr [] | Some (JDict e) \<Rightarrow> Inr e | Some _ \<Rightarrow> Inl IllFormed)"

definition list_field :: "string \<Rightarrow> json dict \<Rightarrow> verr + json list" where
  "list_field k d =
     (case dget k d of None \<Rightarrow> Inr [] | Some (JList xs) \<Rightarrow> Inr xs | Some _ \<Rightarrow> Inl IllFormed)"

text \<open>The schemas that apply to a property: the declared one, then those of matching patterns.\<close>

fun pattern_schemas :: "json dict \<Rightarrow> string \<Rightarrow> verr + json list" where
  "pattern_schemas [] key = Inr []"
| "pattern_schemas ((p, child) # ps) key =
     bindE (pattern_found p key) (\<lambda>b. bindE (pattern_schemas ps key) (\<lambda>more.
       Inr (if b then child # more else more)))"

definition property_schemas :: "json dict \<Rightarrow> string \<Rightarrow> verr + json list" where
  "property_schemas d key =
     bindE (dict_field ''properties'' d) (\<lambda>props.
     bindE (dict_field ''patternProperties'' d) (\<lambda>patterns.
     bindE (pattern_schemas patterns key) (\<lambda>more.
       let found = (case dget key props of None \<Rightarrow> more | Some child \<Rightarrow> child # more) in
       if found \<noteq> [] then Inr found
       else case dget ''additionalProperties'' d of
          None \<Rightarrow> Inr []
        | Some (JBool False) \<Rightarrow> Inl (Validation UnknownProperty)
        | Some (JDict e) \<Rightarrow> Inr [JDict e]
        | Some _ \<Rightarrow> Inr [])))"

definition validate_property ::
  "validator \<Rightarrow> json \<Rightarrow> json dict \<Rightarrow> string \<times> json \<Rightarrow> verr check" where
  "validate_property rec rt d kv =
     bindE (property_schemas d (fst kv)) (\<lambda>found. for_each (\<lambda>child. rec rt child (snd kv)) found)"

definition missing_fields :: "string list \<Rightarrow> json dict \<Rightarrow> bool" where
  "missing_fields fields inst = (\<not> list_all (\<lambda>k. dhas k inst) fields)"

definition check_dependents :: "json dict \<Rightarrow> json \<Rightarrow> verr check" where
  "check_dependents inst v =
     (case v of
        JDict deps \<Rightarrow> for_each (\<lambda>(k, fields).
          if dhas k inst then
            (case str_list fields of None \<Rightarrow> Inl IllFormed
             | Some ss \<Rightarrow> reject_if (missing_fields ss inst) MissingDependents)
          else Inr ()) deps
      | _ \<Rightarrow> Inl IllFormed)"

text \<open>\<open>_validate_object\<close>\<close>

definition validate_object :: "validator \<Rightarrow> json \<Rightarrow> json dict \<Rightarrow> json dict \<Rightarrow> verr check" where
  "validate_object rec rt d inst = checks
     [bindE (string_field ''required'' d) (\<lambda>req. reject_if (missing_fields req inst) MissingFields),
      check_count ''minProperties'' ''maxProperties'' 0 PropertyCount d (length inst),
      for_each (validate_property rec rt d) inst,
      opt_check ''propertyNames'' d (\<lambda>names. for_each (\<lambda>(k, v). rec rt names (JStr k)) inst),
      opt_check ''dependentRequired'' d (check_dependents inst)]"

text \<open>\<open>_validate_array\<close>\<close>

definition check_contains :: "validator \<Rightarrow> json \<Rightarrow> json dict \<Rightarrow> json list \<Rightarrow> json \<Rightarrow> verr check" where
  "check_contains rec rt d xs child =
     bindE (sum_verdicts (map (\<lambda>x. verdict (rec rt child x)) xs)) (\<lambda>n.
       check_count ''minContains'' ''maxContains'' 1 ContainsCount d n)"

definition validate_array :: "validator \<Rightarrow> json \<Rightarrow> json dict \<Rightarrow> json list \<Rightarrow> verr check" where
  "validate_array rec rt d xs = checks
     [check_count ''minItems'' ''maxItems'' 0 ArrayLength d (length xs),
      (case dget ''uniqueItems'' d of
         Some (JBool True) \<Rightarrow> reject_if (has_repeat json_equal [] xs) RepeatedItem
       | None \<Rightarrow> Inr () | Some (JBool False) \<Rightarrow> Inr () | Some _ \<Rightarrow> Inl IllFormed),
      bindE (list_field ''prefixItems'' d) (\<lambda>prefix. checks
        [for_each (\<lambda>(child, x). rec rt child x) (zip prefix xs),
         opt_check ''items'' d (\<lambda>child.
           for_each (\<lambda>x. rec rt child x) (drop (length prefix) xs))]),
      opt_check ''contains'' d (check_contains rec rt d xs)]"

section \<open>One level of validation\<close>

definition check_ref :: "registry \<Rightarrow> validator \<Rightarrow> json \<Rightarrow> json \<Rightarrow> json \<Rightarrow> verr check" where
  "check_ref reg rec rt v reference =
     (case reference of
        JStr r \<Rightarrow>
          (case rt of
             JDict _ \<Rightarrow> bindE (resolve reg r rt) (\<lambda>resolved.
               bindE (reference_root reg r rt) (\<lambda>rt'. rec rt' resolved v))
           | _ \<Rightarrow> Inl (Validation BooleanRoot))
      | _ \<Rightarrow> Inl IllFormed)"

definition check_all_of :: "validator \<Rightarrow> json \<Rightarrow> json \<Rightarrow> json \<Rightarrow> verr check" where
  "check_all_of rec rt v children =
     (case children of JList cs \<Rightarrow> for_each (\<lambda>c. rec rt c v) cs | _ \<Rightarrow> Inl IllFormed)"

definition check_any_of :: "validator \<Rightarrow> json \<Rightarrow> json \<Rightarrow> json \<Rightarrow> verr check" where
  "check_any_of rec rt v children =
     (case children of
        JList cs \<Rightarrow> bindE (any_verdict (map (\<lambda>c. verdict (rec rt c v)) cs)) (\<lambda>b.
          reject_if (\<not> b) NoAnyOf)
      | _ \<Rightarrow> Inl IllFormed)"

definition check_one_of :: "validator \<Rightarrow> json \<Rightarrow> json \<Rightarrow> json \<Rightarrow> verr check" where
  "check_one_of rec rt v children =
     (case children of
        JList cs \<Rightarrow> bindE (sum_verdicts (map (\<lambda>c. verdict (rec rt c v)) cs)) (\<lambda>n.
          reject_if (n \<noteq> 1) OneOfCount)
      | _ \<Rightarrow> Inl IllFormed)"

definition check_not :: "validator \<Rightarrow> json \<Rightarrow> json \<Rightarrow> json \<Rightarrow> verr check" where
  "check_not rec rt v child =
     bindE (verdict (rec rt child v)) (\<lambda>b. reject_if b ForbiddenByNot)"

text \<open>\<open>schema.get(k)\<close>, where JSON null and an absent keyword are both Python's \<open>None\<close>.\<close>

definition optional_schema :: "string \<Rightarrow> json dict \<Rightarrow> json option" where
  "optional_schema k d = (case dget k d of None \<Rightarrow> None | Some JNull \<Rightarrow> None | Some s \<Rightarrow> Some s)"

definition check_if :: "validator \<Rightarrow> json \<Rightarrow> json dict \<Rightarrow> json \<Rightarrow> json \<Rightarrow> verr check" where
  "check_if rec rt d v condition =
     bindE (verdict (rec rt condition v)) (\<lambda>b.
       case optional_schema (if b then ''then'' else ''else'') d of
         None \<Rightarrow> Inr ()
       | Some selected \<Rightarrow> rec rt selected v)"

definition check_enum :: "json \<Rightarrow> json \<Rightarrow> verr check" where
  "check_enum v candidates =
     (case candidates of
        JList cs \<Rightarrow> reject_if (\<not> eq_mem json_equal v cs) NotInEnum
      | _ \<Rightarrow> Inl IllFormed)"

text \<open>The last statement of \<open>validate\<close>: what depends on the kind of the instance.\<close>

definition check_kind :: "validator \<Rightarrow> json \<Rightarrow> json dict \<Rightarrow> json \<Rightarrow> verr check" where
  "check_kind rec rt d v =
     (case v of
        JDict inst \<Rightarrow> validate_object rec rt d inst
      | JList xs \<Rightarrow> validate_array rec rt d xs
      | JStr s \<Rightarrow> validate_string d s
      | _ \<Rightarrow> (case num_of v of None \<Rightarrow> Inr () | Some x \<Rightarrow> validate_number d v x))"

definition validate_dict ::
  "registry \<Rightarrow> validator \<Rightarrow> json \<Rightarrow> json dict \<Rightarrow> json \<Rightarrow> verr check" where
  "validate_dict reg rec rt d v = checks
     [opt_check ''$ref'' d (check_ref reg rec rt v),
      opt_check ''allOf'' d (check_all_of rec rt v),
      opt_check ''anyOf'' d (check_any_of rec rt v),
      opt_check ''oneOf'' d (check_one_of rec rt v),
      opt_check ''not'' d (check_not rec rt v),
      opt_check ''if'' d (check_if rec rt d v),
      opt_check ''const'' d (\<lambda>c. reject_if (\<not> json_equal v c) NotConst),
      opt_check ''enum'' d (check_enum v),
      opt_check ''type'' d (validate_type v),
      check_kind rec rt d v]"

definition validate_step :: "registry \<Rightarrow> validator \<Rightarrow> validator" where
  "validate_step reg rec rt schema v =
     (case schema of
        JBool b \<Rightarrow> reject_if (\<not> b) FalseSchema
      | JDict d \<Rightarrow> validate_dict reg rec rt d v
      | _ \<Rightarrow> Inl IllFormed)"

fun validate_in :: "registry \<Rightarrow> nat \<Rightarrow> validator" where
  "validate_in reg 0 rt schema v = Inl RecursionError"
| "validate_in reg (Suc n) rt schema v =
     validate_step reg (validate_in reg n) rt schema v"

text \<open>\<open>validate(instance, schema, registry)\<close>: the schema is checked first and is its own root.\<close>

definition validate :: "registry \<Rightarrow> nat \<Rightarrow> json \<Rightarrow> json \<Rightarrow> verr check" where
  "validate reg n schema v =
     (case schema of
        JBool b \<Rightarrow> reject_if (\<not> b) FalseSchema
      | _ \<Rightarrow> checks [sdef schema, validate_in reg n schema schema v])"

end
