(* ===== verification/Contract_Model.thy ===== *)
theory Contract_Model
  imports Schema_Validator
begin

text \<open>
  The shared schema builders of internal/contracts/codegen/model.py. A builder returns the Python
  dictionary it builds, as a JSON document. Keyword arguments with a default are the fields of a
  record (\<open>string_args\<close>) or optional arguments; \<open>None\<close> is Python's \<open>None\<close>.
\<close>

section \<open>Constants\<close>

text \<open>A backslash followed by a string, for the escapes of a pattern.\<close>

definition esc :: "string \<Rightarrow> string" where
  "esc s = CHR 0x5C # s"

definition schema_dialect :: string where
  "schema_dialect = ''https://json-schema.org/draft/2020-12/schema''"

definition contract_base :: string where
  "contract_base = ''https://jumpship.dev/contracts/''"

definition generator :: string where
  "generator = ''internal/contracts/codegen/generate.py''"

definition schema_version :: string where
  "schema_version = ''1.0.0''"

definition data_classes :: "string list" where
  "data_classes =
     [''public'', ''internal_operational'', ''identity_tenant'', ''shared_migration'',
      ''restricted_customer'', ''credential_secret'', ''security_material'']"

definition hash_pattern :: string where
  "hash_pattern = ''^[0-9a-f]{64}$''"

definition uuid_pattern :: string where
  "uuid_pattern = ''^[0-9a-f]{8}-[0-9a-f]{4}-7[0-9a-f]{3}-[89ab][0-9a-f]{3}-[0-9a-f]{12}$''"

definition semver_pattern :: string where
  "semver_pattern =
     ''^(?:0|[1-9][0-9]*)'' @ esc ''.(?:0|[1-9][0-9]*)'' @ esc ''.(?:0|[1-9][0-9]*)'' @
     ''(?:-[0-9A-Za-z.-]+)?$''"

definition rfc3339_pattern :: string where
  "rfc3339_pattern =
     ''^[0-9]{4}-[0-9]{2}-[0-9]{2}T[0-9]{2}:[0-9]{2}:[0-9]{2}(?:'' @ esc ''.[0-9]{1,9})?Z$''"

section \<open>Scalar builders\<close>

text \<open>\<open>if value is not None: result[key] = value\<close>\<close>

definition set_opt :: "string \<Rightarrow> json option \<Rightarrow> json dict \<Rightarrow> json dict" where
  "set_opt k v d = (case v of None \<Rightarrow> d | Some x \<Rightarrow> dset k x d)"

abbreviation jstrs :: "string list \<Rightarrow> json" where
  "jstrs ss \<equiv> JList (map JStr ss)"

abbreviation const_schema :: "json \<Rightarrow> json" where
  "const_schema c \<equiv> JDict [(''const'', c)]"

abbreviation null_schema :: json where
  "null_schema \<equiv> JDict [(''type'', JStr ''null'')]"

record string_args =
  s_enum :: "string list option"
  s_const :: "string option"
  s_pattern :: "string option"
  s_fmt :: "string option"
  s_min_length :: "int option"
  s_max_length :: "int option"
  s_description :: "string option"

definition no_args :: string_args where
  "no_args = \<lparr>s_enum = None, s_const = None, s_pattern = None, s_fmt = None,
     s_min_length = None, s_max_length = None, s_description = None\<rparr>"

definition s_string :: "string_args \<Rightarrow> json" where
  "s_string a = JDict
     (set_opt ''description'' (map_option JStr (s_description a))
     (set_opt ''maxLength'' (map_option JInt (s_max_length a))
     (set_opt ''minLength'' (map_option JInt (s_min_length a))
     (set_opt ''format'' (map_option JStr (s_fmt a))
     (set_opt ''pattern'' (map_option JStr (s_pattern a))
     (set_opt ''const'' (map_option JStr (s_const a))
     (set_opt ''enum'' (map_option jstrs (s_enum a))
        [(''type'', JStr ''string'')])))))))"

definition s_integer :: "int option \<Rightarrow> int option \<Rightarrow> json" where
  "s_integer minimum maximum = JDict
     (set_opt ''maximum'' (map_option JInt maximum)
     (set_opt ''minimum'' (map_option JInt minimum) [(''type'', JStr ''integer'')]))"

definition s_number :: "pyfloat option \<Rightarrow> pyfloat option \<Rightarrow> json" where
  "s_number minimum maximum = JDict
     (set_opt ''maximum'' (map_option JFloat maximum)
     (set_opt ''minimum'' (map_option JFloat minimum) [(''type'', JStr ''number'')]))"

definition s_boolean :: json where
  "s_boolean = JDict [(''type'', JStr ''boolean'')]"

section \<open>Arrays, objects, references\<close>

definition s_array :: "json \<Rightarrow> int \<Rightarrow> int \<Rightarrow> bool \<Rightarrow> json" where
  "s_array items min_items max_items unique = JDict
     ([(''type'', JStr ''array''), (''items'', items), (''minItems'', JInt min_items),
       (''maxItems'', JInt max_items)] @ (if unique then [(''uniqueItems'', JBool True)] else []))"

definition s_object :: "json dict \<Rightarrow> string list \<Rightarrow> bool \<Rightarrow> json" where
  "s_object properties required additional = JDict
     [(''type'', JStr ''object''), (''additionalProperties'', JBool additional),
      (''required'', jstrs required), (''properties'', JDict properties)]"

definition nullable :: "json \<Rightarrow> json" where
  "nullable value = JDict [(''anyOf'', JList [value, null_schema])]"

definition ref :: "string \<Rightarrow> json" where
  "ref path = JDict [(''$ref'', JStr (contract_base @ path))]"

text \<open>\<open>{**value, ...}\<close> and \<open>value[key] = entry\<close> on a schema that is a dictionary.\<close>

definition members :: "json \<Rightarrow> json dict" where
  "members value = (case value of JDict d \<Rightarrow> d | _ \<Rightarrow> [])"

definition with_member :: "string \<Rightarrow> json \<Rightarrow> json \<Rightarrow> json" where
  "with_member key entry value = JDict (dset key entry (members value))"

section \<open>Documents\<close>

text \<open>\<open>MissingKey\<close> is the \<open>KeyError\<close> of a lookup in one of the generator's own tables.\<close>

datatype build_error = BadSchemaPath | UnknownDataClass | InvalidFlowIds | MissingKey

definition flow_pattern :: string where
  "flow_pattern = ''F(?:0[1-9]|1[0-9]|2[0-8])''"

text \<open>\<open>re.fullmatch(pattern, s) is not None\<close>, for a pattern of the program text.\<close>

definition full_match :: "string \<Rightarrow> string \<Rightarrow> bool" where
  "full_match p s = (case re_compile p of None \<Rightarrow> False | Some r \<Rightarrow> re_fullmatch r s)"

record document =
  d_path :: string
  d_title :: string
  d_properties :: "json dict"
  d_required :: "string list"
  d_data_class :: string
  d_max_bytes :: int
  d_flow_ids :: "string list"
  d_description :: string
  d_all_of :: "json list option"
  d_definitions :: "json dict option"
  d_version :: string

text \<open>The keywords of the document; a \<open>None\<close> or empty \<open>all_of\<close> or \<open>definitions\<close> adds none.\<close>

definition document_keywords :: "document \<Rightarrow> json dict" where
  "document_keywords a =
     [(''$schema'', JStr schema_dialect),
      (''$id'', JStr (contract_base @ d_path a)),
      (''title'', JStr (d_title a)),
      (''description'', JStr (d_description a)),
      (''type'', JStr ''object''),
      (''additionalProperties'', JBool False),
      (''required'', jstrs (''schema_version'' # d_required a)),
      (''properties'', JDict
        (dupdate [(''schema_version'', JDict [(''const'', JStr (d_version a))])] (d_properties a))),
      (''x-generated-by'', JStr generator),
      (''x-jumpship-data-class'', JStr (d_data_class a)),
      (''x-jumpship-flow-ids'', jstrs (d_flow_ids a)),
      (''x-jumpship-max-bytes'', JInt (d_max_bytes a)),
      (''x-jumpship-compatibility'', JStr ''additive-with-versioned-breaking-change'')] @
     (case d_all_of a of None \<Rightarrow> [] | Some [] \<Rightarrow> [] | Some cs \<Rightarrow> [(''allOf'', JList cs)]) @
     (case d_definitions a of None \<Rightarrow> [] | Some [] \<Rightarrow> [] | Some ds \<Rightarrow> [(''$defs'', JDict ds)])"

definition schema :: "document \<Rightarrow> build_error + json" where
  "schema a =
     (if \<not> ends_with (d_path a) ''.schema.json'' then Inl BadSchemaPath
      else if d_data_class a \<notin> set data_classes then Inl UnknownDataClass
      else if d_flow_ids a = [] \<or> \<not> list_all (full_match flow_pattern) (d_flow_ids a)
      then Inl InvalidFlowIds
      else Inr (JDict (document_keywords a)))"

section \<open>Common fields\<close>

definition hash_field :: json where
  "hash_field = s_string (no_args\<lparr>s_pattern := Some hash_pattern\<rparr>)"

definition timestamp_field :: json where
  "timestamp_field =
     s_string (no_args\<lparr>s_pattern := Some rfc3339_pattern, s_fmt := Some ''date-time''\<rparr>)"

definition uuid_field :: json where
  "uuid_field = s_string (no_args\<lparr>s_pattern := Some uuid_pattern\<rparr>)"

definition common_identity_properties :: "bool \<Rightarrow> json dict" where
  "common_identity_properties include_operation =
     [(''workspace_id'', uuid_field),
      (''migration_id'', uuid_field),
      (''cell_id'', uuid_field),
      (''cell_generation'', s_integer (Some 1) None),
      (''causation_id'', uuid_field),
      (''correlation_id'', uuid_field)] @
     (if include_operation then [(''operation_id'', uuid_field)] else [])"

end
