(* ===== verification/Schema_Facts.thy ===== *)
theory Schema_Facts
  imports Validator_Fuel Contract_Model
begin

text \<open>
  What an accepted instance satisfies. \<open>accepted reg rt s v\<close> says that some recursion limit lets
  the validator accept \<open>v\<close> against the sub-schema \<open>s\<close> of the document \<open>rt\<close>. Each keyword has one
  elimination law, which the theorems on concrete contracts use as their only access to the
  validator. The last section characterises the patterned fields of the contracts.
\<close>

section \<open>Acceptance\<close>

definition accepted :: "registry \<Rightarrow> json \<Rightarrow> json \<Rightarrow> json \<Rightarrow> bool" where
  "accepted reg rt s v \<longleftrightarrow> (\<exists>n. validate_in reg n rt s v = Inr ())"

lemma accepted_JDict:
  "accepted reg rt (JDict d) v \<longleftrightarrow> (\<exists>n. validate_dict reg (validate_in reg n) rt d v = Inr ())"
proof
  assume "accepted reg rt (JDict d) v"
  then obtain n where "validate_in reg n rt (JDict d) v = Inr ()" by (auto simp: accepted_def)
  then show "\<exists>n. validate_dict reg (validate_in reg n) rt d v = Inr ()"
    by (cases n) (auto simp: validate_step_def)
next
  assume "\<exists>n. validate_dict reg (validate_in reg n) rt d v = Inr ()"
  then obtain n where "validate_dict reg (validate_in reg n) rt d v = Inr ()" by blast
  then have "validate_in reg (Suc n) rt (JDict d) v = Inr ()" by (simp add: validate_step_def)
  then show "accepted reg rt (JDict d) v" unfolding accepted_def by blast
qed

lemma acceptedI: "validate_in reg n rt s v = Inr () \<Longrightarrow> accepted reg rt s v"
  by (auto simp: accepted_def)

lemma validate_accepted: "validate reg n (JDict d) v = Inr () \<Longrightarrow> accepted reg (JDict d) (JDict d) v"
  by (rule acceptedI [of reg n]) (simp add: validate_def)

lemma validate_in_agree:
  assumes "validate_in reg n rt s v \<noteq> Inl RecursionError" "accepted reg rt s v"
  shows "validate_in reg n rt s v = Inr ()"
proof -
  from assms(2) obtain m where m: "validate_in reg m rt s v = Inr ()" unfolding accepted_def by blast
  from validator.agree [of reg n "(rt, s, v)" m] assms(1)
  have "validate_in reg n rt s v = validate_in reg m rt s v"
    unfolding prod.case m by simp
  with m show ?thesis by simp
qed

lemma verdict_True: "verdict r = Inr True \<longleftrightarrow> r = Inr ()"
  by (cases r rule: verdict.cases) auto

lemma verdict_agree:
  assumes "verdict (validate_in reg n rt s v) = Inr b"
  shows "b \<longleftrightarrow> accepted reg rt s v"
proof
  assume b
  with assms show "accepted reg rt s v" by (auto simp: verdict_True intro: acceptedI)
next
  assume acc: "accepted reg rt s v"
  from assms have "validate_in reg n rt s v \<noteq> Inl RecursionError" by auto
  from validate_in_agree [OF this acc] assms show b by simp
qed

lemma sum_verdicts_one:
  "sum_verdicts vs = Inr n \<Longrightarrow> 0 < n \<Longrightarrow> Inr True \<in> set vs"
  by (induction vs arbitrary: n) (auto simp: bindE_Inr split: if_splits)

lemma any_verdict_True: "any_verdict vs = Inr True \<Longrightarrow> Inr True \<in> set vs"
  by (induction vs) (auto simp: bindE_Inr split: if_splits)

section \<open>Keyword by keyword\<close>

lemma accepted_all_of:
  assumes "accepted reg rt (JDict d) v" "dget ''allOf'' d = Some (JList cs)" "c \<in> set cs"
  shows "accepted reg rt c v"
  using assms by (auto simp: accepted_JDict validate_dict_def check_all_of_def intro: acceptedI)

lemma accepted_one_of:
  assumes "accepted reg rt (JDict d) v" "dget ''oneOf'' d = Some (JList cs)"
  shows "\<exists>c \<in> set cs. accepted reg rt c v"
proof -
  from assms obtain n where
    "sum_verdicts (map (\<lambda>c. verdict (validate_in reg n rt c v)) cs) = Inr 1"
    by (auto simp: accepted_JDict validate_dict_def check_one_of_def bindE_Inr)
  from sum_verdicts_one [OF this] obtain c where
    "c \<in> set cs" "verdict (validate_in reg n rt c v) = Inr True" by auto
  then show ?thesis by (auto simp: verdict_True intro: acceptedI)
qed

lemma accepted_any_of:
  assumes "accepted reg rt (JDict d) v" "dget ''anyOf'' d = Some (JList cs)"
  shows "\<exists>c \<in> set cs. accepted reg rt c v"
proof -
  from assms obtain n where
    "any_verdict (map (\<lambda>c. verdict (validate_in reg n rt c v)) cs) = Inr True"
    by (auto simp: accepted_JDict validate_dict_def check_any_of_def bindE_Inr)
  from any_verdict_True [OF this] obtain c where
    "c \<in> set cs" "verdict (validate_in reg n rt c v) = Inr True" by auto
  then show ?thesis by (auto simp: verdict_True intro: acceptedI)
qed

lemma accepted_if:
  assumes "accepted reg rt (JDict d) v" "dget ''if'' d = Some c"
  shows "accepted reg rt c v \<Longrightarrow> optional_schema ''then'' d = Some t \<Longrightarrow> accepted reg rt t v"
    and "\<not> accepted reg rt c v \<Longrightarrow> optional_schema ''else'' d = Some t \<Longrightarrow> accepted reg rt t v"
proof -
  from assms obtain n b where b: "verdict (validate_in reg n rt c v) = Inr b" and
    sel: "(case optional_schema (if b then ''then'' else ''else'') d of
        None \<Rightarrow> Inr () | Some s \<Rightarrow> validate_in reg n rt s v) = Inr ()"
    by (auto simp: accepted_JDict validate_dict_def check_if_def bindE_Inr)
  from verdict_agree [OF b] sel
  show "accepted reg rt c v \<Longrightarrow> optional_schema ''then'' d = Some t \<Longrightarrow> accepted reg rt t v"
    and "\<not> accepted reg rt c v \<Longrightarrow> optional_schema ''else'' d = Some t \<Longrightarrow> accepted reg rt t v"
    by (auto intro: acceptedI)
qed

lemma accepted_const:
  "accepted reg rt (JDict d) v \<Longrightarrow> dget ''const'' d = Some c \<Longrightarrow> json_equal v c"
  by (auto simp: accepted_JDict validate_dict_def)

lemma accepted_enum:
  "accepted reg rt (JDict d) v \<Longrightarrow> dget ''enum'' d = Some (JList cs) \<Longrightarrow> eq_mem json_equal v cs"
  by (auto simp: accepted_JDict validate_dict_def check_enum_def)

lemma accepted_type:
  "accepted reg rt (JDict d) v \<Longrightarrow> dget ''type'' d = Some (JStr t) \<Longrightarrow> has_type v t"
  by (auto simp: accepted_JDict validate_dict_def validate_type_def)

lemma str_list_jstrs [simp]: "str_list (jstrs ss) = Some ss"
  by (simp add: str_list_def list_all_iff comp_def)

lemma accepted_required:
  "accepted reg rt (JDict d) (JDict i) \<Longrightarrow> dget ''required'' d = Some (jstrs ks) \<Longrightarrow> k \<in> set ks \<Longrightarrow>
    \<exists>x. dget k i = Some x"
  by (auto simp: accepted_JDict validate_dict_def check_kind_def validate_object_def string_field_def
      missing_fields_def list_all_iff dhas_def)

lemma accepted_property:
  assumes "accepted reg rt (JDict d) (JDict i)" "dget ''properties'' d = Some (JDict ps)"
    and "dget k ps = Some c" "dget k i = Some x"
  shows "accepted reg rt c x"
proof -
  from assms(1) obtain n where
    "\<forall>kv \<in> set i. validate_property (validate_in reg n) rt d kv = Inr ()"
    by (auto simp: accepted_JDict validate_dict_def check_kind_def validate_object_def)
  with dget_mem [OF assms(4)] have "validate_property (validate_in reg n) rt d (k, x) = Inr ()"
    by blast
  with assms(2,3) show ?thesis
    by (auto simp: validate_property_def property_schemas_def dict_field_def bindE_Inr intro: acceptedI)
qed

lemma accepted_closed:
  assumes "accepted reg rt (JDict d) (JDict i)" "dget ''properties'' d = Some (JDict ps)"
    and "dget ''additionalProperties'' d = Some (JBool False)" "dget ''patternProperties'' d = None"
    and "dget k i = Some x"
  shows "\<exists>c. dget k ps = Some c"
proof -
  from assms(1) obtain n where
    "\<forall>kv \<in> set i. validate_property (validate_in reg n) rt d kv = Inr ()"
    by (auto simp: accepted_JDict validate_dict_def check_kind_def validate_object_def)
  with dget_mem [OF assms(5)] have "validate_property (validate_in reg n) rt d (k, x) = Inr ()"
    by blast
  with assms(2-4) show ?thesis
    by (auto simp: validate_property_def property_schemas_def dict_field_def bindE_Inr
        split: option.splits)
qed

lemma accepted_pattern:
  assumes "accepted reg rt (JDict d) (JStr s)" "dget ''pattern'' d = Some (JStr p)"
    and "re_compile p = Some r"
  shows "re_search r s"
  using assms
  by (auto simp: accepted_JDict validate_dict_def check_kind_def validate_string_def pattern_found_def
      bindE_Inr)

lemma accepted_minimum:
  assumes "accepted reg rt (JDict d) v" "num_of v = Some x" "dget ''minimum'' d = Some m"
    and "num_of m = Some y"
  shows "\<not> num_less x y"
proof -
  from assms(2) have "\<And>rec. check_kind rec rt d v = validate_number d v x"
    by (cases v) (auto simp: check_kind_def)
  with assms show ?thesis
    by (auto simp: accepted_JDict validate_dict_def validate_number_def check_range_def bound_def
        bindE_Inr split: if_splits)
qed

lemma accepted_maximum:
  assumes "accepted reg rt (JDict d) v" "num_of v = Some x" "dget ''maximum'' d = Some m"
    and "num_of m = Some y"
  shows "\<not> num_less y x"
proof -
  from assms(2) have "\<And>rec. check_kind rec rt d v = validate_number d v x"
    by (cases v) (auto simp: check_kind_def)
  with assms show ?thesis
    by (auto simp: accepted_JDict validate_dict_def validate_number_def check_range_def bound_def
        bindE_Inr split: if_splits)
qed

section \<open>The shapes the contracts use\<close>

lemma json_equal_str [simp]: "json_equal v (JStr s) \<longleftrightarrow> v = JStr s"
  by (cases v) auto

lemma json_equal_bool [simp]: "json_equal v (JBool b) \<longleftrightarrow> v = JBool b"
  by (cases v) auto

lemma json_equal_null [simp]: "json_equal v JNull \<longleftrightarrow> v = JNull"
  by (cases v) auto

lemma accepted_const_schema: "accepted reg rt (const_schema c) v \<Longrightarrow> json_equal v c"
  using accepted_const [of reg rt "[(''const'', c)]" v c] by simp

lemma accepted_const_str [simp]: "accepted reg rt (const_schema (JStr c)) v \<longleftrightarrow> v = JStr c"
proof
  show "accepted reg rt (const_schema (JStr c)) v \<Longrightarrow> v = JStr c"
    by (drule accepted_const_schema) simp
  show "v = JStr c \<Longrightarrow> accepted reg rt (const_schema (JStr c)) v"
    by (auto simp: accepted_JDict validate_dict_def check_kind_def validate_string_def check_count_def
        check_range_def bound_def opt_check_def bindE_Inr)
qed

lemma accepted_const_bool [simp]: "accepted reg rt (const_schema (JBool c)) v \<longleftrightarrow> v = JBool c"
proof
  show "accepted reg rt (const_schema (JBool c)) v \<Longrightarrow> v = JBool c"
    by (drule accepted_const_schema) simp
  show "v = JBool c \<Longrightarrow> accepted reg rt (const_schema (JBool c)) v"
    by (auto simp: accepted_JDict validate_dict_def check_kind_def opt_check_def)
qed

lemma accepted_const_int: "accepted reg rt (const_schema (JInt c)) v \<Longrightarrow> num_of v = Some (Fin (of_int c))"
  by (drule accepted_const_schema) (cases v; auto split: option.splits elim: num_eq.elims)

lemma accepted_null_schema: "accepted reg rt null_schema v \<Longrightarrow> v = JNull"
  using accepted_type [of reg rt "[(''type'', JStr ''null'')]" v "''null''"] by (simp add: has_type_def)

lemma accepted_nullable:
  "accepted reg rt (nullable s) v \<Longrightarrow> v = JNull \<or> accepted reg rt s v"
  using accepted_any_of [of reg rt "[(''anyOf'', JList [s, null_schema])]" v "[s, null_schema]"]
  by (auto simp: nullable_def dest: accepted_null_schema)

end
