(* ===== verification/Field_Patterns.thy ===== *)
theory Field_Patterns
  imports Schema_Facts
begin

text \<open>
  The patterned fields of the contracts under the validator's \<open>re.search\<close>: exactly which strings
  the hash field admits.
\<close>

section \<open>The hash field\<close>

definition is_lower_hex :: "char \<Rightarrow> bool" where
  "is_lower_hex c = (is_digit c \<or> (97 \<le> (of_char c :: nat) \<and> (of_char c :: nat) \<le> 102))"

definition lower_hex :: "nat \<Rightarrow> string \<Rightarrow> bool" where
  "lower_hex n s = (length s = n \<and> list_all is_lower_hex s)"

definition hex_set :: cset where
  "hex_set = CSet False [(CHR ''0'', CHR ''9''), (CHR ''a'', CHR ''f'')]"

definition hash_re :: re where
  "hash_re = RRep (RSet hex_set) 64 (Some 64)"

lemma in_hex_set: "in_cset hex_set c \<longleftrightarrow> is_lower_hex c"
  by (simp add: in_cset_def hex_set_def is_lower_hex_def is_digit_def less_eq_char_def)

lemma compile_hash: "re_compile hash_pattern = Some (RSeq RBegin (RSeq hash_re REol))"
  by code_simp

lemma den_hash_re: "den hash_re b u t \<longleftrightarrow> lower_hex 64 u"
  unfolding hash_re_def den_set_rep lower_hex_def by (auto simp: list_all_iff in_hex_set)

lemma hash_search:
  "re_search (RSeq RBegin (RSeq hash_re REol)) s \<longleftrightarrow>
    lower_hex 64 s \<or> (\<exists>u. s = u @ [newline] \<and> lower_hex 64 u)"
  unfolding search_anchored den_hash_re by blast

lemma hash_field_fields: "hash_field = JDict [(''type'', JStr ''string''), (''pattern'', JStr hash_pattern)]"
  by (simp add: hash_field_def s_string_def no_args_def set_opt_def)

lemma hash_field_wf: "sdef hash_field = Inr ()"
  by code_simp

lemma validate_hash_step:
  "validate_step reg rec rt hash_field v = Inr () \<longleftrightarrow>
    (\<exists>s. v = JStr s \<and> re_search (RSeq RBegin (RSeq hash_re REol)) s)"
  unfolding hash_field_fields validate_step_def
  by (cases v) (auto simp: validate_dict_def validate_type_def has_type_def check_kind_def
      validate_string_def check_count_def check_range_def bound_def pattern_found_def compile_hash
      bindE_Inr)

text \<open>
  C34: the validator accepts for a hash field the strings of 64 lower-case hexadecimal digits, and
  also each of them followed by one newline, because \<open>re.search\<close> lets \<open>$\<close> match before a final
  newline.
\<close>

theorem hash_field_accepts:
  "validate reg (Suc n) hash_field v = Inr () \<longleftrightarrow>
    (\<exists>s. v = JStr s \<and> (lower_hex 64 s \<or> (\<exists>u. s = u @ [newline] \<and> lower_hex 64 u)))"
proof -
  have "validate reg (Suc n) hash_field v = checks [sdef hash_field, validate_in reg (Suc n) hash_field hash_field v]"
    by (simp add: validate_def hash_field_fields)
  then show ?thesis
    by (simp add: hash_field_wf validate_hash_step hash_search)
qed

text \<open>Inside a contract: what a hash field lets through.\<close>

definition hash_like :: "json \<Rightarrow> bool" where
  "hash_like v = (case v of
     JStr s \<Rightarrow> lower_hex 64 s \<or> (s \<noteq> [] \<and> last s = newline \<and> lower_hex 64 (butlast s)) | _ \<Rightarrow> False)"

lemma accepted_hash: "accepted reg rt hash_field v \<longleftrightarrow> hash_like v"
proof -
  have "accepted reg rt hash_field v \<longleftrightarrow>
      (\<exists>n. validate_step reg (validate_in reg n) rt hash_field v = Inr ())"
    unfolding hash_field_fields accepted_JDict validate_step_def by simp
  also have "\<dots> \<longleftrightarrow> (\<exists>s. v = JStr s \<and> re_search (RSeq RBegin (RSeq hash_re REol)) s)"
    unfolding validate_hash_step by simp
  also have "\<dots> \<longleftrightarrow> hash_like v"
    unfolding hash_search hash_like_def
    by (cases v) (auto, metis append_butlast_last_id)
  finally show ?thesis .
qed

section \<open>What a pattern means\<close>

text \<open>
  A pattern matches a string exactly when the string has a part, at the position where it stands,
  in the declarative meaning of the compiled pattern; the matcher neither misses nor invents a match.
\<close>

theorem pattern_found_meaning:
  "pattern_found p s =
    (case re_compile p of
       None \<Rightarrow> Inl RegexError
     | Some r \<Rightarrow> Inr (\<exists>before part after. s = before @ part @ after \<and> den r (before = []) part after))"
  by (simp add: pattern_found_def re_search_iff split: option.split)

end
