(* ===== verification/Workflow_Schemas.thy ===== *)
theory Workflow_Schemas
  imports Workflow_Tables Field_Patterns
begin

text \<open>
  The state-machine contracts of internal/contracts/codegen/core_contracts.py: the shared helpers,
  \<open>_edge_constraints\<close>, \<open>_state_machine_schema\<close>, \<open>_traffic_edge_constraints\<close> and one declaration for
  each machine. The keyword arguments of \<open>_state_machine_schema\<close> are the record \<open>machine\<close>, where an
  absent table of extra properties or extra constraints is the empty one (the source treats both
  alike). A lookup the source makes in one of its tables is \<open>MissingKey\<close> when it fails.
\<close>

section \<open>Helpers\<close>

definition base64_pattern :: string where
  "base64_pattern =
     ''^(?:[A-Za-z0-9+/]{4})*'' @ ''(?:[A-Za-z0-9+/]{2}==|[A-Za-z0-9+/]{3}=)?$''"

definition safe_name_pattern :: string where
  "safe_name_pattern = ''^[a-z][a-z0-9_.-]{0,127}$''"

definition operation_id_pattern :: string where
  "operation_id_pattern = ''^[a-z][A-Za-z0-9_.-]{0,127}$''"

definition safe_reason_pattern :: string where
  "safe_reason_pattern = ''^[a-z][a-z0-9_.-]{0,95}$''"

definition aws_region_pattern :: string where
  "aws_region_pattern = ''^[a-z]{2}(?:-gov)?-[a-z]+-[1-9][0-9]*$''"

definition serial_pattern :: string where
  "serial_pattern = ''^(?:0[1-9a-f]|[1-9a-f])[0-9a-f]{0,39}$''"

definition spiffe_cell_pattern :: string where
  "spiffe_cell_pattern =
     ''^spiffe://jumpship/cells/[0-9a-f]{8}-[0-9a-f]{4}-7[0-9a-f]{3}-'' @
     ''[89ab][0-9a-f]{3}-[0-9a-f]{12}/generations/[1-9][0-9]*$''"

definition uuid_id :: json where
  "uuid_id = s_string (no_args\<lparr>s_pattern := Some uuid_pattern\<rparr>)"

definition hashes :: "int \<Rightarrow> int \<Rightarrow> json" where
  "hashes min_items max_items = s_array hash_field min_items max_items True"

definition safe_names :: "int \<Rightarrow> int \<Rightarrow> json" where
  "safe_names min_items max_items = s_array
     (s_string (no_args\<lparr>s_pattern := Some safe_name_pattern, s_max_length := Some 128\<rparr>))
     min_items max_items True"

definition nullable_id :: json where
  "nullable_id = nullable uuid_id"

definition nullable_hash :: json where
  "nullable_hash = nullable hash_field"

definition nullable_timestamp :: json where
  "nullable_timestamp = nullable timestamp_field"

definition identity_required :: "bool \<Rightarrow> string list" where
  "identity_required include_operation =
     [''workspace_id'', ''migration_id'', ''cell_id'', ''cell_generation'', ''causation_id'',
      ''correlation_id''] @ (if include_operation then [''operation_id''] else [])"

section \<open>Transition envelopes\<close>

type_synonym domains = "((string \<times> string) \<times> string) list"

definition edge_properties :: "domains option \<Rightarrow> string \<times> string \<Rightarrow> build_error + json dict" where
  "edge_properties domains edge =
     (let properties = [(''from_state'', const_schema (JStr (fst edge))),
                        (''to_state'', const_schema (JStr (snd edge)))] in
      case domains of
        None \<Rightarrow> Inr properties
      | Some ds \<Rightarrow> (case dget edge ds of
           None \<Rightarrow> Inl MissingKey
         | Some dimension \<Rightarrow> Inr (dset ''state_dimension'' (const_schema (JStr dimension)) properties)))"

text \<open>\<open>{"properties": properties, "required": list(properties)}\<close>\<close>

definition all_required :: "json dict \<Rightarrow> json" where
  "all_required properties =
     JDict [(''properties'', JDict properties), (''required'', jstrs (dkeys properties))]"

definition edge_constraints :: "edges \<Rightarrow> domains option \<Rightarrow> build_error + json list" where
  "edge_constraints es domains =
     mapE (\<lambda>edge. bindE (edge_properties domains edge) (\<lambda>ps. Inr (all_required ps))) es"

record machine =
  m_path :: string
  m_title :: string
  m_machine :: string
  m_states :: "string list"
  m_edges :: edges
  m_data_class :: string
  m_flow_ids :: "string list"
  m_extra_properties :: "json dict"
  m_extra_required :: "string list"
  m_extra_all_of :: "json list"
  m_domains :: "domains option"

definition envelope_properties :: "machine \<Rightarrow> json dict" where
  "envelope_properties m = dupdate (common_identity_properties False)
     [(''transition_id'', uuid_id),
      (''machine'', s_string (no_args\<lparr>s_const := Some (m_machine m)\<rparr>)),
      (''from_state'', s_string (no_args\<lparr>s_enum := Some (m_states m)\<rparr>)),
      (''to_state'', s_string (no_args\<lparr>s_enum := Some (m_states m)\<rparr>)),
      (''expected_version'', s_integer (Some 0) None),
      (''resulting_version'', s_integer (Some 1) None),
      (''version_increment'', s_integer (Some 1) (Some 1)),
      (''idempotency_key_hash'', hash_field),
      (''authorization_root_hash'', hash_field),
      (''evidence_roots'', hashes 0 64),
      (''actor_type'', s_string
        (no_args\<lparr>s_enum := Some [''human'', ''service'', ''provider'', ''system'']\<rparr>)),
      (''reason_code'', s_string
        (no_args\<lparr>s_pattern := Some safe_reason_pattern, s_max_length := Some 96\<rparr>)),
      (''occurred_at'', timestamp_field)]"

definition machine_properties :: "machine \<Rightarrow> json dict" where
  "machine_properties m =
     (let properties = envelope_properties m;
          properties = (case m_domains m of
             None \<Rightarrow> properties
           | Some ds \<Rightarrow> dset ''state_dimension''
               (s_string (no_args\<lparr>s_enum := Some (sort (remdups (map snd ds)))\<rparr>)) properties)
      in dupdate properties (m_extra_properties m))"

definition machine_required :: "machine \<Rightarrow> string list" where
  "machine_required m =
     identity_required False @
     [''transition_id'', ''machine'', ''from_state'', ''to_state'', ''expected_version'',
      ''resulting_version'', ''version_increment'', ''idempotency_key_hash'',
      ''authorization_root_hash'', ''evidence_roots'', ''actor_type'', ''reason_code'',
      ''occurred_at''] @
     (if m_domains m \<noteq> None then [''state_dimension''] else []) @ m_extra_required m"

definition machine_document :: "machine \<Rightarrow> json list \<Rightarrow> document" where
  "machine_document m constraints =
     \<lparr>d_path = m_path m, d_title = m_title m,
      d_properties = machine_properties m, d_required = machine_required m,
      d_data_class = m_data_class m, d_max_bytes = 131072, d_flow_ids = m_flow_ids m,
      d_description =
        ''Closed '' @ m_machine m @
        '' transition envelope. The schema enumerates every legal edge; '' @
        ''unknown states, same-state rewrites, and unlisted edges are rejected.'',
      d_all_of = Some (JDict [(''oneOf'', JList constraints)] # m_extra_all_of m),
      d_definitions = None, d_version = schema_version\<rparr>"

definition state_machine_schema :: "machine \<Rightarrow> build_error + json" where
  "state_machine_schema m =
     bindE (edge_constraints (m_edges m) (m_domains m)) (\<lambda>cs. schema (machine_document m cs))"

section \<open>Traffic edges\<close>

text \<open>\<open>if b: properties.update(extra)\<close>, for extra assignments to fixed keys.\<close>

definition update_when :: "bool \<Rightarrow> json dict \<Rightarrow> json dict \<Rightarrow> json dict" where
  "update_when b extra properties = (if b then dupdate properties extra else properties)"

definition traffic_base_properties :: "string \<Rightarrow> string \<Rightarrow> string \<Rightarrow> string \<Rightarrow> json dict" where
  "traffic_base_properties from_state to_state from_authority to_authority =
     (let authority_changed = (from_authority \<noteq> to_authority) in
     [(''from_state'', const_schema (JStr from_state)),
      (''to_state'', const_schema (JStr to_state)),
      (''from_application_authority'', const_schema (JStr from_authority)),
      (''to_application_authority'', const_schema (JStr to_authority)),
      (''application_authority_epoch_increment'',
        const_schema (JInt (if authority_changed then 1 else 0))),
      (''authority_epoch_transition'',
        const_schema (JStr (if authority_changed then ''advanced_once'' else ''unchanged''))),
      (''source_application_writes_enabled'', const_schema (JBool (to_authority = ''source''))),
      (''target_application_writes_enabled'', const_schema (JBool (to_authority = ''target''))),
      (''attribution_status'', const_schema (JStr ''clear'')),
      (''cohort_activation_receipt_root_hash'', null_schema),
      (''reverse_health_root_hash'', null_schema),
      (''source_fence_receipt_hash'', null_schema),
      (''target_fence_receipt_hash'', null_schema),
      (''source_denial_canary_root_hash'', null_schema),
      (''target_denial_canary_root_hash'', null_schema),
      (''source_resume_stream_receipt_hash'', null_schema),
      (''source_parity_receipt_hash'', null_schema),
      (''target_no_effect_receipt_hash'', null_schema),
      (''smoke_root_hash'', null_schema),
      (''rollback_window_closure_root_hash'', null_schema),
      (''conflict_evidence_root_hash'', null_schema)])"

definition traffic_properties :: "string \<Rightarrow> string \<Rightarrow> string \<Rightarrow> string \<Rightarrow> json dict" where
  "traffic_properties from_state to_state from_authority to_authority =
     (let ps = traffic_base_properties from_state to_state from_authority to_authority;
          ps = update_when (to_state \<in> set [''freezing_source'', ''source_fenced_and_drained'',
              ''target_primary_reverse_armed''])
            [(''source_fence_receipt_hash'', hash_field),
             (''source_denial_canary_root_hash'', hash_field)] ps;
          ps = update_when (to_state \<in> set [''target_primary_reverse_armed'',
              ''target_cohorts_activating'', ''watching_target'', ''rollback_draining'',
              ''target_fenced_and_reverse_drained''])
            [(''reverse_health_root_hash'', hash_field)] ps;
          ps = update_when (to_state \<in> set [''target_cohorts_activating'', ''watching_target''])
            [(''cohort_activation_receipt_root_hash'', hash_field),
             (''smoke_root_hash'', hash_field)] ps;
          ps = update_when (to_state \<in> set [''rollback_draining'',
              ''target_fenced_and_reverse_drained'', ''source_resume_stream_armed'',
              ''source_cohorts_activating'', ''source_primary_resynced''])
            [(''target_fence_receipt_hash'', hash_field),
             (''target_denial_canary_root_hash'', hash_field)] ps;
          ps = update_when (to_state = ''source_restore_arming'')
            [(''target_no_effect_receipt_hash'', hash_field)] ps;
          ps = update_when (to_state \<in> set [''source_resume_stream_armed'',
              ''source_cohorts_activating'', ''source_primary_resynced''])
            [(''source_resume_stream_receipt_hash'', hash_field),
             (''source_parity_receipt_hash'', hash_field)] ps;
          ps = update_when (to_state \<in> set [''source_cohorts_activating'', ''source_primary_resynced''])
            [(''cohort_activation_receipt_root_hash'', hash_field),
             (''smoke_root_hash'', hash_field)] ps;
          ps = update_when (to_state \<in> set [''target_primary_irreversible'', ''source_retired''])
            [(''rollback_window_closure_root_hash'', hash_field)] ps;
          ps = update_when (to_state \<in> set [''authority_conflict_frozen'',
              ''incident_recovery_decision'', ''rebaseline_required''] \<or>
              from_state = ''incident_recovery_decision'')
            [(''conflict_evidence_root_hash'', hash_field)] ps
      in update_when (to_state = ''authority_conflict_frozen'')
            [(''attribution_status'', const_schema (JStr ''authority_conflict'')),
             (''source_fence_receipt_hash'', hash_field),
             (''target_fence_receipt_hash'', hash_field),
             (''source_denial_canary_root_hash'', hash_field),
             (''target_denial_canary_root_hash'', hash_field)] ps)"

definition traffic_edge_constraint :: "string \<times> string \<Rightarrow> build_error + json" where
  "traffic_edge_constraint edge =
     (case (traffic_authority (fst edge), traffic_authority (snd edge)) of
        (Some a, Some b) \<Rightarrow> Inr (all_required (traffic_properties (fst edge) (snd edge) a b))
      | _ \<Rightarrow> Inl MissingKey)"

definition traffic_edge_constraints :: "build_error + json list" where
  "traffic_edge_constraints = mapE traffic_edge_constraint traffic_edges"

section \<open>The machines\<close>

definition migration_state_machine :: "machine" where
  "migration_state_machine =
    \<lparr>m_path = ''workflow/migration-state-machine.schema.json'',
     m_title = ''Migration State Machine Transition'', m_machine = ''migration'',
     m_states = (migration_phase_states @ migration_execution_states),
     m_edges = migration_edges, m_data_class = ''shared_migration'',
     m_flow_ids = [''F03'', ''F06''],
     m_extra_properties =
       [(''start_readiness_version'', nullable (s_integer (Some 1) None)),
        (''all_mandatory_connectors_proven'', s_boolean),
        (''start_transaction_id'', nullable uuid_id),
        (''first_prompt_message_id'', nullable uuid_id),
        (''start_conversation_id'', nullable uuid_id),
        (''start_wakeup_id'', nullable uuid_id),
        (''start_receipt_hash'', nullable_hash),
        (''application_authority_epoch'', s_integer (Some 1) None),
        (''cell_write_epoch'', s_integer (Some 0) None),
        (''rehearsed_rollback_reference_hash'', nullable_hash)],
     m_extra_required =
       [''start_readiness_version'', ''all_mandatory_connectors_proven'', ''start_transaction_id'',
        ''first_prompt_message_id'', ''start_conversation_id'', ''start_wakeup_id'',
        ''start_receipt_hash'', ''application_authority_epoch'', ''cell_write_epoch'',
        ''rehearsed_rollback_reference_hash''],
     m_extra_all_of =
       [JDict [(''if'',
                JDict [(''properties'',
                        JDict [(''state_dimension'', JDict [(''const'', JStr ''primary_phase'')]),
                               (''from_state'', JDict [(''const'', JStr ''connect'')]),
                               (''to_state'', JDict [(''const'', JStr ''discovery'')])])]),
               (''then'',
                JDict [(''properties'',
                        JDict [(''start_readiness_version'', s_integer (Some 1) None),
                               (''all_mandatory_connectors_proven'',
                                JDict [(''const'', JBool True)]),
                               (''start_transaction_id'', uuid_id),
                               (''first_prompt_message_id'', uuid_id),
                               (''start_conversation_id'', uuid_id),
                               (''start_wakeup_id'', uuid_id),
                               (''start_receipt_hash'', hash_field),
                               (''actor_type'', JDict [(''const'', JStr ''human'')])])])],
        JDict [(''if'',
                JDict [(''properties'',
                        JDict [(''to_state'',
                                JDict [(''enum'', jstrs [''rolling_back'', ''rolled_back''])])])]),
               (''then'',
                JDict [(''properties'',
                        JDict [(''rehearsed_rollback_reference_hash'', hash_field)])])]],
     m_domains = Some migration_domains\<rparr>"

definition migration_state_machine_schema :: "build_error + json" where
  "migration_state_machine_schema = state_machine_schema migration_state_machine"

definition traffic_authority_state_machine :: "json list \<Rightarrow> machine" where
  "traffic_authority_state_machine cs =
    \<lparr>m_path = ''workflow/traffic-authority-state-machine.schema.json'',
     m_title = ''Traffic Authority State Machine Transition'', m_machine = ''traffic_authority'',
     m_states = traffic_states, m_edges = traffic_edges, m_data_class = ''shared_migration'',
     m_flow_ids = [''F03'', ''F06''],
     m_extra_properties =
       [(''from_application_authority'',
         s_string (no_args\<lparr>s_enum := Some [''source'', ''none'', ''target'']\<rparr>)),
        (''to_application_authority'',
         s_string (no_args\<lparr>s_enum := Some [''source'', ''none'', ''target'']\<rparr>)),
        (''expected_application_authority_epoch'', s_integer (Some 1) None),
        (''resulting_application_authority_epoch'', s_integer (Some 1) None),
        (''application_authority_epoch_increment'', s_integer (Some 0) (Some 1)),
        (''authority_epoch_transition'',
         s_string (no_args\<lparr>s_enum := Some [''unchanged'', ''advanced_once'']\<rparr>)),
        (''expected_cell_write_epoch'', s_integer (Some 1) None),
        (''resulting_cell_write_epoch'', s_integer (Some 1) None),
        (''cell_write_epoch_increment'', s_integer (Some 0) (Some 1)),
        (''cell_generation_changed'', s_boolean),
        (''cohort_grant_root_hash'', hash_field),
        (''cohort_activation_receipt_root_hash'', nullable_hash),
        (''source_application_writes_enabled'', s_boolean),
        (''target_application_writes_enabled'', s_boolean),
        (''reverse_health_root_hash'', nullable_hash),
        (''source_fence_receipt_hash'', nullable_hash),
        (''target_fence_receipt_hash'', nullable_hash),
        (''source_denial_canary_root_hash'', nullable_hash),
        (''target_denial_canary_root_hash'', nullable_hash),
        (''source_resume_stream_receipt_hash'', nullable_hash),
        (''source_parity_receipt_hash'', nullable_hash),
        (''target_no_effect_receipt_hash'', nullable_hash),
        (''smoke_root_hash'', nullable_hash),
        (''rollback_window_closure_root_hash'', nullable_hash),
        (''conflict_evidence_root_hash'', nullable_hash),
        (''attribution_status'',
         s_string (no_args\<lparr>s_enum := Some
                             [''clear'', ''reverse_attribution_pending'',
                              ''authority_conflict'']\<rparr>))],
     m_extra_required =
       [''from_application_authority'', ''to_application_authority'',
        ''expected_application_authority_epoch'', ''resulting_application_authority_epoch'',
        ''application_authority_epoch_increment'', ''authority_epoch_transition'',
        ''expected_cell_write_epoch'', ''resulting_cell_write_epoch'',
        ''cell_write_epoch_increment'', ''cell_generation_changed'', ''cohort_grant_root_hash'',
        ''cohort_activation_receipt_root_hash'', ''source_application_writes_enabled'',
        ''target_application_writes_enabled'', ''reverse_health_root_hash'',
        ''source_fence_receipt_hash'', ''target_fence_receipt_hash'',
        ''source_denial_canary_root_hash'', ''target_denial_canary_root_hash'',
        ''source_resume_stream_receipt_hash'', ''source_parity_receipt_hash'',
        ''target_no_effect_receipt_hash'', ''smoke_root_hash'',
        ''rollback_window_closure_root_hash'', ''conflict_evidence_root_hash'',
        ''attribution_status''],
     m_extra_all_of =
       [JDict [(''if'',
                JDict [(''properties'',
                        JDict [(''cell_generation_changed'', JDict [(''const'', JBool False)])])]),
               (''then'',
                JDict [(''properties'',
                        JDict [(''cell_write_epoch_increment'', JDict [(''const'', JInt 0)])])])],
        JDict [(''if'',
                JDict [(''properties'',
                        JDict [(''cell_generation_changed'', JDict [(''const'', JBool True)])])]),
               (''then'',
                JDict [(''properties'',
                        JDict [(''cell_write_epoch_increment'', JDict [(''const'', JInt 1)])])])],
        JDict [(''oneOf'', JList cs)]],
     m_domains = None\<rparr>"

definition traffic_authority_state_machine_schema :: "build_error + json" where
  "traffic_authority_state_machine_schema =
     bindE traffic_edge_constraints (\<lambda>cs. state_machine_schema (traffic_authority_state_machine cs))"

definition decision_state_machine :: "machine" where
  "decision_state_machine =
    \<lparr>m_path = ''workflow/decision-state-machine.schema.json'',
     m_title = ''Decision State Machine Transition'', m_machine = ''decision'',
     m_states = decision_states, m_edges = decision_edges, m_data_class = ''shared_migration'',
     m_flow_ids = [''F03'', ''F06''],
     m_extra_properties =
       [(''decision_key'',
         s_string (no_args\<lparr>s_pattern := Some safe_name_pattern, s_max_length := Some 128\<rparr>)),
        (''expected_card_version'', s_integer (Some 1) None),
        (''resulting_card_version'', s_integer (Some 2) None),
        (''resolution_kind'',
         nullable (s_string (no_args\<lparr>s_enum := Some
                                       [''approve'', ''override'', ''reject'', ''postpone'',
                                        ''delegate'']\<rparr>))),
        (''computation_current'', s_boolean),
        (''unresolved_user_message_count'', s_integer (Some 0) (Some 10000)),
        (''foundation_decision'', s_boolean),
        (''unknown_assumption'', s_boolean)],
     m_extra_required =
       [''decision_key'', ''expected_card_version'', ''resulting_card_version'',
        ''resolution_kind'', ''computation_current'', ''unresolved_user_message_count'',
        ''foundation_decision'', ''unknown_assumption''],
     m_extra_all_of =
       [JDict [(''if'',
                JDict [(''properties'',
                        JDict [(''to_state'', JDict [(''const'', JStr ''resolved'')])])]),
               (''then'',
                JDict [(''properties'',
                        JDict [(''computation_current'', JDict [(''const'', JBool False)]),
                               (''unresolved_user_message_count'', JDict [(''const'', JInt 0)]),
                               (''resolution_kind'',
                                JDict [(''type'', JStr ''string''),
                                       (''enum'',
                                        jstrs [''approve'', ''override'', ''reject'',
                                               ''postpone''])])])])],
        JDict [(''if'',
                JDict [(''properties'',
                        JDict [(''foundation_decision'', JDict [(''const'', JBool True)]),
                               (''to_state'', JDict [(''const'', JStr ''resolved'')])])]),
               (''then'',
                JDict [(''properties'',
                        JDict [(''unknown_assumption'', JDict [(''const'', JBool False)])])])]],
     m_domains = None\<rparr>"

definition decision_state_machine_schema :: "build_error + json" where
  "decision_state_machine_schema = state_machine_schema decision_state_machine"

definition consent_state_machine :: "machine" where
  "consent_state_machine =
    \<lparr>m_path = ''workflow/consent-state-machine.schema.json'',
     m_title = ''Consent State Machine Transition'', m_machine = ''consent'',
     m_states = consent_states, m_edges = consent_edges, m_data_class = ''identity_tenant'',
     m_flow_ids = [''F02'', ''F03'', ''F16'', ''F17''],
     m_extra_properties =
       [(''consent_request_id'', uuid_id),
        (''consent_kind'',
         s_string (no_args\<lparr>s_enum := Some [''cutover'', ''decommission'']\<rparr>)),
        (''named_approver_id'', uuid_id),
        (''evidence_root_hash'', hash_field),
        (''application_authority_epoch'', s_integer (Some 1) None),
        (''cell_write_epoch'', s_integer (Some 1) None),
        (''cohort_grant_root_hash'', hash_field),
        (''challenge_hash'', nullable_hash),
        (''webauthn_assertion_hash'', nullable_hash),
        (''typed_phrase_hash'', nullable_hash),
        (''challenge_expires_at'', nullable_timestamp)],
     m_extra_required =
       [''consent_request_id'', ''consent_kind'', ''named_approver_id'', ''evidence_root_hash'',
        ''application_authority_epoch'', ''cell_write_epoch'', ''cohort_grant_root_hash'',
        ''challenge_hash'', ''webauthn_assertion_hash'', ''typed_phrase_hash'',
        ''challenge_expires_at''],
     m_extra_all_of =
       [JDict [(''if'',
                JDict [(''properties'',
                        JDict [(''to_state'',
                                JDict [(''enum'',
                                        jstrs [''consented'', ''executing'', ''executed''])])])]),
               (''then'',
                JDict [(''properties'',
                        JDict [(''challenge_hash'', hash_field),
                               (''webauthn_assertion_hash'', hash_field),
                               (''typed_phrase_hash'', hash_field),
                               (''challenge_expires_at'', timestamp_field)])])]],
     m_domains = None\<rparr>"

definition consent_state_machine_schema :: "build_error + json" where
  "consent_state_machine_schema = state_machine_schema consent_state_machine"

definition artifact_state_machine :: "machine" where
  "artifact_state_machine =
    \<lparr>m_path = ''workflow/artifact-state-machine.schema.json'',
     m_title = ''Artifact State Machine Transition'', m_machine = ''artifact'',
     m_states = artifact_states, m_edges = artifact_edges, m_data_class = ''shared_migration'',
     m_flow_ids = [''F03'', ''F06''],
     m_extra_properties =
       [(''artifact_id'', uuid_id),
        (''artifact_version'', s_integer (Some 1) None),
        (''artifact_data_class'', s_string (no_args\<lparr>s_enum := Some data_classes\<rparr>)),
        (''artifact_hash'', hash_field),
        (''opaque_handle'',
         s_string (no_args\<lparr>s_pattern := Some ''^art_[A-Za-z0-9_-]{16,128}$'',
                           s_max_length := Some 132\<rparr>)),
        (''retain_until'', nullable_timestamp),
        (''encryption_access_state'',
         s_string (no_args\<lparr>s_enum := Some
                             [''readable'', ''access_disabled'', ''key_deletion_scheduled'',
                              ''unreadable'']\<rparr>)),
        (''lifecycle_receipt_hash'', nullable_hash)],
     m_extra_required =
       [''artifact_id'', ''artifact_version'', ''artifact_data_class'', ''artifact_hash'',
        ''opaque_handle'', ''retain_until'', ''encryption_access_state'',
        ''lifecycle_receipt_hash''],
     m_extra_all_of =
       [JDict [(''if'',
                JDict [(''properties'',
                        JDict [(''to_state'',
                                JDict [(''enum'', jstrs [''retained'', ''deletion_pending''])])])]),
               (''then'', JDict [(''properties'', JDict [(''retain_until'', timestamp_field)])])],
        JDict [(''if'',
                JDict [(''properties'',
                        JDict [(''to_state'', JDict [(''const'', JStr ''deleted'')])])]),
               (''then'',
                JDict [(''properties'',
                        JDict [(''lifecycle_receipt_hash'', hash_field),
                               (''encryption_access_state'',
                                JDict [(''const'', JStr ''unreadable'')])])])]],
     m_domains = None\<rparr>"

definition artifact_state_machine_schema :: "build_error + json" where
  "artifact_state_machine_schema = state_machine_schema artifact_state_machine"

definition cell_state_machine :: "machine" where
  "cell_state_machine =
    \<lparr>m_path = ''workflow/cell-state-machine.schema.json'',
     m_title = ''Cell State Machine Transition'', m_machine = ''cell'', m_states = cell_states,
     m_edges = cell_edges, m_data_class = ''internal_operational'',
     m_flow_ids = [''F05'', ''F06'', ''F07'', ''F17''],
     m_extra_properties =
       [(''deployment_manifest_id'', hash_field),
        (''deployment_manifest_hash'', hash_field),
        (''cell_release_binding_id'', hash_field),
        (''control_region_epoch'', s_integer (Some 1) None),
        (''target_write_epoch'', nullable (s_integer (Some 1) None)),
        (''inventory_root_hash'', hash_field),
        (''cell_receipt_hash'', hash_field)],
     m_extra_required =
       [''deployment_manifest_id'', ''deployment_manifest_hash'', ''cell_release_binding_id'',
        ''control_region_epoch'', ''target_write_epoch'', ''inventory_root_hash'',
        ''cell_receipt_hash''],
     m_extra_all_of = [],
     m_domains = None\<rparr>"

definition cell_state_machine_schema :: "build_error + json" where
  "cell_state_machine_schema = state_machine_schema cell_state_machine"

definition reversibility_state_machine :: "machine" where
  "reversibility_state_machine =
    \<lparr>m_path = ''decisions/reversibility-state-machine.schema.json'',
     m_title = ''Reversibility State Machine Transition'', m_machine = ''reversibility'',
     m_states = reversibility_states, m_edges = reversibility_edges,
     m_data_class = ''shared_migration'',
     m_flow_ids = [''F02'', ''F03'', ''F06'', ''F16'', ''F17''],
     m_extra_properties =
       [(''reversibility_id'', hash_field),
        (''reversibility_class'',
         s_string (no_args\<lparr>s_enum := Some
                             [''free_until_cutover'', ''expensive_after_cutover'',
                              ''closes_on_first_external_exposure'', ''closes_on_a_clock'',
                              ''never_reversible'']\<rparr>)),
        (''closed_by_receipt_hash'', nullable_hash),
        (''superseded_by'', nullable_hash)],
     m_extra_required =
       [''reversibility_id'', ''reversibility_class'', ''closed_by_receipt_hash'',
        ''superseded_by''],
     m_extra_all_of =
       [JDict [(''if'',
                JDict [(''properties'',
                        JDict [(''to_state'', JDict [(''const'', JStr ''closed'')])])]),
               (''then'',
                JDict [(''properties'',
                        JDict [(''closed_by_receipt_hash'', hash_field),
                               (''superseded_by'', JDict [(''type'', JStr ''null'')])])]),
               (''else'',
                JDict [(''if'',
                        JDict [(''properties'',
                                JDict [(''to_state'', JDict [(''const'', JStr ''superseded'')])])]),
                       (''then'',
                        JDict [(''properties'',
                                JDict [(''closed_by_receipt_hash'',
                                        JDict [(''type'', JStr ''null'')]),
                                       (''superseded_by'', hash_field)])]),
                       (''else'',
                        JDict [(''properties'',
                                JDict [(''closed_by_receipt_hash'',
                                        JDict [(''type'', JStr ''null'')]),
                                       (''superseded_by'',
                                        JDict [(''type'', JStr ''null'')])])])])]],
     m_domains = None\<rparr>"

definition reversibility_state_machine_schema :: "build_error + json" where
  "reversibility_state_machine_schema = state_machine_schema reversibility_state_machine"

definition attempt_state_machine :: "machine" where
  "attempt_state_machine =
    \<lparr>m_path = ''workflow/attempt-state-machine.schema.json'',
     m_title = ''Attempt State Machine Transition'', m_machine = ''attempt'',
     m_states = attempt_states, m_edges = attempt_edges, m_data_class = ''shared_migration'',
     m_flow_ids = [''F03'', ''F06''],
     m_extra_properties =
       [(''attempt_id'', uuid_id),
        (''attempt_kind'',
         s_string (no_args\<lparr>s_enum := Some
                             [''snapshot'', ''snapshot_restore'', ''golden_self_proof'',
                              ''rehearsal'', ''bulk_load'', ''verification'',
                              ''rollback_rehearsal'', ''cutover'']\<rparr>)),
        (''ordinal'', s_integer (Some 1) None),
        (''retry_of_attempt_id'', nullable_id),
        (''terminal_receipt_hash'', nullable_hash)],
     m_extra_required =
       [''attempt_id'', ''attempt_kind'', ''ordinal'', ''retry_of_attempt_id'',
        ''terminal_receipt_hash''],
     m_extra_all_of =
       [JDict [(''if'',
                JDict [(''properties'',
                        JDict [(''to_state'',
                                JDict [(''enum'',
                                        jstrs [''succeeded'', ''failed_recoverable'',
                                               ''failed_terminal'', ''canceled''])])])]),
               (''then'',
                JDict [(''properties'', JDict [(''terminal_receipt_hash'', hash_field)])]),
               (''else'',
                JDict [(''properties'',
                        JDict [(''terminal_receipt_hash'', JDict [(''type'', JStr ''null'')])])])]],
     m_domains = None\<rparr>"

definition attempt_state_machine_schema :: "build_error + json" where
  "attempt_state_machine_schema = state_machine_schema attempt_state_machine"

definition operation_state_machine :: "machine" where
  "operation_state_machine =
    \<lparr>m_path = ''workflow/operation-state-machine.schema.json'',
     m_title = ''Operation State Machine Transition'', m_machine = ''operation'',
     m_states = operation_states, m_edges = operation_edges, m_data_class = ''shared_migration'',
     m_flow_ids = [''F03'', ''F06''],
     m_extra_properties =
       [(''operation_id'', uuid_id),
        (''attempt_id'', nullable_id),
        (''input_hash'', hash_field),
        (''migration_phase'',
         s_string (no_args\<lparr>s_enum := Some
                             [''connect'', ''discovery'', ''foundation'', ''provision'',
                              ''snapshot'', ''census'', ''design'', ''rehearsal'', ''bulk_load'',
                              ''sync'', ''verify'', ''cutover'', ''watch'', ''decommission'']\<rparr>)),
        (''mapping_spec_hash'', hash_field),
        (''tool_descriptor_hash'', hash_field),
        (''cell_write_epoch'', s_integer (Some 0) None),
        (''consequence_class'',
         s_string (no_args\<lparr>s_enum := Some
                             [''observation'', ''advisory_analysis'', ''proposal'',
                              ''deterministic_effect'', ''irreversible_boundary'']\<rparr>)),
        (''lease_expires_at'', nullable_timestamp),
        (''terminal_receipt_hash'', nullable_hash)],
     m_extra_required =
       [''operation_id'', ''attempt_id'', ''input_hash'', ''migration_phase'',
        ''mapping_spec_hash'', ''tool_descriptor_hash'', ''cell_write_epoch'',
        ''consequence_class'', ''lease_expires_at'', ''terminal_receipt_hash''],
     m_extra_all_of =
       [JDict [(''if'',
                JDict [(''properties'',
                        JDict [(''to_state'', JDict [(''const'', JStr ''leased'')])])]),
               (''then'',
                JDict [(''properties'', JDict [(''lease_expires_at'', timestamp_field)])])],
        JDict [(''if'',
                JDict [(''properties'',
                        JDict [(''to_state'',
                                JDict [(''enum'',
                                        jstrs [''succeeded'', ''failed_terminal'', ''denied'',
                                               ''canceled''])])])]),
               (''then'',
                JDict [(''properties'', JDict [(''terminal_receipt_hash'', hash_field)])])]],
     m_domains = None\<rparr>"

definition operation_state_machine_schema :: "build_error + json" where
  "operation_state_machine_schema = state_machine_schema operation_state_machine"

end
