(* ===== verification/Validator_Safety.thy ===== *)
theory Validator_Safety
  imports Validator_Fuel
begin

text \<open>
  Type safety and termination of the validator: on a well-formed schema without references and
  pattern properties, with fuel above the size of the schema, validation returns or raises a
  validation error (or the arithmetic error of \<open>multipleOf\<close>). It never recurses without end and
  never fails on the shape of the schema.

  Both restrictions are needed. References may form a cycle, and \<open>sdef\<close> does not compile the keys
  of \<open>patternProperties\<close> (\<open>pattern_properties_unchecked\<close>).
\<close>

section \<open>Safe results\<close>

definition safe :: "verr + 'a \<Rightarrow> bool" where
  "safe r = (case r of Inr _ \<Rightarrow> True | Inl (Validation _) \<Rightarrow> True | Inl e \<Rightarrow> e = ArithError)"

lemma safe_simps [simp]:
  "safe (Inr x)" "safe (Inl (Validation r))" "safe (Inl ArithError)"
  "safe (raise_if b (Validation r))"
  by (simp_all add: safe_def raise_if_def)

lemma safe_not_recursion: "safe r \<Longrightarrow> r \<noteq> Inl RecursionError"
  by (auto simp: safe_def)

lemma safe_bindE [safe_intros]:
  "safe m \<Longrightarrow> (\<And>x. m = Inr x \<Longrightarrow> safe (f x)) \<Longrightarrow> safe (bindE m f)"
  by (cases m) (auto simp: safe_def)

lemma safe_checks [safe_intros]: "(\<And>c. c \<in> set cs \<Longrightarrow> safe c) \<Longrightarrow> safe (checks cs)"
proof (induction cs)
  case (Cons c cs)
  then have "safe c" "safe (checks cs)" by auto
  then show ?case by (cases c) (auto simp: safe_def checks.simps)
qed simp

lemma safe_for_each [safe_intros]: "(\<And>x. x \<in> set xs \<Longrightarrow> safe (f x)) \<Longrightarrow> safe (for_each f xs)"
  unfolding for_each_def by (rule safe_checks) auto

lemma safe_verdict [safe_intros]: "safe r \<Longrightarrow> safe (verdict r)"
  by (cases r rule: verdict.cases) (auto simp: safe_def)

lemma safe_any [safe_intros]: "(\<And>v. v \<in> set vs \<Longrightarrow> safe v) \<Longrightarrow> safe (any_verdict vs)"
  by (induction vs) (auto intro!: safe_intros)

lemma safe_sum [safe_intros]: "(\<And>v. v \<in> set vs \<Longrightarrow> safe v) \<Longrightarrow> safe (sum_verdicts vs)"
  by (induction vs) (auto intro!: safe_intros)

lemma safe_opt_check [safe_intros]:
  "(\<And>v. dget k d = Some v \<Longrightarrow> safe (f v)) \<Longrightarrow> safe (opt_check k d f)"
  by (auto simp: opt_check_def split: option.split)

section \<open>Sub-schemas\<close>

text \<open>No object of the document has one of the keys.\<close>

fun avoids :: "string list \<Rightarrow> json \<Rightarrow> bool" where
  "avoids ks (JList xs) = list_all (avoids ks) xs"
| "avoids ks (JDict d) = list_all (\<lambda>(k, v). k \<notin> set ks \<and> avoids ks v) d"
| "avoids ks _ = True"

definition local_schema :: "json \<Rightarrow> bool" where
  "local_schema s = (schema_wf s \<and> avoids [''$ref'', ''patternProperties''] s)"

text \<open>\<open>sub d c\<close>: a local schema smaller than the one with keywords \<open>d\<close>.\<close>

definition sub :: "json dict \<Rightarrow> json \<Rightarrow> bool" where
  "sub d c = (local_schema c \<and> size c < size (JDict d))"

lemma avoids_dget: "avoids ks (JDict d) \<Longrightarrow> dget k d = Some v \<Longrightarrow> avoids ks v \<and> k \<notin> set ks"
  using dget_mem [of k d v] by (auto simp: list_all_iff)

declare avoids.simps(2) [simp del]

lemma local_field:
  "local_schema (JDict d) \<Longrightarrow> dget k d = Some v \<Longrightarrow>
    avoids [''$ref'', ''patternProperties''] v \<and> k \<notin> {''$ref'', ''patternProperties''}"
  unfolding local_schema_def by (drule conjunct2, drule (1) avoids_dget) simp

lemma size_dget: "dget k d = Some v \<Longrightarrow> size v < size (JDict d)"
  unfolding size_JDict by (rule dget_size)

lemma size_dict_mem: "(k, v) \<in> set d \<Longrightarrow> size v < size (JDict d)"
  unfolding size_JDict by (rule mem_size_dict)

lemma size_list_mem: "x \<in> set xs \<Longrightarrow> size x < size (JList xs)"
  unfolding size_JList less_Suc_eq_le by (rule size_list_estimation') auto

text \<open>Where the keywords of a local schema point to sub-schemas.\<close>

lemma sub_value:
  "local_schema (JDict d) \<Longrightarrow> k \<in> set schema_value_keywords \<Longrightarrow> dget k d = Some c \<Longrightarrow> sub d c"
  using local_field [of d k c] size_dget [of k d c]
  by (simp add: sub_def local_schema_def [of c]) (simp add: local_schema_def schema_wf_JDict)

lemma sub_list:
  assumes "local_schema (JDict d)" "k \<in> set schema_list_keywords" "dget k d = Some v"
  obtains cs where "v = JList cs" "\<And>c. c \<in> set cs \<Longrightarrow> sub d c"
proof -
  from assms obtain cs where v: "v = JList cs" and wf: "\<And>c. c \<in> set cs \<Longrightarrow> schema_wf c"
    unfolding local_schema_def schema_wf_JDict by blast
  have "avoids [''$ref'', ''patternProperties''] v"
    using local_field [OF assms(1,3)] by simp
  moreover have "size v < size (JDict d)" using assms(3) by (rule size_dget)
  ultimately have "sub d c" if "c \<in> set cs" for c
    using wf [OF that] size_list_mem [OF that] that v
    by (auto simp: sub_def local_schema_def list_all_iff simp del: json.size)
  with v show thesis by (rule that)
qed

lemma sub_map:
  assumes "local_schema (JDict d)" "k \<in> set schema_map_keywords" "dget k d = Some v"
  obtains ps where "v = JDict ps" "\<And>n c. dget n ps = Some c \<Longrightarrow> sub d c"
proof -
  from assms obtain ps where v: "v = JDict ps" and wf: "\<And>nc. nc \<in> set ps \<Longrightarrow> schema_wf (snd nc)"
    unfolding local_schema_def schema_wf_JDict by blast
  have av: "avoids [''$ref'', ''patternProperties''] v"
    using local_field [OF assms(1,3)] by simp
  have sz: "size v < size (JDict d)" using assms(3) by (rule size_dget)
  have "sub d c" if "dget n ps = Some c" for n c
    using wf [OF dget_mem [OF that]] av sz size_dget [OF that] avoids_dget [OF _ that] v
    by (simp add: sub_def local_schema_def del: json.size)
  with v show thesis by (rule that)
qed

lemma local_no_ref: "local_schema (JDict d) \<Longrightarrow> dget ''$ref'' d = None"
  using local_field [of d "''$ref''"] by (cases "dget ''$ref'' d") simp_all

lemma local_no_patterns: "local_schema (JDict d) \<Longrightarrow> dget ''patternProperties'' d = None"
  using local_field [of d "''patternProperties''"]
  by (cases "dget ''patternProperties'' d") simp_all

lemma keyword_checks_size:
  "keyword_checks d = Inr () \<Longrightarrow> k \<in> set size_keywords \<Longrightarrow> dget k d = Some v \<Longrightarrow> num_of v \<noteq> None"
  by (cases v) (auto simp: keyword_checks_def size_ok_def)

lemma keyword_checks_number:
  "keyword_checks d = Inr () \<Longrightarrow> k \<in> set number_keywords \<Longrightarrow> dget k d = Some v \<Longrightarrow> num_of v \<noteq> None"
  by (auto simp: keyword_checks_def is_num_def)

section \<open>Each keyword is safe\<close>

lemma local_keywords: "local_schema (JDict d) \<Longrightarrow> keyword_checks d = Inr ()"
  by (simp add: local_schema_def schema_wf_JDict)

lemma safe_bound:
  "local_schema (JDict d) \<Longrightarrow> k \<in> set size_keywords \<union> set number_keywords \<Longrightarrow> safe (bound k x d)"
  using keyword_checks_size [OF local_keywords, of d k] keyword_checks_number [OF local_keywords, of d k]
  by (auto simp: bound_def split: option.split)

lemma safe_range:
  "local_schema (JDict d) \<Longrightarrow> {lo, hi} \<subseteq> set size_keywords \<union> set number_keywords \<Longrightarrow>
    safe (check_range lo a hi b r d x)"
  unfolding check_range_def by (intro safe_intros safe_bound) (auto intro!: safe_intros safe_bound)

lemma safe_count:
  "local_schema (JDict d) \<Longrightarrow> {lo, hi} \<subseteq> set size_keywords \<Longrightarrow> safe (check_count lo hi n r d m)"
  unfolding check_count_def by (rule safe_range) auto

lemma safe_string:
  assumes "local_schema (JDict d)" shows "safe (validate_string d s)"
proof -
  have "safe (case p of JStr p \<Rightarrow> bindE (pattern_found p s) (\<lambda>b. reject_if (\<not> b) PatternMismatch)
      | _ \<Rightarrow> Inl IllFormed)" if "dget ''pattern'' d = Some p" for p
    using local_keywords [OF assms] that
    by (cases p) (auto simp: keyword_checks_def pattern_check_def pattern_found_def)
  then show ?thesis
    unfolding validate_string_def
    using safe_count [OF assms, of "''minLength''" "''maxLength''"]
    by (auto intro!: safe_intros simp: size_keywords_def)
qed

lemma safe_number:
  assumes "local_schema (JDict d)" shows "safe (validate_number d v x)"
proof -
  note num = keyword_checks_number [OF local_keywords [OF assms]]
  show ?thesis
    unfolding validate_number_def
    using safe_range [OF assms, of "''minimum''" "''maximum''"] num [of "''exclusiveMinimum''"]
      num [of "''exclusiveMaximum''"] num [of "''multipleOf''"]
    by (auto intro!: safe_intros simp: number_keywords_def is_num_def split: sum.split)
qed

lemma safe_required:
  "local_schema (JDict d) \<Longrightarrow> safe (string_field ''required'' d)"
  using local_keywords [of d]
  by (auto simp: string_field_def keyword_checks_def unique_strings_def split: option.splits)

lemma safe_dependents:
  assumes "local_schema (JDict d)" "dget ''dependentRequired'' d = Some v"
  shows "safe (check_dependents i v)"
proof -
  have "dependents_ok v" using assms by (simp add: local_schema_def schema_wf_JDict)
  then obtain deps where "v = JDict deps" "\<And>k f. (k, f) \<in> set deps \<Longrightarrow> unique_strings f"
    by (cases v) (auto simp: dependents_ok_def list_all_iff)
  then show ?thesis
    unfolding check_dependents_def
    by (auto intro!: safe_for_each simp: unique_strings_def split: option.split) fastforce
qed

lemma safe_type:
  assumes "local_schema (JDict d)" "dget ''type'' d = Some t"
  shows "safe (validate_type v t)"
proof -
  have "type_decl_ok t" using local_keywords [OF assms(1)] assms(2) by (simp add: keyword_checks_def)
  then show ?thesis
    by (cases t) (auto simp: validate_type_def type_decl_ok_def split: option.splits)
qed

lemma safe_enum:
  assumes "local_schema (JDict d)" "dget ''enum'' d = Some cs"
  shows "safe (check_enum v cs)"
proof -
  have "enum_check cs = Inr ()" using local_keywords [OF assms(1)] assms(2) by (simp add: keyword_checks_def)
  then show ?thesis by (cases cs) (auto simp: check_enum_def enum_check_def)
qed

lemma properties_cases:
  assumes "local_schema (JDict d)"
  obtains ps where "dict_field ''properties'' d = Inr ps" "\<And>k c. dget k ps = Some c \<Longrightarrow> sub d c"
proof (cases "dget ''properties'' d")
  case None
  then have "dict_field ''properties'' d = Inr []" by (simp add: dict_field_def)
  then show thesis by (rule that) simp
next
  case (Some v)
  with assms obtain ps where "v = JDict ps" "\<And>k c. dget k ps = Some c \<Longrightarrow> sub d c"
    by (auto simp: schema_map_keywords_def elim!: sub_map [of d "''properties''" v])
  with Some show thesis by (intro that [of ps]) (simp_all add: dict_field_def)
qed

lemma property_schemas_sub:
  assumes "local_schema (JDict d)"
  shows "safe (property_schemas d k)"
    and "property_schemas d k = Inr found \<Longrightarrow> c \<in> set found \<Longrightarrow> sub d c"
proof -
  obtain ps where ps: "dict_field ''properties'' d = Inr ps" "\<And>k c. dget k ps = Some c \<Longrightarrow> sub d c"
    using properties_cases [OF assms] by metis
  have pat: "dict_field ''patternProperties'' d = Inr []"
    using local_no_patterns [OF assms] by (simp add: dict_field_def)
  have add: "sub d (JDict e)" if "dget ''additionalProperties'' d = Some (JDict e)" for e
    using sub_value [OF assms _ that] by (simp add: schema_value_keywords_def)
  show "safe (property_schemas d k)"
    by (auto simp: property_schemas_def ps pat split: option.split json.split bool.split)
  show "property_schemas d k = Inr found \<Longrightarrow> c \<in> set found \<Longrightarrow> sub d c"
    using ps(2) add
    by (auto simp: property_schemas_def ps(1) pat split: option.splits json.splits bool.splits)
qed

section \<open>One level of validation is safe\<close>

definition safe_rec :: "json dict \<Rightarrow> validator \<Rightarrow> bool" where
  "safe_rec d rec = (\<forall>rt c v. sub d c \<longrightarrow> safe (rec rt c v))"

lemma safe_recD: "safe_rec d rec \<Longrightarrow> sub d c \<Longrightarrow> safe (rec rt c v)"
  by (simp add: safe_rec_def)

lemma safe_object:
  assumes l: "local_schema (JDict d)" and r: "safe_rec d rec"
  shows "safe (validate_object rec rt d i)"
proof -
  have "safe (validate_property rec rt d kv)" for kv
    unfolding validate_property_def
    using property_schemas_sub [OF l] safe_recD [OF r] by (blast intro: safe_intros)
  moreover have "safe (rec rt c v)" if "dget ''propertyNames'' d = Some c" for c v
    using that by (intro safe_recD [OF r] sub_value [OF l]) (auto simp: schema_value_keywords_def)
  moreover note safe_required [OF l] safe_dependents [OF l]
    safe_count [OF l, of "''minProperties''" "''maxProperties''"]
  ultimately show ?thesis
    unfolding validate_object_def by (auto intro!: safe_intros simp: size_keywords_def split: prod.split)
qed

lemma list_cases:
  assumes "local_schema (JDict d)" "k \<in> set schema_list_keywords"
  obtains cs where "list_field k d = Inr cs" "\<And>c. c \<in> set cs \<Longrightarrow> sub d c"
proof (cases "dget k d")
  case None
  then have "list_field k d = Inr []" by (simp add: list_field_def)
  then show thesis by (rule that) simp
next
  case (Some v)
  from sub_list [OF assms Some] obtain cs where cs: "v = JList cs" "\<And>c. c \<in> set cs \<Longrightarrow> sub d c"
    by metis
  with Some have "list_field k d = Inr cs" by (simp add: list_field_def)
  then show thesis using cs(2) by (rule that)
qed

lemma safe_array:
  assumes l: "local_schema (JDict d)" and r: "safe_rec d rec"
  shows "safe (validate_array rec rt d xs)"
proof -
  obtain prefix where prefix: "list_field ''prefixItems'' d = Inr prefix" "\<And>c. c \<in> set prefix \<Longrightarrow> sub d c"
    using list_cases [OF l, of "''prefixItems''"] by (auto simp: schema_list_keywords_def)
  have value_safe: "safe (rec rt c v)" if "dget k d = Some c" "k \<in> {''items'', ''contains''}" for k c v
    using that by (intro safe_recD [OF r] sub_value [OF l]) (auto simp: schema_value_keywords_def)
  have pre: "safe (rec rt c x)" if "(c, x) \<in> set (zip prefix xs)" for c x
    using that by (intro safe_recD [OF r] prefix(2)) (rule set_zip_leftD)
  have unique: "safe (case dget ''uniqueItems'' d of
         Some (JBool True) \<Rightarrow> reject_if (has_repeat json_equal [] xs) RepeatedItem
       | None \<Rightarrow> Inr () | Some (JBool False) \<Rightarrow> Inr () | Some _ \<Rightarrow> Inl IllFormed)"
  proof (cases "dget ''uniqueItems'' d")
    case (Some u)
    with local_keywords [OF l] obtain b where "u = JBool b"
      by (cases u) (simp_all add: keyword_checks_def)
    with Some show ?thesis by (cases b) simp_all
  qed simp
  have contains: "safe (check_contains rec rt d xs c)" if "dget ''contains'' d = Some c" for c
    unfolding check_contains_def using value_safe [OF that]
      safe_count [OF l, of "''minContains''" "''maxContains''"]
    by (auto intro!: safe_intros simp: size_keywords_def)
  have items: "safe (rec rt c x)" if "dget ''items'' d = Some c" for c x
    using value_safe [OF that] by simp
  show ?thesis
    unfolding validate_array_def prefix(1)
    using unique contains items pre safe_count [OF l, of "''minItems''" "''maxItems''"]
    by (auto intro!: safe_intros simp: size_keywords_def)
qed

lemma safe_kind:
  "local_schema (JDict d) \<Longrightarrow> safe_rec d rec \<Longrightarrow> safe (check_kind rec rt d v)"
  by (cases v) (simp_all add: check_kind_def safe_object safe_array safe_string safe_number)

lemma safe_lists:
  assumes l: "local_schema (JDict d)" and r: "safe_rec d rec"
  shows "dget ''allOf'' d = Some c \<Longrightarrow> safe (check_all_of rec rt v c)"
    and "dget ''anyOf'' d = Some c \<Longrightarrow> safe (check_any_of rec rt v c)"
    and "dget ''oneOf'' d = Some c \<Longrightarrow> safe (check_one_of rec rt v c)"
proof -
  have children: "\<exists>cs. c = JList cs \<and> (\<forall>x \<in> set cs. safe (rec rt x v))"
    if "dget k d = Some c" "k \<in> {''allOf'', ''anyOf'', ''oneOf''}" for k
  proof -
    have "k \<in> set schema_list_keywords" using that(2) by (auto simp: schema_list_keywords_def)
    from sub_list [OF l this that(1)] show ?thesis using safe_recD [OF r] by metis
  qed
  show "safe (check_all_of rec rt v c)" if "dget ''allOf'' d = Some c"
    using children [OF that] by (auto simp: check_all_of_def intro!: safe_intros)
  show "safe (check_any_of rec rt v c)" if "dget ''anyOf'' d = Some c"
    using children [OF that] by (auto simp: check_any_of_def intro!: safe_intros)
  show "safe (check_one_of rec rt v c)" if "dget ''oneOf'' d = Some c"
    using children [OF that] by (auto simp: check_one_of_def intro!: safe_intros)
qed

lemma safe_values:
  assumes l: "local_schema (JDict d)" and r: "safe_rec d rec"
  shows "dget ''not'' d = Some c \<Longrightarrow> safe (check_not rec rt v c)"
    and "dget ''if'' d = Some c \<Longrightarrow> safe (check_if rec rt d v c)"
proof -
  have sub: "safe (rec rt c v)" if "dget k d = Some c" "k \<in> {''not'', ''if'', ''then'', ''else''}" for k c v
    using that by (intro safe_recD [OF r] sub_value [OF l]) (auto simp: schema_value_keywords_def)
  show "safe (check_not rec rt v c)" if "dget ''not'' d = Some c"
    unfolding check_not_def using sub [OF that] by (auto intro!: safe_intros)
  have "safe (rec rt s v)" if "optional_schema k d = Some s" "k \<in> {''then'', ''else''}" for k s
    using that by (intro sub [of k s]) (auto simp: optional_schema_def split: option.splits json.splits)
  then show "safe (check_if rec rt d v c)" if "dget ''if'' d = Some c"
    unfolding check_if_def using sub [OF that] by (auto intro!: safe_intros split: option.split)
qed

lemma safe_dict:
  assumes l: "local_schema (JDict d)" and r: "safe_rec d rec"
  shows "safe (validate_dict reg rec rt d v)"
  unfolding validate_dict_def
  using safe_lists [OF l r] safe_values [OF l r] safe_kind [OF l r] safe_type [OF l]
    safe_enum [OF l] local_no_ref [OF l]
  by (auto intro!: safe_intros)

lemma safe_validate_in: "local_schema s \<Longrightarrow> size s < n \<Longrightarrow> safe (validate_in reg n rt s v)"
proof (induction n arbitrary: s rt v)
  case (Suc n)
  show ?case
  proof (cases "\<exists>d. s = JDict d")
    case True
    then obtain d where s: "s = JDict d" by blast
    have "safe_rec d (validate_in reg n)"
      using Suc.IH Suc.prems(2) unfolding safe_rec_def sub_def s by simp
    with Suc.prems(1) show ?thesis by (simp add: s validate_step_def safe_dict)
  next
    case False
    then obtain b where "s = JBool b"
      using Suc.prems(1) schema_wf_cases unfolding local_schema_def by blast
    then show ?thesis by (simp add: validate_step_def)
  qed
qed simp

section \<open>The validator on local schemas\<close>

text \<open>
  C12: on a well-formed schema without references and pattern properties, and with a recursion limit
  above the size of the schema, validation accepts, rejects with a validation error, or overflows in
  the division of \<open>multipleOf\<close>. It never exhausts the limit and never fails on a key or a type.
\<close>

theorem validate_safe:
  "local_schema s \<Longrightarrow> size s < n \<Longrightarrow>
     validate reg n s v = Inr () \<or> (\<exists>r. validate reg n s v = Inl (Validation r)) \<or>
     validate reg n s v = Inl ArithError"
proof -
  assume s: "local_schema s" "size s < n"
  have "safe (validate reg n s v)"
    using safe_validate_in [OF s] s(1)
    by (auto simp: validate_def local_schema_def schema_wf_def intro!: safe_intros split: json.split)
  then show ?thesis
    by (auto simp: safe_def split: sum.splits verr.splits)
qed

theorem validate_safe_witness:
  "validate [] 9 (JDict [(''minimum'', JInt 3)]) (JInt 2) = Inl (Validation NumberRange)"
proof -
  let ?s = "JDict [(''minimum'', JInt 3)]"
  have "local_schema ?s" by code_simp
  moreover have "size ?s < 9" by simp
  ultimately have "validate [] 9 ?s (JInt 2) = Inr () \<or>
      (\<exists>r. validate [] 9 ?s (JInt 2) = Inl (Validation r)) \<or>
      validate [] 9 ?s (JInt 2) = Inl ArithError"
    by (rule validate_safe)
  moreover have "validate [] 9 ?s (JInt 2) = Inl (Validation NumberRange)" by code_simp
  ultimately show ?thesis by simp
qed

text \<open>
  A pattern that does not compile is only noticed when an object is validated: the schema check
  accepts it as a key of \<open>patternProperties\<close>, and validation then raises \<open>re.error\<close>.
\<close>

lemma pattern_properties_unchecked:
  "sdef (JDict [(''patternProperties'', JDict [(''('', JBool True)])]) = Inr () \<and>
   validate [] 5 (JDict [(''patternProperties'', JDict [(''('', JBool True)])])
     (JDict [(''a'', JNull)]) = Inl RegexError"
  by code_simp

end
