(* ===== verification/Schema_Semantics.thy ===== *)
theory Schema_Semantics
  imports Validator_Safety
begin

text \<open>
  What a schema means, without the machine that decides it. \<open>sat s v\<close> is a truth value defined by
  recursion on the schema: no errors, no order of evaluation, no recursion limit. The theorem of
  this theory says that the validator decides it on every well-formed schema without references,
  pattern properties and \<open>multipleOf\<close>, which covers the state-machine contracts.
\<close>

section \<open>Combinators\<close>

definition opt_holds :: "string \<Rightarrow> json dict \<Rightarrow> (json \<Rightarrow> bool) \<Rightarrow> bool" where
  "opt_holds k d P = (case dget k d of None \<Rightarrow> True | Some x \<Rightarrow> P x)"

definition children :: "json \<Rightarrow> json list" where
  "children v = (case v of JList cs \<Rightarrow> cs | _ \<Rightarrow> [])"

definition child_list :: "string \<Rightarrow> json dict \<Rightarrow> json list" where
  "child_list k d = (case dget k d of None \<Rightarrow> [] | Some v \<Rightarrow> children v)"

definition strings :: "json \<Rightarrow> string list" where
  "strings v = (case str_list v of None \<Rightarrow> [] | Some ss \<Rightarrow> ss)"

definition declared :: "json dict \<Rightarrow> string \<Rightarrow> json option" where
  "declared d k = (case dget ''properties'' d of Some (JDict ps) \<Rightarrow> dget k ps | _ \<Rightarrow> None)"

lemma opt_holds_cong [fundef_cong]:
  "k = k' \<Longrightarrow> d = d' \<Longrightarrow> (\<And>v. dget k' d' = Some v \<Longrightarrow> P v = Q v) \<Longrightarrow>
    opt_holds k d P = opt_holds k' d' Q"
  by (simp add: opt_holds_def split: option.split)

lemma children_size [termination_simp]: "c \<in> set (children v) \<Longrightarrow> size c < size v"
  using size_list_mem [of c "children v"] by (cases v) (simp_all add: children_def)

lemma child_size [termination_simp]:
  "dget k d = Some v \<Longrightarrow> c \<in> set (children v) \<Longrightarrow> size c < size (JDict d)"
  using children_size [of c v] size_dget [of k d v] by simp

lemma child_list_size [termination_simp]: "c \<in> set (child_list k d) \<Longrightarrow> size c < size (JDict d)"
  by (cases "dget k d") (auto simp: child_list_def intro: child_size simp del: json.size)

lemma declared_size [termination_simp]: "declared d k = Some c \<Longrightarrow> size c < size (JDict d)"
  unfolding declared_def
  by (auto split: option.splits json.splits dest!: size_dget simp del: json.size)

section \<open>Bounds and types\<close>

definition count_ok :: "string \<Rightarrow> string \<Rightarrow> nat \<Rightarrow> json dict \<Rightarrow> nat \<Rightarrow> bool" where
  "count_ok lo hi least d n =
     ((case dget lo d of Some (JInt a) \<Rightarrow> a \<le> int n | _ \<Rightarrow> least \<le> n) \<and>
      (case dget hi d of Some (JInt b) \<Rightarrow> int n \<le> b | _ \<Rightarrow> True))"

definition against :: "(pyfloat \<Rightarrow> bool) \<Rightarrow> json \<Rightarrow> bool" where
  "against P m = (case num_of m of None \<Rightarrow> False | Some y \<Rightarrow> P y)"

definition number_ok :: "json dict \<Rightarrow> json \<Rightarrow> bool" where
  "number_ok d v =
     (case num_of v of
        None \<Rightarrow> True
      | Some x \<Rightarrow>
          opt_holds ''minimum'' d (against (\<lambda>y. \<not> num_less x y)) \<and>
          opt_holds ''maximum'' d (against (\<lambda>y. \<not> num_less y x)) \<and>
          opt_holds ''exclusiveMinimum'' d (against (\<lambda>y. \<not> num_le x y)) \<and>
          opt_holds ''exclusiveMaximum'' d (against (\<lambda>y. \<not> num_le y x)))"

definition matches :: "string \<Rightarrow> json \<Rightarrow> bool" where
  "matches s p =
     (case p of JStr p \<Rightarrow> (case re_compile p of None \<Rightarrow> False | Some r \<Rightarrow> re_search r s) | _ \<Rightarrow> False)"

definition string_ok :: "json dict \<Rightarrow> string \<Rightarrow> bool" where
  "string_ok d s =
     (count_ok ''minLength'' ''maxLength'' 0 d (length s) \<and> opt_holds ''pattern'' d (matches s))"

definition type_in :: "json \<Rightarrow> json \<Rightarrow> bool" where
  "type_in v t = (case t of JStr t \<Rightarrow> has_type v t | _ \<Rightarrow> list_ex (has_type v) (strings t))"

definition dependents_hold :: "json dict \<Rightarrow> json \<Rightarrow> bool" where
  "dependents_hold i v =
     (case v of
        JDict deps \<Rightarrow> list_all (\<lambda>(k, fields). dhas k i \<longrightarrow> list_all (\<lambda>f. dhas f i) (strings fields)) deps
      | _ \<Rightarrow> False)"

section \<open>Satisfaction\<close>

function (sequential) sat :: "json \<Rightarrow> json \<Rightarrow> bool" where
  "sat (JBool b) v = b"
| "sat (JDict d) v =
     (opt_holds ''allOf'' d (\<lambda>cs. list_all (\<lambda>c. sat c v) (children cs)) \<and>
      opt_holds ''anyOf'' d (\<lambda>cs. list_ex (\<lambda>c. sat c v) (children cs)) \<and>
      opt_holds ''oneOf'' d (\<lambda>cs. length (filter (\<lambda>c. sat c v) (children cs)) = 1) \<and>
      opt_holds ''not'' d (\<lambda>c. \<not> sat c v) \<and>
      opt_holds ''if'' d (\<lambda>c.
        if sat c v then opt_holds ''then'' d (\<lambda>t. sat t v) else opt_holds ''else'' d (\<lambda>t. sat t v)) \<and>
      opt_holds ''const'' d (json_equal v) \<and>
      opt_holds ''enum'' d (\<lambda>cs. list_ex (json_equal v) (children cs)) \<and>
      opt_holds ''type'' d (type_in v) \<and>
      (case v of
         JDict i \<Rightarrow>
           opt_holds ''required'' d (\<lambda>r. list_all (\<lambda>k. dhas k i) (strings r)) \<and>
           count_ok ''minProperties'' ''maxProperties'' 0 d (length i) \<and>
           list_all (\<lambda>(k, x).
             case declared d k of
               Some c \<Rightarrow> sat c x
             | None \<Rightarrow> opt_holds ''additionalProperties'' d (\<lambda>c. sat c x)) i \<and>
           opt_holds ''propertyNames'' d (\<lambda>c. list_all (\<lambda>(k, x). sat c (JStr k)) i) \<and>
           opt_holds ''dependentRequired'' d (dependents_hold i)
       | JList xs \<Rightarrow>
           count_ok ''minItems'' ''maxItems'' 0 d (length xs) \<and>
           opt_holds ''uniqueItems'' d (\<lambda>u. u = JBool True \<longrightarrow> \<not> has_repeat json_equal [] xs) \<and>
           list_all (\<lambda>(c, x). sat c x) (zip (child_list ''prefixItems'' d) xs) \<and>
           opt_holds ''items'' d (\<lambda>c.
             list_all (sat c) (drop (length (child_list ''prefixItems'' d)) xs)) \<and>
           opt_holds ''contains'' d (\<lambda>c.
             count_ok ''minContains'' ''maxContains'' 1 d (length (filter (sat c) xs)))
       | JStr s \<Rightarrow> string_ok d s
       | _ \<Rightarrow> number_ok d v))"
| "sat _ v = False"
  by pat_completeness auto

termination
  by (relation "measure (\<lambda>(s, v). size s)")
    (auto dest: set_zip_leftD intro: child_list_size child_size declared_size size_dget
      simp del: json.size)

declare sat.simps(2) [simp del]

section \<open>Deciding\<close>

text \<open>The check accepts when \<open>b\<close> holds and rejects with an error a verdict tolerates otherwise.\<close>

named_theorems decide_intros \<open>the combinators of the validator decide\<close>

definition decides :: "verr check \<Rightarrow> bool \<Rightarrow> bool" where
  "decides r b = (verdict r = Inr b)"

lemma decidesD: "decides r b \<Longrightarrow> r = Inr () \<longleftrightarrow> b"
  by (cases r rule: verdict.cases) (auto simp: decides_def)

lemma decides_reject [decide_intros]: "b = (\<not> c) \<Longrightarrow> decides (reject_if c r) b"
  by (cases c) (simp_all add: decides_def raise_if_def)

lemma decides_Nil: "decides (checks []) True"
  by (simp add: decides_def)

lemma decides_Cons: "decides c a \<Longrightarrow> decides (checks cs) b \<Longrightarrow> decides (checks (c # cs)) (a \<and> b)"
  by (cases c rule: verdict.cases) (auto simp: decides_def checks.simps)

lemma decides_last: "decides c a \<Longrightarrow> decides (checks [c]) a"
  using decides_Cons [OF _ decides_Nil] by simp

lemma decides_for_each [decide_intros]:
  "(\<And>x. x \<in> set xs \<Longrightarrow> decides (f x) (P x)) \<Longrightarrow> decides (for_each f xs) (list_all P xs)"
proof (induction xs)
  case (Cons x xs)
  then show ?case using decides_Cons [of "f x" "P x" "map f xs"] by (simp add: for_each_def)
qed (simp add: decides_def for_each_simps)

lemma decides_opt [decide_intros]:
  "(\<And>v. dget k d = Some v \<Longrightarrow> decides (f v) (P v)) \<Longrightarrow> decides (opt_check k d f) (opt_holds k d P)"
  by (simp add: opt_check_def opt_holds_def decides_def split: option.split)

lemma decides_any:
  "(\<And>c. c \<in> set cs \<Longrightarrow> decides (f c) (P c)) \<Longrightarrow>
    any_verdict (map (\<lambda>c. verdict (f c)) cs) = Inr (list_ex P cs)"
  by (induction cs) (auto simp: decides_def)

lemma decides_sum:
  "(\<And>c. c \<in> set cs \<Longrightarrow> decides (f c) (P c)) \<Longrightarrow>
    sum_verdicts (map (\<lambda>c. verdict (f c)) cs) = Inr (length (filter P cs))"
  by (induction cs) (auto simp: decides_def)

section \<open>The validator decides satisfaction\<close>

definition plain_schema :: "json \<Rightarrow> bool" where
  "plain_schema s = (local_schema s \<and> avoids [''multipleOf''] s)"

definition plain_sub :: "json dict \<Rightarrow> json \<Rightarrow> bool" where
  "plain_sub d c = (plain_schema c \<and> size c < size (JDict d))"

definition decides_rec :: "json dict \<Rightarrow> validator \<Rightarrow> bool" where
  "decides_rec d rec = (\<forall>rt c v. plain_sub d c \<longrightarrow> decides (rec rt c v) (sat c v))"

lemma decides_recD: "decides_rec d rec \<Longrightarrow> plain_sub d c \<Longrightarrow> decides (rec rt c v) (sat c v)"
  by (simp add: decides_rec_def)

lemma plain_local: "plain_schema s \<Longrightarrow> local_schema s"
  by (simp add: plain_schema_def)

lemma plain_field: "plain_schema (JDict d) \<Longrightarrow> dget k d = Some v \<Longrightarrow> avoids [''multipleOf''] v"
  unfolding plain_schema_def using avoids_dget by blast

lemma plain_value:
  "plain_schema (JDict d) \<Longrightarrow> k \<in> set schema_value_keywords \<Longrightarrow> dget k d = Some c \<Longrightarrow> plain_sub d c"
  using sub_value [OF plain_local, of d k c] plain_field [of d k c]
  by (simp add: plain_sub_def plain_schema_def sub_def)

lemma plain_list:
  assumes "plain_schema (JDict d)" "k \<in> set schema_list_keywords" "dget k d = Some v"
  obtains cs where "v = JList cs" "\<And>c. c \<in> set cs \<Longrightarrow> plain_sub d c"
proof -
  from sub_list [OF plain_local [OF assms(1)] assms(2,3)] obtain cs
    where cs: "v = JList cs" "\<And>c. c \<in> set cs \<Longrightarrow> sub d c" by metis
  from plain_field [OF assms(1,3)] cs have "plain_sub d c" if "c \<in> set cs" for c
    using that by (auto simp: plain_sub_def plain_schema_def sub_def list_all_iff)
  with cs(1) show thesis by (rule that)
qed

lemma plain_declared: "plain_schema (JDict d) \<Longrightarrow> declared d k = Some c \<Longrightarrow> plain_sub d c"
proof -
  assume s: "plain_schema (JDict d)" and c: "declared d k = Some c"
  then obtain ps where ps: "dget ''properties'' d = Some (JDict ps)" "dget k ps = Some c"
    by (auto simp: declared_def split: option.splits json.splits)
  from sub_map [OF plain_local [OF s] _ ps(1)] ps(2) have "sub d c"
    by (auto simp: schema_map_keywords_def)
  with avoids_dget [OF plain_field [OF s ps(1)] ps(2)] show "plain_sub d c"
    by (simp add: plain_sub_def plain_schema_def sub_def)
qed

lemma plain_no_multiple: "plain_schema (JDict d) \<Longrightarrow> dget ''multipleOf'' d = None"
  unfolding plain_schema_def using avoids_dget [of "[''multipleOf'']" d "''multipleOf''"]
  by (cases "dget ''multipleOf'' d") auto

lemma plain_keywords: "plain_schema (JDict d) \<Longrightarrow> keyword_checks d = Inr ()"
  using local_keywords plain_local by blast

section \<open>Keyword by keyword\<close>

lemma size_int:
  assumes "plain_schema (JDict d)" "k \<in> set size_keywords" "dget k d = Some v"
  obtains n where "v = JInt n"
  using plain_keywords [OF assms(1)] assms(2,3)
  by (cases v) (auto simp: keyword_checks_def size_ok_def)

lemma decides_count:
  assumes s: "plain_schema (JDict d)" and k: "{lo, hi} \<subseteq> set size_keywords"
  shows "decides (check_count lo hi least r d n) (count_ok lo hi least d n)"
proof -
  have lo: "dget lo d = None \<or> (\<exists>a. dget lo d = Some (JInt a))"
    and hi: "dget hi d = None \<or> (\<exists>b. dget hi d = Some (JInt b))"
    using size_int [OF s] k by (metis insert_subset option.exhaust)+
  then show ?thesis
    by (auto simp: decides_def check_count_def check_range_def bound_def count_ok_def raise_if_def)
qed

lemma decides_string:
  assumes "plain_schema (JDict d)"
  shows "decides (validate_string d s) (string_ok d s)"
proof -
  have "decides (case p of JStr p \<Rightarrow> bindE (pattern_found p s) (\<lambda>b. reject_if (\<not> b) PatternMismatch)
      | _ \<Rightarrow> Inl IllFormed) (matches s p)" if "dget ''pattern'' d = Some p" for p
  proof -
    from plain_keywords [OF assms] that obtain q r where "p = JStr q" "re_compile q = Some r"
      by (cases p) (auto simp: keyword_checks_def pattern_check_def)
    then show ?thesis by (auto simp: pattern_found_def matches_def intro: decides_reject)
  qed
  then show ?thesis
    unfolding validate_string_def string_ok_def
    by (intro decides_Cons decides_last decides_count [OF assms] decide_intros)
      (simp_all add: size_keywords_def)
qed

lemma decides_number:
  assumes s: "plain_schema (JDict d)" and v: "num_of v = Some x"
  shows "decides (validate_number d v x) (number_ok d v)"
proof -
  have num: "dget k d = None \<or> (\<exists>m y. dget k d = Some m \<and> num_of m = Some y)"
    if "k \<in> set number_keywords" for k
    using keyword_checks_number [OF plain_keywords [OF s] that] by (cases "dget k d") auto
  have range: "decides (check_range ''minimum'' NegInf ''maximum'' PosInf NumberRange d x)
      (opt_holds ''minimum'' d (against (\<lambda>y. \<not> num_less x y)) \<and>
       opt_holds ''maximum'' d (against (\<lambda>y. \<not> num_less y x)))"
    using num [of "''minimum''"] num [of "''maximum''"]
    by (cases x) (auto simp: check_range_def bound_def opt_holds_def against_def decides_def raise_if_def
        number_keywords_def)
  have lower: "decides (opt_check ''exclusiveMinimum'' d (\<lambda>m. case num_of m of None \<Rightarrow> Inl IllFormed
        | Some y \<Rightarrow> reject_if (num_le x y) ExclusiveMinimum))
      (opt_holds ''exclusiveMinimum'' d (against (\<lambda>y. \<not> num_le x y)))"
    using num [of "''exclusiveMinimum''"]
    by (auto simp: opt_check_def opt_holds_def against_def decides_def raise_if_def number_keywords_def)
  have upper: "decides (opt_check ''exclusiveMaximum'' d (\<lambda>m. case num_of m of None \<Rightarrow> Inl IllFormed
        | Some y \<Rightarrow> reject_if (num_le y x) ExclusiveMaximum))
      (opt_holds ''exclusiveMaximum'' d (against (\<lambda>y. \<not> num_le y x)))"
    using num [of "''exclusiveMaximum''"]
    by (auto simp: opt_check_def opt_holds_def against_def decides_def raise_if_def number_keywords_def)
  have "decides (validate_number d v x)
     ((opt_holds ''minimum'' d (against (\<lambda>y. \<not> num_less x y)) \<and>
       opt_holds ''maximum'' d (against (\<lambda>y. \<not> num_less y x))) \<and>
      opt_holds ''exclusiveMinimum'' d (against (\<lambda>y. \<not> num_le x y)) \<and>
      opt_holds ''exclusiveMaximum'' d (against (\<lambda>y. \<not> num_le y x)) \<and> True)"
    unfolding validate_number_def
    by (intro decides_Cons decides_last range lower upper)
      (simp add: opt_check_def plain_no_multiple [OF s] decides_def)
  then show ?thesis by (simp add: number_ok_def v)
qed

lemma decides_type:
  assumes "plain_schema (JDict d)" "dget ''type'' d = Some t"
  shows "decides (validate_type v t) (type_in v t)"
proof -
  have "type_decl_ok t" using plain_keywords [OF assms(1)] assms(2) by (simp add: keyword_checks_def)
  then consider s where "t = JStr s" | xs ss where "t = JList xs" "str_list t = Some ss"
    by (cases t) (auto simp: type_decl_ok_def str_list_def split: option.splits if_splits)
  then show ?thesis
    by cases (auto simp: validate_type_def type_in_def strings_def intro!: decides_reject)
qed

lemma decides_required:
  assumes "plain_schema (JDict d)"
  shows "decides (bindE (string_field ''required'' d) (\<lambda>req. reject_if (missing_fields req i) MissingFields))
     (opt_holds ''required'' d (\<lambda>r. list_all (\<lambda>k. dhas k i) (strings r)))"
proof (cases "dget ''required'' d")
  case (Some r)
  with plain_keywords [OF assms] obtain ss where "str_list r = Some ss"
    by (auto simp: keyword_checks_def unique_strings_def split: option.splits)
  with Some show ?thesis
    by (auto simp: string_field_def opt_holds_def strings_def missing_fields_def intro!: decides_reject)
qed (simp add: string_field_def opt_holds_def missing_fields_def decides_def raise_if_def)

lemma decides_dependents:
  assumes "plain_schema (JDict d)" "dget ''dependentRequired'' d = Some v"
  shows "decides (check_dependents i v) (dependents_hold i v)"
proof -
  have "dependents_ok v" using plain_local [OF assms(1)] assms(2) by (simp add: local_schema_def schema_wf_JDict)
  then obtain deps where v: "v = JDict deps" and u: "\<And>k f. (k, f) \<in> set deps \<Longrightarrow> unique_strings f"
    by (cases v) (auto simp: dependents_ok_def list_all_iff)
  have "decides (if dhas k i then
            (case str_list f of None \<Rightarrow> Inl IllFormed
             | Some ss \<Rightarrow> reject_if (missing_fields ss i) MissingDependents)
          else Inr ()) (dhas k i \<longrightarrow> list_all (\<lambda>f. dhas f i) (strings f))" if "(k, f) \<in> set deps" for k f
    using u [OF that] by (auto simp: unique_strings_def strings_def missing_fields_def decides_def
        raise_if_def split: option.splits)
  then show ?thesis
    unfolding v check_dependents_def dependents_hold_def json.case
    by (intro decides_for_each) auto
qed

section \<open>One level of validation\<close>

lemma decides_property:
  assumes s: "plain_schema (JDict d)" and r: "decides_rec d rec"
  shows "decides (validate_property rec rt d (k, x))
    (case declared d k of Some c \<Rightarrow> sat c x
     | None \<Rightarrow> opt_holds ''additionalProperties'' d (\<lambda>c. sat c x))"
proof -
  have pat: "dict_field ''patternProperties'' d = Inr []"
    using local_no_patterns [OF plain_local [OF s]] by (simp add: dict_field_def)
  obtain ps where "dict_field ''properties'' d = Inr ps"
    using properties_cases [OF plain_local [OF s]] by metis
  then have props: "\<exists>ps. dict_field ''properties'' d = Inr ps \<and> dget k ps = declared d k"
    by (auto simp: dict_field_def declared_def split: option.splits json.splits)
  have extra: "(\<exists>b. c = JBool b) \<or> (\<exists>e. c = JDict e)" if "dget ''additionalProperties'' d = Some c" for c
    using plain_value [OF s _ that] schema_wf_cases [of c]
    by (auto simp: schema_value_keywords_def plain_sub_def plain_schema_def local_schema_def)
  show ?thesis
  proof (cases "declared d k")
    case (Some c)
    with decides_recD [OF r plain_declared [OF s Some], of rt x] props pat show ?thesis
      by (auto simp: validate_property_def property_schemas_def for_each_simps decides_def split: sum.split)
  next
    case None
    show ?thesis
    proof (cases "dget ''additionalProperties'' d")
      case (Some c)
      have "plain_sub d c" using plain_value [OF s _ Some] by (simp add: schema_value_keywords_def)
      from decides_recD [OF r this, of rt x] extra [OF Some] None Some props pat show ?thesis
        by (auto simp: validate_property_def property_schemas_def for_each_simps opt_holds_def decides_def
            split: sum.split bool.split)
    qed (use None props pat in
        \<open>auto simp: validate_property_def property_schemas_def for_each_simps opt_holds_def decides_def\<close>)
  qed
qed

lemma decides_object:
  assumes s: "plain_schema (JDict d)" and r: "decides_rec d rec"
  shows "decides (validate_object rec rt d i)
    (opt_holds ''required'' d (\<lambda>r. list_all (\<lambda>k. dhas k i) (strings r)) \<and>
     count_ok ''minProperties'' ''maxProperties'' 0 d (length i) \<and>
     list_all (\<lambda>(k, x).
       case declared d k of
         Some c \<Rightarrow> sat c x
       | None \<Rightarrow> opt_holds ''additionalProperties'' d (\<lambda>c. sat c x)) i \<and>
     opt_holds ''propertyNames'' d (\<lambda>c. list_all (\<lambda>(k, x). sat c (JStr k)) i) \<and>
     opt_holds ''dependentRequired'' d (dependents_hold i))"
proof -
  have names: "decides (for_each (\<lambda>(k, v). rec rt c (JStr k)) i) (list_all (\<lambda>(k, x). sat c (JStr k)) i)"
    if "dget ''propertyNames'' d = Some c" for c
    using decides_recD [OF r plain_value [OF s _ that]]
    by (intro decides_for_each) (auto simp: schema_value_keywords_def)
  have members: "decides (for_each (validate_property rec rt d) i)
      (list_all (\<lambda>(k, x). case declared d k of Some c \<Rightarrow> sat c x
         | None \<Rightarrow> opt_holds ''additionalProperties'' d (\<lambda>c. sat c x)) i)"
    using decides_property [OF s r] by (intro decides_for_each) auto
  show ?thesis
    unfolding validate_object_def
    by (intro decides_Cons decides_last decides_required [OF s] decides_count [OF s] members
        decides_opt names decides_dependents [OF s]) (simp_all add: size_keywords_def)
qed

lemma prefix_children:
  assumes s: "plain_schema (JDict d)"
  shows "list_field ''prefixItems'' d = Inr (child_list ''prefixItems'' d)"
    and "c \<in> set (child_list ''prefixItems'' d) \<Longrightarrow> plain_sub d c"
proof -
  have "\<exists>cs. v = JList cs \<and> (\<forall>c \<in> set cs. plain_sub d c)" if "dget ''prefixItems'' d = Some v" for v
    using plain_list [OF s _ that] by (metis list.set_intros(1) list.set_intros(2) schema_list_keywords_def)
  then show "list_field ''prefixItems'' d = Inr (child_list ''prefixItems'' d)"
    and "c \<in> set (child_list ''prefixItems'' d) \<Longrightarrow> plain_sub d c"
    by (cases "dget ''prefixItems'' d"; force simp: list_field_def child_list_def children_def)+
qed

lemma decides_unique:
  assumes "plain_schema (JDict d)"
  shows "decides (case dget ''uniqueItems'' d of
         Some (JBool True) \<Rightarrow> reject_if (has_repeat json_equal [] xs) RepeatedItem
       | None \<Rightarrow> Inr () | Some (JBool False) \<Rightarrow> Inr () | Some _ \<Rightarrow> Inl IllFormed)
    (opt_holds ''uniqueItems'' d (\<lambda>u. u = JBool True \<longrightarrow> \<not> has_repeat json_equal [] xs))"
proof (cases "dget ''uniqueItems'' d")
  case (Some u)
  with plain_keywords [OF assms] obtain b where "u = JBool b"
    by (cases u) (simp_all add: keyword_checks_def)
  with Some show ?thesis by (cases b) (auto simp: opt_holds_def decides_def raise_if_def)
qed (simp add: opt_holds_def decides_def)

lemma decides_array:
  assumes s: "plain_schema (JDict d)" and r: "decides_rec d rec"
  shows "decides (validate_array rec rt d xs)
    (count_ok ''minItems'' ''maxItems'' 0 d (length xs) \<and>
     opt_holds ''uniqueItems'' d (\<lambda>u. u = JBool True \<longrightarrow> \<not> has_repeat json_equal [] xs) \<and>
     (list_all (\<lambda>(c, x). sat c x) (zip (child_list ''prefixItems'' d) xs) \<and>
      opt_holds ''items'' d (\<lambda>c.
        list_all (sat c) (drop (length (child_list ''prefixItems'' d)) xs))) \<and>
     opt_holds ''contains'' d (\<lambda>c.
       count_ok ''minContains'' ''maxContains'' 1 d (length (filter (sat c) xs))))"
proof -
  note val = decides_recD [OF r plain_value [OF s]]
  have prefix: "decides (for_each (\<lambda>(c, x). rec rt c x) (zip (child_list ''prefixItems'' d) xs))
      (list_all (\<lambda>(c, x). sat c x) (zip (child_list ''prefixItems'' d) xs))"
    using decides_recD [OF r prefix_children(2) [OF s]]
    by (intro decides_for_each) (auto dest: set_zip_leftD)
  have items: "decides (for_each (\<lambda>x. rec rt c x) (drop n xs)) (list_all (sat c) (drop n xs))"
    if "dget ''items'' d = Some c" for c n
    using val [OF _ that] by (intro decides_for_each) (simp add: schema_value_keywords_def)
  have contains: "decides (check_contains rec rt d xs c)
      (count_ok ''minContains'' ''maxContains'' 1 d (length (filter (sat c) xs)))"
    if "dget ''contains'' d = Some c" for c
    unfolding check_contains_def
    using decides_sum [of xs "rec rt c" "sat c"] val [OF _ that]
      decides_count [OF s, of "''minContains''" "''maxContains''"]
    by (simp add: schema_value_keywords_def size_keywords_def)
  show ?thesis
    unfolding validate_array_def prefix_children(1) [OF s] bindE.simps
    by (intro decides_Cons decides_last decides_count [OF s] decides_unique [OF s] prefix
        decides_opt items contains) (simp_all add: size_keywords_def)
qed

lemma decides_kind:
  assumes s: "plain_schema (JDict d)" and r: "decides_rec d rec"
  shows "decides (check_kind rec rt d v)
    (case v of
       JDict i \<Rightarrow>
         opt_holds ''required'' d (\<lambda>r. list_all (\<lambda>k. dhas k i) (strings r)) \<and>
         count_ok ''minProperties'' ''maxProperties'' 0 d (length i) \<and>
         list_all (\<lambda>(k, x).
           case declared d k of
             Some c \<Rightarrow> sat c x
           | None \<Rightarrow> opt_holds ''additionalProperties'' d (\<lambda>c. sat c x)) i \<and>
         opt_holds ''propertyNames'' d (\<lambda>c. list_all (\<lambda>(k, x). sat c (JStr k)) i) \<and>
         opt_holds ''dependentRequired'' d (dependents_hold i)
     | JList xs \<Rightarrow>
         count_ok ''minItems'' ''maxItems'' 0 d (length xs) \<and>
         opt_holds ''uniqueItems'' d (\<lambda>u. u = JBool True \<longrightarrow> \<not> has_repeat json_equal [] xs) \<and>
         list_all (\<lambda>(c, x). sat c x) (zip (child_list ''prefixItems'' d) xs) \<and>
         opt_holds ''items'' d (\<lambda>c.
           list_all (sat c) (drop (length (child_list ''prefixItems'' d)) xs)) \<and>
         opt_holds ''contains'' d (\<lambda>c.
           count_ok ''minContains'' ''maxContains'' 1 d (length (filter (sat c) xs)))
     | JStr s \<Rightarrow> string_ok d s
     | _ \<Rightarrow> number_ok d v)"
proof -
  have "decides (Inr ()) True" by (simp add: decides_def)
  then show ?thesis
    using decides_object [OF s r] decides_array [OF s r] decides_string [OF s] decides_number [OF s, of v]
    by (cases v) (simp_all add: check_kind_def number_ok_def conj_assoc)
qed

lemma decides_lists:
  assumes s: "plain_schema (JDict d)" and r: "decides_rec d rec"
  shows "dget ''allOf'' d = Some c \<Longrightarrow>
      decides (check_all_of rec rt v c) (list_all (\<lambda>c. sat c v) (children c))"
    and "dget ''anyOf'' d = Some c \<Longrightarrow>
      decides (check_any_of rec rt v c) (list_ex (\<lambda>c. sat c v) (children c))"
    and "dget ''oneOf'' d = Some c \<Longrightarrow>
      decides (check_one_of rec rt v c) (length (filter (\<lambda>c. sat c v) (children c)) = 1)"
proof -
  have cs: "\<exists>cs. c = JList cs \<and> (\<forall>x \<in> set cs. decides (rec rt x v) (sat x v))"
    if "dget k d = Some c" "k \<in> {''allOf'', ''anyOf'', ''oneOf''}" for k
  proof -
    have "k \<in> set schema_list_keywords" using that(2) by (auto simp: schema_list_keywords_def)
    from plain_list [OF s this that(1)] show ?thesis using decides_recD [OF r] by metis
  qed
  show "decides (check_all_of rec rt v c) (list_all (\<lambda>c. sat c v) (children c))"
    if "dget ''allOf'' d = Some c"
    using cs [OF that] by (auto simp: check_all_of_def children_def intro!: decides_for_each)
  show "decides (check_any_of rec rt v c) (list_ex (\<lambda>c. sat c v) (children c))"
    if "dget ''anyOf'' d = Some c"
    using cs [OF that] decides_any [of _ "\<lambda>c. rec rt c v" "\<lambda>c. sat c v"]
    by (auto simp: check_any_of_def children_def intro!: decides_reject)
  show "decides (check_one_of rec rt v c) (length (filter (\<lambda>c. sat c v) (children c)) = 1)"
    if "dget ''oneOf'' d = Some c"
    using cs [OF that] decides_sum [of _ "\<lambda>c. rec rt c v" "\<lambda>c. sat c v"]
    by (auto simp: check_one_of_def children_def intro!: decides_reject)
qed

lemma decides_not:
  assumes s: "plain_schema (JDict d)" and r: "decides_rec d rec" and c: "dget ''not'' d = Some c"
  shows "decides (check_not rec rt v c) (\<not> sat c v)"
proof -
  have "decides (rec rt c v) (sat c v)"
    by (intro decides_recD [OF r] plain_value [OF s _ c]) (simp add: schema_value_keywords_def)
  then show ?thesis by (simp add: check_not_def decides_def raise_if_def)
qed

lemma decides_if:
  assumes s: "plain_schema (JDict d)" and r: "decides_rec d rec" and c: "dget ''if'' d = Some c"
  shows "decides (check_if rec rt d v c)
    (if sat c v then opt_holds ''then'' d (\<lambda>t. sat t v) else opt_holds ''else'' d (\<lambda>t. sat t v))"
proof -
  have val: "decides (rec rt t v) (sat t v)" if "dget k d = Some t" "k \<in> {''if'', ''then'', ''else''}" for k t
    using that(2) by (intro decides_recD [OF r] plain_value [OF s _ that(1)])
      (auto simp: schema_value_keywords_def)
  have some: "optional_schema k d = dget k d" if "k \<in> {''then'', ''else''}" for k
  proof (cases "dget k d")
    case (Some t)
    from that have "k \<in> set schema_value_keywords" by (auto simp: schema_value_keywords_def)
    from plain_value [OF s this Some] have "schema_wf t"
      unfolding plain_sub_def plain_schema_def local_schema_def by blast
    from schema_wf_cases [OF this] Some show ?thesis by (auto simp: optional_schema_def)
  qed (simp add: optional_schema_def)
  have branch: "decides (case dget k d of None \<Rightarrow> Inr () | Some t \<Rightarrow> rec rt t v) (opt_holds k d (\<lambda>t. sat t v))"
    if "k \<in> {''then'', ''else''}" for k
    using val [of k] that by (cases "dget k d") (simp_all add: opt_holds_def decides_def)
  from val [OF c] have "verdict (rec rt c v) = Inr (sat c v)" by (simp add: decides_def)
  then show ?thesis
    unfolding check_if_def using branch by (cases "sat c v") (simp_all add: some)
qed

lemma decides_dict:
  assumes s: "plain_schema (JDict d)" and r: "decides_rec d rec"
  shows "decides (validate_dict reg rec rt d v) (sat (JDict d) v)"
proof -
  have enum: "decides (check_enum v c) (list_ex (json_equal v) (children c))"
    if "dget ''enum'' d = Some c" for c
    using plain_keywords [OF s] that
    by (cases c) (auto simp: keyword_checks_def enum_check_def check_enum_def children_def eq_mem_def
        intro!: decides_reject)
  have const: "decides (reject_if (\<not> json_equal v c) NotConst) (json_equal v c)" for c
    by (rule decides_reject) simp
  have ref: "decides (opt_check ''$ref'' d (check_ref reg rec rt v)) True"
    using local_no_ref [OF plain_local [OF s]] by (simp add: opt_check_def decides_def)
  have "decides (validate_dict reg rec rt d v) (True \<and> sat (JDict d) v)"
    unfolding validate_dict_def sat.simps(2)
    by (intro decides_Cons decides_last decides_opt ref const enum decides_lists [OF s r]
        decides_not [OF s r] decides_if [OF s r] decides_type [OF s] decides_kind [OF s r])
  then show ?thesis by simp
qed

lemma decides_validate_in:
  "plain_schema s \<Longrightarrow> size s < n \<Longrightarrow> decides (validate_in reg n rt s v) (sat s v)"
proof (induction n arbitrary: s rt v)
  case (Suc n)
  show ?case
  proof (cases "\<exists>d. s = JDict d")
    case True
    then obtain d where s: "s = JDict d" by blast
    have "decides_rec d (validate_in reg n)"
      using Suc.IH Suc.prems(2) unfolding decides_rec_def plain_sub_def s by simp
    from decides_dict [OF _ this] Suc.prems(1) show ?thesis by (simp add: s validate_step_def)
  next
    case False
    then obtain b where "s = JBool b"
      using Suc.prems(1) schema_wf_cases unfolding plain_schema_def local_schema_def by blast
    then show ?thesis by (auto simp: validate_step_def intro: decides_reject)
  qed
qed simp

lemma validate_iff_sat:
  "plain_schema s \<Longrightarrow> size s < n \<Longrightarrow> validate reg n s v = Inr () \<longleftrightarrow> sat s v"
proof -
  assume s: "plain_schema s" "size s < n"
  then have wf: "sdef s = Inr ()" by (simp add: plain_schema_def local_schema_def schema_wf_def)
  show ?thesis
  proof (cases "\<exists>b. s = JBool b")
    case True
    then show ?thesis by (auto simp: validate_def)
  next
    case False
    then have "validate reg n s v = checks [sdef s, validate_in reg n s s v]"
      by (cases s) (simp_all add: validate_def)
    with decidesD [OF decides_validate_in [OF s], of reg s v] wf show ?thesis by simp
  qed
qed

text \<open>Whatever the recursion limit, what is accepted satisfies the schema.\<close>

lemma validate_sat: "plain_schema s \<Longrightarrow> validate reg n s v = Inr () \<Longrightarrow> sat s v"
  using validate_stable [of reg n s v "max n (Suc (size s))"]
    validate_iff_sat [of s "max n (Suc (size s))" reg v] by simp

text \<open>
  C1: the validator decides satisfaction: on a well-formed schema without references, pattern
  properties and \<open>multipleOf\<close>, with a recursion limit above the schema's size, it accepts exactly the
  instances that satisfy the schema.
\<close>

theorem validate_decides_sat:
  "plain_schema s \<Longrightarrow> size s < n \<Longrightarrow> validate reg n s v = Inr () \<longleftrightarrow> sat s v"
  by (rule validate_iff_sat)

theorem validate_decides_sat_witness:
  "sat (JDict [(''items'', JDict [(''maximum'', JInt 7)])]) (JList [JInt 3, JStr ''a''])"
proof -
  let ?s = "JDict [(''items'', JDict [(''maximum'', JInt 7)])]" and ?v = "JList [JInt 3, JStr ''a'']"
  have "plain_schema ?s" by code_simp
  moreover have "size ?s < 20" by simp
  moreover have "validate [] 20 ?s ?v = Inr ()" by code_simp
  ultimately show ?thesis using validate_decides_sat [of ?s 20 "[]" ?v] by blast
qed

end
