(* ===== verification/Contract_Semantics.thy ===== *)
theory Contract_Semantics
  imports Schema_Semantics Field_Patterns
begin

text \<open>
  What the builders of codegen/model.py mean: for each builder the instances that satisfy the schema
  it returns, and the conditions under which the schema is one the validator handles
  (\<open>plain_schema\<close>). Both sets of laws are simplification rules, so that a contract assembled from
  builders is analysed without evaluating the validator.
\<close>

named_theorems sat_simps \<open>satisfaction of the schemas the builders return\<close>
named_theorems plain_simps \<open>well-formedness of the schemas the builders return\<close>

section \<open>Satisfaction\<close>

lemma opt_holds_simps [sat_simps]:
  "opt_holds k [] P"
  "opt_holds k ((k', x) # d) P = (if k' = k then P x else opt_holds k d P)"
  by (simp_all add: opt_holds_def)

lemma children_JList [sat_simps]: "children (JList cs) = cs"
  by (simp add: children_def)

lemma strings_jstrs [sat_simps]: "strings (jstrs ss) = ss"
  by (simp add: strings_def)

lemma list_ex_json_equal [sat_simps]: "list_ex (json_equal v) (map JStr ss) \<longleftrightarrow> (\<exists>s \<in> set ss. v = JStr s)"
  by (auto simp: list_ex_iff)

definition number_free :: "json dict \<Rightarrow> bool" where
  "number_free d = list_all (\<lambda>(k, v). k \<notin> set number_keywords) d"

lemma number_ok_free: "number_free d \<Longrightarrow> number_ok d v"
proof -
  assume "number_free d"
  then have "dget k d = None" if "k \<in> set number_keywords" for k
    using that dget_mem [of k d] by (cases "dget k d") (auto simp: number_free_def list_all_iff)
  then show ?thesis
    by (auto simp: number_ok_def opt_holds_def number_keywords_def split: option.split)
qed

lemma sat_const_schema [sat_simps]:
  "sat (const_schema (JStr c)) v \<longleftrightarrow> v = JStr c"
  "sat (const_schema (JBool b)) v \<longleftrightarrow> v = JBool b"
  "sat (const_schema (JInt n)) v \<longleftrightarrow> json_equal v (JInt n)"
  by (cases v; auto simp: sat.simps(2) opt_holds_simps number_ok_def string_ok_def count_ok_def
      declared_def child_list_def list_all_iff split: option.splits)+

lemma sat_null_schema [sat_simps]: "sat null_schema v \<longleftrightarrow> v = JNull"
  by (cases v) (auto simp: sat.simps(2) opt_holds_simps type_in_def has_type_def number_ok_def)

lemma sat_nullable [sat_simps]: "sat (nullable s) v \<longleftrightarrow> sat s v \<or> v = JNull"
  unfolding nullable_def
  by (subst sat.simps(2), cases v) (simp_all add: opt_holds_simps children_JList sat_null_schema
      number_ok_def string_ok_def count_ok_def declared_def child_list_def list_all_iff)

lemma sat_boolean [sat_simps]:
  "sat s_boolean v \<longleftrightarrow> (case v of JBool b \<Rightarrow> True | _ \<Rightarrow> False)"
  by (cases v) (auto simp: s_boolean_def sat.simps(2) opt_holds_simps type_in_def has_type_def number_ok_def)

text \<open>The string builder: every keyword argument adds its own condition.\<close>

definition string_allowed :: "string_args \<Rightarrow> string \<Rightarrow> bool" where
  "string_allowed a s =
     ((case s_enum a of None \<Rightarrow> True | Some es \<Rightarrow> s \<in> set es) \<and>
      (case s_const a of None \<Rightarrow> True | Some c \<Rightarrow> s = c) \<and>
      (case s_pattern a of None \<Rightarrow> True | Some p \<Rightarrow> matches s (JStr p)) \<and>
      (case s_min_length a of None \<Rightarrow> True | Some n \<Rightarrow> n \<le> int (length s)) \<and>
      (case s_max_length a of None \<Rightarrow> True | Some n \<Rightarrow> int (length s) \<le> n))"

lemma dget_set_opt: "dget k (set_opt k' v d) = (if k = k' then (case v of None \<Rightarrow> dget k d | Some x \<Rightarrow> Some x) else dget k d)"
  by (simp add: set_opt_def split: option.split)

lemma sat_string [sat_simps]:
  "sat (s_string a) v \<longleftrightarrow> (case v of JStr s \<Rightarrow> string_allowed a s | _ \<Rightarrow> False)"
proof -
  define d where "d = set_opt ''description'' (map_option JStr (s_description a))
     (set_opt ''maxLength'' (map_option JInt (s_max_length a))
     (set_opt ''minLength'' (map_option JInt (s_min_length a))
     (set_opt ''format'' (map_option JStr (s_fmt a))
     (set_opt ''pattern'' (map_option JStr (s_pattern a))
     (set_opt ''const'' (map_option JStr (s_const a))
     (set_opt ''enum'' (map_option jstrs (s_enum a)) [(''type'', JStr ''string'')]))))))"
  have d: "s_string a = JDict d" by (simp add: s_string_def d_def)
  have get: "dget ''type'' d = Some (JStr ''string'')" "dget ''enum'' d = map_option jstrs (s_enum a)"
      "dget ''const'' d = map_option JStr (s_const a)" "dget ''pattern'' d = map_option JStr (s_pattern a)"
      "dget ''minLength'' d = map_option JInt (s_min_length a)"
      "dget ''maxLength'' d = map_option JInt (s_max_length a)"
      "dget ''allOf'' d = None" "dget ''anyOf'' d = None" "dget ''oneOf'' d = None"
      "dget ''not'' d = None" "dget ''if'' d = None"
    by (simp_all add: d_def dget_set_opt split: option.split)
  have type: "type_in v (JStr ''string'') \<longleftrightarrow> (case v of JStr s \<Rightarrow> True | _ \<Rightarrow> False)"
    by (simp add: type_in_def has_type_def)
  show ?thesis
  proof (cases "\<exists>s. v = JStr s")
    case True
    then obtain s where v: "v = JStr s" by blast
    show ?thesis
      unfolding v d sat.simps(2) string_ok_def count_ok_def string_allowed_def opt_holds_def get
        type [unfolded v] json.case
      by (cases "s_enum a"; cases "s_const a"; cases "s_pattern a"; cases "s_min_length a";
          cases "s_max_length a") (auto simp: children_JList list_ex_json_equal type_in_def has_type_def)
  next
    case False
    then show ?thesis
      using type unfolding d sat.simps(2) opt_holds_def get by (cases v) simp_all
  qed
qed

definition in_bounds :: "int option \<Rightarrow> int option \<Rightarrow> json \<Rightarrow> bool" where
  "in_bounds lo hi v =
     (case num_of v of
        Some (Fin q) \<Rightarrow>
          (case lo of None \<Rightarrow> True | Some a \<Rightarrow> of_int a \<le> q) \<and>
          (case hi of None \<Rightarrow> True | Some b \<Rightarrow> q \<le> of_int b)
      | _ \<Rightarrow> False)"

lemma sat_integer [sat_simps]:
  "sat (s_integer lo hi) v \<longleftrightarrow> is_integer_value v \<and> in_bounds lo hi v"
proof -
  define d where "d = set_opt ''maximum'' (map_option JInt hi)
     (set_opt ''minimum'' (map_option JInt lo) [(''type'', JStr ''integer'')])"
  have d: "s_integer lo hi = JDict d" by (simp add: s_integer_def d_def)
  have get: "dget ''type'' d = Some (JStr ''integer'')" "dget ''minimum'' d = map_option JInt lo"
      "dget ''maximum'' d = map_option JInt hi" "dget ''enum'' d = None" "dget ''const'' d = None"
      "dget ''exclusiveMinimum'' d = None" "dget ''exclusiveMaximum'' d = None"
      "dget ''allOf'' d = None" "dget ''anyOf'' d = None" "dget ''oneOf'' d = None"
      "dget ''not'' d = None" "dget ''if'' d = None"
    by (simp_all add: d_def dget_set_opt split: option.split)
  have type: "type_in v (JStr ''integer'') \<longleftrightarrow> is_integer_value v"
    by (simp add: type_in_def has_type_def)
  have bounds: "is_integer_value v \<Longrightarrow> number_ok d v \<longleftrightarrow> in_bounds lo hi v"
    by (cases v; cases lo; cases hi) (auto simp: is_integer_value_def number_ok_def in_bounds_def
        against_def opt_holds_def get not_less split: pyfloat.splits)
  have kind: "is_integer_value v \<Longrightarrow> v \<noteq> JDict i \<and> v \<noteq> JList xs \<and> v \<noteq> JStr s" for i xs s
    by (auto simp: is_integer_value_def)
  show ?thesis
    unfolding d sat.simps(2) opt_holds_def get option.case type
    using bounds kind by (cases v) auto
qed

text \<open>The members of an object: declared ones satisfy their schema, others need \<open>additional\<close>.\<close>

definition members_ok :: "json dict \<Rightarrow> bool \<Rightarrow> json dict \<Rightarrow> bool" where
  "members_ok props additional i =
     list_all (\<lambda>(k, x). case dget k props of Some c \<Rightarrow> sat c x | None \<Rightarrow> additional) i"

lemma members_eq:
  assumes "dget ''additionalProperties'' d = Some (JBool additional)"
    and "dget ''properties'' d = Some (JDict props)"
  shows "list_all (\<lambda>(k, x). case declared d k of
      Some c \<Rightarrow> sat c x | None \<Rightarrow> opt_holds ''additionalProperties'' d (\<lambda>c. sat c x)) i \<longleftrightarrow>
    members_ok props additional i"
  by (simp add: members_ok_def declared_def opt_holds_def assms sat.simps(1) cong: option.case_cong)

lemma sat_array [sat_simps]:
  "sat (s_array it a b u) v \<longleftrightarrow>
    (case v of
       JList xs \<Rightarrow> a \<le> int (length xs) \<and> int (length xs) \<le> b \<and>
         (u \<longrightarrow> \<not> has_repeat json_equal [] xs) \<and> list_all (sat it) xs
     | _ \<Rightarrow> False)"
  by (cases v) (auto simp: s_array_def sat.simps(2) opt_holds_simps type_in_def has_type_def number_ok_def
      count_ok_def child_list_def opt_holds_def)

lemma sat_object [sat_simps]:
  "sat (s_object props req additional) v \<longleftrightarrow>
    (case v of
       JDict i \<Rightarrow> list_all (\<lambda>k. dhas k i) req \<and> members_ok props additional i
     | _ \<Rightarrow> False)"
proof -
  define d where "d = [(''type'', JStr ''object''), (''additionalProperties'', JBool additional),
      (''required'', jstrs req), (''properties'', JDict props)]"
  have d: "s_object props req additional = JDict d" by (simp add: s_object_def d_def)
  have get: "dget ''type'' d = Some (JStr ''object'')" "dget ''required'' d = Some (jstrs req)"
      "dget ''additionalProperties'' d = Some (JBool additional)"
      "dget ''properties'' d = Some (JDict props)" "dget ''minProperties'' d = None"
      "dget ''maxProperties'' d = None" "dget ''propertyNames'' d = None"
      "dget ''dependentRequired'' d = None" "dget ''enum'' d = None" "dget ''const'' d = None"
      "dget ''allOf'' d = None" "dget ''anyOf'' d = None" "dget ''oneOf'' d = None"
      "dget ''not'' d = None" "dget ''if'' d = None"
    by (simp_all add: d_def)
  show ?thesis
    unfolding d sat.simps(2) members_eq [OF get(3,4)]
    unfolding opt_holds_def get count_ok_def
    by (cases v) (simp_all add: type_in_def has_type_def strings_jstrs)
qed

lemma sat_document:
  "sat (JDict (document_keywords a)) v \<longleftrightarrow>
    (case v of
       JDict i \<Rightarrow>
         list_all (\<lambda>k. dhas k i) (''schema_version'' # d_required a) \<and>
         members_ok (dupdate [(''schema_version'', const_schema (JStr (d_version a)))] (d_properties a))
           False i \<and>
         list_all (\<lambda>c. sat c v) (case d_all_of a of None \<Rightarrow> [] | Some cs \<Rightarrow> cs)
     | _ \<Rightarrow> False)"
proof -
  define d where "d = document_keywords a"
  define req where "req = ''schema_version'' # d_required a"
  define props where
    "props = dupdate [(''schema_version'', const_schema (JStr (d_version a)))] (d_properties a)"
  have get: "dget ''type'' d = Some (JStr ''object'')" "dget ''required'' d = Some (jstrs req)"
      "dget ''additionalProperties'' d = Some (JBool False)"
      "dget ''properties'' d = Some (JDict props)" "dget ''minProperties'' d = None"
      "dget ''maxProperties'' d = None" "dget ''propertyNames'' d = None"
      "dget ''dependentRequired'' d = None" "dget ''enum'' d = None" "dget ''const'' d = None"
      "dget ''anyOf'' d = None" "dget ''oneOf'' d = None"
      "dget ''not'' d = None" "dget ''if'' d = None"
    by (simp_all add: d_def document_keywords_def req_def props_def split: option.split list.split)
  have all_of: "opt_holds ''allOf'' d (\<lambda>cs. list_all (\<lambda>c. sat c v) (children cs)) \<longleftrightarrow>
      list_all (\<lambda>c. sat c v) (case d_all_of a of None \<Rightarrow> [] | Some cs \<Rightarrow> cs)"
    by (simp add: d_def document_keywords_def opt_holds_def children_JList split: option.split list.split)
  show ?thesis
    unfolding d_def [symmetric] req_def [symmetric] props_def [symmetric] sat.simps(2)
      members_eq [OF get(3,4)] all_of
    unfolding opt_holds_def get count_ok_def
    by (cases v) (auto simp: type_in_def has_type_def strings_jstrs)
qed

lemma sat_properties:
  "sat (JDict [(''properties'', JDict ps)]) v \<longleftrightarrow>
    (case v of JDict i \<Rightarrow> members_ok ps True i | _ \<Rightarrow> True)"
  by (subst sat.simps(2), cases v) (simp_all add: opt_holds_def number_ok_def string_ok_def count_ok_def
      declared_def child_list_def members_ok_def list_all_iff cong: option.case_cong)

lemma sat_if:
  "sat (JDict [(''if'', c), (''then'', t)]) v \<longleftrightarrow> (sat c v \<longrightarrow> sat t v)"
  "sat (JDict [(''if'', c), (''then'', t), (''else'', e)]) v \<longleftrightarrow> (if sat c v then sat t v else sat e v)"
  by (subst sat.simps(2), cases v; simp add: opt_holds_def number_ok_def string_ok_def count_ok_def
      declared_def child_list_def list_all_iff)+

lemma sat_one_of:
  "sat (JDict [(''oneOf'', JList cs)]) v \<longleftrightarrow> length (filter (\<lambda>c. sat c v) cs) = 1"
  by (subst sat.simps(2), cases v) (simp_all add: opt_holds_def number_ok_def string_ok_def count_ok_def
      declared_def child_list_def list_all_iff children_JList)

lemma sat_enum [sat_simps]:
  "sat (JDict [(''enum'', JList vs)]) v \<longleftrightarrow> list_ex (json_equal v) vs"
  by (subst sat.simps(2), cases v) (simp_all add: opt_holds_def number_ok_def string_ok_def count_ok_def
      declared_def child_list_def list_all_iff children_JList)

lemma sat_string_enum [sat_simps]:
  "sat (JDict [(''type'', JStr ''string''), (''enum'', JList vs)]) v \<longleftrightarrow>
    (\<exists>s. v = JStr s) \<and> list_ex (json_equal v) vs"
  by (subst sat.simps(2), cases v) (auto simp: opt_holds_def number_ok_def string_ok_def count_ok_def
      declared_def child_list_def list_all_iff children_JList type_in_def has_type_def)

section \<open>Well-formedness\<close>

text \<open>The names a property of a plain schema may not have, since \<open>avoids\<close> looks at every object.\<close>

definition reserved :: "string \<Rightarrow> bool" where
  "reserved k = (k = ''$ref'' \<or> k = ''patternProperties'' \<or> k = ''multipleOf'')"

definition plain_data :: "json \<Rightarrow> bool" where
  "plain_data v = avoids [''$ref'', ''patternProperties'', ''multipleOf''] v"

definition plain_props :: "json dict \<Rightarrow> bool" where
  "plain_props d = list_all (\<lambda>(k, c). \<not> reserved k \<and> plain_schema c) d"

lemma avoids_append: "avoids (ks @ ls) v \<longleftrightarrow> avoids ks v \<and> avoids ls v"
proof (induction v)
  case (JDict d)
  then have "avoids (ks @ ls) v \<longleftrightarrow> avoids ks v \<and> avoids ls v" if "(k, v) \<in> set d" for k v
    using that by (auto simp: snds.simps)
  then show ?case by (fastforce simp: avoids.simps(2) list_all_iff)
qed (auto simp: list_all_iff)

lemma plain_schema_alt: "plain_schema s \<longleftrightarrow> schema_wf s \<and> plain_data s"
  using avoids_append [of "[''$ref'', ''patternProperties'']" "[''multipleOf'']" s]
  by (auto simp: plain_schema_def local_schema_def plain_data_def)

lemma plain_data_simps [simp]:
  "plain_data (JStr s)" "plain_data (JBool b)" "plain_data (JInt n)" "plain_data JNull"
  "plain_data (JList xs) \<longleftrightarrow> list_all plain_data xs"
  "plain_data (JDict d) \<longleftrightarrow> list_all (\<lambda>(k, v). \<not> reserved k \<and> plain_data v) d"
  by (auto simp: plain_data_def reserved_def avoids.simps(2) list_all_iff)

lemma plain_data_jstrs [simp]: "list_all plain_data (map JStr ss)"
  by (simp add: list_all_iff)

text \<open>The keywords of an object and the sub-schemas below them, as one conjunction.\<close>

lemma schema_wfI:
  assumes "keyword_checks d = Inr ()"
    and "list_all (\<lambda>k. opt_holds k d (\<lambda>v. \<exists>ch. v = JDict ch \<and> list_all (\<lambda>nc. schema_wf (snd nc)) ch))
      schema_map_keywords"
    and "list_all (\<lambda>k. opt_holds k d (\<lambda>v. \<exists>ch. v = JList ch \<and> ch \<noteq> [] \<and> list_all schema_wf ch))
      schema_list_keywords"
    and "list_all (\<lambda>k. opt_holds k d schema_wf) schema_value_keywords"
    and "opt_holds ''dependentRequired'' d dependents_ok"
  shows "schema_wf (JDict d)"
  using assms unfolding schema_wf_JDict by (fastforce simp: opt_holds_def list_all_iff split: option.splits)

lemma has_repeat_strings: "has_repeat json_equal (map JStr ps) (map JStr ss) \<longleftrightarrow>
    \<not> (distinct ss \<and> set ps \<inter> set ss = {})"
proof (induction ss arbitrary: ps)
  case (Cons s ss)
  have "list_ex (json_equal (JStr s)) (map JStr ps) \<longleftrightarrow> s \<in> set ps" by (auto simp: list_ex_iff)
  then show ?case using Cons [of "ps @ [s]"] by auto
qed simp

lemmas keyword_tables = assertion_keywords_def annotation_keywords_def schema_map_keywords_def
  schema_list_keywords_def schema_value_keywords_def size_keywords_def size_pairs_def number_keywords_def
  json_types_def

lemma known_keywords [simp]:
  "known_keyword ''type''" "known_keyword ''const''" "known_keyword ''enum''" "known_keyword ''pattern''"
  "known_keyword ''format''" "known_keyword ''minLength''" "known_keyword ''maxLength''"
  "known_keyword ''description''" "known_keyword ''minimum''" "known_keyword ''maximum''"
  "known_keyword ''items''" "known_keyword ''minItems''" "known_keyword ''maxItems''"
  "known_keyword ''uniqueItems''" "known_keyword ''additionalProperties''" "known_keyword ''required''"
  "known_keyword ''properties''" "known_keyword ''anyOf''" "known_keyword ''allOf''"
  "known_keyword ''oneOf''" "known_keyword ''if''" "known_keyword ''then''" "known_keyword ''else''"
  "known_keyword ''$schema''" "known_keyword ''$id''" "known_keyword ''title''" "known_keyword ''$defs''"
  "known_keyword ''x-generated-by''" "known_keyword ''x-jumpship-data-class''"
  "known_keyword ''x-jumpship-flow-ids''" "known_keyword ''x-jumpship-max-bytes''"
  "known_keyword ''x-jumpship-compatibility''"
  by (simp_all add: known_keyword_def assertion_keywords_def annotation_keywords_def starts_with_def)

lemma unique_jstrs [simp]: "unique_strings (jstrs ss) = distinct ss"
  by (simp add: unique_strings_def)

lemma plain_const [plain_simps]: "plain_data c \<Longrightarrow> plain_schema (const_schema c)"
  unfolding plain_schema_alt
  by (rule conjI [OF schema_wfI])
    (simp_all add: keyword_checks_def keyword_tables opt_check_def opt_holds_def reserved_def)

lemma plain_type:
  "plain_schema null_schema" "plain_schema s_boolean"
  unfolding plain_schema_alt s_boolean_def
  by (rule conjI [OF schema_wfI];
      simp add: keyword_checks_def keyword_tables opt_check_def opt_holds_def reserved_def type_decl_ok_def)+

declare plain_type [plain_simps]

lemma known_set_opt:
  "list_all (\<lambda>(k, v). P k v) (set_opt k x d) \<longleftrightarrow>
    (case x of None \<Rightarrow> list_all (\<lambda>(k, v). P k v) d | Some y \<Rightarrow> list_all (\<lambda>(k, v). P k v) (dset k y d))"
  by (simp add: set_opt_def split: option.split)

lemma list_all_dset:
  "list_all (\<lambda>(k, v). P k v) d \<Longrightarrow> P k x \<Longrightarrow> list_all (\<lambda>(k, v). P k v) (dset k x d)"
  by (induction k x d rule: dset.induct) auto

lemma list_all_set_opt:
  "list_all (\<lambda>(k, v). P k v) d \<Longrightarrow> (\<And>y. x = Some y \<Longrightarrow> P k y) \<Longrightarrow>
    list_all (\<lambda>(k, v). P k v) (set_opt k x d)"
  by (simp add: set_opt_def list_all_dset split: option.split)

definition string_args_ok :: "string_args \<Rightarrow> bool" where
  "string_args_ok a =
     ((case s_enum a of None \<Rightarrow> True | Some es \<Rightarrow> es \<noteq> [] \<and> distinct es) \<and>
      (case s_pattern a of None \<Rightarrow> True | Some p \<Rightarrow> re_compile p \<noteq> None) \<and>
      (case s_min_length a of None \<Rightarrow> True | Some n \<Rightarrow> 0 \<le> n) \<and>
      (case s_max_length a of None \<Rightarrow> True | Some n \<Rightarrow> 0 \<le> n) \<and>
      (case (s_min_length a, s_max_length a) of (Some m, Some n) \<Rightarrow> m \<le> n | _ \<Rightarrow> True))"

lemma plain_string [plain_simps]:
  assumes "string_args_ok a"
  shows "plain_schema (s_string a)"
proof -
  define d where "d = set_opt ''description'' (map_option JStr (s_description a))
     (set_opt ''maxLength'' (map_option JInt (s_max_length a))
     (set_opt ''minLength'' (map_option JInt (s_min_length a))
     (set_opt ''format'' (map_option JStr (s_fmt a))
     (set_opt ''pattern'' (map_option JStr (s_pattern a))
     (set_opt ''const'' (map_option JStr (s_const a))
     (set_opt ''enum'' (map_option jstrs (s_enum a)) [(''type'', JStr ''string'')]))))))"
  have d: "s_string a = JDict d" by (simp add: s_string_def d_def)
  have known: "list_all (\<lambda>(k, v). known_keyword k) d"
    and data: "list_all (\<lambda>(k, v). \<not> reserved k \<and> plain_data v) d"
    unfolding d_def by (intro list_all_set_opt; auto simp: reserved_def)+
  have get: "dget k d =
     (if k = ''description'' then map_option JStr (s_description a)
      else if k = ''maxLength'' then map_option JInt (s_max_length a)
      else if k = ''minLength'' then map_option JInt (s_min_length a)
      else if k = ''format'' then map_option JStr (s_fmt a)
      else if k = ''pattern'' then map_option JStr (s_pattern a)
      else if k = ''const'' then map_option JStr (s_const a)
      else if k = ''enum'' then map_option jstrs (s_enum a)
      else if k = ''type'' then Some (JStr ''string'') else None)" for k
    by (simp add: d_def dget_set_opt split: option.split)
  have "keyword_checks d = Inr ()"
    using assms unfolding keyword_checks_def string_args_ok_def
    by (auto simp: known get keyword_tables type_decl_ok_def enum_check_def pattern_check_def size_ok_def
        sizes_cross_def has_repeat_strings [of "[]", simplified] split: option.splits)
  then have "schema_wf (JDict d)"
    by (rule schema_wfI) (simp_all add: keyword_tables opt_holds_def get)
  with data show ?thesis by (simp add: plain_schema_alt d)
qed

lemma plain_integer [plain_simps]: "plain_schema (s_integer lo hi)"
proof -
  define d where "d = set_opt ''maximum'' (map_option JInt hi)
     (set_opt ''minimum'' (map_option JInt lo) [(''type'', JStr ''integer'')])"
  have d: "s_integer lo hi = JDict d" by (simp add: s_integer_def d_def)
  have known: "list_all (\<lambda>(k, v). known_keyword k) d"
    and data: "list_all (\<lambda>(k, v). \<not> reserved k \<and> plain_data v) d"
    unfolding d_def by (intro list_all_set_opt; auto simp: reserved_def)+
  have get: "dget k d =
     (if k = ''maximum'' then map_option JInt hi
      else if k = ''minimum'' then map_option JInt lo
      else if k = ''type'' then Some (JStr ''integer'') else None)" for k
    by (simp add: d_def dget_set_opt split: option.split)
  have "keyword_checks d = Inr ()"
    unfolding keyword_checks_def
    by (auto simp: known get keyword_tables type_decl_ok_def is_num_def)
  then have "schema_wf (JDict d)"
    by (rule schema_wfI) (simp_all add: keyword_tables opt_holds_def get)
  with data show ?thesis by (simp add: plain_schema_alt d)
qed

lemma plain_nullable [plain_simps]: "plain_schema s \<Longrightarrow> plain_schema (nullable s)"
  using plain_type(1) unfolding plain_schema_alt nullable_def
  by (intro conjI schema_wfI)
    (simp_all add: keyword_checks_def keyword_tables opt_check_def opt_holds_def reserved_def)

lemma plain_array [plain_simps]:
  "plain_schema it \<Longrightarrow> 0 \<le> a \<Longrightarrow> a \<le> b \<Longrightarrow> plain_schema (s_array it a b u)"
  unfolding plain_schema_alt s_array_def
  by (intro conjI schema_wfI; cases u)
    (simp_all add: keyword_checks_def keyword_tables opt_check_def opt_holds_def reserved_def
      type_decl_ok_def size_ok_def sizes_cross_def)

lemma plain_props_data: "plain_props d \<Longrightarrow> list_all (\<lambda>(k, v). \<not> reserved k \<and> plain_data v) d"
  by (auto simp: plain_props_def plain_schema_alt list_all_iff)

lemma plain_props_wf: "plain_props d \<Longrightarrow> list_all (\<lambda>nc. schema_wf (snd nc)) d"
  by (auto simp: plain_props_def plain_schema_alt list_all_iff)

lemma plain_object [plain_simps]:
  "plain_props props \<Longrightarrow> distinct req \<Longrightarrow> plain_schema (s_object props req additional)"
  using plain_props_data [of props] plain_props_wf [of props]
  unfolding plain_schema_alt s_object_def
  by (intro conjI schema_wfI)
    (simp_all add: keyword_checks_def keyword_tables opt_check_def opt_holds_def reserved_def type_decl_ok_def)

lemma plain_properties [plain_simps]:
  "plain_props props \<Longrightarrow> plain_schema (JDict [(''properties'', JDict props)])"
  using plain_props_data [of props] plain_props_wf [of props]
  unfolding plain_schema_alt
  by (intro conjI schema_wfI)
    (simp_all add: keyword_checks_def keyword_tables opt_check_def opt_holds_def reserved_def)

lemma plain_members [plain_simps]:
  "plain_props props \<Longrightarrow> distinct req \<Longrightarrow>
    plain_schema (JDict [(''properties'', JDict props), (''required'', jstrs req)])"
  using plain_props_data [of props] plain_props_wf [of props]
  unfolding plain_schema_alt
  by (intro conjI schema_wfI)
    (simp_all add: keyword_checks_def keyword_tables opt_check_def opt_holds_def reserved_def)

lemma plain_if [plain_simps]:
  "plain_schema c \<Longrightarrow> plain_schema t \<Longrightarrow> plain_schema (JDict [(''if'', c), (''then'', t)])"
  "plain_schema c \<Longrightarrow> plain_schema t \<Longrightarrow> plain_schema e \<Longrightarrow>
    plain_schema (JDict [(''if'', c), (''then'', t), (''else'', e)])"
  unfolding plain_schema_alt
  by (intro conjI schema_wfI;
      simp add: keyword_checks_def keyword_tables opt_check_def opt_holds_def reserved_def)+

lemma plain_enum [plain_simps]:
  "vs \<noteq> [] \<Longrightarrow> \<not> has_repeat json_equal [] vs \<Longrightarrow> list_all plain_data vs \<Longrightarrow>
    plain_schema (JDict [(''enum'', JList vs)])"
  "vs \<noteq> [] \<Longrightarrow> \<not> has_repeat json_equal [] vs \<Longrightarrow> list_all plain_data vs \<Longrightarrow>
    plain_schema (JDict [(''type'', JStr ''string''), (''enum'', JList vs)])"
  unfolding plain_schema_alt
  by (intro conjI schema_wfI;
      simp add: keyword_checks_def keyword_tables opt_check_def opt_holds_def reserved_def enum_check_def
        type_decl_ok_def)+

lemma plain_one_of [plain_simps]:
  "cs \<noteq> [] \<Longrightarrow> list_all plain_schema cs \<Longrightarrow> plain_schema (JDict [(''oneOf'', JList cs)])"
  unfolding plain_schema_alt
  by (intro conjI schema_wfI)
    (auto simp add: keyword_checks_def keyword_tables opt_check_def opt_holds_def reserved_def list_all_iff)

definition document_ok :: "document \<Rightarrow> bool" where
  "document_ok a =
     (plain_props (d_properties a) \<and> distinct (''schema_version'' # d_required a) \<and>
      list_all plain_schema (case d_all_of a of None \<Rightarrow> [] | Some cs \<Rightarrow> cs) \<and>
      plain_props (case d_definitions a of None \<Rightarrow> [] | Some ds \<Rightarrow> ds))"

lemma plain_props_dset: "plain_props d \<Longrightarrow> \<not> reserved k \<Longrightarrow> plain_schema c \<Longrightarrow> plain_props (dset k c d)"
  unfolding plain_props_def by (rule list_all_dset) auto

lemma plain_props_update: "plain_props d \<Longrightarrow> plain_props e \<Longrightarrow> plain_props (dupdate d e)"
proof (induction e arbitrary: d)
  case (Cons kc e)
  obtain k c where kc: "kc = (k, c)" by (cases kc)
  from Cons.prems(2) have k: "\<not> reserved k" "plain_schema c" and e: "plain_props e"
    by (simp_all add: plain_props_def kc)
  show ?case unfolding kc dupdate_simps by (intro Cons.IH plain_props_dset Cons.prems(1) k e)
qed simp

lemma plain_document:
  assumes "document_ok a"
  shows "plain_schema (JDict (document_keywords a))"
proof -
  define props where
    "props = dupdate [(''schema_version'', const_schema (JStr (d_version a)))] (d_properties a)"
  have props: "plain_props props"
    unfolding props_def using assms
    by (intro plain_props_update) (simp_all add: document_ok_def plain_props_def reserved_def plain_const)
  define cs where "cs = (case d_all_of a of None \<Rightarrow> [] | Some cs \<Rightarrow> cs)"
  define ds where "ds = (case d_definitions a of None \<Rightarrow> [] | Some ds \<Rightarrow> ds)"
  have kws: "document_keywords a =
     [(''$schema'', JStr schema_dialect), (''$id'', JStr (contract_base @ d_path a)),
      (''title'', JStr (d_title a)), (''description'', JStr (d_description a)),
      (''type'', JStr ''object''), (''additionalProperties'', JBool False),
      (''required'', jstrs (''schema_version'' # d_required a)), (''properties'', JDict props),
      (''x-generated-by'', JStr generator), (''x-jumpship-data-class'', JStr (d_data_class a)),
      (''x-jumpship-flow-ids'', jstrs (d_flow_ids a)), (''x-jumpship-max-bytes'', JInt (d_max_bytes a)),
      (''x-jumpship-compatibility'', JStr ''additive-with-versioned-breaking-change'')] @
     (if cs = [] then [] else [(''allOf'', JList cs)]) @ (if ds = [] then [] else [(''$defs'', JDict ds)])"
    by (simp add: document_keywords_def props_def cs_def ds_def split: option.split list.split)
  have req: "unique_strings (jstrs (''schema_version'' # d_required a))"
    using assms unfolding unique_jstrs document_ok_def by blast
  have cs: "list_all plain_schema cs" and ds: "plain_props ds"
    using assms by (simp_all add: document_ok_def cs_def ds_def)
  have "list_all schema_wf cs" "list_all plain_data cs"
    using cs by (auto simp: list_all_iff plain_schema_alt)
  moreover note plain_props_data [OF props] plain_props_wf [OF props] plain_props_data [OF ds]
    plain_props_wf [OF ds] req
  ultimately show ?thesis
    unfolding plain_schema_alt kws
    by (intro conjI schema_wfI)
      (simp_all add: keyword_checks_def keyword_tables opt_check_def opt_holds_def reserved_def
        type_decl_ok_def)
qed

lemma schema_plain: "schema a = Inr s \<Longrightarrow> document_ok a \<Longrightarrow> plain_schema s"
  using plain_document [of a] by (auto simp: schema_def split: if_splits)

text \<open>
  C33: a document built by \<open>schema\<close> from well-formed parts is a schema the validator decides: building
  never produces a document that fails its own schema check.
\<close>

theorem schema_builds_plain:
  "schema a = Inr s \<Longrightarrow> document_ok a \<Longrightarrow> plain_schema s"
  by (rule schema_plain)

definition sample_document :: document where
  "sample_document =
     \<lparr>d_path = ''a.schema.json'', d_title = ''A'', d_properties = [(''size'', s_integer (Some 0) None)],
      d_required = [''size''], d_data_class = ''public'', d_max_bytes = 10, d_flow_ids = [''F01''],
      d_description = ''a'', d_all_of = None, d_definitions = None, d_version = schema_version\<rparr>"

theorem schema_builds_plain_witness:
  "plain_schema (JDict (document_keywords sample_document))"
proof (rule schema_builds_plain)
  show "schema sample_document = Inr (JDict (document_keywords sample_document))" by code_simp
  show "document_ok sample_document"
    by (simp add: document_ok_def sample_document_def plain_props_def reserved_def plain_simps)
qed

end
