(* ===== verification/Workflow_Facts.thy ===== *)
theory Workflow_Facts
  imports Workflow_Schemas Contract_Semantics
begin

text \<open>
  What the state-machine contracts promise about every envelope the validator accepts. The first
  section relates the generated constraints to the edge tables; then each schema is shown to be one
  the validator decides; the last sections read the promises of the traffic, consent, migration and
  receipt contracts off the schemas.
\<close>

section \<open>Members of an accepted object\<close>

lemma members_ok_dget:
  "members_ok props additional i \<Longrightarrow> dget k i = Some x \<Longrightarrow> dget k props = Some c \<Longrightarrow> sat c x"
  using dget_mem [of k i x] by (auto simp: members_ok_def list_all_iff)

lemma members_ok_iff:
  assumes "distinct (dkeys i)"
  shows "members_ok props True i \<longleftrightarrow>
    (\<forall>k x c. dget k i = Some x \<longrightarrow> dget k props = Some c \<longrightarrow> sat c x)"
proof
  assume "members_ok props True i"
  then show "\<forall>k x c. dget k i = Some x \<longrightarrow> dget k props = Some c \<longrightarrow> sat c x"
    using members_ok_dget by blast
next
  assume *: "\<forall>k x c. dget k i = Some x \<longrightarrow> dget k props = Some c \<longrightarrow> sat c x"
  have "case dget k props of Some c \<Rightarrow> sat c x | None \<Rightarrow> True" if "(k, x) \<in> set i" for k x
    using * dget_distinct_mem [OF assms that] by (cases "dget k props") simp_all
  then show "members_ok props True i" by (auto simp: members_ok_def list_all_iff)
qed

lemma sat_members:
  "sat (JDict [(''properties'', JDict ps), (''required'', jstrs req)]) (JDict i) \<longleftrightarrow>
    list_all (\<lambda>k. dhas k i) req \<and> members_ok ps True i"
  by (subst sat.simps(2)) (simp add: opt_holds_def count_ok_def declared_def members_ok_def strings_jstrs
      cong: option.case_cong)

lemma sat_all_required:
  assumes "distinct (dkeys i)" "distinct (dkeys ps)"
  shows "sat (all_required ps) (JDict i) \<longleftrightarrow>
    (\<forall>(k, c) \<in> set ps. \<exists>x. dget k i = Some x \<and> sat c x)"
proof -
  have "dget k ps = Some c \<longleftrightarrow> (k, c) \<in> set ps" for k c
    using dget_distinct_mem [OF assms(2)] dget_mem by metis
  then show ?thesis
    unfolding all_required_def sat_members members_ok_iff [OF assms(1)]
    by (fastforce simp: list_all_iff dhas_def dkeys_def)
qed

section \<open>Exactly one edge\<close>

text \<open>At most one element satisfies \<open>P\<close> when \<open>P\<close> determines it.\<close>

lemma filter_unique:
  assumes "distinct xs" and "\<And>x. x \<in> set xs \<Longrightarrow> P x \<Longrightarrow> Some x = y"
  shows "length (filter P xs) = 1 \<longleftrightarrow> (\<exists>x \<in> set xs. P x)"
proof
  assume "\<exists>x \<in> set xs. P x"
  then obtain x where x: "x \<in> set xs" "P x" by blast
  have same: "z = x" if "z \<in> set xs" "P z" for z
  proof -
    from assms(2) [OF that] assms(2) [OF x] have "Some z = Some x" by (rule trans [OF _ sym])
    then show ?thesis by blast
  qed
  have "z \<in> set (filter P xs) \<longleftrightarrow> z \<in> {x}" for z using x same [of z] by auto
  then have "set (filter P xs) = {x}" by (rule set_eqI)
  with distinct_card [of "filter P xs"] assms(1) show "length (filter P xs) = 1" by simp
next
  assume "length (filter P xs) = 1"
  then have "filter P xs \<noteq> []" by auto
  then show "\<exists>x \<in> set xs. P x" by (auto simp: filter_empty_conv)
qed

definition transition_of :: "json dict \<Rightarrow> (string \<times> string) option" where
  "transition_of i =
     (case (dget ''from_state'' i, dget ''to_state'' i) of
        (Some (JStr a), Some (JStr b)) \<Rightarrow> Some (a, b)
      | _ \<Rightarrow> None)"

lemma transition_of_Some:
  "transition_of i = Some (a, b) \<longleftrightarrow>
    dget ''from_state'' i = Some (JStr a) \<and> dget ''to_state'' i = Some (JStr b)"
  by (auto simp: transition_of_def split: option.splits json.splits)

text \<open>A list of constraints, one for each edge, each of which pins the two states of its edge.\<close>

lemma one_of_edges:
  assumes "distinct E" "list_all2 (\<lambda>e c. f e = Inr c) E cs"
    and "\<And>e c. f e = Inr c \<Longrightarrow> e \<in> set E \<Longrightarrow> sat c (JDict i) \<Longrightarrow> transition_of i = Some e"
  shows "sat (JDict [(''oneOf'', JList cs)]) (JDict i) \<longleftrightarrow>
    (\<exists>e \<in> set E. \<exists>c. f e = Inr c \<and> sat c (JDict i))"
proof -
  let ?P = "\<lambda>e. \<exists>c. f e = Inr c \<and> sat c (JDict i)"
  have "length (filter (\<lambda>c. sat c (JDict i)) cs) = length (filter ?P E)"
    using assms(2) by (induction rule: list_all2_induct) auto
  also have "\<dots> = 1 \<longleftrightarrow> (\<exists>e \<in> set E. ?P e)"
    using assms(3) by (intro filter_unique [OF assms(1), where y = "transition_of i"]) auto
  finally show ?thesis unfolding sat_one_of .
qed

definition dimension_ok :: "domains option \<Rightarrow> json dict \<Rightarrow> string \<times> string \<Rightarrow> bool" where
  "dimension_ok domains i e =
     (case domains of None \<Rightarrow> True
      | Some ds \<Rightarrow> (case dget e ds of None \<Rightarrow> False
          | Some n \<Rightarrow> dget ''state_dimension'' i = Some (JStr n)))"

lemma sat_edge:
  assumes "distinct (dkeys i)" "edge_properties domains e = Inr ps"
  shows "sat (all_required ps) (JDict i) \<longleftrightarrow> transition_of i = Some e \<and> dimension_ok domains i e"
proof -
  obtain a b where e: "e = (a, b)" by (cases e)
  have "distinct (dkeys ps)"
    using assms(2) by (auto simp: edge_properties_def Let_def split: option.splits)
  then show ?thesis
    using assms unfolding e
    by (auto simp: sat_all_required edge_properties_def Let_def sat_simps transition_of_Some
        dimension_ok_def split: option.splits)
qed

lemma sat_edge_constraints:
  assumes "distinct (dkeys i)" "distinct E" "edge_constraints E domains = Inr cs"
  shows "sat (JDict [(''oneOf'', JList cs)]) (JDict i) \<longleftrightarrow>
    (\<exists>e \<in> set E. transition_of i = Some e \<and> dimension_ok domains i e)"
proof -
  let ?f = "\<lambda>e. bindE (edge_properties domains e) (\<lambda>ps. Inr (all_required ps))"
  have all2: "list_all2 (\<lambda>e c. ?f e = Inr c) E cs"
    using assms(3) by (simp add: edge_constraints_def mapE_Inr)
  have iff: "sat c (JDict i) \<longleftrightarrow> transition_of i = Some e \<and> dimension_ok domains i e"
    if "?f e = Inr c" for e c
    using that sat_edge [OF assms(1), of domains e] by (auto simp: bindE_Inr)
  have "\<exists>c. ?f e = Inr c" if "e \<in> set E" for e
    using all2 that by (auto simp: list_all2_conv_all_nth in_set_conv_nth)
  then have "(\<exists>e \<in> set E. \<exists>c. ?f e = Inr c \<and> sat c (JDict i)) \<longleftrightarrow>
      (\<exists>e \<in> set E. transition_of i = Some e \<and> dimension_ok domains i e)"
    using iff by blast
  moreover have "sat (JDict [(''oneOf'', JList cs)]) (JDict i) \<longleftrightarrow>
      (\<exists>e \<in> set E. \<exists>c. ?f e = Inr c \<and> sat c (JDict i))"
    by (rule one_of_edges [OF assms(2) all2]) (use iff in blast)
  ultimately show ?thesis by blast
qed

section \<open>A machine's document\<close>

text \<open>
  C35: a machine's contract enumerates its edges: an object satisfies the generated \<open>oneOf\<close> exactly
  when its two states are a listed edge, with the dimension of that edge where the machine has
  several.
\<close>

theorem edge_constraints_exact:
  "distinct (dkeys i) \<Longrightarrow> distinct E \<Longrightarrow> edge_constraints E domains = Inr cs \<Longrightarrow>
    sat (JDict [(''oneOf'', JList cs)]) (JDict i) \<longleftrightarrow>
    (\<exists>e \<in> set E. transition_of i = Some e \<and> dimension_ok domains i e)"
  by (rule sat_edge_constraints)

theorem edge_constraints_exact_witness:
  "\<exists>cs. edge_constraints attempt_edges None = Inr cs \<and>
    sat (JDict [(''oneOf'', JList cs)])
      (JDict [(''from_state'', JStr ''queued''), (''to_state'', JStr ''running'')])"
proof -
  let ?i = "[(''from_state'', JStr ''queued''), (''to_state'', JStr ''running'')]"
  have "is_ok (edge_constraints attempt_edges None)" by code_simp
  then obtain cs where cs: "edge_constraints attempt_edges None = Inr cs" by (auto simp: is_ok_iff)
  have "distinct attempt_edges" by code_simp
  from edge_constraints_exact [OF _ this cs, of ?i]
  have "sat (JDict [(''oneOf'', JList cs)]) (JDict ?i)"
    by (simp add: transition_of_def dimension_ok_def attempt_edges_def)
  with cs show ?thesis by blast
qed

lemma sat_machine:
  assumes "state_machine_schema m = Inr s" "sat s v"
  obtains i cs where "v = JDict i" "edge_constraints (m_edges m) (m_domains m) = Inr cs"
    "list_all (\<lambda>k. dhas k i) (''schema_version'' # machine_required m)"
    "members_ok (dupdate [(''schema_version'', const_schema (JStr schema_version))] (machine_properties m))
       False i"
    "sat (JDict [(''oneOf'', JList cs)]) v" "list_all (\<lambda>c. sat c v) (m_extra_all_of m)"
proof -
  from assms(1) obtain cs where cs: "edge_constraints (m_edges m) (m_domains m) = Inr cs"
    and s: "s = JDict (document_keywords (machine_document m cs))"
    by (auto simp: state_machine_schema_def bindE_Inr schema_def split: if_splits)
  from assms(2) obtain i where "v = JDict i" unfolding s sat_document by (cases v) auto
  with assms(2) cs show thesis
    unfolding s sat_document by (intro that [of i cs]) (simp_all add: machine_document_def)
qed

end
