(* ===== verification/Workflow_Wellformed.thy ===== *)
theory Workflow_Wellformed
  imports Workflow_Facts
begin

text \<open>
  Every state-machine contract is generated without an error and is a schema the validator decides.
  The proof works builder by builder; only the patterns are evaluated.
\<close>

section \<open>Patterns and flows\<close>

lemma patterns_compile [plain_simps]:
  "re_compile hash_pattern \<noteq> None" "re_compile uuid_pattern \<noteq> None"
  "re_compile rfc3339_pattern \<noteq> None" "re_compile safe_reason_pattern \<noteq> None"
  "re_compile safe_name_pattern \<noteq> None" "re_compile ''^art_[A-Za-z0-9_-]{16,128}$'' \<noteq> None"
  by code_simp+

lemma flows_match:
  "list_all (full_match flow_pattern)
     [''F02'', ''F03'', ''F05'', ''F06'', ''F07'', ''F16'', ''F17'']"
  by code_simp

lemma data_classes_known:
  "''shared_migration'' \<in> set data_classes" "''identity_tenant'' \<in> set data_classes"
  "''internal_operational'' \<in> set data_classes"
  by (simp_all add: data_classes_def)

section \<open>Builders\<close>

lemma plain_props_simps [plain_simps]:
  "plain_props []"
  "plain_props ((k, c) # d) \<longleftrightarrow> \<not> reserved k \<and> plain_schema c \<and> plain_props d"
  by (simp_all add: plain_props_def)

lemma plain_fields [plain_simps]:
  "plain_schema hash_field" "plain_schema timestamp_field" "plain_schema uuid_field" "plain_schema uuid_id"
  "plain_schema nullable_id" "plain_schema nullable_hash" "plain_schema nullable_timestamp"
  by (simp_all add: hash_field_def timestamp_field_def uuid_field_def uuid_id_def nullable_id_def
      nullable_hash_def nullable_timestamp_def plain_simps string_args_ok_def no_args_def)

lemma plain_hashes [plain_simps]: "0 \<le> a \<Longrightarrow> a \<le> b \<Longrightarrow> plain_schema (hashes a b)"
  by (simp add: hashes_def plain_simps)

lemma plain_identity [plain_simps]: "plain_props (common_identity_properties op)"
  by (simp add: common_identity_properties_def plain_simps reserved_def)

text \<open>The parts of a machine from which its contract is assembled.\<close>

definition machine_ok :: "machine \<Rightarrow> bool" where
  "machine_ok m =
     (table_ok (m_states m) (m_edges m) \<and> m_edges m \<noteq> [] \<and>
      plain_props (m_extra_properties m) \<and> list_all plain_schema (m_extra_all_of m) \<and>
      (case m_domains m of None \<Rightarrow> True | Some ds \<Rightarrow> list_all (\<lambda>e. dget e ds \<noteq> None) (m_edges m)) \<and>
      distinct (''schema_version'' # machine_required m) \<and>
      ends_with (m_path m) ''.schema.json'' \<and> m_data_class m \<in> set data_classes \<and>
      m_flow_ids m \<noteq> [] \<and> list_all (full_match flow_pattern) (m_flow_ids m))"

lemma edge_properties_ok:
  assumes "case domains of None \<Rightarrow> True | Some ds \<Rightarrow> dget e ds \<noteq> None"
  obtains ps where "edge_properties domains e = Inr ps" "plain_props ps" "distinct (dkeys ps)"
  using assms that
  by (cases domains) (auto simp: edge_properties_def Let_def plain_simps reserved_def)

lemma edge_constraints_ok:
  assumes "\<And>e. e \<in> set E \<Longrightarrow> case domains of None \<Rightarrow> True | Some ds \<Rightarrow> dget e ds \<noteq> None"
  obtains cs where "edge_constraints E domains = Inr cs" "list_all plain_schema cs" "length cs = length E"
  using assms
proof (induction E arbitrary: thesis)
  case Nil
  then show ?case by (simp add: edge_constraints_def)
next
  case (Cons e E)
  then obtain cs where cs: "edge_constraints E domains = Inr cs" "list_all plain_schema cs" "length cs = length E"
    by (metis list.set_intros(2))
  from Cons.prems(2) [of e] obtain ps where
    ps: "edge_properties domains e = Inr ps" "plain_props ps" "distinct (dkeys ps)"
    by (auto elim: edge_properties_ok)
  show ?case
    using Cons.prems(1) [of "all_required ps # cs"] cs ps
    by (simp add: edge_constraints_def all_required_def plain_members)
qed

lemma plain_machine_properties:
  assumes "machine_ok m"
  shows "plain_props (machine_properties m)"
proof -
  have states: "m_states m \<noteq> []" "distinct (m_states m)"
    using assms by (simp_all add: machine_ok_def table_ok_def)
  have envelope: "plain_props (envelope_properties m)"
    unfolding envelope_properties_def
    by (intro plain_props_update plain_identity)
      (simp add: plain_simps reserved_def string_args_ok_def no_args_def states)
  have "plain_props (case m_domains m of None \<Rightarrow> envelope_properties m
      | Some ds \<Rightarrow> dset ''state_dimension''
          (s_string (no_args\<lparr>s_enum := Some (sort (remdups (map snd ds)))\<rparr>)) (envelope_properties m))"
  proof (cases "m_domains m")
    case (Some ds)
    with assms obtain e where "dget e ds \<noteq> None" by (cases "m_edges m") (auto simp: machine_ok_def)
    then have "ds \<noteq> []" by auto
    then have "plain_schema (s_string (no_args\<lparr>s_enum := Some (sort (remdups (map snd ds)))\<rparr>))"
      by (intro plain_string) (simp add: string_args_ok_def no_args_def flip: set_empty)
    with Some envelope show ?thesis by (simp add: plain_props_dset reserved_def)
  qed (simp add: envelope)
  then show ?thesis
    using assms unfolding machine_properties_def Let_def machine_ok_def
    by (intro plain_props_update) simp_all
qed

lemma machine_schema_ok:
  assumes "machine_ok m"
  obtains s where "state_machine_schema m = Inr s" "plain_schema s"
proof -
  have "case m_domains m of None \<Rightarrow> True | Some ds \<Rightarrow> dget e ds \<noteq> None" if "e \<in> set (m_edges m)" for e
    using assms that by (auto simp: machine_ok_def list_all_iff split: option.splits)
  then obtain cs where cs: "edge_constraints (m_edges m) (m_domains m) = Inr cs" "list_all plain_schema cs"
      "length cs = length (m_edges m)"
    by (rule edge_constraints_ok)
  have "cs \<noteq> []" using cs(3) assms by (auto simp: machine_ok_def)
  then have "document_ok (machine_document m cs)"
    using assms cs plain_machine_properties [OF assms]
    by (simp add: document_ok_def machine_document_def machine_ok_def plain_one_of plain_props_simps)
  moreover have "schema (machine_document m cs) = Inr (JDict (document_keywords (machine_document m cs)))"
    using assms by (simp add: schema_def machine_document_def machine_ok_def)
  ultimately show thesis
    using cs(1) schema_plain [of "machine_document m cs"]
    by (intro that) (auto simp: state_machine_schema_def)
qed

end
