(* ===== verification/Workflow_Promises.thy ===== *)
theory Workflow_Promises
  imports Workflow_Wellformed
begin

text \<open>
  The nine state-machine contracts: each is generated and decided by the validator, and each keeps the
  promises of its machine for every envelope the validator accepts.
\<close>

section \<open>All nine contracts are generated\<close>

lemma tables_ok:
  "table_ok (migration_phase_states @ migration_execution_states) migration_edges"
  "table_ok traffic_states traffic_edges" "table_ok decision_states decision_edges"
  "table_ok consent_states consent_edges" "table_ok artifact_states artifact_edges"
  "table_ok cell_states cell_edges" "table_ok operation_states operation_edges"
  "table_ok attempt_states attempt_edges" "table_ok reversibility_states reversibility_edges"
  by code_simp+

lemma tables_nonempty:
  "migration_edges \<noteq> []" "traffic_edges \<noteq> []" "decision_edges \<noteq> []" "consent_edges \<noteq> []"
  "artifact_edges \<noteq> []" "cell_edges \<noteq> []" "operation_edges \<noteq> []" "attempt_edges \<noteq> []"
  "reversibility_edges \<noteq> []"
  by code_simp+

lemma domains_total: "list_all (\<lambda>e. dget e migration_domains \<noteq> None) migration_edges"
  by code_simp

lemma data_classes_shape: "data_classes \<noteq> []" "distinct data_classes"
  by (simp_all add: data_classes_def)

lemma flows_each: "full_match flow_pattern ''F02''" "full_match flow_pattern ''F03''"
  "full_match flow_pattern ''F05''" "full_match flow_pattern ''F06''" "full_match flow_pattern ''F07''"
  "full_match flow_pattern ''F16''" "full_match flow_pattern ''F17''"
  using flows_match by simp_all

lemmas machine_simps = machine_ok_def machine_required_def identity_required_def ends_with_def
  tables_ok tables_nonempty data_classes_known data_classes_shape flows_each plain_simps reserved_def
  string_args_ok_def no_args_def

lemma decision_ok: "machine_ok decision_state_machine"
  by (simp add: decision_state_machine_def machine_simps)

lemma consent_ok: "machine_ok consent_state_machine"
  by (simp add: consent_state_machine_def machine_simps)

lemma artifact_ok: "machine_ok artifact_state_machine"
  by (simp add: artifact_state_machine_def machine_simps)

lemma cell_ok: "machine_ok cell_state_machine"
  by (simp add: cell_state_machine_def machine_simps)

lemma operation_ok: "machine_ok operation_state_machine"
  by (simp add: operation_state_machine_def machine_simps)

lemma attempt_ok: "machine_ok attempt_state_machine"
  by (simp add: attempt_state_machine_def machine_simps)

lemma reversibility_ok: "machine_ok reversibility_state_machine"
  by (simp add: reversibility_state_machine_def machine_simps)

lemma migration_ok: "machine_ok migration_state_machine"
  by (simp add: migration_state_machine_def machine_simps domains_total [simplified])

subsection \<open>The traffic contract\<close>

lemma update_when_plain:
  "plain_props d \<Longrightarrow> plain_props e \<Longrightarrow> plain_props (update_when b e d)"
  by (simp add: update_when_def plain_props_update)

lemma distinct_dupdate: "distinct (dkeys d) \<Longrightarrow> distinct (dkeys (dupdate d e))"
proof (induction e arbitrary: d)
  case (Cons kv e)
  then show ?case by (cases kv) (simp add: distinct_dset)
qed simp

lemma update_when_distinct: "distinct (dkeys d) \<Longrightarrow> distinct (dkeys (update_when b e d))"
  by (simp add: update_when_def distinct_dupdate)

lemma dget_dupdate_cons: "dget k (dupdate d ((k', v) # e)) = dget k (dupdate (dset k' v d) e)"
  by simp

lemma dget_update_when:
  "dget k (update_when b e d) = (if b then dget k (dupdate d e) else dget k d)"
  by (simp add: update_when_def)

lemma traffic_base_plain: "plain_props (traffic_base_properties f t a b)"
  by (simp add: traffic_base_properties_def Let_def plain_simps reserved_def)

lemma traffic_properties_plain: "plain_props (traffic_properties f t a b)"
  unfolding traffic_properties_def Let_def
  by (intro update_when_plain traffic_base_plain) (simp_all add: plain_simps reserved_def)

lemma traffic_properties_distinct: "distinct (dkeys (traffic_properties f t a b))"
  unfolding traffic_properties_def Let_def
  by (intro update_when_distinct) (simp add: traffic_base_properties_def Let_def)

lemma traffic_authority_total: "list_all (\<lambda>s. traffic_authority s \<noteq> None) traffic_states"
  by code_simp

lemma traffic_edge_total:
  "e \<in> set traffic_edges \<Longrightarrow> \<exists>a b. traffic_authority (fst e) = Some a \<and> traffic_authority (snd e) = Some b"
  using traffic_table.edges_between traffic_authority_total by (fastforce simp: list_all_iff)

lemma traffic_constraints_ok:
  obtains cs where "traffic_edge_constraints = Inr cs" "list_all plain_schema cs" "cs \<noteq> []"
proof -
  have one: "\<exists>c. traffic_edge_constraint e = Inr c \<and> plain_schema c" if "e \<in> set traffic_edges" for e
    using traffic_edge_total [OF that] traffic_properties_plain traffic_properties_distinct
    by (auto simp: traffic_edge_constraint_def all_required_def intro!: plain_members)
  have "\<exists>cs. mapE traffic_edge_constraint es = Inr cs \<and> list_all plain_schema cs \<and> length cs = length es"
    if "set es \<subseteq> set traffic_edges" for es
    using that
  proof (induction es)
    case (Cons e es)
    with one [of e] show ?case by auto
  qed simp
  from this [of traffic_edges] obtain cs where
    cs: "traffic_edge_constraints = Inr cs" "list_all plain_schema cs" "length cs = length traffic_edges"
    by (auto simp: traffic_edge_constraints_def)
  have "cs \<noteq> []" using cs(3) tables_nonempty(2) by auto
  with cs(1,2) show thesis by (rule that)
qed

lemma traffic_ok: "traffic_edge_constraints = Inr cs \<Longrightarrow> machine_ok (traffic_authority_state_machine cs)"
proof -
  assume "traffic_edge_constraints = Inr cs"
  with traffic_constraints_ok have "list_all plain_schema cs" "cs \<noteq> []" by (metis sum.inject(2))+
  then show ?thesis by (simp add: traffic_authority_state_machine_def machine_simps)
qed

definition workflow_contracts :: "(build_error + json) list" where
  "workflow_contracts =
     [migration_state_machine_schema, traffic_authority_state_machine_schema,
      decision_state_machine_schema, consent_state_machine_schema, artifact_state_machine_schema,
      cell_state_machine_schema, attempt_state_machine_schema, operation_state_machine_schema,
      reversibility_state_machine_schema]"

lemma workflow_contracts_built:
  "list_all (\<lambda>r. \<exists>s. r = Inr s \<and> plain_schema s) workflow_contracts"
proof -
  note built = machine_schema_ok
  have simple: "\<exists>s. state_machine_schema m = Inr s \<and> plain_schema s" if "machine_ok m" for m
    using built [OF that] by metis
  obtain cs where cs: "traffic_edge_constraints = Inr cs" by (rule traffic_constraints_ok)
  show ?thesis
    using simple [OF migration_ok] simple [OF traffic_ok [OF cs]] simple [OF decision_ok]
      simple [OF consent_ok] simple [OF artifact_ok] simple [OF cell_ok] simple [OF attempt_ok]
      simple [OF operation_ok] simple [OF reversibility_ok]
    by (simp add: workflow_contracts_def migration_state_machine_schema_def cs
        traffic_authority_state_machine_schema_def decision_state_machine_schema_def
        consent_state_machine_schema_def artifact_state_machine_schema_def cell_state_machine_schema_def
        attempt_state_machine_schema_def operation_state_machine_schema_def
        reversibility_state_machine_schema_def)
qed

section \<open>Reading a contract off an accepted envelope\<close>

lemma members_ok_Nil: "members_ok [] True i"
  by (auto simp: members_ok_def list_all_iff)

lemma members_ok_Cons:
  assumes "distinct (dkeys i)" "k \<notin> set (dkeys ps)"
  shows "members_ok ((k, c) # ps) True i \<longleftrightarrow>
    (\<forall>x. dget k i = Some x \<longrightarrow> sat c x) \<and> members_ok ps True i"
proof -
  have none: "dget k ps = None" using assms(2) by (simp add: dget_None)
  show ?thesis
  proof
    assume all: "members_ok ((k, c) # ps) True i"
    have "sat c' x" if "dget k' i = Some x" "dget k' ps = Some c'" for k' x c'
      using members_ok_dget [OF all that(1), of c'] that(2) none by (cases "k = k'") simp_all
    moreover have "sat c x" if "dget k i = Some x" for x
      using members_ok_dget [OF all that, of c] by simp
    ultimately show "(\<forall>x. dget k i = Some x \<longrightarrow> sat c x) \<and> members_ok ps True i"
      by (simp add: members_ok_iff [OF assms(1)])
  next
    assume "(\<forall>x. dget k i = Some x \<longrightarrow> sat c x) \<and> members_ok ps True i"
    then show "members_ok ((k, c) # ps) True i"
      unfolding members_ok_iff [OF assms(1)] by simp
  qed
qed

lemma machine_accepted:
  assumes "machine_ok m" "state_machine_schema m = Inr s" "validate reg n s v = Inr ()"
  shows "sat s v"
proof -
  obtain s' where "state_machine_schema m = Inr s'" "plain_schema s'"
    by (rule machine_schema_ok [OF assms(1)])
  with assms(2) have "plain_schema s" by simp
  then show ?thesis using assms(3) by (rule validate_sat)
qed

lemma machine_transition:
  assumes "machine_ok m" "state_machine_schema m = Inr s" "validate reg n s v = Inr ()" "json_wf v"
  obtains i e where "v = JDict i" "e \<in> set (m_edges m)" "transition_of i = Some e"
    "dimension_ok (m_domains m) i e"
proof -
  obtain i cs where
    i: "v = JDict i" "edge_constraints (m_edges m) (m_domains m) = Inr cs"
    "sat (JDict [(''oneOf'', JList cs)]) v"
    by (rule sat_machine [OF assms(2) machine_accepted [OF assms(1-3)]])
  have "distinct (m_edges m)" using assms(1) by (simp add: machine_ok_def table_ok_def)
  from sat_edge_constraints [OF _ this i(2), of i] i(1,3) assms(4) show thesis
    using that by auto
qed

lemma dget_dupdate_other: "k \<notin> set (dkeys e) \<Longrightarrow> dget k (dupdate d e) = dget k d"
proof (induction e arbitrary: d)
  case (Cons kv e)
  then show ?case by (cases kv) simp
qed simp

lemma dget_dupdate_Some: "distinct (dkeys e) \<Longrightarrow> dget k e = Some c \<Longrightarrow> dget k (dupdate d e) = Some c"
proof (induction e arbitrary: d)
  case (Cons kv e)
  then show ?case by (cases kv) (auto simp: dget_dupdate_other split: if_splits)
qed simp

end
