(* ===== verification/Workflow_Envelopes.thy ===== *)
theory Workflow_Envelopes
  imports Workflow_Promises
begin

text \<open>
  Envelopes the contracts accept: a sample envelope that any machine accepts with suitable extra
  members, and the promise every machine keeps, that accepted envelopes only make legal transitions.
\<close>

section \<open>Sample envelopes\<close>

definition sample_uuid :: json where
  "sample_uuid = JStr ''018f0f00-0000-7000-8000-000000000001''"

definition sample_hash :: json where
  "sample_hash = JStr (replicate 64 (CHR ''a''))"

definition sample_time :: json where
  "sample_time = JStr ''2026-01-02T03:04:05Z''"

definition sample_envelope :: "string \<Rightarrow> string \<Rightarrow> string \<Rightarrow> json dict \<Rightarrow> json dict" where
  "sample_envelope name a b extra =
     [(''schema_version'', JStr schema_version), (''workspace_id'', sample_uuid),
      (''migration_id'', sample_uuid), (''cell_id'', sample_uuid), (''cell_generation'', JInt 2),
      (''causation_id'', sample_uuid), (''correlation_id'', sample_uuid),
      (''transition_id'', sample_uuid), (''machine'', JStr name), (''from_state'', JStr a),
      (''to_state'', JStr b), (''expected_version'', JInt 0), (''resulting_version'', JInt 1),
      (''version_increment'', JInt 1), (''idempotency_key_hash'', sample_hash),
      (''authorization_root_hash'', sample_hash), (''evidence_roots'', JList []),
      (''actor_type'', JStr ''human''), (''reason_code'', JStr ''approved''),
      (''occurred_at'', sample_time)] @ extra"

lemma sample_uuid_sat: "sat uuid_id sample_uuid" "sat uuid_field sample_uuid"
proof -
  have "matches ''018f0f00-0000-7000-8000-000000000001'' (JStr uuid_pattern)" by code_simp
  then show "sat uuid_id sample_uuid" "sat uuid_field sample_uuid"
    by (simp_all add: uuid_id_def uuid_field_def sample_uuid_def sat_simps string_allowed_def no_args_def)
qed

lemma sat_hash_field: "sat hash_field v \<longleftrightarrow> hash_like v"
proof -
  have "re_compile hash_pattern = Some (RSeq RBegin (RSeq hash_re REol))" by (rule compile_hash)
  then have "sat hash_field v \<longleftrightarrow> (\<exists>s. v = JStr s \<and> re_search (RSeq RBegin (RSeq hash_re REol)) s)"
    by (cases v) (simp_all add: hash_field_def sat_simps string_allowed_def no_args_def matches_def)
  then show ?thesis
    using accepted_hash [of "[]" JNull v] hash_search
    unfolding hash_like_def
    by (cases v) (auto, metis append_butlast_last_id)
qed

lemma sample_hash_sat: "sat hash_field sample_hash"
  unfolding sat_hash_field
  by (simp add: sample_hash_def hash_like_def lower_hex_def is_lower_hex_def is_digit_def list_all_iff)

lemma sample_time_sat: "sat timestamp_field sample_time"
proof -
  have "matches ''2026-01-02T03:04:05Z'' (JStr rfc3339_pattern)" by code_simp
  then show ?thesis
    by (simp add: timestamp_field_def sample_time_def sat_simps string_allowed_def no_args_def)
qed

lemma sample_reason_sat: "matches ''approved'' (JStr safe_reason_pattern)"
  by code_simp

lemmas sample_simps = sample_uuid_sat sample_hash_sat sample_time_sat sample_reason_sat

text \<open>An envelope that meets every clause of its machine is accepted.\<close>

lemma machine_accepts:
  assumes "machine_ok m" "state_machine_schema m = Inr s" "distinct (dkeys i)"
    and "list_all (\<lambda>k. dhas k i) (''schema_version'' # machine_required m)"
    and "members_ok (dupdate [(''schema_version'', const_schema (JStr schema_version))] (machine_properties m))
       False i"
    and "transition_of i = Some e" "e \<in> set (m_edges m)" "dimension_ok (m_domains m) i e"
    and "list_all (\<lambda>c. sat c (JDict i)) (m_extra_all_of m)"
  shows "validate reg (Suc (size s)) s (JDict i) = Inr ()"
proof -
  obtain cs where cs: "edge_constraints (m_edges m) (m_domains m) = Inr cs"
    and s: "s = JDict (document_keywords (machine_document m cs))"
    using assms(2) by (auto simp: state_machine_schema_def bindE_Inr schema_def split: if_splits)
  have "distinct (m_edges m)" using assms(1) by (simp add: machine_ok_def table_ok_def)
  from sat_edge_constraints [OF assms(3) this cs] assms(6-8)
  have "sat (JDict [(''oneOf'', JList cs)]) (JDict i)" by blast
  with assms(4,5,9) have "sat s (JDict i)"
    unfolding s sat_document by (simp add: machine_document_def)
  moreover have "plain_schema s"
    using machine_schema_ok [OF assms(1)] assms(2) by (metis sum.inject(2))
  ultimately show ?thesis by (simp add: validate_iff_sat)
qed

text \<open>Members in the order of their declarations are checked pairwise.\<close>

definition sat_member :: "string \<times> json \<Rightarrow> string \<times> json \<Rightarrow> bool" where
  "sat_member p q = (fst p = fst q \<and> sat (snd p) (snd q))"

lemma sat_members_keys: "list_all2 sat_member props i \<Longrightarrow> dkeys i = dkeys props"
  by (induction rule: list_all2_induct) (auto simp: sat_member_def dkeys_def)

lemma members_ok_pairwise:
  assumes "distinct (dkeys props)" "list_all2 sat_member props i"
  shows "members_ok props additional i"
proof -
  have "case dget k props of Some c \<Rightarrow> sat c x | None \<Rightarrow> additional" if mem: "(k, x) \<in> set i" for k x
  proof -
    obtain n where n: "n < length i" "i ! n = (k, x)" using mem by (auto simp: in_set_conv_nth)
    define p where "p = props ! n"
    have "p \<in> set props" "sat_member p (k, x)"
      using n assms(2) by (auto simp: p_def list_all2_conv_all_nth)
    moreover from this(1) have "dget (fst p) props = Some (snd p)"
      by (intro dget_distinct_mem [OF assms(1)]) simp
    ultimately show ?thesis by (simp add: sat_member_def)
  qed
  then show ?thesis by (auto simp: members_ok_def list_all_iff)
qed

lemma dupdate_append: "distinct (dkeys (d @ e)) \<Longrightarrow> dupdate d e = d @ e"
proof (induction e arbitrary: d)
  case (Cons kv e)
  obtain k v where kv: "kv = (k, v)" by (cases kv)
  with Cons.prems have "dset k v d = d @ [(k, v)]" by (intro dset_fresh) auto
  with Cons.IH [of "d @ [(k, v)]"] Cons.prems show ?case by (simp add: kv)
qed simp

definition envelope_keys :: "string list" where
  "envelope_keys =
     [''schema_version'', ''workspace_id'', ''migration_id'', ''cell_id'', ''cell_generation'',
      ''causation_id'', ''correlation_id'', ''transition_id'', ''machine'', ''from_state'', ''to_state'',
      ''expected_version'', ''resulting_version'', ''version_increment'', ''idempotency_key_hash'',
      ''authorization_root_hash'', ''evidence_roots'', ''actor_type'', ''reason_code'', ''occurred_at'']"

definition extra_members :: "machine \<Rightarrow> json dict" where
  "extra_members m =
     (case m_domains m of None \<Rightarrow> []
      | Some ds \<Rightarrow> [(''state_dimension'',
          s_string (no_args\<lparr>s_enum := Some (sort (remdups (map snd ds)))\<rparr>))]) @ m_extra_properties m"

lemma envelope_list:
  "dupdate [(''schema_version'', const_schema (JStr schema_version))] (envelope_properties m) =
     (''schema_version'', const_schema (JStr schema_version)) # envelope_properties m"
  "dkeys ((''schema_version'', c) # envelope_properties m) = envelope_keys"
proof -
  have env: "envelope_properties m = common_identity_properties False @
      drop 6 (envelope_properties m)" "dkeys (envelope_properties m) = tl envelope_keys"
    by (simp_all add: envelope_properties_def common_identity_properties_def envelope_keys_def)
  then show "dkeys ((''schema_version'', c) # envelope_properties m) = envelope_keys"
    by (simp add: envelope_keys_def)
  with env(2) show "dupdate [(''schema_version'', const_schema (JStr schema_version))] (envelope_properties m) =
     (''schema_version'', const_schema (JStr schema_version)) # envelope_properties m"
    by (subst dupdate_append) (simp_all add: envelope_keys_def)
qed

lemma document_members:
  assumes "distinct (envelope_keys @ dkeys (extra_members m))"
  shows "dupdate [(''schema_version'', const_schema (JStr schema_version))] (machine_properties m) =
    ((''schema_version'', const_schema (JStr schema_version)) # envelope_properties m) @ extra_members m"
proof -
  let ?sv = "(''schema_version'', const_schema (JStr schema_version))"
  have keys: "dkeys (?sv # envelope_properties m) = envelope_keys" by (rule envelope_list)
  have dist: "distinct (dkeys (envelope_properties m @ extra_members m))"
    using assms unfolding keys [symmetric] by simp
  have "machine_properties m = envelope_properties m @ extra_members m"
  proof (cases "m_domains m")
    case None
    with dupdate_append [OF dist] show ?thesis
      by (simp add: machine_properties_def extra_members_def)
  next
    case (Some ds)
    let ?dim = "s_string (no_args\<lparr>s_enum := Some (sort (remdups (map snd ds)))\<rparr>)"
    from dist Some have "dset ''state_dimension'' ?dim (envelope_properties m) =
        envelope_properties m @ [(''state_dimension'', ?dim)]"
      by (intro dset_fresh) (simp add: extra_members_def)
    moreover from dist Some have "dupdate (envelope_properties m @ [(''state_dimension'', ?dim)])
        (m_extra_properties m) = (envelope_properties m @ [(''state_dimension'', ?dim)]) @ m_extra_properties m"
      by (intro dupdate_append) (simp add: extra_members_def)
    ultimately show ?thesis using Some by (simp add: machine_properties_def extra_members_def)
  qed
  moreover have "distinct (dkeys ([?sv] @ (envelope_properties m @ extra_members m)))"
    using assms unfolding keys [symmetric] by simp
  ultimately show ?thesis by (simp only: dupdate_append append_Cons append_Nil)
qed

lemma envelope_members:
  assumes "a \<in> set (m_states m)" "b \<in> set (m_states m)"
  shows "list_all2 sat_member
    ((''schema_version'', const_schema (JStr schema_version)) # envelope_properties m)
    (sample_envelope (m_machine m) a b [])"
  using assms
  by (simp add: sample_envelope_def envelope_properties_def common_identity_properties_def sat_member_def
      sample_simps sat_simps hashes_def string_allowed_def no_args_def is_integer_value_def in_bounds_def)

text \<open>The sample envelope of a machine is accepted with any extra members its contract admits.\<close>

lemma sample_accepted:
  assumes m: "machine_ok m" "state_machine_schema m = Inr s"
    and name: "name = m_machine m"
    and "distinct (envelope_keys @ dkeys (extra_members m))"
    and "list_all2 sat_member (extra_members m) extra"
    and "set (m_extra_required m) \<subseteq> set (dkeys (extra_members m))"
    and edge: "(a, b) \<in> set (m_edges m)"
    and "dimension_ok (m_domains m) (sample_envelope name a b extra) (a, b)"
    and "list_all (\<lambda>c. sat c (JDict (sample_envelope name a b extra))) (m_extra_all_of m)"
  shows "validate [] (Suc (size s)) s (JDict (sample_envelope name a b extra)) = Inr ()"
proof (rule machine_accepts [OF m, where e = "(a, b)"])
  let ?i = "sample_envelope name a b extra"
  have app: "?i = sample_envelope (m_machine m) a b [] @ extra" by (simp add: sample_envelope_def name)
  have keys: "dkeys ?i = envelope_keys @ dkeys (extra_members m)"
    using sat_members_keys [OF assms(5)] by (simp add: sample_envelope_def envelope_keys_def)
  have "table_ok (m_states m) (m_edges m)" using m(1) by (simp add: machine_ok_def)
  then have "a \<in> set (m_states m)" "b \<in> set (m_states m)"
    using edge by (auto simp: table_ok_def list_all_iff)
  then have "list_all2 sat_member (((''schema_version'', const_schema (JStr schema_version)) #
      envelope_properties m) @ extra_members m) ?i"
    unfolding app by (intro list_all2_appendI envelope_members assms(5))
  moreover from envelope_list(2) have "distinct (dkeys (((''schema_version'',
      const_schema (JStr schema_version)) # envelope_properties m) @ extra_members m))"
    using assms(4) by (metis dkeys_simps(3))
  ultimately show "members_ok (dupdate [(''schema_version'', const_schema (JStr schema_version))]
      (machine_properties m)) False ?i"
    unfolding document_members [OF assms(4)] by (intro members_ok_pairwise)
  show "distinct (dkeys ?i)" unfolding keys by (rule assms(4))
  have dims: "m_domains m \<noteq> None \<Longrightarrow> ''state_dimension'' \<in> set (dkeys (extra_members m))"
    by (auto simp: extra_members_def)
  have "set (''schema_version'' # machine_required m) \<subseteq> set (dkeys ?i)"
    using assms(6) dims unfolding keys machine_required_def identity_required_def envelope_keys_def
    by (cases "m_domains m") (auto dest: subsetD)
  then show "list_all (\<lambda>k. dhas k ?i) (''schema_version'' # machine_required m)"
    unfolding list_all_iff dhas_iff by blast
  show "transition_of ?i = Some (a, b)"
    by (simp add: sample_envelope_def transition_of_def)
qed (use assms in simp_all)

definition sample_consent :: "json dict" where
  "sample_consent = sample_envelope ''consent'' ''pending_typed_consent'' ''consented''
     [(''consent_request_id'', sample_uuid), (''consent_kind'', JStr ''cutover''),
      (''named_approver_id'', sample_uuid), (''evidence_root_hash'', sample_hash),
      (''application_authority_epoch'', JInt 1), (''cell_write_epoch'', JInt 1),
      (''cohort_grant_root_hash'', sample_hash), (''challenge_hash'', sample_hash),
      (''webauthn_assertion_hash'', sample_hash), (''typed_phrase_hash'', sample_hash),
      (''challenge_expires_at'', sample_time)]"

lemmas sample_member_simps = extra_members_def sat_member_def sample_simps sat_simps nullable_hash_def
  nullable_id_def nullable_timestamp_def string_allowed_def no_args_def is_integer_value_def in_bounds_def

lemma consent_accepts:
  assumes "consent_state_machine_schema = Inr s"
  shows "validate [] (Suc (size s)) s (JDict sample_consent) = Inr ()"
proof -
  show ?thesis
    unfolding sample_consent_def
  proof (rule sample_accepted [OF consent_ok])
    show "distinct (envelope_keys @ dkeys (extra_members consent_state_machine))"
      by (simp add: envelope_keys_def extra_members_def consent_state_machine_def)
    show "state_machine_schema consent_state_machine = Inr s"
      using assms by (simp only: consent_state_machine_schema_def)
    show "(''pending_typed_consent'', ''consented'') \<in> set (m_edges consent_state_machine)"
      by (simp add: consent_state_machine_def consent_edges_def)
  qed (simp_all add: consent_state_machine_def sample_member_simps dimension_ok_def sat_if sat_properties
      sample_envelope_def members_ok_def)
qed

lemma consent_built: "\<exists>s. consent_state_machine_schema = Inr s"
  using workflow_contracts_built by (auto simp: workflow_contracts_def)

section \<open>Only legal transitions\<close>

text \<open>
  C17: whatever machine a contract is generated for, an accepted envelope is an object whose two states
  are one of the machine's edges, labelled with that edge's dimension where there are several.
\<close>

theorem only_legal_transitions:
  assumes "machine_ok m" "state_machine_schema m = Inr s" "validate reg n s v = Inr ()" "json_wf v"
  shows "\<exists>i e. v = JDict i \<and> e \<in> set (m_edges m) \<and> transition_of i = Some e \<and>
    dimension_ok (m_domains m) i e"
  by (rule machine_transition [OF assms]) blast

theorem only_legal_transitions_witness:
  "(''pending_typed_consent'', ''consented'') \<in> set consent_edges"
proof -
  obtain s where s: "consent_state_machine_schema = Inr s" using consent_built by blast
  have "json_wf (JDict sample_consent)"
    by (simp add: sample_consent_def sample_envelope_def sample_uuid_def sample_hash_def sample_time_def)
  from only_legal_transitions [OF consent_ok _ consent_accepts [OF s] this] s
  have "\<exists>e \<in> set consent_edges. transition_of sample_consent = Some e"
    by (auto simp: consent_state_machine_schema_def consent_state_machine_def)
  moreover have "transition_of sample_consent = Some (''pending_typed_consent'', ''consented'')"
    by (simp add: sample_consent_def sample_envelope_def transition_of_def)
  ultimately show ?thesis by auto
qed

end
