(* ===== verification/Workflow_Traffic.thy ===== *)
theory Workflow_Traffic
  imports Workflow_Envelopes
begin

text \<open>
  The traffic-authority contract: what every accepted envelope says about who may write, and the
  evidence without which authority is not taken over. A hand-over to the target with all its evidence
  shows that the promises are not empty.
\<close>

section \<open>Traffic authority\<close>

lemma dget_update_cases:
  "distinct (dkeys e) \<Longrightarrow> dget k (update_when b e d) =
    (case dget k e of None \<Rightarrow> dget k d | Some v \<Rightarrow> if b then Some v else dget k d)"
proof (cases "dget k e")
  case None
  then have "k \<notin> set (dkeys e)" by (simp add: dget_None)
  with None show ?thesis by (simp add: update_when_def dget_dupdate_other)
qed (simp add: update_when_def dget_dupdate_Some)

lemma dget_traffic:
  "dget ''from_state'' (traffic_properties f t a b) = Some (const_schema (JStr f))"
  "dget ''to_state'' (traffic_properties f t a b) = Some (const_schema (JStr t))"
  "dget ''from_application_authority'' (traffic_properties f t a b) = Some (const_schema (JStr a))"
  "dget ''to_application_authority'' (traffic_properties f t a b) = Some (const_schema (JStr b))"
  "dget ''application_authority_epoch_increment'' (traffic_properties f t a b) =
     Some (const_schema (JInt (if a \<noteq> b then 1 else 0)))"
  "dget ''authority_epoch_transition'' (traffic_properties f t a b) =
     Some (const_schema (JStr (if a \<noteq> b then ''advanced_once'' else ''unchanged'')))"
  "dget ''source_application_writes_enabled'' (traffic_properties f t a b) =
     Some (const_schema (JBool (b = ''source'')))"
  "dget ''target_application_writes_enabled'' (traffic_properties f t a b) =
     Some (const_schema (JBool (b = ''target'')))"
  by (simp_all add: traffic_properties_def traffic_base_properties_def dget_update_cases Let_def)

lemma dget_traffic_evidence:
  "t = ''target_primary_reverse_armed'' \<Longrightarrow>
    k \<in> {''source_fence_receipt_hash'', ''source_denial_canary_root_hash'', ''reverse_health_root_hash''} \<Longrightarrow>
    dget k (traffic_properties f t a b) = Some hash_field"
  "t = ''source_cohorts_activating'' \<Longrightarrow>
    k \<in> {''target_fence_receipt_hash'', ''target_denial_canary_root_hash'',
      ''source_resume_stream_receipt_hash'', ''source_parity_receipt_hash''} \<Longrightarrow>
    dget k (traffic_properties f t a b) = Some hash_field"
  by (elim insertE emptyE;
      simp add: traffic_properties_def traffic_base_properties_def dget_update_cases Let_def)+

text \<open>The states that take authority over from nobody.\<close>

lemma traffic_takeover:
  assumes "(a, b) \<in> set traffic_edges" "traffic_authority a = Some ''none''"
  shows "traffic_authority b = Some ''target'' \<Longrightarrow> b = ''target_primary_reverse_armed''"
    and "traffic_authority b = Some ''source'' \<Longrightarrow> b = ''source_cohorts_activating''"
proof -
  have "list_all (\<lambda>(a, b). traffic_authority a = Some ''none'' \<longrightarrow>
      (traffic_authority b = Some ''target'' \<longrightarrow> b = ''target_primary_reverse_armed'') \<and>
      (traffic_authority b = Some ''source'' \<longrightarrow> b = ''source_cohorts_activating'')) traffic_edges"
    by code_simp
  with assms show "traffic_authority b = Some ''target'' \<Longrightarrow> b = ''target_primary_reverse_armed''"
    and "traffic_authority b = Some ''source'' \<Longrightarrow> b = ''source_cohorts_activating''"
    by (fastforce simp: list_all_iff)+
qed

lemma traffic_edge_sat:
  assumes "distinct (dkeys i)" "traffic_edge_constraint (f, t) = Inr c" "sat c (JDict i)"
  obtains a b where "traffic_authority f = Some a" "traffic_authority t = Some b"
    "\<forall>k p. dget k (traffic_properties f t a b) = Some p \<longrightarrow> (\<exists>x. dget k i = Some x \<and> sat p x)"
proof -
  from assms(2) obtain a b where ab: "traffic_authority f = Some a" "traffic_authority t = Some b"
    and c: "c = all_required (traffic_properties f t a b)"
    by (auto simp: traffic_edge_constraint_def split: option.splits)
  from assms(3) have "\<forall>(k, p) \<in> set (traffic_properties f t a b). \<exists>x. dget k i = Some x \<and> sat p x"
    unfolding c sat_all_required [OF assms(1) traffic_properties_distinct] .
  with ab show thesis by (intro that) (auto dest: dget_mem)
qed

lemma traffic_one_of:
  assumes "distinct (dkeys i)" "traffic_edge_constraints = Inr cs"
  shows "sat (JDict [(''oneOf'', JList cs)]) (JDict i) \<longleftrightarrow>
    (\<exists>e \<in> set traffic_edges. \<exists>c. traffic_edge_constraint e = Inr c \<and> sat c (JDict i))"
proof (rule one_of_edges [OF traffic_table.distinct_edges])
  show "list_all2 (\<lambda>e c. traffic_edge_constraint e = Inr c) traffic_edges cs"
    using assms(2) by (simp add: traffic_edge_constraints_def mapE_Inr)
  fix e c
  assume c: "traffic_edge_constraint e = Inr c" "sat c (JDict i)"
  obtain f t where e: "e = (f, t)" by (cases e)
  obtain a b where get: "\<forall>k p. dget k (traffic_properties f t a b) = Some p \<longrightarrow>
      (\<exists>x. dget k i = Some x \<and> sat p x)"
    by (rule traffic_edge_sat [OF assms(1) c [unfolded e]])
  from get [rule_format, OF dget_traffic(1)] get [rule_format, OF dget_traffic(2)]
  show "transition_of i = Some e" by (simp add: sat_simps transition_of_Some e)
qed

lemma traffic_accepted:
  assumes "traffic_authority_state_machine_schema = Inr s" "validate reg n s (JDict i) = Inr ()"
    and "distinct (dkeys i)"
  obtains f t a b where "(f, t) \<in> set traffic_edges" "traffic_authority f = Some a"
    "traffic_authority t = Some b"
    "\<forall>k p. dget k (traffic_properties f t a b) = Some p \<longrightarrow> (\<exists>x. dget k i = Some x \<and> sat p x)"
proof -
  from assms(1) obtain cs where cs: "traffic_edge_constraints = Inr cs"
    and s: "state_machine_schema (traffic_authority_state_machine cs) = Inr s"
    unfolding traffic_authority_state_machine_schema_def bindE_Inr by blast
  obtain i' where "list_all (\<lambda>c. sat c (JDict i)) (m_extra_all_of (traffic_authority_state_machine cs))"
    by (rule sat_machine [OF s machine_accepted [OF traffic_ok [OF cs] s assms(2)]])
  then have one: "sat (JDict [(''oneOf'', JList cs)]) (JDict i)"
    by (simp add: traffic_authority_state_machine_def)
  from one have "\<exists>e \<in> set traffic_edges. \<exists>c. traffic_edge_constraint e = Inr c \<and> sat c (JDict i)"
    unfolding traffic_one_of [OF assms(3) cs] .
  then obtain f t c where e: "(f, t) \<in> set traffic_edges" "traffic_edge_constraint (f, t) = Inr c"
      "sat c (JDict i)" by auto
  show thesis
    by (rule traffic_edge_sat [OF assms(3) e(2,3)]) (rule that [OF e(1)])
qed

text \<open>
  C14: an accepted traffic envelope follows an edge of the table and states its authorities truly: the source may
  write exactly when the authority is the source's, the target exactly when it is the target's, never both. It
  declares an epoch increment of one, and an epoch advanced once, exactly when the authority changes, and no
  increment otherwise. The target takes over only with the source's fence receipt, denial canary and reverse
  health, the source only with the target's fence receipt, denial canary, resume stream and parity receipts.
  The contract says nothing of the expected and the resulting epoch: that they differ by the declared increment
  is left to the reader of the envelope.
\<close>

theorem traffic_promises:
  assumes "traffic_authority_state_machine_schema = Inr s" "validate reg n s (JDict i) = Inr ()"
    and "json_wf (JDict i)"
  shows "\<exists>f t a b w. (f, t) \<in> set traffic_edges \<and> transition_of i = Some (f, t) \<and>
    traffic_authority f = Some a \<and> traffic_authority t = Some b \<and>
    dget ''from_application_authority'' i = Some (JStr a) \<and>
    dget ''to_application_authority'' i = Some (JStr b) \<and>
    dget ''source_application_writes_enabled'' i = Some (JBool (b = ''source'')) \<and>
    dget ''target_application_writes_enabled'' i = Some (JBool (b = ''target'')) \<and>
    dget ''application_authority_epoch_increment'' i = Some w \<and>
    num_of w = Some (Fin (if a \<noteq> b then 1 else 0)) \<and>
    dget ''authority_epoch_transition'' i = Some (JStr (if a \<noteq> b then ''advanced_once'' else ''unchanged'')) \<and>
    (a = ''none'' \<and> b = ''target'' \<longrightarrow>
      (\<forall>k \<in> {''source_fence_receipt_hash'', ''source_denial_canary_root_hash'',
        ''reverse_health_root_hash''}. \<exists>x. dget k i = Some x \<and> hash_like x)) \<and>
    (a = ''none'' \<and> b = ''source'' \<longrightarrow>
      (\<forall>k \<in> {''target_fence_receipt_hash'', ''target_denial_canary_root_hash'',
        ''source_resume_stream_receipt_hash'', ''source_parity_receipt_hash''}.
        \<exists>x. dget k i = Some x \<and> hash_like x))"
proof -
  have d: "distinct (dkeys i)" using assms(3) by simp
  obtain f t a b where e: "(f, t) \<in> set traffic_edges" and a: "traffic_authority f = Some a"
    and b: "traffic_authority t = Some b"
    and get: "\<forall>k p. dget k (traffic_properties f t a b) = Some p \<longrightarrow> (\<exists>x. dget k i = Some x \<and> sat p x)"
    by (rule traffic_accepted [OF assms(1,2) d])
  note fields = dget_traffic [THEN get [rule_format], unfolded sat_simps]
  have hash: "\<exists>x. dget k i = Some x \<and> hash_like x" if "dget k (traffic_properties f t a b) = Some hash_field" for k
    using get [rule_format, OF that] by (simp add: sat_hash_field)
  have target: "t = ''target_primary_reverse_armed''" if "a = ''none''" "b = ''target''"
    using traffic_takeover(1) [OF e] a b that by simp
  have source: "t = ''source_cohorts_activating''" if "a = ''none''" "b = ''source''"
    using traffic_takeover(2) [OF e] a b that by simp
  from fields(5) obtain w where w: "dget ''application_authority_epoch_increment'' i = Some w"
      "json_equal w (JInt (if a \<noteq> b then 1 else 0))" by blast
  then have num: "num_of w = Some (Fin (if a \<noteq> b then 1 else 0))"
    by (cases w) (auto split: option.splits elim: num_eq.elims)
  have ev_target: "a = ''none'' \<and> b = ''target'' \<longrightarrow>
      (\<forall>k \<in> {''source_fence_receipt_hash'', ''source_denial_canary_root_hash'',
        ''reverse_health_root_hash''}. \<exists>x. dget k i = Some x \<and> hash_like x)"
    using hash [OF dget_traffic_evidence(1)] target by blast
  have ev_source: "a = ''none'' \<and> b = ''source'' \<longrightarrow>
      (\<forall>k \<in> {''target_fence_receipt_hash'', ''target_denial_canary_root_hash'',
        ''source_resume_stream_receipt_hash'', ''source_parity_receipt_hash''}.
        \<exists>x. dget k i = Some x \<and> hash_like x)"
    using hash [OF dget_traffic_evidence(2)] source by blast
  have "transition_of i = Some (f, t)" using fields(1,2) by (simp add: transition_of_Some)
  moreover from fields(3,4,6,7,8)
  have "dget ''from_application_authority'' i = Some (JStr a)"
    "dget ''to_application_authority'' i = Some (JStr b)"
    "dget ''source_application_writes_enabled'' i = Some (JBool (b = ''source''))"
    "dget ''target_application_writes_enabled'' i = Some (JBool (b = ''target''))"
    "dget ''authority_epoch_transition'' i = Some (JStr (if a \<noteq> b then ''advanced_once'' else ''unchanged''))"
    by blast+
  ultimately show ?thesis using e a b w(1) num ev_target ev_source by blast
qed

text \<open>A hand-over to the target with all its evidence.\<close>

definition sample_traffic_members :: "json dict" where
  "sample_traffic_members =
     [(''from_application_authority'', JStr ''none''), (''to_application_authority'', JStr ''target''),
      (''expected_application_authority_epoch'', JInt 3),
      (''resulting_application_authority_epoch'', JInt 4),
      (''application_authority_epoch_increment'', JInt 1),
      (''authority_epoch_transition'', JStr ''advanced_once''),
      (''expected_cell_write_epoch'', JInt 1), (''resulting_cell_write_epoch'', JInt 1),
      (''cell_write_epoch_increment'', JInt 0), (''cell_generation_changed'', JBool False),
      (''cohort_grant_root_hash'', sample_hash), (''cohort_activation_receipt_root_hash'', JNull),
      (''source_application_writes_enabled'', JBool False),
      (''target_application_writes_enabled'', JBool True),
      (''reverse_health_root_hash'', sample_hash), (''source_fence_receipt_hash'', sample_hash),
      (''target_fence_receipt_hash'', JNull), (''source_denial_canary_root_hash'', sample_hash),
      (''target_denial_canary_root_hash'', JNull), (''source_resume_stream_receipt_hash'', JNull),
      (''source_parity_receipt_hash'', JNull), (''target_no_effect_receipt_hash'', JNull),
      (''smoke_root_hash'', JNull), (''rollback_window_closure_root_hash'', JNull),
      (''conflict_evidence_root_hash'', JNull), (''attribution_status'', JStr ''clear'')]"

definition sample_traffic :: "json dict" where
  "sample_traffic = sample_envelope ''traffic_authority'' ''source_fenced_and_drained''
     ''target_primary_reverse_armed'' sample_traffic_members"

lemma sample_traffic_distinct: "distinct (dkeys sample_traffic)"
  by (simp add: sample_traffic_def sample_traffic_members_def sample_envelope_def)

text \<open>The members its edge constrains, in the order of the constraint.\<close>

definition sample_edge_members :: "json dict" where
  "sample_edge_members =
     [(''from_state'', JStr ''source_fenced_and_drained''),
      (''to_state'', JStr ''target_primary_reverse_armed''),
      (''from_application_authority'', JStr ''none''), (''to_application_authority'', JStr ''target''),
      (''application_authority_epoch_increment'', JInt 1),
      (''authority_epoch_transition'', JStr ''advanced_once''),
      (''source_application_writes_enabled'', JBool False),
      (''target_application_writes_enabled'', JBool True), (''attribution_status'', JStr ''clear''),
      (''cohort_activation_receipt_root_hash'', JNull), (''reverse_health_root_hash'', sample_hash),
      (''source_fence_receipt_hash'', sample_hash), (''target_fence_receipt_hash'', JNull),
      (''source_denial_canary_root_hash'', sample_hash), (''target_denial_canary_root_hash'', JNull),
      (''source_resume_stream_receipt_hash'', JNull), (''source_parity_receipt_hash'', JNull),
      (''target_no_effect_receipt_hash'', JNull), (''smoke_root_hash'', JNull),
      (''rollback_window_closure_root_hash'', JNull), (''conflict_evidence_root_hash'', JNull)]"

lemma sample_traffic_edge:
  "traffic_edge_constraint (''source_fenced_and_drained'', ''target_primary_reverse_armed'') = Inr c \<Longrightarrow>
    sat c (JDict sample_traffic)"
proof -
  let ?ps = "traffic_properties ''source_fenced_and_drained'' ''target_primary_reverse_armed'' ''none'' ''target''"
  assume "traffic_edge_constraint (''source_fenced_and_drained'', ''target_primary_reverse_armed'') = Inr c"
  moreover have "traffic_authority ''source_fenced_and_drained'' = Some ''none''"
    "traffic_authority ''target_primary_reverse_armed'' = Some ''target''"
    by code_simp+
  ultimately have c: "c = all_required ?ps" by (simp add: traffic_edge_constraint_def)
  have members: "list_all2 sat_member ?ps sample_edge_members"
    by (simp add: traffic_properties_def traffic_base_properties_def Let_def update_when_def
        sample_edge_members_def sat_member_def sat_simps sample_simps)
  have sample: "set sample_edge_members \<subseteq> set sample_traffic"
    by (simp add: sample_edge_members_def sample_traffic_def sample_traffic_members_def sample_envelope_def)
  have "\<exists>x. dget k sample_traffic = Some x \<and> sat p x" if mem: "(k, p) \<in> set ?ps" for k p
  proof -
    obtain n where n: "n < length ?ps" "?ps ! n = (k, p)" using mem by (auto simp: in_set_conv_nth)
    define q where "q = sample_edge_members ! n"
    have "sat_member (k, p) q" "q \<in> set sample_traffic"
      using n members sample by (auto simp: q_def list_all2_conv_all_nth)
    moreover from this(2) have "dget (fst q) sample_traffic = Some (snd q)"
      by (intro dget_distinct_mem [OF sample_traffic_distinct]) simp
    ultimately show ?thesis by (auto simp: sat_member_def)
  qed
  then show ?thesis
    unfolding c sat_all_required [OF sample_traffic_distinct traffic_properties_distinct] by blast
qed

lemma traffic_accepts:
  assumes "traffic_authority_state_machine_schema = Inr s"
  shows "validate [] (Suc (size s)) s (JDict sample_traffic) = Inr ()"
proof -
  from assms obtain cs where cs: "traffic_edge_constraints = Inr cs"
    and s: "state_machine_schema (traffic_authority_state_machine cs) = Inr s"
    unfolding traffic_authority_state_machine_schema_def bindE_Inr by blast
  let ?m = "traffic_authority_state_machine cs"
  let ?e = "(''source_fenced_and_drained'', ''target_primary_reverse_armed'')"
  have edge: "?e \<in> set traffic_edges" by (simp add: traffic_edges_def)
  have "\<exists>c. traffic_edge_constraint ?e = Inr c"
    using traffic_edge_total [OF edge] by (auto simp: traffic_edge_constraint_def)
  with sample_traffic_edge edge have one: "sat (JDict [(''oneOf'', JList cs)]) (JDict sample_traffic)"
    unfolding traffic_one_of [OF sample_traffic_distinct cs] by blast
  show ?thesis
    unfolding sample_traffic_def
  proof (rule sample_accepted [OF traffic_ok [OF cs] s])
    show "distinct (envelope_keys @ dkeys (extra_members ?m))"
      by (simp add: envelope_keys_def extra_members_def traffic_authority_state_machine_def)
    show "list_all (\<lambda>c. sat c (JDict (sample_envelope ''traffic_authority''
        ''source_fenced_and_drained'' ''target_primary_reverse_armed'' sample_traffic_members)))
      (m_extra_all_of ?m)"
      using one unfolding sample_traffic_def
      by (simp add: traffic_authority_state_machine_def sat_if sat_properties sample_envelope_def
          members_ok_def sat_simps sample_traffic_members_def)
  qed (use edge in \<open>simp_all add: traffic_authority_state_machine_def sample_member_simps dimension_ok_def
      sample_traffic_members_def\<close>)
qed

theorem traffic_promises_witness:
  "dget ''target_application_writes_enabled'' sample_traffic = Some (JBool True) \<and>
   dget ''source_application_writes_enabled'' sample_traffic = Some (JBool False) \<and>
   (\<exists>x. dget ''source_fence_receipt_hash'' sample_traffic = Some x \<and> hash_like x)"
proof -
  obtain s where s: "traffic_authority_state_machine_schema = Inr s"
    using workflow_contracts_built by (auto simp: workflow_contracts_def)
  have "json_wf (JDict sample_traffic)"
    using sample_traffic_distinct
    by (simp add: sample_traffic_def sample_traffic_members_def sample_envelope_def sample_uuid_def
        sample_hash_def sample_time_def)
  from traffic_promises [OF s traffic_accepts [OF s] this] obtain a b where
    "dget ''from_application_authority'' sample_traffic = Some (JStr a)"
    "dget ''to_application_authority'' sample_traffic = Some (JStr b)"
    "dget ''source_application_writes_enabled'' sample_traffic = Some (JBool (b = ''source''))"
    "dget ''target_application_writes_enabled'' sample_traffic = Some (JBool (b = ''target''))"
    "a = ''none'' \<and> b = ''target'' \<longrightarrow>
      (\<exists>x. dget ''source_fence_receipt_hash'' sample_traffic = Some x \<and> hash_like x)"
    by blast
  then show ?thesis
    by (simp add: sample_traffic_def sample_traffic_members_def sample_envelope_def)
qed

end
