(* ===== verification/Workflow_Gates.thy ===== *)
theory Workflow_Gates
  imports Workflow_Envelopes
begin

text \<open>
  The conditional clauses of the consent, migration, decision, attempt and reversibility contracts: what
  a consent must carry, who may start a migration and with what, when a decision counts as resolved, and which receipts exist when.
\<close>

text \<open>The clauses of a machine hold of every envelope its contract accepts, and no field is missing.\<close>

lemma machine_clauses:
  assumes "machine_ok m" "state_machine_schema m = Inr s" "validate reg n s (JDict i) = Inr ()"
  shows "list_all (\<lambda>c. sat c (JDict i)) (m_extra_all_of m)"
proof -
  obtain i' where "list_all (\<lambda>c. sat c (JDict i)) (m_extra_all_of m)"
    by (rule sat_machine [OF assms(2) machine_accepted [OF assms]])
  then show ?thesis .
qed

lemma machine_present:
  assumes "machine_ok m" "state_machine_schema m = Inr s" "validate reg n s (JDict i) = Inr ()"
    and "list_all (\<lambda>k. k \<in> set (machine_required m)) ks"
  shows "list_all (\<lambda>k. \<exists>x. dget k i = Some x) ks"
proof -
  obtain i' where "JDict i = JDict i'" "list_all (\<lambda>k. dhas k i') (''schema_version'' # machine_required m)"
    by (rule sat_machine [OF assms(2) machine_accepted [OF assms(1-3)]])
  with assms(4) show ?thesis by (auto simp: list_all_iff dhas_def)
qed

lemmas clause_simps = sat_if sat_properties members_ok_Nil sat_simps sat_hash_field

section \<open>Consent\<close>

text \<open>
  C29: an accepted consent envelope that moves to \<open>consented\<close>, \<open>executing\<close> or \<open>executed\<close> carries the
  hashes of the challenge, the WebAuthn assertion and the typed phrase, and the challenge's expiry.
\<close>

theorem consent_evidence:
  assumes "consent_state_machine_schema = Inr s" "validate reg n s (JDict i) = Inr ()"
    and wf: "json_wf (JDict i)"
    and to: "dget ''to_state'' i \<in> Some ` JStr ` {''consented'', ''executing'', ''executed''}"
  shows "(\<forall>k \<in> {''challenge_hash'', ''webauthn_assertion_hash'', ''typed_phrase_hash''}.
      \<exists>x. dget k i = Some x \<and> hash_like x) \<and>
    (\<exists>x. dget ''challenge_expires_at'' i = Some x \<and> sat timestamp_field x)"
proof -
  note m = consent_ok assms(1) [unfolded consent_state_machine_schema_def] assms(2)
  have d: "distinct (dkeys i)" using wf by simp
  from machine_present [OF m, of "[''challenge_hash'', ''webauthn_assertion_hash'',
      ''typed_phrase_hash'', ''challenge_expires_at'']"]
  obtain u v w x where present: "dget ''challenge_hash'' i = Some u"
    "dget ''webauthn_assertion_hash'' i = Some v" "dget ''typed_phrase_hash'' i = Some w"
    "dget ''challenge_expires_at'' i = Some x"
    by (auto simp: machine_required_def consent_state_machine_def)
  from machine_clauses [OF m] present to show ?thesis
    by (auto simp: consent_state_machine_def clause_simps members_ok_Cons [OF d])
qed

theorem consent_evidence_witness:
  "\<exists>x. dget ''typed_phrase_hash'' sample_consent = Some x \<and> hash_like x"
proof -
  obtain s where s: "consent_state_machine_schema = Inr s" using consent_built by blast
  have "json_wf (JDict sample_consent)"
    by (simp add: sample_consent_def sample_envelope_def sample_uuid_def sample_hash_def sample_time_def)
  moreover have "dget ''to_state'' sample_consent = Some (JStr ''consented'')"
    by (simp add: sample_consent_def sample_envelope_def)
  ultimately show ?thesis using consent_evidence [OF s consent_accepts [OF s]] by auto
qed

section \<open>Starting a migration\<close>

text \<open>
  C28: a migration leaves \<open>connect\<close> for \<open>discovery\<close> only by a human, with every mandatory connector
  proven, and with the start receipt; and it rolls back only with the hash of a rehearsed rollback.
\<close>

theorem migration_start:
  assumes "migration_state_machine_schema = Inr s" "validate reg n s (JDict i) = Inr ()"
    and "json_wf (JDict i)"
  shows "(transition_of i = Some (''connect'', ''discovery'') \<longrightarrow>
      dget ''actor_type'' i = Some (JStr ''human'') \<and>
      dget ''all_mandatory_connectors_proven'' i = Some (JBool True) \<and>
      (\<exists>x. dget ''start_receipt_hash'' i = Some x \<and> hash_like x)) \<and>
    (dget ''to_state'' i \<in> Some ` JStr ` {''rolling_back'', ''rolled_back''} \<longrightarrow>
      (\<exists>x. dget ''rehearsed_rollback_reference_hash'' i = Some x \<and> hash_like x))"
proof -
  note m = migration_ok assms(1) [unfolded migration_state_machine_schema_def] assms(2)
  have d: "distinct (dkeys i)" using assms(3) by simp
  from machine_present [OF m, of "[''actor_type'', ''all_mandatory_connectors_proven'',
      ''start_receipt_hash'', ''rehearsed_rollback_reference_hash'']"]
  obtain u v w x where present: "dget ''actor_type'' i = Some u"
    "dget ''all_mandatory_connectors_proven'' i = Some v" "dget ''start_receipt_hash'' i = Some w"
    "dget ''rehearsed_rollback_reference_hash'' i = Some x"
    by (auto simp: machine_required_def migration_state_machine_def)
  obtain i' e where i': "JDict i = JDict i'" "transition_of i' = Some e"
      "dimension_ok (m_domains migration_state_machine) i' e"
    by (rule machine_transition [OF m assms(3)])
  have "dget (''connect'', ''discovery'') migration_domains = Some ''primary_phase''" by code_simp
  with i' have "transition_of i = Some (''connect'', ''discovery'') \<longrightarrow>
      dget ''state_dimension'' i = Some (JStr ''primary_phase'')"
    by (auto simp: dimension_ok_def migration_state_machine_def)
  with machine_clauses [OF m] present show ?thesis
    by (auto simp: migration_state_machine_def clause_simps members_ok_Cons [OF d] transition_of_Some)
qed

lemma first_domain: "dget (''connect'', ''discovery'') migration_domains = Some ''primary_phase''"
  by code_simp

lemma domain_names: "sort (remdups (map snd migration_domains)) = [''execution_status'', ''primary_phase'']"
  by code_simp

definition sample_migration_members :: "json dict" where
  "sample_migration_members =
     [(''state_dimension'', JStr ''primary_phase''),
      (''start_readiness_version'', JInt 1),
      (''all_mandatory_connectors_proven'', JBool True),
      (''start_transaction_id'', sample_uuid),
      (''first_prompt_message_id'', sample_uuid),
      (''start_conversation_id'', sample_uuid),
      (''start_wakeup_id'', sample_uuid),
      (''start_receipt_hash'', sample_hash),
      (''application_authority_epoch'', JInt 1),
      (''cell_write_epoch'', JInt 0),
      (''rehearsed_rollback_reference_hash'', JNull)]"

definition sample_migration :: "json dict" where
  "sample_migration = sample_envelope ''migration'' ''connect'' ''discovery'' sample_migration_members"

lemma migration_accepts:
  assumes "migration_state_machine_schema = Inr s"
  shows "validate [] (Suc (size s)) s (JDict sample_migration) = Inr ()"
  unfolding sample_migration_def
proof (rule sample_accepted [OF migration_ok])
  show "state_machine_schema migration_state_machine = Inr s"
    using assms by (simp only: migration_state_machine_schema_def)
  show "distinct (envelope_keys @ dkeys (extra_members migration_state_machine))"
    by (simp add: envelope_keys_def extra_members_def migration_state_machine_def)
  show "(''connect'', ''discovery'') \<in> set (m_edges migration_state_machine)"
    by (simp add: migration_state_machine_def migration_edges_def migration_phase_edges_def migration_phase_states_def)
qed (simp_all add: migration_state_machine_def sample_migration_members_def sample_member_simps
    dimension_ok_def first_domain domain_names sat_if sat_properties sample_envelope_def members_ok_def)

lemma sample_migration_wf: "json_wf (JDict sample_migration)"
  by (simp add: sample_migration_def sample_migration_members_def sample_envelope_def sample_uuid_def
      sample_hash_def sample_time_def)

lemma migration_built: "\<exists>s. migration_state_machine_schema = Inr s"
  using workflow_contracts_built by (auto simp: workflow_contracts_def)

theorem migration_start_witness:
  "dget ''actor_type'' sample_migration = Some (JStr ''human'')"
proof -
  obtain s where s: "migration_state_machine_schema = Inr s" using migration_built by blast
  have "transition_of sample_migration = Some (''connect'', ''discovery'')"
    by (simp add: sample_migration_def sample_envelope_def transition_of_def)
  with migration_start [OF s migration_accepts [OF s] sample_migration_wf] show ?thesis by blast
qed

section \<open>Resolving a decision\<close>

text \<open>
  C30: a decision is resolved only when no message of the user is open, by an approval, an override, a
  rejection or a postponement, and a foundation decision never on an unknown assumption.
\<close>

theorem decision_resolved:
  assumes "decision_state_machine_schema = Inr s" "validate reg n s (JDict i) = Inr ()"
    and "json_wf (JDict i)" and to: "dget ''to_state'' i = Some (JStr ''resolved'')"
  shows "dget ''computation_current'' i = Some (JBool False) \<and>
    (\<exists>x. dget ''unresolved_user_message_count'' i = Some x \<and> json_equal x (JInt 0)) \<and>
    dget ''resolution_kind'' i \<in> Some ` JStr ` {''approve'', ''override'', ''reject'', ''postpone''} \<and>
    (dget ''foundation_decision'' i = Some (JBool True) \<longrightarrow>
      dget ''unknown_assumption'' i = Some (JBool False))"
proof -
  note m = decision_ok assms(1) [unfolded decision_state_machine_schema_def] assms(2)
  have d: "distinct (dkeys i)" using assms(3) by simp
  from machine_present [OF m, of "[''computation_current'', ''unresolved_user_message_count'',
      ''resolution_kind'', ''unknown_assumption'']"]
  obtain u v w x where present: "dget ''computation_current'' i = Some u"
    "dget ''unresolved_user_message_count'' i = Some v" "dget ''resolution_kind'' i = Some w"
    "dget ''unknown_assumption'' i = Some x"
    by (auto simp: machine_required_def decision_state_machine_def)
  from machine_clauses [OF m] present to show ?thesis
    by (auto simp: decision_state_machine_def clause_simps members_ok_Cons [OF d])
qed

lemma sample_name_sat: "matches ''approved'' (JStr safe_name_pattern)"
  by code_simp

definition sample_decision_members :: "json dict" where
  "sample_decision_members =
     [(''decision_key'', JStr ''approved''),
      (''expected_card_version'', JInt 1),
      (''resulting_card_version'', JInt 2),
      (''resolution_kind'', JStr ''approve''),
      (''computation_current'', JBool False),
      (''unresolved_user_message_count'', JInt 0),
      (''foundation_decision'', JBool True),
      (''unknown_assumption'', JBool False)]"

definition sample_decision :: "json dict" where
  "sample_decision = sample_envelope ''decision'' ''discussing'' ''resolved'' sample_decision_members"

lemma decision_accepts:
  assumes "decision_state_machine_schema = Inr s"
  shows "validate [] (Suc (size s)) s (JDict sample_decision) = Inr ()"
  unfolding sample_decision_def
proof (rule sample_accepted [OF decision_ok])
  show "state_machine_schema decision_state_machine = Inr s"
    using assms by (simp only: decision_state_machine_schema_def)
  show "distinct (envelope_keys @ dkeys (extra_members decision_state_machine))"
    by (simp add: envelope_keys_def extra_members_def decision_state_machine_def)
  show "(''discussing'', ''resolved'') \<in> set (m_edges decision_state_machine)"
    by (simp add: decision_state_machine_def decision_edges_def)
qed (simp_all add: decision_state_machine_def sample_decision_members_def sample_member_simps
    dimension_ok_def sample_name_sat sat_if sat_properties sample_envelope_def members_ok_def)

lemma sample_decision_wf: "json_wf (JDict sample_decision)"
  by (simp add: sample_decision_def sample_decision_members_def sample_envelope_def sample_uuid_def
      sample_hash_def sample_time_def)

lemma decision_built: "\<exists>s. decision_state_machine_schema = Inr s"
  using workflow_contracts_built by (auto simp: workflow_contracts_def)

theorem decision_resolved_witness:
  "dget ''unknown_assumption'' sample_decision = Some (JBool False)"
proof -
  obtain s where s: "decision_state_machine_schema = Inr s" using decision_built by blast
  have "dget ''to_state'' sample_decision = Some (JStr ''resolved'')"
    "dget ''foundation_decision'' sample_decision = Some (JBool True)"
    by (simp_all add: sample_decision_def sample_decision_members_def sample_envelope_def)
  with decision_resolved [OF s decision_accepts [OF s] sample_decision_wf] show ?thesis by blast
qed

section \<open>Receipts\<close>

text \<open>
  C31: an attempt carries a terminal receipt exactly when it moves to a terminal state; otherwise the
  field is null.
\<close>

theorem attempt_receipt:
  assumes "attempt_state_machine_schema = Inr s" "validate reg n s (JDict i) = Inr ()"
    and "json_wf (JDict i)" and to: "dget ''to_state'' i = Some (JStr t)"
  shows "if t \<in> {''succeeded'', ''failed_recoverable'', ''failed_terminal'', ''canceled''}
    then \<exists>x. dget ''terminal_receipt_hash'' i = Some x \<and> hash_like x
    else dget ''terminal_receipt_hash'' i = Some JNull"
proof -
  note m = attempt_ok assms(1) [unfolded attempt_state_machine_schema_def] assms(2)
  have d: "distinct (dkeys i)" using assms(3) by simp
  from machine_present [OF m, of "[''terminal_receipt_hash'']"] obtain x where
    present: "dget ''terminal_receipt_hash'' i = Some x"
    by (auto simp: machine_required_def attempt_state_machine_def)
  from machine_clauses [OF m] present to show ?thesis
    by (auto simp: attempt_state_machine_def clause_simps members_ok_Cons [OF d])
qed

definition sample_attempt_members :: "json dict" where
  "sample_attempt_members =
     [(''attempt_id'', sample_uuid),
      (''attempt_kind'', JStr ''rehearsal''),
      (''ordinal'', JInt 1),
      (''retry_of_attempt_id'', JNull),
      (''terminal_receipt_hash'', sample_hash)]"

definition sample_attempt :: "json dict" where
  "sample_attempt = sample_envelope ''attempt'' ''running'' ''succeeded'' sample_attempt_members"

lemma attempt_accepts:
  assumes "attempt_state_machine_schema = Inr s"
  shows "validate [] (Suc (size s)) s (JDict sample_attempt) = Inr ()"
  unfolding sample_attempt_def
proof (rule sample_accepted [OF attempt_ok])
  show "state_machine_schema attempt_state_machine = Inr s"
    using assms by (simp only: attempt_state_machine_schema_def)
  show "distinct (envelope_keys @ dkeys (extra_members attempt_state_machine))"
    by (simp add: envelope_keys_def extra_members_def attempt_state_machine_def)
  show "(''running'', ''succeeded'') \<in> set (m_edges attempt_state_machine)"
    by (simp add: attempt_state_machine_def attempt_edges_def)
qed (simp_all add: attempt_state_machine_def sample_attempt_members_def sample_member_simps
    dimension_ok_def sat_if sat_properties sample_envelope_def members_ok_def)

lemma sample_attempt_wf: "json_wf (JDict sample_attempt)"
  by (simp add: sample_attempt_def sample_attempt_members_def sample_envelope_def sample_uuid_def
      sample_hash_def sample_time_def)

lemma attempt_built: "\<exists>s. attempt_state_machine_schema = Inr s"
  using workflow_contracts_built by (auto simp: workflow_contracts_def)

theorem attempt_receipt_witness:
  "\<exists>x. dget ''terminal_receipt_hash'' sample_attempt = Some x \<and> hash_like x"
proof -
  obtain s where s: "attempt_state_machine_schema = Inr s" using attempt_built by blast
  have "dget ''to_state'' sample_attempt = Some (JStr ''succeeded'')"
    by (simp add: sample_attempt_def sample_envelope_def)
  from attempt_receipt [OF s attempt_accepts [OF s] sample_attempt_wf this] show ?thesis by simp
qed

text \<open>
  C32: a reversibility record names the receipt that closed it exactly when it closes, and its
  successor exactly when it is superseded; it never names both.
\<close>

theorem reversibility_receipts:
  assumes "reversibility_state_machine_schema = Inr s" "validate reg n s (JDict i) = Inr ()"
    and "json_wf (JDict i)" and to: "dget ''to_state'' i = Some (JStr t)"
  shows "\<exists>c u. dget ''closed_by_receipt_hash'' i = Some c \<and> dget ''superseded_by'' i = Some u \<and>
    (if t = ''closed'' then hash_like c else c = JNull) \<and>
    (if t = ''superseded'' then hash_like u else u = JNull)"
proof -
  note m = reversibility_ok assms(1) [unfolded reversibility_state_machine_schema_def] assms(2)
  have d: "distinct (dkeys i)" using assms(3) by simp
  from machine_present [OF m, of "[''closed_by_receipt_hash'', ''superseded_by'']"] obtain c u where
    present: "dget ''closed_by_receipt_hash'' i = Some c" "dget ''superseded_by'' i = Some u"
    by (auto simp: machine_required_def reversibility_state_machine_def)
  from machine_clauses [OF m] present to show ?thesis
    by (auto simp: reversibility_state_machine_def clause_simps members_ok_Cons [OF d] split: if_splits)
qed

definition sample_reversibility_members :: "json dict" where
  "sample_reversibility_members =
     [(''reversibility_id'', sample_hash),
      (''reversibility_class'', JStr ''closes_on_a_clock''),
      (''closed_by_receipt_hash'', sample_hash),
      (''superseded_by'', JNull)]"

definition sample_reversibility :: "json dict" where
  "sample_reversibility = sample_envelope ''reversibility'' ''warning'' ''closed'' sample_reversibility_members"

lemma reversibility_accepts:
  assumes "reversibility_state_machine_schema = Inr s"
  shows "validate [] (Suc (size s)) s (JDict sample_reversibility) = Inr ()"
  unfolding sample_reversibility_def
proof (rule sample_accepted [OF reversibility_ok])
  show "state_machine_schema reversibility_state_machine = Inr s"
    using assms by (simp only: reversibility_state_machine_schema_def)
  show "distinct (envelope_keys @ dkeys (extra_members reversibility_state_machine))"
    by (simp add: envelope_keys_def extra_members_def reversibility_state_machine_def)
  show "(''warning'', ''closed'') \<in> set (m_edges reversibility_state_machine)"
    by (simp add: reversibility_state_machine_def reversibility_edges_def)
qed (simp_all add: reversibility_state_machine_def sample_reversibility_members_def sample_member_simps
    dimension_ok_def sat_if sat_properties sample_envelope_def members_ok_def)

lemma sample_reversibility_wf: "json_wf (JDict sample_reversibility)"
  by (simp add: sample_reversibility_def sample_reversibility_members_def sample_envelope_def sample_uuid_def
      sample_hash_def sample_time_def)

lemma reversibility_built: "\<exists>s. reversibility_state_machine_schema = Inr s"
  using workflow_contracts_built by (auto simp: workflow_contracts_def)

theorem reversibility_receipts_witness:
  "dget ''superseded_by'' sample_reversibility = Some JNull"
proof -
  obtain s where s: "reversibility_state_machine_schema = Inr s" using reversibility_built by blast
  have "dget ''to_state'' sample_reversibility = Some (JStr ''closed'')"
    by (simp add: sample_reversibility_def sample_envelope_def)
  from reversibility_receipts [OF s reversibility_accepts [OF s] sample_reversibility_wf this]
  show ?thesis by auto
qed

end
