(* ===== verification/Core_Schemas_A.thy ===== *)
theory Core_Schemas_A
  imports Workflow_Schemas
begin

text \<open>
  Contracts of internal/contracts/codegen/core_contracts.py: signatures, keys, audit checkpoints,
  mapping specifications, verification rubrics, attempts and reversibility records. A local
  variable of a source function is a definition of its own; the keyword arguments of
  \<open>schema\<close> are the fields of the record \<open>document\<close>.
\<close>

definition signature_envelope_document :: document where
  "signature_envelope_document =
    \<lparr>d_path = ''crypto/signature-envelope.schema.json'', d_title = ''Signature Envelope'',
     d_properties =
       [(''envelope_id'', hash_field),
        (''object_type'',
         s_string (no_args\<lparr>s_pattern := Some safe_name_pattern, s_max_length := Some 128\<rparr>)),
        (''object_schema_id'',
         s_string (no_args\<lparr>s_pattern := Some
                             (''^https://jumpship'' @ esc ''.dev/contracts/[A-Za-z0-9_./-]+'' @ esc
                                ''.schema'' @ esc ''.json$''),
                           s_max_length := Some 512\<rparr>)),
        (''object_schema_version'',
         s_string (no_args\<lparr>s_pattern := Some semver_pattern, s_max_length := Some 64\<rparr>)),
        (''payload_digest'', hash_field),
        (''purpose'',
         s_string (no_args\<lparr>s_pattern := Some safe_name_pattern, s_max_length := Some 128\<rparr>)),
        (''environment'',
         s_string (no_args\<lparr>s_enum := Some
                             [''local'', ''ephemeral-nonprod'', ''persistent-nonprod'',
                              ''isolated-quality'', ''staging'', ''production'']\<rparr>)),
        (''tenant_scope'', nullable uuid_id),
        (''migration_scope'', nullable uuid_id),
        (''kid'',
         s_string (no_args\<lparr>s_pattern := Some safe_name_pattern, s_max_length := Some 128\<rparr>)),
        (''algorithm'',
         s_string (no_args\<lparr>s_enum := Some [''ECDSA_P256_SHA256'', ''RSA_PSS_SHA256'']\<rparr>)),
        (''signer_id'',
         s_string (no_args\<lparr>s_pattern := Some safe_name_pattern, s_max_length := Some 128\<rparr>)),
        (''signer_role'',
         s_string (no_args\<lparr>s_pattern := Some safe_name_pattern, s_max_length := Some 128\<rparr>)),
        (''issued_at'', timestamp_field),
        (''expires_at'', nullable_timestamp),
        (''key_registry_id'', hash_field),
        (''key_registry_hash'', hash_field),
        (''signature_base64'',
         s_string (no_args\<lparr>s_pattern := Some base64_pattern, s_min_length := Some 8,
                           s_max_length := Some 8192,
                           s_description := Some
                             ''Detached signature bytes; excluded from the signed claims.''\<rparr>))],
     d_required =
       [''envelope_id'', ''object_type'', ''object_schema_id'', ''object_schema_version'',
        ''payload_digest'', ''purpose'', ''environment'', ''tenant_scope'', ''migration_scope'',
        ''kid'', ''algorithm'', ''signer_id'', ''signer_role'', ''issued_at'', ''expires_at'',
        ''key_registry_id'', ''key_registry_hash'', ''signature_base64''],
     d_data_class = ''public'', d_max_bytes = 16384,
     d_flow_ids = [''F06'', ''F17'', ''F20'', ''F21''],
     d_description =
       (''Purpose-scoped detached signature over typed canonical claims. The '' @
          ''logical payload, derived object identity, and this envelope are '' @
          ''separate objects.''),
     d_all_of = None, d_definitions = None, d_version = schema_version\<rparr>"

definition signature_envelope_schema :: "build_error + json" where
  "signature_envelope_schema = schema signature_envelope_document"

definition public_key_registry_key_entry :: json where
  "public_key_registry_key_entry =
    s_object [(''kid'',
               s_string (no_args\<lparr>s_pattern := Some safe_name_pattern, s_max_length := Some 128\<rparr>)),
              (''algorithm'',
               s_string (no_args\<lparr>s_enum := Some [''ECDSA_P256_SHA256'', ''RSA_PSS_SHA256'']\<rparr>)),
              (''public_key_pem'',
               s_string (no_args\<lparr>s_pattern := Some
                                   (''^-----BEGIN PUBLIC KEY-----[A-Za-z0-9+/='' @ esc ''r'' @ esc
                                      ''n-]+-----END PUBLIC KEY-----$''),
                                 s_min_length := Some 128, s_max_length := Some 8192\<rparr>)),
              (''purposes'', safe_names 1 32),
              (''environments'',
               s_array (s_string (no_args\<lparr>s_enum := Some
                                            [''local'', ''ephemeral-nonprod'',
                                             ''persistent-nonprod'', ''isolated-quality'',
                                             ''staging'', ''production'']\<rparr>)) 1 6 True),
              (''tenant_scope'', nullable uuid_id),
              (''valid_from'', timestamp_field),
              (''valid_until'', timestamp_field),
              (''status'',
               s_string (no_args\<lparr>s_enum := Some [''active'', ''superseded'', ''revoked'']\<rparr>)),
              (''supersedes_kid'',
               nullable (s_string (no_args\<lparr>s_pattern := Some safe_name_pattern,
                                           s_max_length := Some 128\<rparr>))),
              (''revoked_at'', nullable_timestamp),
              (''revocation_reason'',
               nullable (s_string (no_args\<lparr>s_pattern := Some safe_reason_pattern,
                                           s_max_length := Some 96\<rparr>)))]
      [''kid'', ''algorithm'', ''public_key_pem'', ''purposes'', ''environments'', ''tenant_scope'',
       ''valid_from'', ''valid_until'', ''status'', ''supersedes_kid'', ''revoked_at'',
       ''revocation_reason''] False"

definition public_key_registry_key_entry_full :: json where
  "public_key_registry_key_entry_full =
    with_member ''allOf''
      (JList [JDict [(''if'',
                      JDict [(''required'', jstrs [''status'']),
                             (''properties'',
                              JDict [(''status'', JDict [(''const'', JStr ''revoked'')])])]),
                     (''then'',
                      JDict [(''properties'',
                              JDict [(''revoked_at'', timestamp_field),
                                     (''revocation_reason'',
                                      s_string (no_args\<lparr>s_pattern := Some safe_reason_pattern,
                                                        s_max_length := Some 96\<rparr>))])]),
                     (''else'',
                      JDict [(''properties'',
                              JDict [(''revoked_at'', JDict [(''type'', JStr ''null'')]),
                                     (''revocation_reason'',
                                      JDict [(''type'', JStr ''null'')])])])]])
      public_key_registry_key_entry"

definition public_key_registry_document :: document where
  "public_key_registry_document =
    \<lparr>d_path = ''crypto/public-key-registry.schema.json'', d_title = ''Public Key Registry'',
     d_properties =
       [(''registry_id'', hash_field),
        (''registry_version'', s_integer (Some 1) None),
        (''previous_registry_hash'', nullable_hash),
        (''root_fingerprint'', hash_field),
        (''purpose_policy_hash'', hash_field),
        (''issued_at'', timestamp_field),
        (''keys'', s_array public_key_registry_key_entry_full 1 256 False)],
     d_required =
       [''registry_id'', ''registry_version'', ''previous_registry_hash'', ''root_fingerprint'',
        ''purpose_policy_hash'', ''issued_at'', ''keys''],
     d_data_class = ''public'', d_max_bytes = 1048576, d_flow_ids = [''F06'', ''F17''],
     d_description =
       (''Monotonic purpose/environment/tenant-scoped public-key registry. It '' @
          ''contains no private material and is the sole Jumpship trust-bundle '' @
          ''input to offline verification.''),
     d_all_of = Some
       [JDict [(''if'',
                JDict [(''required'', jstrs [''registry_version'']),
                       (''properties'',
                        JDict [(''registry_version'', JDict [(''const'', JInt 1)])])]),
               (''then'',
                JDict [(''properties'',
                        JDict [(''previous_registry_hash'', JDict [(''type'', JStr ''null'')])])]),
               (''else'',
                JDict [(''properties'', JDict [(''previous_registry_hash'', hash_field)])])]],
     d_definitions = None, d_version = schema_version\<rparr>"

definition public_key_registry_schema :: "build_error + json" where
  "public_key_registry_schema = schema public_key_registry_document"

definition audit_checkpoint_document :: document where
  "audit_checkpoint_document =
    \<lparr>d_path = ''audit/checkpoint.schema.json'', d_title = ''Audit Checkpoint'',
     d_properties =
       [(''checkpoint_id'', hash_field),
        (''previous_checkpoint_hash'', nullable_hash),
        (''export_request_id'', uuid_id),
        (''interval_started_at'', timestamp_field),
        (''interval_ended_at'', timestamp_field),
        (''event_count'', s_integer (Some 0) (Some 10000000)),
        (''redacted_export_root'', hash_field),
        (''export_schema_hash'', hash_field),
        (''source_high_watermark'',
         s_string (no_args\<lparr>s_min_length := Some 1, s_max_length := Some 256\<rparr>)),
        (''created_at'', timestamp_field)],
     d_required =
       [''checkpoint_id'', ''previous_checkpoint_hash'', ''export_request_id'',
        ''interval_started_at'', ''interval_ended_at'', ''event_count'', ''redacted_export_root'',
        ''export_schema_hash'', ''source_high_watermark'', ''created_at''],
     d_data_class = ''internal_operational'', d_max_bytes = 16384, d_flow_ids = [''F03'', ''F17''],
     d_description =
       (''Canonical unsigned audit-checkpoint candidate. Only the offline audit '' @
          ''root may attach a detached purpose=audit_checkpoint SignatureEnvelope.''),
     d_all_of = None, d_definitions = None, d_version = schema_version\<rparr>"

definition audit_checkpoint_schema :: "build_error + json" where
  "audit_checkpoint_schema = schema audit_checkpoint_document"

definition mapping_spec_mapping_rule :: json where
  "mapping_spec_mapping_rule =
    s_object [(''source_path'',
               s_string (no_args\<lparr>s_min_length := Some 1, s_max_length := Some 512\<rparr>)),
              (''target_relation'',
               s_string (no_args\<lparr>s_pattern := Some safe_name_pattern, s_max_length := Some 128\<rparr>)),
              (''target_column'',
               s_string (no_args\<lparr>s_pattern := Some safe_name_pattern, s_max_length := Some 128\<rparr>)),
              (''transform_id'',
               s_string (no_args\<lparr>s_pattern := Some safe_name_pattern, s_max_length := Some 128\<rparr>)),
              (''nullable'', s_boolean),
              (''on_missing'',
               s_string (no_args\<lparr>s_enum := Some [''reject'', ''quarantine'', ''typed_default'']\<rparr>)),
              (''evidence_root'', hash_field)]
      [''source_path'', ''target_relation'', ''target_column'', ''transform_id'', ''nullable'',
       ''on_missing'', ''evidence_root''] False"

definition mapping_spec_document :: document where
  "mapping_spec_document =
    \<lparr>d_path = ''mapping/mapping-spec.schema.json'', d_title = ''Mapping Specification'',
     d_properties =
       [(''mapping_spec_id'', hash_field),
        (''parent_mapping_spec_hash'', nullable_hash),
        (''status'',
         s_string (no_args\<lparr>s_enum := Some [''draft'', ''confirmed'', ''superseded'']\<rparr>)),
        (''corridor_profile_id'', hash_field),
        (''corridor_profile_hash'', hash_field),
        (''planning_horizon_months'', s_integer (Some 1) (Some 120)),
        (''target_model_version'', s_integer (Some 1) None),
        (''target_model_hash'', hash_field),
        (''decision_ledger_version'', s_integer (Some 1) None),
        (''decision_ledger_hash'', hash_field),
        (''compiler_version'',
         s_string (no_args\<lparr>s_pattern := Some semver_pattern, s_max_length := Some 64\<rparr>)),
        (''domain_ownership_refs'', hashes 1 64),
        (''business_invariant_refs'', hashes 1 64),
        (''lifecycle_history_refs'', hashes 0 64),
        (''tenancy_security_retention_refs'', hashes 1 64),
        (''workload_index_rationale_refs'', hashes 1 64),
        (''assumption_refs'', hashes 0 64),
        (''unknown_refs'', hashes 0 64),
        (''rejected_alternative_refs'', hashes 0 64),
        (''intentional_debt_refs'', hashes 0 64),
        (''evolution_trigger_refs'', hashes 0 64),
        (''source_evidence_roots'', hashes 1 64),
        (''field_mappings'', s_array mapping_spec_mapping_rule 1 4096 False),
        (''created_at'', timestamp_field)],
     d_required =
       [''mapping_spec_id'', ''parent_mapping_spec_hash'', ''status'', ''corridor_profile_id'',
        ''corridor_profile_hash'', ''planning_horizon_months'', ''target_model_version'',
        ''target_model_hash'', ''decision_ledger_version'', ''decision_ledger_hash'',
        ''compiler_version'', ''domain_ownership_refs'', ''business_invariant_refs'',
        ''lifecycle_history_refs'', ''tenancy_security_retention_refs'',
        ''workload_index_rationale_refs'', ''assumption_refs'', ''unknown_refs'',
        ''rejected_alternative_refs'', ''intentional_debt_refs'', ''evolution_trigger_refs'',
        ''source_evidence_roots'', ''field_mappings'', ''created_at''],
     d_data_class = ''shared_migration'', d_max_bytes = 2097152,
     d_flow_ids = [''F02'', ''F03'', ''F06'', ''F10''],
     d_description =
       (''Immutable, evidence-linked MongoDB-to-PostgreSQL semantic mapping. '' @
          ''Field paths are shared-safe; examples and customer values are '' @ ''prohibited.''),
     d_all_of = None, d_definitions = None, d_version = schema_version\<rparr>"

definition mapping_spec_schema :: "build_error + json" where
  "mapping_spec_schema = schema mapping_spec_document"

definition verification_rubric_check :: json where
  "verification_rubric_check =
    s_object [(''check_id'',
               s_string (no_args\<lparr>s_pattern := Some safe_name_pattern, s_max_length := Some 128\<rparr>)),
              (''layer'',
               s_string (no_args\<lparr>s_enum := Some
                                   [''counts'', ''business_invariants'', ''canonical_hash'',
                                    ''reverse_difference'', ''query_semantics'']\<rparr>)),
              (''expectation_kind'',
               s_string (no_args\<lparr>s_enum := Some
                                   [''exact_hash'', ''exact_count'', ''boolean'',
                                    ''bounded_numeric'', ''zero_unexplained'']\<rparr>)),
              (''expected_hash'', nullable_hash),
              (''expected_count'', nullable (s_integer (Some 0) None)),
              (''minimum'', nullable (s_number None None)),
              (''maximum'', nullable (s_number None None)),
              (''blocking'', s_boolean),
              (''evidence_roots'', hashes 1 16)]
      [''check_id'', ''layer'', ''expectation_kind'', ''expected_hash'', ''expected_count'',
       ''minimum'', ''maximum'', ''blocking'', ''evidence_roots''] False"

definition verification_rubric_document :: document where
  "verification_rubric_document =
    \<lparr>d_path = ''verification/verification-rubric.schema.json'', d_title = ''Verification Rubric'',
     d_properties =
       [(''verification_rubric_id'', hash_field),
        (''version'', s_integer (Some 1) None),
        (''status'',
         s_string (no_args\<lparr>s_enum := Some [''draft'', ''confirmed'', ''superseded'']\<rparr>)),
        (''mapping_spec_id'', hash_field),
        (''mapping_spec_hash'', hash_field),
        (''confirmed_by'', nullable uuid_id),
        (''confirmed_at'', nullable_timestamp),
        (''checks'', s_array verification_rubric_check 1 1024 False)],
     d_required =
       [''verification_rubric_id'', ''version'', ''status'', ''mapping_spec_id'',
        ''mapping_spec_hash'', ''confirmed_by'', ''confirmed_at'', ''checks''],
     d_data_class = ''shared_migration'', d_max_bytes = 1048576,
     d_flow_ids = [''F02'', ''F03'', ''F06''],
     d_description =
       (''Immutable pre-registered verification expectations; customer values '' @
          ''are forbidden.''),
     d_all_of = None, d_definitions = None, d_version = schema_version\<rparr>"

definition verification_rubric_schema :: "build_error + json" where
  "verification_rubric_schema = schema verification_rubric_document"

definition attempt_metric :: json where
  "attempt_metric =
    s_object [(''name'',
               s_string (no_args\<lparr>s_pattern := Some safe_name_pattern, s_max_length := Some 128\<rparr>)),
              (''unit'',
               s_string (no_args\<lparr>s_pattern := Some safe_name_pattern, s_max_length := Some 64\<rparr>)),
              (''value'', s_number None None)] [''name'', ''unit'', ''value''] False"

definition attempt_document :: document where
  "attempt_document =
    \<lparr>d_path = ''workflow/attempt.schema.json'', d_title = ''Attempt'',
     d_properties =
       (dupdate (common_identity_properties True)
          [(''attempt_id'', uuid_id),
           (''attempt_kind'',
            s_string (no_args\<lparr>s_enum := Some
                                [''snapshot'', ''snapshot_restore'', ''golden_self_proof'',
                                 ''rehearsal'', ''bulk_load'', ''verification'',
                                 ''rollback_rehearsal'', ''cutover'']\<rparr>)),
           (''ordinal'', s_integer (Some 1) None),
           (''parent_attempt_id'', nullable_id),
           (''retry_of_attempt_id'', nullable_id),
           (''state'',
            s_string (no_args\<lparr>s_enum := Some
                                [''declared'', ''queued'', ''running'', ''waiting'', ''succeeded'',
                                 ''failed_recoverable'', ''failed_terminal'', ''canceled'']\<rparr>)),
           (''concurrency_class'',
            s_string (no_args\<lparr>s_enum := Some [''read_only'', ''resource_mutating'']\<rparr>)),
           (''spec_version'', s_integer (Some 1) None),
           (''spec_hash'', hash_field),
           (''rubric_version'', s_integer (Some 1) None),
           (''rubric_hash'', hash_field),
           (''build_hash'', hash_field),
           (''agent_bundle_id'', hash_field),
           (''cell_write_epoch'', s_integer (Some 0) None),
           (''started_at'', nullable_timestamp),
           (''finished_at'', nullable_timestamp),
           (''wait_kind'',
            nullable (s_string (no_args\<lparr>s_enum := Some
                                          [''human'', ''provider'', ''timer'', ''resource'',
                                           ''none'']\<rparr>))),
           (''wait_deadline'', nullable_timestamp),
           (''final_reason_code'',
            nullable (s_string (no_args\<lparr>s_pattern := Some safe_reason_pattern,
                                        s_max_length := Some 96\<rparr>))),
           (''final_safe_summary'',
            nullable (s_string (no_args\<lparr>s_max_length := Some 2048\<rparr>))),
           (''final_artifact_roots'', hashes 0 64),
           (''final_metrics'', s_array attempt_metric 0 128 False)]),
     d_required =
       ((identity_required True) @
          [''attempt_id'', ''attempt_kind'', ''ordinal'', ''parent_attempt_id'',
           ''retry_of_attempt_id'', ''state'', ''concurrency_class'', ''spec_version'',
           ''spec_hash'', ''rubric_version'', ''rubric_hash'', ''build_hash'', ''agent_bundle_id'',
           ''cell_write_epoch'', ''started_at'', ''finished_at'', ''wait_kind'', ''wait_deadline'',
           ''final_reason_code'', ''final_safe_summary'', ''final_artifact_roots'',
           ''final_metrics'']),
     d_data_class = ''shared_migration'', d_max_bytes = 131072,
     d_flow_ids = [''F02'', ''F03'', ''F06'', ''F17''],
     d_description =
       (''Append-only attempt record. Retry always creates a new attempt '' @
          ''identity; active, waiting, and terminal states have structurally '' @
          ''distinct timing and result fields.''),
     d_all_of = Some
       [JDict [(''if'',
                JDict [(''properties'',
                        JDict [(''state'',
                                JDict [(''enum'', jstrs [''declared'', ''queued''])])])]),
               (''then'',
                JDict [(''properties'',
                        JDict [(''started_at'', JDict [(''type'', JStr ''null'')]),
                               (''finished_at'', JDict [(''type'', JStr ''null'')]),
                               (''wait_kind'',
                                JDict [(''anyOf'',
                                        JList [JDict [(''type'', JStr ''null'')],
                                               JDict [(''const'', JStr ''none'')]])]),
                               (''wait_deadline'', JDict [(''type'', JStr ''null'')]),
                               (''final_reason_code'', JDict [(''type'', JStr ''null'')]),
                               (''final_safe_summary'', JDict [(''type'', JStr ''null'')]),
                               (''final_artifact_roots'', JDict [(''maxItems'', JInt 0)]),
                               (''final_metrics'', JDict [(''maxItems'', JInt 0)])])])],
        JDict [(''if'',
                JDict [(''properties'',
                        JDict [(''state'', JDict [(''const'', JStr ''running'')])])]),
               (''then'',
                JDict [(''properties'',
                        JDict [(''started_at'', timestamp_field),
                               (''finished_at'', JDict [(''type'', JStr ''null'')]),
                               (''wait_kind'',
                                JDict [(''anyOf'',
                                        JList [JDict [(''type'', JStr ''null'')],
                                               JDict [(''const'', JStr ''none'')]])]),
                               (''wait_deadline'', JDict [(''type'', JStr ''null'')]),
                               (''final_reason_code'', JDict [(''type'', JStr ''null'')]),
                               (''final_safe_summary'', JDict [(''type'', JStr ''null'')])])])],
        JDict [(''if'',
                JDict [(''properties'',
                        JDict [(''state'', JDict [(''const'', JStr ''waiting'')])])]),
               (''then'',
                JDict [(''properties'',
                        JDict [(''started_at'', timestamp_field),
                               (''finished_at'', JDict [(''type'', JStr ''null'')]),
                               (''wait_kind'',
                                JDict [(''type'', JStr ''string''),
                                       (''enum'',
                                        jstrs [''human'', ''provider'', ''timer'', ''resource''])]),
                               (''wait_deadline'', timestamp_field),
                               (''final_reason_code'', JDict [(''type'', JStr ''null'')]),
                               (''final_safe_summary'', JDict [(''type'', JStr ''null'')])])])],
        JDict [(''if'',
                JDict [(''properties'',
                        JDict [(''state'',
                                JDict [(''enum'',
                                        jstrs [''succeeded'', ''failed_recoverable'',
                                               ''failed_terminal'', ''canceled''])])])]),
               (''then'',
                JDict [(''properties'',
                        JDict [(''started_at'', timestamp_field),
                               (''finished_at'', timestamp_field),
                               (''wait_kind'',
                                JDict [(''anyOf'',
                                        JList [JDict [(''type'', JStr ''null'')],
                                               JDict [(''const'', JStr ''none'')]])]),
                               (''wait_deadline'', JDict [(''type'', JStr ''null'')]),
                               (''final_reason_code'',
                                s_string (no_args\<lparr>s_pattern := Some safe_reason_pattern,
                                                  s_max_length := Some 96\<rparr>)),
                               (''final_safe_summary'',
                                s_string (no_args\<lparr>s_min_length := Some 1,
                                                  s_max_length := Some 2048\<rparr>))])])],
        JDict [(''if'',
                JDict [(''not'',
                        JDict [(''properties'',
                                JDict [(''retry_of_attempt_id'',
                                        JDict [(''type'', JStr ''null'')])])])]),
               (''then'',
                JDict [(''properties'', JDict [(''ordinal'', JDict [(''minimum'', JInt 2)])])])]],
     d_definitions = None, d_version = schema_version\<rparr>"

definition attempt_schema :: "build_error + json" where
  "attempt_schema = schema attempt_document"

definition reversibility_classes :: "string list" where
  "reversibility_classes =
    [''free_until_cutover'', ''expensive_after_cutover'', ''closes_on_first_external_exposure'',
     ''closes_on_a_clock'', ''never_reversible'']"

definition reversibility_document :: document where
  "reversibility_document =
    \<lparr>d_path = ''decisions/reversibility.schema.json'', d_title = ''Reversibility Record'',
     d_properties =
       [(''reversibility_id'', hash_field),
        (''decision_key'',
         s_string (no_args\<lparr>s_pattern := Some safe_name_pattern, s_max_length := Some 128\<rparr>)),
        (''decision_version'', s_integer (Some 1) None),
        (''reversibility_class'',
         s_string (no_args\<lparr>s_enum := Some reversibility_classes\<rparr>)),
        (''state'',
         s_string (no_args\<lparr>s_enum := Some
                             [''proposed'', ''open'', ''warning'', ''closed'', ''superseded'']\<rparr>)),
        (''closure_predicate'',
         s_string (no_args\<lparr>s_enum := Some
                             [''successful_traffic_flip'', ''priced_rehearsed_operation'',
                              ''first_external_exposure'', ''backend_deadline'',
                              ''first_effect'']\<rparr>)),
        (''closes_at'', nullable_timestamp),
        (''clock_source'',
         s_string (no_args\<lparr>s_enum := Some
                             [''backend_utc'', ''provider_receipt'', ''not_applicable'']\<rparr>)),
        (''warning_required'', s_boolean),
        (''warning_threshold_seconds'', s_array (s_integer (Some 1) (Some 31536000)) 0 16 True),
        (''safe_failure'',
         s_string (no_args\<lparr>s_enum := Some
                             [''block_effect'', ''retain_current_authority'', ''escalate_human'',
                              ''refuse_unknown'']\<rparr>)),
        (''required_operation_id'',
         nullable (s_string (no_args\<lparr>s_pattern := Some operation_id_pattern,
                                     s_max_length := Some 128\<rparr>))),
        (''cost_estimate_minor_units'', nullable (s_integer (Some 0) None)),
        (''cost_currency'',
         nullable (s_string (no_args\<lparr>s_pattern := Some ''^[A-Z]{3}$'', s_max_length := Some 3\<rparr>))),
        (''viability_evidence_roots'', hashes 0 32),
        (''exposure_subject_hash'', nullable_hash),
        (''closed_by_receipt_hash'', nullable_hash),
        (''superseded_by'', nullable_hash)],
     d_required =
       [''reversibility_id'', ''decision_key'', ''decision_version'', ''reversibility_class'',
        ''state'', ''closure_predicate'', ''closes_at'', ''clock_source'', ''warning_required'',
        ''warning_threshold_seconds'', ''safe_failure'', ''required_operation_id'',
        ''cost_estimate_minor_units'', ''cost_currency'', ''viability_evidence_roots'',
        ''exposure_subject_hash'', ''closed_by_receipt_hash'', ''superseded_by''],
     d_data_class = ''shared_migration'', d_max_bytes = 32768,
     d_flow_ids = [''F02'', ''F03'', ''F06'', ''F16'', ''F17''],
     d_description =
       (''Five-class reversibility taxonomy with authoritative closure, warning,'' @
          '' evidence, cost, and safe-failure fields. Closed records never reopen.''),
     d_all_of = Some
       [JDict [(''oneOf'',
                JList [JDict [(''properties'',
                               JDict [(''reversibility_class'',
                                       JDict [(''const'', JStr ''free_until_cutover'')]),
                                      (''closure_predicate'',
                                       JDict [(''const'', JStr ''successful_traffic_flip'')]),
                                      (''closes_at'', JDict [(''type'', JStr ''null'')]),
                                      (''clock_source'',
                                       JDict [(''const'', JStr ''provider_receipt'')]),
                                      (''warning_required'', JDict [(''const'', JBool True)]),
                                      (''warning_threshold_seconds'',
                                       JDict [(''minItems'', JInt 1)]),
                                      (''required_operation_id'',
                                       s_string (no_args\<lparr>s_pattern := Some operation_id_pattern,
                                                         s_max_length := Some 128\<rparr>)),
                                      (''cost_estimate_minor_units'',
                                       JDict [(''type'', JStr ''null'')]),
                                      (''cost_currency'', JDict [(''type'', JStr ''null'')]),
                                      (''exposure_subject_hash'',
                                       JDict [(''type'', JStr ''null'')])])],
                       JDict [(''properties'',
                               JDict [(''reversibility_class'',
                                       JDict [(''const'', JStr ''expensive_after_cutover'')]),
                                      (''closure_predicate'',
                                       JDict [(''const'', JStr ''priced_rehearsed_operation'')]),
                                      (''closes_at'', JDict [(''type'', JStr ''null'')]),
                                      (''clock_source'',
                                       JDict [(''const'', JStr ''not_applicable'')]),
                                      (''warning_required'', JDict [(''const'', JBool True)]),
                                      (''warning_threshold_seconds'',
                                       JDict [(''minItems'', JInt 1)]),
                                      (''required_operation_id'',
                                       s_string (no_args\<lparr>s_pattern := Some operation_id_pattern,
                                                         s_max_length := Some 128\<rparr>)),
                                      (''cost_estimate_minor_units'', s_integer (Some 0) None),
                                      (''cost_currency'',
                                       s_string (no_args\<lparr>s_pattern := Some ''^[A-Z]{3}$'',
                                                         s_max_length := Some 3\<rparr>)),
                                      (''viability_evidence_roots'',
                                       JDict [(''minItems'', JInt 1)]),
                                      (''exposure_subject_hash'',
                                       JDict [(''type'', JStr ''null'')])])],
                       JDict [(''properties'',
                               JDict [(''reversibility_class'',
                                       JDict [(''const'',
                                               JStr ''closes_on_first_external_exposure'')]),
                                      (''closure_predicate'',
                                       JDict [(''const'', JStr ''first_external_exposure'')]),
                                      (''closes_at'', JDict [(''type'', JStr ''null'')]),
                                      (''clock_source'',
                                       JDict [(''const'', JStr ''provider_receipt'')]),
                                      (''warning_required'', JDict [(''const'', JBool True)]),
                                      (''warning_threshold_seconds'',
                                       JDict [(''minItems'', JInt 1)]),
                                      (''required_operation_id'',
                                       s_string (no_args\<lparr>s_pattern := Some operation_id_pattern,
                                                         s_max_length := Some 128\<rparr>)),
                                      (''cost_estimate_minor_units'',
                                       JDict [(''type'', JStr ''null'')]),
                                      (''cost_currency'', JDict [(''type'', JStr ''null'')]),
                                      (''exposure_subject_hash'', hash_field)])],
                       JDict [(''properties'',
                               JDict [(''reversibility_class'',
                                       JDict [(''const'', JStr ''closes_on_a_clock'')]),
                                      (''closure_predicate'',
                                       JDict [(''const'', JStr ''backend_deadline'')]),
                                      (''closes_at'', timestamp_field),
                                      (''clock_source'', JDict [(''const'', JStr ''backend_utc'')]),
                                      (''warning_required'', JDict [(''const'', JBool True)]),
                                      (''warning_threshold_seconds'',
                                       JDict [(''minItems'', JInt 1)]),
                                      (''required_operation_id'',
                                       s_string (no_args\<lparr>s_pattern := Some operation_id_pattern,
                                                         s_max_length := Some 128\<rparr>)),
                                      (''cost_estimate_minor_units'',
                                       JDict [(''type'', JStr ''null'')]),
                                      (''cost_currency'', JDict [(''type'', JStr ''null'')]),
                                      (''exposure_subject_hash'',
                                       JDict [(''type'', JStr ''null'')])])],
                       JDict [(''properties'',
                               JDict [(''reversibility_class'',
                                       JDict [(''const'', JStr ''never_reversible'')]),
                                      (''closure_predicate'',
                                       JDict [(''const'', JStr ''first_effect'')]),
                                      (''closes_at'', JDict [(''type'', JStr ''null'')]),
                                      (''clock_source'',
                                       JDict [(''const'', JStr ''provider_receipt'')]),
                                      (''warning_required'', JDict [(''const'', JBool True)]),
                                      (''warning_threshold_seconds'',
                                       JDict [(''minItems'', JInt 1)]),
                                      (''safe_failure'',
                                       JDict [(''enum'',
                                               jstrs [''block_effect'', ''refuse_unknown''])]),
                                      (''required_operation_id'',
                                       s_string (no_args\<lparr>s_pattern := Some operation_id_pattern,
                                                         s_max_length := Some 128\<rparr>)),
                                      (''cost_estimate_minor_units'',
                                       JDict [(''type'', JStr ''null'')]),
                                      (''cost_currency'', JDict [(''type'', JStr ''null'')]),
                                      (''exposure_subject_hash'',
                                       JDict [(''type'', JStr ''null'')])])]])],
        JDict [(''if'',
                JDict [(''properties'',
                        JDict [(''state'', JDict [(''const'', JStr ''closed'')])])]),
               (''then'',
                JDict [(''properties'',
                        JDict [(''closed_by_receipt_hash'', hash_field),
                               (''superseded_by'', JDict [(''type'', JStr ''null'')])])]),
               (''else'',
                JDict [(''if'',
                        JDict [(''properties'',
                                JDict [(''state'', JDict [(''const'', JStr ''superseded'')])])]),
                       (''then'',
                        JDict [(''properties'', JDict [(''superseded_by'', hash_field)])]),
                       (''else'',
                        JDict [(''properties'',
                                JDict [(''closed_by_receipt_hash'',
                                        JDict [(''type'', JStr ''null'')]),
                                       (''superseded_by'',
                                        JDict [(''type'', JStr ''null'')])])])])],
        JDict [(''if'',
                JDict [(''properties'',
                        JDict [(''state'', JDict [(''const'', JStr ''warning'')])])]),
               (''then'',
                JDict [(''properties'',
                        JDict [(''warning_required'', JDict [(''const'', JBool True)])])])]],
     d_definitions = None, d_version = schema_version\<rparr>"

definition reversibility_schema :: "build_error + json" where
  "reversibility_schema = schema reversibility_document"

end
