(* ===== verification/Core_Schemas_B.thy ===== *)
theory Core_Schemas_B
  imports Workflow_Schemas
begin

text \<open>
  Contracts of internal/contracts/codegen/core_contracts.py: corridor profiles, placement
  decisions, custody and deployment manifests and the cell bootstrap. A local variable of a source
  function is a definition of its own; the keyword arguments of \<open>schema\<close> are the
  fields of the record \<open>document\<close>.
\<close>

definition corridor_profile_source_profile :: json where
  "corridor_profile_source_profile =
    s_object [(''provider'',
               s_string (no_args\<lparr>s_enum := Some [''mongodb_atlas'', ''self_managed_mongodb'']\<rparr>)),
              (''topology'',
               s_string (no_args\<lparr>s_enum := Some
                                   [''replica_set'', ''sharded_cluster'', ''standalone'']\<rparr>)),
              (''server_version'',
               s_string (no_args\<lparr>s_pattern := Some
                                   (''^[0-9]+'' @ esc ''.[0-9]+(?:'' @ esc ''.[0-9]+)?$''),
                                 s_max_length := Some 32\<rparr>)),
              (''region'',
               s_string (no_args\<lparr>s_pattern := Some aws_region_pattern, s_max_length := Some 32\<rparr>)),
              (''network_rung'',
               s_string (no_args\<lparr>s_enum := Some
                                   [''private_endpoint'', ''peering'', ''public_tls'']\<rparr>)),
              (''snapshot_rung'',
               s_string (no_args\<lparr>s_enum := Some
                                   [''provider_export'', ''secondary_dump_oplog'',
                                    ''freeze_only'']\<rparr>)),
              (''cdc_mode'',
               s_string (no_args\<lparr>s_enum := Some
                                   [''change_stream_pre_post_images'', ''change_stream_lookup'',
                                    ''freeze_only'']\<rparr>)),
              (''cdc_supported'', s_boolean),
              (''pre_post_images_supported'', s_boolean),
              (''read_only_privilege_proof_hash'', hash_field),
              (''probe_hash'', hash_field)]
      [''provider'', ''topology'', ''server_version'', ''region'', ''network_rung'',
       ''snapshot_rung'', ''cdc_mode'', ''cdc_supported'', ''pre_post_images_supported'',
       ''read_only_privilege_proof_hash'', ''probe_hash''] False"

definition corridor_profile_target_profile :: json where
  "corridor_profile_target_profile =
    s_object [(''provider'',
               s_string (no_args\<lparr>s_enum := Some
                                   [''supabase_postgres'', ''planetscale_postgres'']\<rparr>)),
              (''postgres_version'',
               s_string (no_args\<lparr>s_pattern := Some (''^[0-9]+(?:'' @ esc ''.[0-9]+)?$''),
                                 s_max_length := Some 16\<rparr>)),
              (''region'',
               s_string (no_args\<lparr>s_pattern := Some aws_region_pattern, s_max_length := Some 32\<rparr>)),
              (''engine_endpoint_mode'',
               s_string (no_args\<lparr>s_const := Some ''direct'',
                                 s_description := Some
                                   (''Migration-engine DDL, COPY, replication, and administrative traffic. ''
                                      @ ''This endpoint is never a pooler.'')\<rparr>)),
              (''application_endpoint_mode'',
               s_string (no_args\<lparr>s_enum := Some
                                   [''direct'', ''session_pooler'', ''transaction_pooler''],
                                 s_description := Some
                                   (''Application traffic mode selected independently from the engine ''
                                      @ ''endpoint.'')\<rparr>)),
              (''application_endpoint_service'',
               s_string (no_args\<lparr>s_enum := Some [''direct'', ''supavisor'', ''pgbouncer''],
                                 s_description := Some
                                   ''Provider-specific implementation of the selected application endpoint.''\<rparr>)),
              (''application_endpoint_branch_specific'',
               JDict (dupdate (members s_boolean)
                        [(''description'',
                          JStr (''Whether the application connection endpoint is scoped to a target ''
                                  @ ''branch.''))])),
              (''application_endpoint_selection_basis'',
               s_string (no_args\<lparr>s_enum := Some
                                   [''workload_semantics_and_plan_network_probes'',
                                    ''transaction_semantics_and_branch_probe'',
                                    ''direct_endpoint_required''],
                                 s_description := Some
                                   (''Released basis for choosing the application endpoint; never authorizes''
                                      @
                                      '' engine or administrative traffic through that endpoint.'')\<rparr>)),
              (''application_endpoint_selection_proof_hash'', hash_field),
              (''branching_supported'', s_boolean),
              (''logical_replication_supported'', s_boolean),
              (''required_extensions'', safe_names 0 64),
              (''privilege_profile_hash'', hash_field),
              (''probe_hash'', hash_field)]
      [''provider'', ''postgres_version'', ''region'', ''engine_endpoint_mode'',
       ''application_endpoint_mode'', ''application_endpoint_service'',
       ''application_endpoint_branch_specific'', ''application_endpoint_selection_basis'',
       ''application_endpoint_selection_proof_hash'', ''branching_supported'',
       ''logical_replication_supported'', ''required_extensions'', ''privilege_profile_hash'',
       ''probe_hash''] False"

definition corridor_profile_document :: document where
  "corridor_profile_document =
    \<lparr>d_path = ''corridors/mongodb-postgres-profile.schema.json'',
     d_title = ''MongoDB PostgreSQL Corridor Profile'',
     d_properties =
       [(''corridor_profile_id'', hash_field),
        (''corridor_family'',
         s_string (no_args\<lparr>s_const := Some ''mongodb_postgres''\<rparr>)),
        (''profile_version'',
         s_string (no_args\<lparr>s_pattern := Some semver_pattern, s_max_length := Some 64\<rparr>)),
        (''profile_hash'', hash_field),
        (''source'', corridor_profile_source_profile),
        (''target'', corridor_profile_target_profile),
        (''composition_outcome'',
         s_string (no_args\<lparr>s_enum := Some [''supported'', ''fallback'', ''refused'']\<rparr>)),
        (''fallback_or_refusal_reason'',
         nullable (s_string (no_args\<lparr>s_enum := Some
                                       [''standalone_requires_freeze'',
                                        ''oplog_window_insufficient'',
                                        ''target_privilege_insufficient'',
                                        ''target_extension_unavailable'',
                                        ''target_endpoint_unsuitable'',
                                        ''region_or_residency_conflict'',
                                        ''unsupported_version'']\<rparr>))),
        (''pricing_version'',
         s_string (no_args\<lparr>s_pattern := Some semver_pattern, s_max_length := Some 64\<rparr>)),
        (''pricing_hash'', hash_field),
        (''created_at'', timestamp_field)],
     d_required =
       [''corridor_profile_id'', ''corridor_family'', ''profile_version'', ''profile_hash'',
        ''source'', ''target'', ''composition_outcome'', ''fallback_or_refusal_reason'',
        ''pricing_version'', ''pricing_hash'', ''created_at''],
     d_data_class = ''shared_migration'', d_max_bytes = 65536,
     d_flow_ids = [''F03'', ''F06'', ''F08'', ''F10''],
     d_description =
       (''Immutable composition of an Atlas or self-managed MongoDB source with '' @
          ''exactly one Supabase or PlanetScale Postgres target. Unsupported '' @
          ''physics produces a typed fallback or refusal.''),
     d_all_of = Some
       [JDict [(''if'',
                JDict [(''properties'',
                        JDict [(''source'',
                                JDict [(''properties'',
                                        JDict [(''cdc_mode'',
                                                JDict [(''const'',
                                                        JStr
                                                          ''change_stream_pre_post_images'')])])])])]),
               (''then'',
                JDict [(''properties'',
                        JDict [(''source'',
                                JDict [(''properties'',
                                        JDict [(''cdc_supported'', JDict [(''const'', JBool True)]),
                                               (''pre_post_images_supported'',
                                                JDict [(''const'', JBool True)])])])])])],
        JDict [(''if'',
                JDict [(''properties'',
                        JDict [(''source'',
                                JDict [(''properties'',
                                        JDict [(''cdc_mode'',
                                                JDict [(''const'',
                                                        JStr ''change_stream_lookup'')])])])])]),
               (''then'',
                JDict [(''properties'',
                        JDict [(''source'',
                                JDict [(''properties'',
                                        JDict [(''cdc_supported'', JDict [(''const'', JBool True)]),
                                               (''pre_post_images_supported'',
                                                JDict [(''const'', JBool False)])])])])])],
        JDict [(''if'',
                JDict [(''properties'',
                        JDict [(''source'',
                                JDict [(''properties'',
                                        JDict [(''cdc_mode'',
                                                JDict [(''const'', JStr ''freeze_only'')])])])])]),
               (''then'',
                JDict [(''properties'',
                        JDict [(''source'',
                                JDict [(''properties'',
                                        JDict [(''cdc_supported'',
                                                JDict [(''const'', JBool False)]),
                                               (''pre_post_images_supported'',
                                                JDict [(''const'', JBool False)])])])])])],
        JDict [(''if'',
                JDict [(''properties'',
                        JDict [(''source'',
                                JDict [(''properties'',
                                        JDict [(''topology'',
                                                JDict [(''const'', JStr ''standalone'')])])])])]),
               (''then'',
                JDict [(''properties'',
                        JDict [(''source'',
                                JDict [(''properties'',
                                        JDict [(''snapshot_rung'',
                                                JDict [(''const'', JStr ''freeze_only'')]),
                                               (''cdc_mode'',
                                                JDict [(''const'', JStr ''freeze_only'')]),
                                               (''cdc_supported'',
                                                JDict [(''const'', JBool False)]),
                                               (''pre_post_images_supported'',
                                                JDict [(''const'', JBool False)])])]),
                               (''composition_outcome'',
                                JDict [(''enum'', jstrs [''fallback'', ''refused''])]),
                               (''fallback_or_refusal_reason'',
                                JDict [(''const'', JStr ''standalone_requires_freeze'')])])])],
        JDict [(''if'',
                JDict [(''properties'',
                        JDict [(''target'',
                                JDict [(''properties'',
                                        JDict [(''application_endpoint_mode'',
                                                JDict [(''const'', JStr ''direct'')])])])])]),
               (''then'',
                JDict [(''properties'',
                        JDict [(''target'',
                                JDict [(''properties'',
                                        JDict [(''application_endpoint_service'',
                                                JDict [(''const'', JStr ''direct'')])])])])])],
        JDict [(''if'',
                JDict [(''properties'',
                        JDict [(''target'',
                                JDict [(''properties'',
                                        JDict [(''application_endpoint_mode'',
                                                JDict [(''const'',
                                                        JStr ''session_pooler'')])])])])]),
               (''then'',
                JDict [(''properties'',
                        JDict [(''target'',
                                JDict [(''properties'',
                                        JDict [(''provider'',
                                                JDict [(''const'', JStr ''supabase_postgres'')]),
                                               (''application_endpoint_service'',
                                                JDict [(''const'', JStr ''supavisor'')])])])])])],
        JDict [(''if'',
                JDict [(''properties'',
                        JDict [(''target'',
                                JDict [(''properties'',
                                        JDict [(''provider'',
                                                JDict [(''const'',
                                                        JStr ''supabase_postgres'')])])])])]),
               (''then'',
                JDict [(''properties'',
                        JDict [(''target'',
                                JDict [(''properties'',
                                        JDict [(''application_endpoint_service'',
                                                JDict [(''enum'',
                                                        jstrs [''direct'', ''supavisor''])]),
                                               (''application_endpoint_selection_basis'',
                                                JDict [(''const'',
                                                        JStr
                                                          ''workload_semantics_and_plan_network_probes'')])])])])])],
        JDict [(''if'',
                JDict [(''properties'',
                        JDict [(''target'',
                                JDict [(''properties'',
                                        JDict [(''provider'',
                                                JDict [(''const'', JStr ''supabase_postgres'')]),
                                               (''application_endpoint_mode'',
                                                JDict [(''const'',
                                                        JStr ''transaction_pooler'')])])])])]),
               (''then'',
                JDict [(''properties'',
                        JDict [(''target'',
                                JDict [(''properties'',
                                        JDict [(''application_endpoint_service'',
                                                JDict [(''const'', JStr ''supavisor'')])])])])])],
        JDict [(''if'',
                JDict [(''properties'',
                        JDict [(''target'',
                                JDict [(''properties'',
                                        JDict [(''provider'',
                                                JDict [(''const'',
                                                        JStr ''planetscale_postgres'')])])])])]),
               (''then'',
                JDict [(''properties'',
                        JDict [(''target'',
                                JDict [(''properties'',
                                        JDict [(''application_endpoint_mode'',
                                                JDict [(''enum'',
                                                        jstrs [''direct'',
                                                               ''transaction_pooler''])]),
                                               (''application_endpoint_service'',
                                                JDict [(''enum'',
                                                        jstrs [''direct'',
                                                               ''pgbouncer''])])])])])])],
        JDict [(''if'',
                JDict [(''properties'',
                        JDict [(''target'',
                                JDict [(''properties'',
                                        JDict [(''provider'',
                                                JDict [(''const'', JStr ''planetscale_postgres'')]),
                                               (''application_endpoint_mode'',
                                                JDict [(''const'',
                                                        JStr ''transaction_pooler'')])])])])]),
               (''then'',
                JDict [(''properties'',
                        JDict [(''target'',
                                JDict [(''properties'',
                                        JDict [(''application_endpoint_service'',
                                                JDict [(''const'', JStr ''pgbouncer'')]),
                                               (''application_endpoint_branch_specific'',
                                                JDict [(''const'', JBool True)]),
                                               (''application_endpoint_selection_basis'',
                                                JDict [(''const'',
                                                        JStr
                                                          ''transaction_semantics_and_branch_probe'')])])])])])],
        JDict [(''if'',
                JDict [(''properties'',
                        JDict [(''target'',
                                JDict [(''properties'',
                                        JDict [(''provider'',
                                                JDict [(''const'', JStr ''planetscale_postgres'')]),
                                               (''application_endpoint_mode'',
                                                JDict [(''const'', JStr ''direct'')])])])])]),
               (''then'',
                JDict [(''properties'',
                        JDict [(''target'',
                                JDict [(''properties'',
                                        JDict [(''application_endpoint_selection_basis'',
                                                JDict [(''const'',
                                                        JStr
                                                          ''direct_endpoint_required'')])])])])])],
        JDict [(''if'',
                JDict [(''properties'',
                        JDict [(''composition_outcome'',
                                JDict [(''const'', JStr ''supported'')])])]),
               (''then'',
                JDict [(''properties'',
                        JDict [(''source'',
                                JDict [(''properties'',
                                        JDict [(''cdc_supported'',
                                                JDict [(''const'', JBool True)])])]),
                               (''target'',
                                JDict [(''properties'',
                                        JDict [(''engine_endpoint_mode'',
                                                JDict [(''const'', JStr ''direct'')]),
                                               (''branching_supported'',
                                                JDict [(''const'', JBool True)])])]),
                               (''fallback_or_refusal_reason'',
                                JDict [(''type'', JStr ''null'')])])]),
               (''else'',
                JDict [(''properties'',
                        JDict [(''fallback_or_refusal_reason'',
                                JDict [(''type'', JStr ''string''),
                                       (''enum'',
                                        jstrs [''standalone_requires_freeze'',
                                               ''oplog_window_insufficient'',
                                               ''target_privilege_insufficient'',
                                               ''target_extension_unavailable'',
                                               ''target_endpoint_unsuitable'',
                                               ''region_or_residency_conflict'',
                                               ''unsupported_version''])])])])]],
     d_definitions = None, d_version = schema_version\<rparr>"

definition corridor_profile_schema :: "build_error + json" where
  "corridor_profile_schema = schema corridor_profile_document"

definition placement_decision_alternative :: json where
  "placement_decision_alternative =
    s_object [(''target_region'',
               s_string (no_args\<lparr>s_pattern := Some aws_region_pattern, s_max_length := Some 32\<rparr>)),
              (''worker_region'',
               s_string (no_args\<lparr>s_pattern := Some aws_region_pattern, s_max_length := Some 32\<rparr>)),
              (''golden_bucket_region'',
               s_string (no_args\<lparr>s_pattern := Some aws_region_pattern, s_max_length := Some 32\<rparr>)),
              (''network_rung'',
               s_string (no_args\<lparr>s_enum := Some
                                   [''private_endpoint'', ''peering'', ''public_tls'']\<rparr>)),
              (''one_time_transfer_cost_minor_units'', s_integer (Some 0) None),
              (''repeated_transfer_cost_minor_units'', s_integer (Some 0) None),
              (''estimated_latency_milliseconds'', s_integer (Some 0) (Some 600000)),
              (''rejection_reason'',
               s_string (no_args\<lparr>s_pattern := Some safe_reason_pattern, s_max_length := Some 96\<rparr>))]
      [''target_region'', ''worker_region'', ''golden_bucket_region'', ''network_rung'',
       ''one_time_transfer_cost_minor_units'', ''repeated_transfer_cost_minor_units'',
       ''estimated_latency_milliseconds'', ''rejection_reason''] False"

definition placement_decision_document :: document where
  "placement_decision_document =
    \<lparr>d_path = ''placement/placement-decision.schema.json'', d_title = ''Placement Decision'',
     d_properties =
       (dupdate (common_identity_properties False)
          [(''placement_decision_id'', hash_field),
           (''input_evidence_root'', hash_field),
           (''corridor_profile_id'', hash_field),
           (''corridor_profile_hash'', hash_field),
           (''pricing_version'',
            s_string (no_args\<lparr>s_pattern := Some semver_pattern, s_max_length := Some 64\<rparr>)),
           (''pricing_hash'', hash_field),
           (''target_region'',
            s_string (no_args\<lparr>s_pattern := Some aws_region_pattern, s_max_length := Some 32\<rparr>)),
           (''worker_region'',
            s_string (no_args\<lparr>s_pattern := Some aws_region_pattern, s_max_length := Some 32\<rparr>)),
           (''golden_bucket_region'',
            s_string (no_args\<lparr>s_pattern := Some aws_region_pattern, s_max_length := Some 32\<rparr>)),
           (''source_network_rung'',
            s_string (no_args\<lparr>s_enum := Some [''private_endpoint'', ''peering'', ''public_tls'']\<rparr>)),
           (''target_network_rung'',
            s_string (no_args\<lparr>s_enum := Some [''private_endpoint'', ''peering'', ''public_tls'']\<rparr>)),
           (''one_time_transfer_cost_minor_units'', s_integer (Some 0) None),
           (''repeated_transfer_cost_minor_units'', s_integer (Some 0) None),
           (''currency'',
            s_string (no_args\<lparr>s_pattern := Some ''^[A-Z]{3}$'', s_max_length := Some 3\<rparr>)),
           (''estimated_freeze_drain_seconds'', s_integer (Some 0) (Some 2592000)),
           (''model_availability'',
            s_string (no_args\<lparr>s_enum := Some [''eligible'', ''degraded_wait'', ''ineligible'']\<rparr>)),
           (''recommendation_basis_roots'', hashes 1 32),
           (''rejected_alternatives'', s_array placement_decision_alternative 0 32 False),
           (''decided_at'', timestamp_field)]),
     d_required =
       ((identity_required False) @
          [''placement_decision_id'', ''input_evidence_root'', ''corridor_profile_id'',
           ''corridor_profile_hash'', ''pricing_version'', ''pricing_hash'', ''target_region'',
           ''worker_region'', ''golden_bucket_region'', ''source_network_rung'',
           ''target_network_rung'', ''one_time_transfer_cost_minor_units'',
           ''repeated_transfer_cost_minor_units'', ''currency'', ''estimated_freeze_drain_seconds'',
           ''model_availability'', ''recommendation_basis_roots'', ''rejected_alternatives'',
           ''decided_at'']),
     d_data_class = ''shared_migration'', d_max_bytes = 131072,
     d_flow_ids = [''F02'', ''F03'', ''F06'', ''F07''],
     d_description =
       (''Immutable selected placement plus priced and reasoned rejected '' @ ''alternatives.''),
     d_all_of = None, d_definitions = None, d_version = schema_version\<rparr>"

definition placement_decision_schema :: "build_error + json" where
  "placement_decision_schema = schema placement_decision_document"

definition custody_bootstrap_manifest_document :: document where
  "custody_bootstrap_manifest_document =
    \<lparr>d_path = ''cell/custody-bootstrap-manifest.schema.json'',
     d_title = ''Custody Bootstrap Manifest'',
     d_properties =
       (dupdate (common_identity_properties False)
          [(''custody_manifest_id'', hash_field),
           (''custody_manifest_hash'', hash_field),
           (''cell_mode'', s_string (no_args\<lparr>s_const := Some ''discovery''\<rparr>)),
           (''preliminary_region'',
            s_string (no_args\<lparr>s_pattern := Some aws_region_pattern, s_max_length := Some 32\<rparr>)),
           (''allowed_residency_regions'',
            s_array (s_string (no_args\<lparr>s_pattern := Some aws_region_pattern,
                                       s_max_length := Some 32\<rparr>)) 1 16 True),
           (''allowed_secret_purposes'',
            s_array (s_string (no_args\<lparr>s_enum := Some
                                         [''mongodb_read'', ''postgres_target'',
                                          ''github_repo_scan'', ''github_pr_author'',
                                          ''github_review_dispatch'', ''github_review_ingest'']\<rparr>))
              1 6 True),
           (''kms_boundary_hash'', hash_field),
           (''secrets_namespace_hash'', hash_field),
           (''s3_boundary_hash'', hash_field),
           (''egress_policy_hash'', hash_field),
           (''discovery_tool_catalog_hash'', hash_field),
           (''release_unit_id'', hash_field),
           (''release_unit_hash'', hash_field),
           (''issued_at'', timestamp_field),
           (''expires_at'', timestamp_field),
           (''ttl_seconds'', s_integer (Some 60) (Some 259200))]),
     d_required =
       ((identity_required False) @
          [''custody_manifest_id'', ''custody_manifest_hash'', ''cell_mode'',
           ''preliminary_region'', ''allowed_residency_regions'', ''allowed_secret_purposes'',
           ''kms_boundary_hash'', ''secrets_namespace_hash'', ''s3_boundary_hash'',
           ''egress_policy_hash'', ''discovery_tool_catalog_hash'', ''release_unit_id'',
           ''release_unit_hash'', ''issued_at'', ''expires_at'', ''ttl_seconds'']),
     d_data_class = ''shared_migration'', d_max_bytes = 32768,
     d_flow_ids = [''F04'', ''F06'', ''F07''],
     d_description =
       (''Signed-payload fields for the TTL-bound discovery custody envelope. It'' @
          '' contains secret purpose names and boundary hashes, never secret '' @ ''values.''),
     d_all_of = None, d_definitions = None, d_version = schema_version\<rparr>"

definition custody_bootstrap_manifest_schema :: "build_error + json" where
  "custody_bootstrap_manifest_schema = schema custody_bootstrap_manifest_document"

definition deployment_manifest_image :: json where
  "deployment_manifest_image =
    s_object [(''component'',
               s_string (no_args\<lparr>s_pattern := Some safe_name_pattern, s_max_length := Some 128\<rparr>)),
              (''digest'',
               s_string (no_args\<lparr>s_pattern := Some ''^sha256:[0-9a-f]{64}$'',
                                 s_max_length := Some 71\<rparr>))] [''component'', ''digest'']
      False"

definition deployment_manifest_properties :: "json dict" where
  "deployment_manifest_properties =
    (dupdate (common_identity_properties False)
       [(''deployment_manifest_id'', hash_field),
        (''deployment_manifest_hash'', hash_field),
        (''cell_mode'',
         s_string (no_args\<lparr>s_enum := Some [''discovery'', ''migration'']\<rparr>)),
        (''region'',
         s_string (no_args\<lparr>s_pattern := Some aws_region_pattern, s_max_length := Some 32\<rparr>)),
        (''template_version'',
         s_string (no_args\<lparr>s_pattern := Some semver_pattern, s_max_length := Some 64\<rparr>)),
        (''template_hash'', hash_field),
        (''ami_digest'',
         s_string (no_args\<lparr>s_pattern := Some ''^sha256:[0-9a-f]{64}$'', s_max_length := Some 71\<rparr>)),
        (''container_images'', s_array deployment_manifest_image 1 32 False),
        (''environment'',
         s_string (no_args\<lparr>s_enum := Some
                             [''ephemeral-nonprod'', ''persistent-nonprod'', ''staging'',
                              ''production'']\<rparr>)),
        (''lifecycle_stage'',
         s_string (no_args\<lparr>s_enum := Some [''candidate'', ''ready'', ''active'', ''recovery'']\<rparr>)),
        (''release_unit_id'', hash_field),
        (''release_unit_hash'', hash_field),
        (''release_deployment_id'', hash_field),
        (''release_deployment_generation'', s_integer (Some 1) None),
        (''agent_bundle_id'', hash_field),
        (''qualification_record_id'', hash_field),
        (''activation_transaction_id'', uuid_id),
        (''activation_receipt_hash'', hash_field),
        (''cell_release_binding_id'', hash_field),
        (''cell_release_binding_version'', s_integer (Some 1) None),
        (''cell_release_binding_state'',
         s_string (no_args\<lparr>s_enum := Some [''active'', ''paused'', ''stopped'']\<rparr>)),
        (''runtime_role_ids'', safe_names 1 32),
        (''tool_role_ids'', safe_names 0 64),
        (''vpc_policy_hash'', hash_field),
        (''subnet_policy_hash'', hash_field),
        (''endpoint_policy_hash'', hash_field),
        (''egress_policy_hash'', hash_field),
        (''data_encryption_key_ref_hash'', hash_field),
        (''manifest_signer_fingerprint'', hash_field),
        (''proof_signing_key_ref_hash'', nullable_hash),
        (''secrets_namespace_hash'', hash_field),
        (''s3_boundary_hash'', hash_field),
        (''storage_generation'', s_integer (Some 1) None),
        (''checkpoint_pointer_hash'', nullable_hash),
        (''corridor_profile_id'', hash_field),
        (''corridor_profile_hash'', hash_field),
        (''tool_catalog_hash'', hash_field),
        (''target_write_epoch'', nullable (s_integer (Some 1) None)),
        (''custody_manifest_id'', nullable_hash),
        (''custody_manifest_hash'', nullable_hash),
        (''parent_discovery_generation'', nullable (s_integer (Some 1) None)),
        (''placement_decision_hash'', nullable_hash),
        (''foundation_decision_root'', nullable_hash),
        (''discovery_root_parity_hash'', nullable_hash),
        (''resource_plan_hash'', nullable_hash),
        (''issued_at'', timestamp_field),
        (''expires_at'', timestamp_field),
        (''budget_minor_units'', s_integer (Some 0) None),
        (''budget_currency'',
         s_string (no_args\<lparr>s_pattern := Some ''^[A-Z]{3}$'', s_max_length := Some 3\<rparr>)),
        (''retain_until'', timestamp_field)])"

definition deployment_manifest_required_names :: "string list" where
  "deployment_manifest_required_names =
    identity_required False @ filter
      (\<lambda>name. name \<notin> set (dkeys (common_identity_properties False)))
      (dkeys deployment_manifest_properties)"

definition deployment_manifest_required :: "string list" where
  "deployment_manifest_required =
    rev (remdups (rev deployment_manifest_required_names))"

definition deployment_manifest_document :: document where
  "deployment_manifest_document =
    \<lparr>d_path = ''cell/deployment-manifest.schema.json'', d_title = ''Cell Deployment Manifest'',
     d_properties = deployment_manifest_properties, d_required = deployment_manifest_required,
     d_data_class = ''shared_migration'', d_max_bytes = 262144,
     d_flow_ids = [''F06'', ''F07'', ''F13''],
     d_description =
       (''Immutable digest-pinned discovery or migration cell deployment '' @
          ''payload. Mode conditions prevent discovery generations from acquiring '' @
          ''target/proof authority.''),
     d_all_of = Some
       [JDict [(''oneOf'',
                JList [JDict [(''properties'',
                               JDict [(''cell_mode'', JDict [(''const'', JStr ''discovery'')]),
                                      (''target_write_epoch'', JDict [(''type'', JStr ''null'')]),
                                      (''proof_signing_key_ref_hash'',
                                       JDict [(''type'', JStr ''null'')]),
                                      (''parent_discovery_generation'',
                                       JDict [(''type'', JStr ''null'')]),
                                      (''placement_decision_hash'',
                                       JDict [(''type'', JStr ''null'')]),
                                      (''foundation_decision_root'',
                                       JDict [(''type'', JStr ''null'')]),
                                      (''discovery_root_parity_hash'',
                                       JDict [(''type'', JStr ''null'')]),
                                      (''resource_plan_hash'', JDict [(''type'', JStr ''null'')]),
                                      (''custody_manifest_id'', hash_field),
                                      (''custody_manifest_hash'', hash_field)])],
                       JDict [(''properties'',
                               JDict [(''cell_mode'', JDict [(''const'', JStr ''migration'')]),
                                      (''target_write_epoch'', s_integer (Some 1) None),
                                      (''proof_signing_key_ref_hash'', hash_field),
                                      (''parent_discovery_generation'', s_integer (Some 1) None),
                                      (''placement_decision_hash'', hash_field),
                                      (''foundation_decision_root'', hash_field),
                                      (''discovery_root_parity_hash'', hash_field),
                                      (''resource_plan_hash'', hash_field),
                                      (''custody_manifest_id'', JDict [(''type'', JStr ''null'')]),
                                      (''custody_manifest_hash'',
                                       JDict [(''type'', JStr ''null'')])])]])]],
     d_definitions = None, d_version = schema_version\<rparr>"

definition deployment_manifest_schema :: "build_error + json" where
  "deployment_manifest_schema = schema deployment_manifest_document"

definition cell_bootstrap_document :: document where
  "cell_bootstrap_document =
    \<lparr>d_path = ''cell/bootstrap.schema.json'', d_title = ''Cell Bootstrap Exchange'',
     d_properties =
       (dupdate (common_identity_properties False)
          [(''bootstrap_exchange_id'', hash_field),
           (''action'',
            s_string (no_args\<lparr>s_enum := Some [''request'', ''poll'', ''complete'']\<rparr>)),
           (''deployment_manifest_id'', hash_field),
           (''deployment_manifest_hash'', hash_field),
           (''cell_release_binding_id'', hash_field),
           (''control_region_epoch'', s_integer (Some 1) None),
           (''instance_identity_hash'', hash_field),
           (''csr_der_hash'', hash_field),
           (''bootstrap_secret_hash'', nullable_hash),
           (''poll_secret_hash'', nullable_hash),
           (''certificate_request_id'', nullable_id),
           (''certificate_receipt_id'', nullable_hash),
           (''status'',
            s_string (no_args\<lparr>s_enum := Some
                                [''pending'', ''issued'', ''delivered'', ''denied'']\<rparr>)),
           (''issued_at'', timestamp_field),
           (''expires_at'', timestamp_field),
           (''response_replay_until'', timestamp_field)]),
     d_required =
       ((identity_required False) @
          [''bootstrap_exchange_id'', ''action'', ''deployment_manifest_id'',
           ''deployment_manifest_hash'', ''cell_release_binding_id'', ''control_region_epoch'',
           ''instance_identity_hash'', ''csr_der_hash'', ''bootstrap_secret_hash'',
           ''poll_secret_hash'', ''certificate_request_id'', ''certificate_receipt_id'', ''status'',
           ''issued_at'', ''expires_at'', ''response_replay_until'']),
     d_data_class = ''security_material'', d_max_bytes = 32768, d_flow_ids = [''F06'', ''F07''],
     d_description =
       (''One-use bootstrap/request/poll/complete exchange. Only keyed hashes of'' @
          '' bootstrap and poll secrets are contract fields; private key material '' @
          ''is forbidden.''),
     d_all_of = None, d_definitions = None, d_version = schema_version\<rparr>"

definition cell_bootstrap_schema :: "build_error + json" where
  "cell_bootstrap_schema = schema cell_bootstrap_document"

end
