(* ===== verification/Core_Schemas_C.thy ===== *)
theory Core_Schemas_C
  imports Workflow_Schemas
begin

text \<open>
  Contracts of internal/contracts/codegen/core_contracts.py: certificates, revocation lists,
  release bindings and upgrades and the failover manifest. A local variable of a source function
  is a definition of its own; the keyword arguments of \<open>schema\<close> are the fields of the
  record \<open>document\<close>.
\<close>

definition certificate_request_document :: document where
  "certificate_request_document =
    \<lparr>d_path = ''cell/certificate-request.schema.json'', d_title = ''Cell Certificate Request'',
     d_properties =
       (dupdate (common_identity_properties False)
          [(''certificate_request_id'', uuid_id),
           (''request_kind'',
            s_string (no_args\<lparr>s_enum := Some [''bootstrap'', ''renewal'', ''recovery'']\<rparr>)),
           (''request_status'',
            s_string (no_args\<lparr>s_enum := Some
                                [''pending'', ''claimed'', ''issued'', ''denied'',
                                 ''quarantined'']\<rparr>)),
           (''deployment_manifest_id'', hash_field),
           (''deployment_manifest_hash'', hash_field),
           (''cell_release_binding_id'', hash_field),
           (''control_region_epoch'', s_integer (Some 1) None),
           (''instance_identity_hash'', hash_field),
           (''csr_der_base64'',
            s_string (no_args\<lparr>s_pattern := Some base64_pattern, s_min_length := Some 128,
                              s_max_length := Some 16384\<rparr>)),
           (''csr_der_hash'', hash_field),
           (''requested_spiffe_uri'',
            s_string (no_args\<lparr>s_pattern := Some spiffe_cell_pattern, s_max_length := Some 256\<rparr>)),
           (''issuer_region'',
            s_string (no_args\<lparr>s_pattern := Some aws_region_pattern, s_max_length := Some 32\<rparr>)),
           (''ca_generation'', s_integer (Some 1) None),
           (''certificate_profile_hash'', hash_field),
           (''predecessor_serial_hex'',
            nullable (s_string (no_args\<lparr>s_pattern := Some serial_pattern,
                                        s_max_length := Some 40\<rparr>))),
           (''failover_manifest_id'', nullable_hash),
           (''prior_control_region_epoch'', nullable (s_integer (Some 1) None)),
           (''control_region_epoch_increment'', s_integer (Some 0) (Some 1)),
           (''requested_at'', timestamp_field),
           (''expires_at'', timestamp_field)]),
     d_required =
       ((identity_required False) @
          [''certificate_request_id'', ''request_kind'', ''request_status'',
           ''deployment_manifest_id'', ''deployment_manifest_hash'', ''cell_release_binding_id'',
           ''control_region_epoch'', ''instance_identity_hash'', ''csr_der_base64'',
           ''csr_der_hash'', ''requested_spiffe_uri'', ''issuer_region'', ''ca_generation'',
           ''certificate_profile_hash'', ''predecessor_serial_hex'', ''failover_manifest_id'',
           ''prior_control_region_epoch'', ''control_region_epoch_increment'', ''requested_at'',
           ''expires_at'']),
     d_data_class = ''security_material'', d_max_bytes = 32768, d_flow_ids = [''F06''],
     d_description =
       (''Typed, claimed X.509 workload-certificate request. The CSR contains a '' @
          ''public key; the corresponding private key never leaves the cell's '' @
          ''protected store.''),
     d_all_of = Some
       [JDict [(''oneOf'',
                JList [JDict [(''properties'',
                               JDict [(''request_kind'', JDict [(''const'', JStr ''bootstrap'')]),
                                      (''predecessor_serial_hex'',
                                       JDict [(''type'', JStr ''null'')]),
                                      (''failover_manifest_id'', JDict [(''type'', JStr ''null'')]),
                                      (''prior_control_region_epoch'',
                                       JDict [(''type'', JStr ''null'')]),
                                      (''control_region_epoch_increment'',
                                       JDict [(''const'', JInt 0)])])],
                       JDict [(''properties'',
                               JDict [(''request_kind'', JDict [(''const'', JStr ''renewal'')]),
                                      (''predecessor_serial_hex'',
                                       s_string (no_args\<lparr>s_pattern := Some serial_pattern,
                                                         s_max_length := Some 40\<rparr>)),
                                      (''failover_manifest_id'', JDict [(''type'', JStr ''null'')]),
                                      (''prior_control_region_epoch'',
                                       JDict [(''type'', JStr ''null'')]),
                                      (''control_region_epoch_increment'',
                                       JDict [(''const'', JInt 0)])])],
                       JDict [(''properties'',
                               JDict [(''request_kind'', JDict [(''const'', JStr ''recovery'')]),
                                      (''predecessor_serial_hex'',
                                       s_string (no_args\<lparr>s_pattern := Some serial_pattern,
                                                         s_max_length := Some 40\<rparr>)),
                                      (''failover_manifest_id'', hash_field),
                                      (''prior_control_region_epoch'', s_integer (Some 1) None),
                                      (''control_region_epoch_increment'',
                                       JDict [(''const'', JInt 1)])])]])]],
     d_definitions = None, d_version = schema_version\<rparr>"

definition certificate_request_schema :: "build_error + json" where
  "certificate_request_schema = schema certificate_request_document"

definition certificate_receipt_document :: document where
  "certificate_receipt_document =
    \<lparr>d_path = ''cell/certificate-receipt.schema.json'', d_title = ''Cell Certificate Receipt'',
     d_properties =
       (dupdate (common_identity_properties False)
          [(''certificate_receipt_id'', hash_field),
           (''certificate_request_id'', uuid_id),
           (''request_kind'',
            s_string (no_args\<lparr>s_enum := Some [''bootstrap'', ''renewal'', ''recovery'']\<rparr>)),
           (''deployment_manifest_id'', hash_field),
           (''deployment_manifest_hash'', hash_field),
           (''cell_release_binding_id'', hash_field),
           (''control_region_epoch'', s_integer (Some 1) None),
           (''issuer_region'',
            s_string (no_args\<lparr>s_pattern := Some aws_region_pattern, s_max_length := Some 32\<rparr>)),
           (''ca_generation'', s_integer (Some 1) None),
           (''issuer_kid'',
            s_string (no_args\<lparr>s_pattern := Some safe_name_pattern, s_max_length := Some 128\<rparr>)),
           (''serial_hex'',
            s_string (no_args\<lparr>s_pattern := Some serial_pattern, s_min_length := Some 1,
                              s_max_length := Some 40\<rparr>)),
           (''spiffe_uri'',
            s_string (no_args\<lparr>s_pattern := Some spiffe_cell_pattern, s_max_length := Some 256\<rparr>)),
           (''not_before'', timestamp_field),
           (''not_after'', timestamp_field),
           (''certificate_der_hash'', hash_field),
           (''certificate_chain_hash'', hash_field),
           (''certificate_profile_hash'', hash_field),
           (''trust_store_version'', s_integer (Some 1) None),
           (''trust_store_hash'', hash_field),
           (''crl_number'', s_integer (Some 0) None),
           (''crl_root_hash'', hash_field),
           (''delivery_status'',
            s_string (no_args\<lparr>s_enum := Some [''issued'', ''delivered'', ''revoked'']\<rparr>)),
           (''issued_at'', timestamp_field),
           (''delivered_at'', nullable_timestamp),
           (''revoked_at'', nullable_timestamp)]),
     d_required =
       ((identity_required False) @
          [''certificate_receipt_id'', ''certificate_request_id'', ''request_kind'',
           ''deployment_manifest_id'', ''deployment_manifest_hash'', ''cell_release_binding_id'',
           ''control_region_epoch'', ''issuer_region'', ''ca_generation'', ''issuer_kid'',
           ''serial_hex'', ''spiffe_uri'', ''not_before'', ''not_after'', ''certificate_der_hash'',
           ''certificate_chain_hash'', ''certificate_profile_hash'', ''trust_store_version'',
           ''trust_store_hash'', ''crl_number'', ''crl_root_hash'', ''delivery_status'',
           ''issued_at'', ''delivered_at'', ''revoked_at'']),
     d_data_class = ''security_material'', d_max_bytes = 32768, d_flow_ids = [''F06'', ''F17''],
     d_description =
       (''Public issuance/delivery receipt for one cell workload certificate; no'' @
          '' private key or reusable bootstrap material is present.''),
     d_all_of = Some
       [JDict [(''oneOf'',
                JList [JDict [(''properties'',
                               JDict [(''delivery_status'', JDict [(''const'', JStr ''issued'')]),
                                      (''delivered_at'', JDict [(''type'', JStr ''null'')]),
                                      (''revoked_at'', JDict [(''type'', JStr ''null'')])])],
                       JDict [(''properties'',
                               JDict [(''delivery_status'',
                                       JDict [(''const'', JStr ''delivered'')]),
                                      (''delivered_at'', timestamp_field),
                                      (''revoked_at'', JDict [(''type'', JStr ''null'')])])],
                       JDict [(''properties'',
                               JDict [(''delivery_status'', JDict [(''const'', JStr ''revoked'')]),
                                      (''delivered_at'', timestamp_field),
                                      (''revoked_at'', timestamp_field)])]])]],
     d_definitions = None, d_version = schema_version\<rparr>"

definition certificate_receipt_schema :: "build_error + json" where
  "certificate_receipt_schema = schema certificate_receipt_document"

definition certificate_recovery_renewal_document :: document where
  "certificate_recovery_renewal_document =
    \<lparr>d_path = ''cell/certificate-recovery-renewal.schema.json'',
     d_title = ''Cell Certificate Recovery Renewal'',
     d_properties =
       (dupdate (common_identity_properties False)
          [(''recovery_renewal_id'', hash_field),
           (''failover_manifest_id'', hash_field),
           (''failover_manifest_hash'', hash_field),
           (''deployment_manifest_id'', hash_field),
           (''deployment_manifest_hash'', hash_field),
           (''old_serial_hex'',
            s_string (no_args\<lparr>s_pattern := Some serial_pattern, s_max_length := Some 40\<rparr>)),
           (''prior_control_region_epoch'', s_integer (Some 1) None),
           (''current_control_region_epoch'', s_integer (Some 2) None),
           (''csr_der_base64'',
            s_string (no_args\<lparr>s_pattern := Some base64_pattern, s_min_length := Some 128,
                              s_max_length := Some 16384\<rparr>)),
           (''csr_der_hash'', hash_field),
           (''certificate_request_id'', uuid_id),
           (''poll_secret_hash'', hash_field),
           (''request_nonce_hash'', hash_field),
           (''requested_at'', timestamp_field),
           (''expires_at'', timestamp_field),
           (''status'',
            s_string (no_args\<lparr>s_enum := Some
                                [''reserved'', ''issued'', ''delivered'', ''denied'']\<rparr>))]),
     d_required =
       ((identity_required False) @
          [''recovery_renewal_id'', ''failover_manifest_id'', ''failover_manifest_hash'',
           ''deployment_manifest_id'', ''deployment_manifest_hash'', ''old_serial_hex'',
           ''prior_control_region_epoch'', ''current_control_region_epoch'', ''csr_der_base64'',
           ''csr_der_hash'', ''certificate_request_id'', ''poll_secret_hash'',
           ''request_nonce_hash'', ''requested_at'', ''expires_at'', ''status'']),
     d_data_class = ''security_material'', d_max_bytes = 32768, d_flow_ids = [''F06''],
     d_description =
       (''One-use prior-epoch unary renewal request. It grants no stream, '' @
          ''command, or tool authority.''),
     d_all_of = None, d_definitions = None, d_version = schema_version\<rparr>"

definition certificate_recovery_renewal_schema :: "build_error + json" where
  "certificate_recovery_renewal_schema = schema certificate_recovery_renewal_document"

definition crl_publication_revoked_serial :: json where
  "crl_publication_revoked_serial =
    s_object [(''serial_hex'',
               s_string (no_args\<lparr>s_pattern := Some serial_pattern, s_max_length := Some 40\<rparr>)),
              (''reason'',
               s_string (no_args\<lparr>s_enum := Some
                                   [''key_compromise'', ''ca_compromise'', ''affiliation_changed'',
                                    ''superseded'', ''cessation_of_operation'',
                                    ''privilege_withdrawn'']\<rparr>)),
              (''revoked_at'', timestamp_field),
              (''certificate_expires_at'', timestamp_field),
              (''revocation_intent_hash'', hash_field)]
      [''serial_hex'', ''reason'', ''revoked_at'', ''certificate_expires_at'',
       ''revocation_intent_hash''] False"

definition crl_publication_document :: document where
  "crl_publication_document =
    \<lparr>d_path = ''cell/crl-publication.schema.json'', d_title = ''Cell CRL Publication'',
     d_properties =
       [(''crl_publication_id'', hash_field),
        (''issuer_region'',
         s_string (no_args\<lparr>s_pattern := Some aws_region_pattern, s_max_length := Some 32\<rparr>)),
        (''ca_generation'', s_integer (Some 1) None),
        (''issuer_kid'',
         s_string (no_args\<lparr>s_pattern := Some safe_name_pattern, s_max_length := Some 128\<rparr>)),
        (''crl_number'', s_integer (Some 1) None),
        (''previous_crl_root_hash'', hash_field),
        (''revoked_serials'', s_array crl_publication_revoked_serial 0 100000 True),
        (''revoked_serial_set_hash'', hash_field),
        (''tbs_cert_list_hash'', hash_field),
        (''crl_profile_hash'', hash_field),
        (''this_update'', timestamp_field),
        (''next_update'', timestamp_field),
        (''status'',
         s_string (no_args\<lparr>s_enum := Some
                             [''reserved'', ''claimed'', ''published'', ''quarantined'']\<rparr>)),
        (''crl_der_hash'', nullable_hash),
        (''object_key'',
         nullable (s_string (no_args\<lparr>s_pattern := Some
                                       (''^cell-ca/crl/[a-z0-9-]+/[1-9][0-9]*/[0-9a-f]{64}'' @ esc
                                          ''.crl$''),
                                     s_max_length := Some 256\<rparr>))),
        (''object_version_id'',
         nullable (s_string (no_args\<lparr>s_min_length := Some 1, s_max_length := Some 1024\<rparr>))),
        (''new_crl_root_hash'', nullable_hash),
        (''terminal_receipt_hash'', nullable_hash),
        (''quarantine_evidence_hash'', nullable_hash),
        (''requested_at'', timestamp_field),
        (''published_at'', nullable_timestamp)],
     d_required =
       [''crl_publication_id'', ''issuer_region'', ''ca_generation'', ''issuer_kid'',
        ''crl_number'', ''previous_crl_root_hash'', ''revoked_serials'',
        ''revoked_serial_set_hash'', ''tbs_cert_list_hash'', ''crl_profile_hash'', ''this_update'',
        ''next_update'', ''status'', ''crl_der_hash'', ''object_key'', ''object_version_id'',
        ''new_crl_root_hash'', ''terminal_receipt_hash'', ''quarantine_evidence_hash'',
        ''requested_at'', ''published_at''],
     d_data_class = ''security_material'', d_max_bytes = 8388608, d_flow_ids = [''F06'', ''F17''],
     d_description =
       (''Monotonic RFC 5280 CRL request/publication record over the complete '' @
          ''set of still-unexpired revoked serials. Object locations are exact and'' @
          '' content addressed.''),
     d_all_of = Some
       [JDict [(''oneOf'',
                JList [JDict [(''properties'',
                               JDict [(''status'',
                                       JDict [(''enum'', jstrs [''reserved'', ''claimed''])]),
                                      (''crl_der_hash'', JDict [(''type'', JStr ''null'')]),
                                      (''object_key'', JDict [(''type'', JStr ''null'')]),
                                      (''object_version_id'', JDict [(''type'', JStr ''null'')]),
                                      (''new_crl_root_hash'', JDict [(''type'', JStr ''null'')]),
                                      (''terminal_receipt_hash'',
                                       JDict [(''type'', JStr ''null'')]),
                                      (''quarantine_evidence_hash'',
                                       JDict [(''type'', JStr ''null'')]),
                                      (''published_at'', JDict [(''type'', JStr ''null'')])])],
                       JDict [(''properties'',
                               JDict [(''status'', JDict [(''const'', JStr ''published'')]),
                                      (''crl_der_hash'', hash_field),
                                      (''object_key'',
                                       s_string (no_args\<lparr>s_pattern := Some
                                                           (''^cell-ca/crl/[a-z0-9-]+/[1-9][0-9]*/[0-9a-f]{64}''
                                                              @ esc ''.crl$''),
                                                         s_max_length := Some 256\<rparr>)),
                                      (''object_version_id'',
                                       s_string (no_args\<lparr>s_min_length := Some 1,
                                                         s_max_length := Some 1024\<rparr>)),
                                      (''new_crl_root_hash'', hash_field),
                                      (''terminal_receipt_hash'', hash_field),
                                      (''quarantine_evidence_hash'',
                                       JDict [(''type'', JStr ''null'')]),
                                      (''published_at'', timestamp_field)])],
                       JDict [(''properties'',
                               JDict [(''status'', JDict [(''const'', JStr ''quarantined'')]),
                                      (''crl_der_hash'', JDict [(''type'', JStr ''null'')]),
                                      (''object_key'', JDict [(''type'', JStr ''null'')]),
                                      (''object_version_id'', JDict [(''type'', JStr ''null'')]),
                                      (''new_crl_root_hash'', JDict [(''type'', JStr ''null'')]),
                                      (''terminal_receipt_hash'', hash_field),
                                      (''quarantine_evidence_hash'', hash_field),
                                      (''published_at'', JDict [(''type'', JStr ''null'')])])]])]],
     d_definitions = None, d_version = schema_version\<rparr>"

definition crl_publication_schema :: "build_error + json" where
  "crl_publication_schema = schema crl_publication_document"

definition release_binding_document :: document where
  "release_binding_document =
    \<lparr>d_path = ''cell/release-binding.schema.json'', d_title = ''Cell Release Binding'',
     d_properties =
       (dupdate (common_identity_properties False)
          [(''cell_release_binding_id'', hash_field),
           (''binding_version'', s_integer (Some 1) None),
           (''state'',
            s_string (no_args\<lparr>s_enum := Some
                                [''active'', ''paused'', ''stopped'', ''superseded'']\<rparr>)),
           (''release_unit_id'', hash_field),
           (''release_unit_hash'', hash_field),
           (''release_deployment_id'', hash_field),
           (''release_deployment_generation'', s_integer (Some 1) None),
           (''agent_bundle_id'', hash_field),
           (''qualification_record_id'', hash_field),
           (''activation_transaction_id'', uuid_id),
           (''activation_receipt_hash'', hash_field),
           (''support_policy_version'', s_integer (Some 1) None),
           (''support_policy_hash'', hash_field),
           (''supported'', s_boolean),
           (''predecessor_binding_id'', nullable_hash),
           (''bound_at'', timestamp_field),
           (''paused_at'', nullable_timestamp),
           (''stopped_at'', nullable_timestamp),
           (''superseded_at'', nullable_timestamp)]),
     d_required =
       ((identity_required False) @
          [''cell_release_binding_id'', ''binding_version'', ''state'', ''release_unit_id'',
           ''release_unit_hash'', ''release_deployment_id'', ''release_deployment_generation'',
           ''agent_bundle_id'', ''qualification_record_id'', ''activation_transaction_id'',
           ''activation_receipt_hash'', ''support_policy_version'', ''support_policy_hash'',
           ''supported'', ''predecessor_binding_id'', ''bound_at'', ''paused_at'', ''stopped_at'',
           ''superseded_at'']),
     d_data_class = ''internal_operational'', d_max_bytes = 32768,
     d_flow_ids = [''F03'', ''F06'', ''F07''],
     d_description =
       (''Immutable activated/supported release tuple for one exact cell '' @
          ''generation. The mutable environment new-admission pointer is never '' @
          ''cell authority.''),
     d_all_of = None, d_definitions = None, d_version = schema_version\<rparr>"

definition release_binding_schema :: "build_error + json" where
  "release_binding_schema = schema release_binding_document"

definition release_upgrade_document :: document where
  "release_upgrade_document =
    \<lparr>d_path = ''cell/release-upgrade.schema.json'', d_title = ''Cell Release Upgrade'',
     d_properties =
       (dupdate (common_identity_properties False)
          [(''release_upgrade_id'', hash_field),
           (''state'',
            s_string (no_args\<lparr>s_enum := Some
                                [''requested'', ''authorized'', ''provisioning'', ''restored'',
                                 ''verified'', ''superseded'', ''failed'']\<rparr>)),
           (''from_binding_id'', hash_field),
           (''from_binding_hash'', hash_field),
           (''to_binding_id'', hash_field),
           (''to_binding_hash'', hash_field),
           (''old_cell_generation'', s_integer (Some 1) None),
           (''new_cell_generation'', s_integer (Some 2) None),
           (''old_cell_write_epoch'', s_integer (Some 1) None),
           (''new_cell_write_epoch'', s_integer (Some 2) None),
           (''safe_checkpoint_hash'', hash_field),
           (''checkpoint_schema_version'',
            s_string (no_args\<lparr>s_pattern := Some semver_pattern, s_max_length := Some 64\<rparr>)),
           (''compatibility_proof_hash'', hash_field),
           (''authorization_receipt_hash'', hash_field),
           (''restore_receipt_hash'', nullable_hash),
           (''verification_receipt_hash'', nullable_hash),
           (''old_generation_fence_receipt_hash'', nullable_hash),
           (''binding_supersession_receipt_hash'', nullable_hash),
           (''requested_at'', timestamp_field),
           (''completed_at'', nullable_timestamp)]),
     d_required =
       ((identity_required False) @
          [''release_upgrade_id'', ''state'', ''from_binding_id'', ''from_binding_hash'',
           ''to_binding_id'', ''to_binding_hash'', ''old_cell_generation'', ''new_cell_generation'',
           ''old_cell_write_epoch'', ''new_cell_write_epoch'', ''safe_checkpoint_hash'',
           ''checkpoint_schema_version'', ''compatibility_proof_hash'',
           ''authorization_receipt_hash'', ''restore_receipt_hash'', ''verification_receipt_hash'',
           ''old_generation_fence_receipt_hash'', ''binding_supersession_receipt_hash'',
           ''requested_at'', ''completed_at'']),
     d_data_class = ''internal_operational'', d_max_bytes = 32768,
     d_flow_ids = [''F03'', ''F06'', ''F07'', ''F13''],
     d_description =
       (''Operator-authorized safe-checkpoint successor-generation upgrade. It '' @
          ''cannot silently repin an existing generation to the current '' @
          ''environment pointer.''),
     d_all_of = None, d_definitions = None, d_version = schema_version\<rparr>"

definition release_upgrade_schema :: "build_error + json" where
  "release_upgrade_schema = schema release_upgrade_document"

definition control_region_failover_manifest_approval :: json where
  "control_region_failover_manifest_approval =
    s_object [(''operator_id'', uuid_id),
              (''operator_role'',
               s_string (no_args\<lparr>s_enum := Some [''recovery_operator'', ''security_operator'']\<rparr>)),
              (''approved_at'', timestamp_field),
              (''approval_evidence_hash'', hash_field)]
      [''operator_id'', ''operator_role'', ''approved_at'', ''approval_evidence_hash''] False"

definition control_region_failover_manifest_document :: document where
  "control_region_failover_manifest_document =
    \<lparr>d_path = ''recovery/control-region-failover-manifest.schema.json'',
     d_title = ''Control Region Failover Manifest'',
     d_properties =
       [(''failover_manifest_id'', hash_field),
        (''purpose'',
         s_string (no_args\<lparr>s_const := Some ''control_region_failover''\<rparr>)),
        (''environment'',
         s_string (no_args\<lparr>s_enum := Some [''staging'', ''production'']\<rparr>)),
        (''source_region'',
         s_string (no_args\<lparr>s_pattern := Some aws_region_pattern, s_max_length := Some 32\<rparr>)),
        (''target_region'',
         s_string (no_args\<lparr>s_pattern := Some aws_region_pattern, s_max_length := Some 32\<rparr>)),
        (''prior_control_region_epoch'', s_integer (Some 1) None),
        (''current_control_region_epoch'', s_integer (Some 2) None),
        (''primary_fence_receipt_hash'', hash_field),
        (''restore_point_id'',
         s_string (no_args\<lparr>s_min_length := Some 1, s_max_length := Some 256\<rparr>)),
        (''restore_root_hash'', hash_field),
        (''provider_journal_reconciliation_root'', hash_field),
        (''infrastructure_readiness_root'', hash_field),
        (''release_unit_id'', hash_field),
        (''release_unit_hash'', hash_field),
        (''nonce_hash'', hash_field),
        (''approvals'', s_array control_region_failover_manifest_approval 2 2 True),
        (''issued_at'', timestamp_field),
        (''expires_at'', timestamp_field)],
     d_required =
       [''failover_manifest_id'', ''purpose'', ''environment'', ''source_region'',
        ''target_region'', ''prior_control_region_epoch'', ''current_control_region_epoch'',
        ''primary_fence_receipt_hash'', ''restore_point_id'', ''restore_root_hash'',
        ''provider_journal_reconciliation_root'', ''infrastructure_readiness_root'',
        ''release_unit_id'', ''release_unit_hash'', ''nonce_hash'', ''approvals'', ''issued_at'',
        ''expires_at''],
     d_data_class = ''internal_operational'', d_max_bytes = 32768,
     d_flow_ids = [''F03'', ''F06'', ''F17''],
     d_description =
       (''Two-operator, no-RDS signed-payload authorization for one exact '' @
          ''regional failover epoch transition. The signer cannot activate and the'' @
          '' activator cannot sign.''),
     d_all_of = None, d_definitions = None, d_version = schema_version\<rparr>"

definition control_region_failover_manifest_schema :: "build_error + json" where
  "control_region_failover_manifest_schema = schema control_region_failover_manifest_document"

end
