(* ===== verification/Core_Schemas_D.thy ===== *)
theory Core_Schemas_D
  imports Workflow_Schemas
begin

text \<open>
  Contracts of internal/contracts/codegen/core_contracts.py: cell commands and receipts, engine
  operations, checkpoints and receipts. A local variable of a source function is a definition of
  its own; the keyword arguments of \<open>schema\<close> are the fields of the record
  \<open>document\<close>.
\<close>

definition cell_command_variable :: json where
  "cell_command_variable =
    s_object [(''name'',
               s_string (no_args\<lparr>s_pattern := Some safe_name_pattern, s_max_length := Some 128\<rparr>)),
              (''value_hash'', hash_field),
              (''maximum_data_class'',
               s_string (no_args\<lparr>s_enum := Some data_classes\<rparr>))]
      [''name'', ''value_hash'', ''maximum_data_class''] False"

definition cell_command_document :: document where
  "cell_command_document =
    \<lparr>d_path = ''lifecycle/cell-command.schema.json'', d_title = ''Cell Lifecycle Command'',
     d_properties =
       (dupdate (common_identity_properties False)
          [(''cell_command_id'', hash_field),
           (''purpose'',
            s_string (no_args\<lparr>s_const := Some ''cell_lifecycle_command''\<rparr>)),
           (''desired_state'',
            s_string (no_args\<lparr>s_enum := Some
                                [''provision'', ''bootstrap'', ''start'', ''restart'', ''revoke'',
                                 ''destroy'', ''recover'']\<rparr>)),
           (''deployment_manifest_id'', hash_field),
           (''deployment_manifest_hash'', hash_field),
           (''cell_release_binding_id'', hash_field),
           (''control_region_epoch'', s_integer (Some 1) None),
           (''template_hash'', hash_field),
           (''variables'', s_array cell_command_variable 0 64 False),
           (''idempotency_key_hash'', hash_field),
           (''previous_receipt_hash'', nullable_hash),
           (''issued_at'', timestamp_field),
           (''expires_at'', timestamp_field)]),
     d_required =
       ((identity_required False) @
          [''cell_command_id'', ''purpose'', ''desired_state'', ''deployment_manifest_id'',
           ''deployment_manifest_hash'', ''cell_release_binding_id'', ''control_region_epoch'',
           ''template_hash'', ''variables'', ''idempotency_key_hash'', ''previous_receipt_hash'',
           ''issued_at'', ''expires_at'']),
     d_data_class = ''internal_operational'', d_max_bytes = 65536, d_flow_ids = [''F05'', ''F07''],
     d_description =
       (''Expiring backend-authorized lifecycle payload with exact '' @
          ''manifest/template inputs. It is signed by a detached purpose-specific '' @
          ''SignatureEnvelope.''),
     d_all_of = None, d_definitions = None, d_version = schema_version\<rparr>"

definition cell_command_schema :: "build_error + json" where
  "cell_command_schema = schema cell_command_document"

definition cell_receipt_effect :: json where
  "cell_receipt_effect =
    s_object [(''effect_kind'',
               s_string (no_args\<lparr>s_enum := Some
                                   [''created'', ''updated'', ''started'', ''stopped'', ''revoked'',
                                    ''destroyed'', ''no_op'']\<rparr>)),
              (''resource_type'',
               s_string (no_args\<lparr>s_pattern := Some safe_name_pattern, s_max_length := Some 128\<rparr>)),
              (''resource_id_hash'', hash_field),
              (''before_hash'', nullable_hash),
              (''after_hash'', nullable_hash)]
      [''effect_kind'', ''resource_type'', ''resource_id_hash'', ''before_hash'', ''after_hash'']
      False"

definition cell_receipt_document :: document where
  "cell_receipt_document =
    \<lparr>d_path = ''lifecycle/cell-receipt.schema.json'', d_title = ''Cell Lifecycle Receipt'',
     d_properties =
       (dupdate (common_identity_properties False)
          [(''cell_receipt_id'', hash_field),
           (''cell_command_id'', hash_field),
           (''previous_receipt_hash'', nullable_hash),
           (''observed_state'',
            s_string (no_args\<lparr>s_enum := Some
                                [''planned'', ''provisioning'', ''bootstrapping'', ''ready'',
                                 ''active'', ''degraded'', ''restarting'', ''failed'', ''revoking'',
                                 ''destroying'', ''destroyed'']\<rparr>)),
           (''inventory_root_hash'', hash_field),
           (''tofu_state_version_id'',
            s_string (no_args\<lparr>s_min_length := Some 1, s_max_length := Some 1024\<rparr>)),
           (''plan_hash'', hash_field),
           (''effects'', s_array cell_receipt_effect 0 1024 False),
           (''outcome'',
            s_string (no_args\<lparr>s_enum := Some
                                [''converged'', ''retryable'', ''failed_terminal'',
                                 ''quarantined'']\<rparr>)),
           (''safe_reason_code'',
            nullable (s_string (no_args\<lparr>s_pattern := Some safe_reason_pattern,
                                        s_max_length := Some 96\<rparr>))),
           (''observed_at'', timestamp_field)]),
     d_required =
       ((identity_required False) @
          [''cell_receipt_id'', ''cell_command_id'', ''previous_receipt_hash'', ''observed_state'',
           ''inventory_root_hash'', ''tofu_state_version_id'', ''plan_hash'', ''effects'',
           ''outcome'', ''safe_reason_code'', ''observed_at'']),
     d_data_class = ''internal_operational'', d_max_bytes = 262144,
     d_flow_ids = [''F05'', ''F07'', ''F17''],
     d_description =
       (''Append-only infrastructure reconciliation receipt. It carries '' @
          ''inventory/effect hashes and liveness only, never migration semantics '' @
          ''or customer data.''),
     d_all_of = None, d_definitions = None, d_version = schema_version\<rparr>"

definition cell_receipt_schema :: "build_error + json" where
  "cell_receipt_schema = schema cell_receipt_document"

definition engine_operation_envelope_document :: document where
  "engine_operation_envelope_document =
    \<lparr>d_path = ''engine/operation-envelope.schema.json'', d_title = ''Engine Operation Envelope'',
     d_properties =
       (dupdate (common_identity_properties True)
          [(''attempt_id'', nullable_id),
           (''corridor_profile_id'', hash_field),
           (''corridor_profile_hash'', hash_field),
           (''migration_phase'',
            s_string (no_args\<lparr>s_enum := Some
                                [''snapshot'', ''census'', ''design'', ''rehearsal'', ''bulk_load'',
                                 ''sync'', ''verify'', ''cutover'', ''watch'', ''decommission'']\<rparr>)),
           (''mapping_spec_id'', hash_field),
           (''mapping_spec_hash'', hash_field),
           (''verification_rubric_id'', hash_field),
           (''verification_rubric_hash'', hash_field),
           (''tool_name'',
            s_string (no_args\<lparr>s_pattern := Some safe_name_pattern, s_max_length := Some 128\<rparr>)),
           (''tool_version'',
            s_string (no_args\<lparr>s_pattern := Some semver_pattern, s_max_length := Some 64\<rparr>)),
           (''tool_descriptor_hash'', hash_field),
           (''execution_mode'', s_string (no_args\<lparr>s_const := Some ''durable''\<rparr>)),
           (''consequence_class'',
            s_string (no_args\<lparr>s_enum := Some
                                [''observation'', ''advisory_analysis'', ''proposal'',
                                 ''deterministic_effect'', ''irreversible_boundary'']\<rparr>)),
           (''input_hash'', hash_field),
           (''input_artifact_roots'', hashes 0 64),
           (''maximum_input_data_class'',
            s_string (no_args\<lparr>s_enum := Some data_classes\<rparr>)),
           (''maximum_output_data_class'',
            s_string (no_args\<lparr>s_enum := Some data_classes\<rparr>)),
           (''maximum_input_bytes'', s_integer (Some 0) (Some 1073741824)),
           (''maximum_output_bytes'', s_integer (Some 0) (Some 268435456)),
           (''application_authority_epoch'', s_integer (Some 1) None),
           (''cell_write_epoch'', s_integer (Some 0) None),
           (''idempotency_key_hash'', hash_field),
           (''authorized_at'', timestamp_field),
           (''expires_at'', timestamp_field)]),
     d_required =
       ((identity_required True) @
          [''attempt_id'', ''corridor_profile_id'', ''corridor_profile_hash'', ''migration_phase'',
           ''mapping_spec_id'', ''mapping_spec_hash'', ''verification_rubric_id'',
           ''verification_rubric_hash'', ''tool_name'', ''tool_version'', ''tool_descriptor_hash'',
           ''execution_mode'', ''consequence_class'', ''input_hash'', ''input_artifact_roots'',
           ''maximum_input_data_class'', ''maximum_output_data_class'', ''maximum_input_bytes'',
           ''maximum_output_bytes'', ''application_authority_epoch'', ''cell_write_epoch'',
           ''idempotency_key_hash'', ''authorized_at'', ''expires_at'']),
     d_data_class = ''shared_migration'', d_max_bytes = 65536,
     d_flow_ids = [''F06'', ''F10'', ''F13'', ''F17''],
     d_description =
       (''Backend-authorized deterministic engine operation with immutable '' @
          ''scope, versions, epochs, data bounds, durable-only execution mode, and'' @
          '' idempotency identity.''),
     d_all_of = None, d_definitions = None, d_version = schema_version\<rparr>"

definition engine_operation_envelope_schema :: "build_error + json" where
  "engine_operation_envelope_schema = schema engine_operation_envelope_document"

definition engine_checkpoint_cursor :: json where
  "engine_checkpoint_cursor =
    s_object [(''name'',
               s_string (no_args\<lparr>s_pattern := Some safe_name_pattern, s_max_length := Some 128\<rparr>)),
              (''position_hash'', hash_field),
              (''sequence'', s_integer (Some 0) None)] [''name'', ''position_hash'', ''sequence'']
      False"

definition engine_checkpoint_document :: document where
  "engine_checkpoint_document =
    \<lparr>d_path = ''engine/checkpoint.schema.json'', d_title = ''Engine Checkpoint'',
     d_properties =
       (dupdate (common_identity_properties True)
          [(''engine_checkpoint_id'', hash_field),
           (''previous_checkpoint_hash'', nullable_hash),
           (''attempt_id'', nullable_id),
           (''checkpoint_schema_version'',
            s_string (no_args\<lparr>s_pattern := Some semver_pattern, s_max_length := Some 64\<rparr>)),
           (''engine_version'',
            s_string (no_args\<lparr>s_pattern := Some semver_pattern, s_max_length := Some 64\<rparr>)),
           (''plan_hash'', hash_field),
           (''cell_write_epoch'', s_integer (Some 0) None),
           (''checkpoint_sequence'', s_integer (Some 1) None),
           (''status'',
            s_string (no_args\<lparr>s_enum := Some [''active'', ''waiting'', ''terminal'']\<rparr>)),
           (''cursors'', s_array engine_checkpoint_cursor 0 64 False),
           (''artifact_roots'', hashes 0 128),
           (''created_at'', timestamp_field)]),
     d_required =
       ((identity_required True) @
          [''engine_checkpoint_id'', ''previous_checkpoint_hash'', ''attempt_id'',
           ''checkpoint_schema_version'', ''engine_version'', ''plan_hash'', ''cell_write_epoch'',
           ''checkpoint_sequence'', ''status'', ''cursors'', ''artifact_roots'', ''created_at'']),
     d_data_class = ''restricted_customer'', d_max_bytes = 262144, d_flow_ids = [''F13''],
     d_description =
       (''Cell-local deterministic engine checkpoint. Only hashes and separately'' @
          '' sanitized safe summaries may cross to the shared plane.''),
     d_all_of = None, d_definitions = None, d_version = schema_version\<rparr>"

definition engine_checkpoint_schema :: "build_error + json" where
  "engine_checkpoint_schema = schema engine_checkpoint_document"

definition engine_receipt_document :: document where
  "engine_receipt_document =
    \<lparr>d_path = ''engine/receipt.schema.json'', d_title = ''Engine Receipt'',
     d_properties =
       (dupdate (common_identity_properties True)
          [(''engine_receipt_id'', hash_field),
           (''attempt_id'', nullable_id),
           (''checkpoint_id'', nullable_hash),
           (''tool_descriptor_hash'', hash_field),
           (''consequence_class'',
            s_string (no_args\<lparr>s_enum := Some
                                [''observation'', ''deterministic_effect'',
                                 ''irreversible_boundary'']\<rparr>)),
           (''outcome'',
            s_string (no_args\<lparr>s_enum := Some
                                [''succeeded'', ''failed_retryable'', ''failed_terminal'',
                                 ''denied'']\<rparr>)),
           (''before_root_hash'', nullable_hash),
           (''after_root_hash'', nullable_hash),
           (''provider_receipt_roots'', hashes 0 64),
           (''idempotency_key_hash'', hash_field),
           (''safe_reason_code'',
            nullable (s_string (no_args\<lparr>s_pattern := Some safe_reason_pattern,
                                        s_max_length := Some 96\<rparr>))),
           (''safe_summary'', s_string (no_args\<lparr>s_max_length := Some 2048\<rparr>)),
           (''started_at'', timestamp_field),
           (''finished_at'', timestamp_field)]),
     d_required =
       ((identity_required True) @
          [''engine_receipt_id'', ''attempt_id'', ''checkpoint_id'', ''tool_descriptor_hash'',
           ''consequence_class'', ''outcome'', ''before_root_hash'', ''after_root_hash'',
           ''provider_receipt_roots'', ''idempotency_key_hash'', ''safe_reason_code'',
           ''safe_summary'', ''started_at'', ''finished_at'']),
     d_data_class = ''shared_migration'', d_max_bytes = 65536,
     d_flow_ids = [''F03'', ''F06'', ''F10'', ''F17''],
     d_description =
       (''Append-only terminal engine receipt with safe reason/summary and '' @
          ''content roots; raw tool/provider output remains cell-local.''),
     d_all_of = None, d_definitions = None, d_version = schema_version\<rparr>"

definition engine_receipt_schema :: "build_error + json" where
  "engine_receipt_schema = schema engine_receipt_document"

end
