(* ===== verification/Core_Builders.thy ===== *)
theory Core_Builders
  imports Core_Schemas_A Core_Schemas_B Core_Schemas_C Core_Schemas_D Workflow_Promises
begin

text \<open>
  The remaining schema shapes of codegen/core_contracts.py: their patterns compile, each shape is well
  formed when its parts are, and each means what it says.
\<close>

section \<open>Patterns\<close>

lemma core_patterns_compile [plain_simps]:
  "re_compile semver_pattern \<noteq> None" "re_compile aws_region_pattern \<noteq> None"
  "re_compile serial_pattern \<noteq> None" "re_compile spiffe_cell_pattern \<noteq> None"
  "re_compile operation_id_pattern \<noteq> None" "re_compile base64_pattern \<noteq> None"
  "re_compile ''^[A-Z]{3}$'' \<noteq> None" "re_compile ''^sha256:[0-9a-f]{64}$'' \<noteq> None"
  by code_simp+

lemma decimal_patterns_compile [plain_simps]:
  "re_compile (''^[0-9]+(?:'' @ esc ''.[0-9]+)?$'') \<noteq> None"
  "re_compile (''^[0-9]+'' @ esc ''.[0-9]+(?:'' @ esc ''.[0-9]+)?$'') \<noteq> None"
  by code_simp+

lemma object_key_pattern_compiles [plain_simps]:
  "re_compile (''^cell-ca/crl/[a-z0-9-]+/[1-9][0-9]*/[0-9a-f]{64}'' @ esc ''.crl$'') \<noteq> None"
  by code_simp

lemma schema_id_pattern_compiles [plain_simps]:
  "re_compile (''^https://jumpship'' @ esc ''.dev/contracts/[A-Za-z0-9_./-]+'' @ esc ''.schema'' @
     esc ''.json$'') \<noteq> None"
  by code_simp

lemma public_key_pattern_compiles [plain_simps]:
  "re_compile (''^-----BEGIN PUBLIC KEY-----[A-Za-z0-9+/='' @ esc ''r'' @ esc
     ''n-]+-----END PUBLIC KEY-----$'') \<noteq> None"
  by code_simp

section \<open>Keys of an updated dictionary\<close>

lemma dkeys_dupdate [plain_simps]: "set (dkeys (dupdate d e)) = set (dkeys d) \<union> set (dkeys e)"
  by (induction e arbitrary: d) (auto simp: dkeys_dset)

section \<open>Well-formed shapes\<close>

lemmas shape_simps = keyword_checks_def keyword_tables opt_check_def opt_holds_def reserved_def
  type_decl_ok_def size_ok_def sizes_cross_def is_num_def list_all_iff

lemma more_keywords [simp]: "known_keyword ''not''"
  by (simp add: known_keyword_def assertion_keywords_def)

lemma plain_number [plain_simps]: "plain_schema (s_number None None)"
  unfolding plain_schema_alt s_number_def set_opt_def
  by (intro conjI schema_wfI) (simp_all add: shape_simps)

lemma plain_described_boolean [plain_simps]:
  "plain_schema (JDict (dupdate (members s_boolean) [(''description'', JStr t)]))"
  unfolding plain_schema_alt s_boolean_def members_def
  by (intro conjI schema_wfI) (simp_all add: shape_simps)

lemma plain_size [plain_simps]:
  "0 \<le> n \<Longrightarrow> plain_schema (JDict [(''minItems'', JInt n)])"
  "0 \<le> n \<Longrightarrow> plain_schema (JDict [(''maxItems'', JInt n)])"
  "plain_schema (JDict [(''minimum'', JInt m)])"
  "plain_schema (JDict [(''maximum'', JInt m)])"
  unfolding plain_schema_alt
  by (intro conjI schema_wfI; simp add: shape_simps)+

lemma plain_any_of [plain_simps]:
  "cs \<noteq> [] \<Longrightarrow> list_all plain_schema cs \<Longrightarrow> plain_schema (JDict [(''anyOf'', JList cs)])"
  unfolding plain_schema_alt
  by (intro conjI schema_wfI) (auto simp add: shape_simps)

lemma plain_not [plain_simps]: "plain_schema c \<Longrightarrow> plain_schema (JDict [(''not'', c)])"
  unfolding plain_schema_alt
  by (intro conjI schema_wfI) (simp_all add: shape_simps)

lemma plain_required [plain_simps]:
  "distinct req \<Longrightarrow> plain_props ps \<Longrightarrow>
    plain_schema (JDict [(''required'', jstrs req), (''properties'', JDict ps)])"
  using plain_props_data [of ps] plain_props_wf [of ps]
  unfolding plain_schema_alt
  by (intro conjI schema_wfI)
    (simp_all add: keyword_checks_def keyword_tables opt_check_def opt_holds_def reserved_def)

lemma plain_required_one [plain_simps]:
  "plain_props ps \<Longrightarrow>
    plain_schema (JDict [(''required'', JList [JStr r]), (''properties'', JDict ps)])"
  using plain_required [of "[r]" ps] by simp

lemma plain_object_all_of [plain_simps]:
  "plain_props ps \<Longrightarrow> distinct req \<Longrightarrow> cs \<noteq> [] \<Longrightarrow> list_all plain_schema cs \<Longrightarrow>
    plain_schema (with_member ''allOf'' (JList cs) (s_object ps req additional))"
  using plain_props_data [of ps] plain_props_wf [of ps]
  unfolding plain_schema_alt s_object_def with_member_def members_def
  by (intro conjI schema_wfI)
    (auto simp add: keyword_checks_def keyword_tables opt_check_def opt_holds_def reserved_def
      type_decl_ok_def list_all_iff plain_schema_alt)

lemma plain_safe_names [plain_simps]: "0 \<le> a \<Longrightarrow> a \<le> b \<Longrightarrow> plain_schema (safe_names a b)"
  by (simp add: safe_names_def plain_simps string_args_ok_def no_args_def)

end
