(* ===== verification/Core_Contracts.thy ===== *)
theory Core_Contracts
  imports Core_Builders
begin

text \<open>
  The 24 contracts that are not state machines: each is generated and each is a schema the validator
  decides.
\<close>

section \<open>Well-formed documents\<close>

lemmas core_simps = plain_simps plain_props_update reserved_def string_args_ok_def no_args_def
  identity_required_def data_classes_shape distinct_dupdate

lemma signature_envelope_document_ok: "document_ok signature_envelope_document"
  by (simp add: document_ok_def signature_envelope_document_def
    core_simps del: dupdate_simps append.simps)

lemma public_key_registry_document_ok: "document_ok public_key_registry_document"
  by (simp add: document_ok_def public_key_registry_document_def public_key_registry_key_entry_def public_key_registry_key_entry_full_def
    core_simps del: dupdate_simps append.simps)

lemma audit_checkpoint_document_ok: "document_ok audit_checkpoint_document"
  by (simp add: document_ok_def audit_checkpoint_document_def
    core_simps del: dupdate_simps append.simps)

lemma mapping_spec_document_ok: "document_ok mapping_spec_document"
  by (simp add: document_ok_def mapping_spec_document_def mapping_spec_mapping_rule_def
    core_simps del: dupdate_simps append.simps)

lemma verification_rubric_document_ok: "document_ok verification_rubric_document"
  by (simp add: document_ok_def verification_rubric_document_def verification_rubric_check_def
    core_simps del: dupdate_simps append.simps)

lemma attempt_document_ok: "document_ok attempt_document"
  by (simp add: document_ok_def attempt_document_def attempt_metric_def
    core_simps del: dupdate_simps append.simps)

lemma reversibility_document_ok: "document_ok reversibility_document"
  by (simp add: document_ok_def reversibility_document_def reversibility_classes_def
    core_simps del: dupdate_simps append.simps)

lemma corridor_profile_document_ok: "document_ok corridor_profile_document"
  by (simp add: document_ok_def corridor_profile_document_def corridor_profile_source_profile_def corridor_profile_target_profile_def
    core_simps del: dupdate_simps append.simps)

lemma placement_decision_document_ok: "document_ok placement_decision_document"
  by (simp add: document_ok_def placement_decision_document_def placement_decision_alternative_def
    core_simps del: dupdate_simps append.simps)

lemma custody_bootstrap_manifest_document_ok: "document_ok custody_bootstrap_manifest_document"
  by (simp add: document_ok_def custody_bootstrap_manifest_document_def
    core_simps del: dupdate_simps append.simps)

lemma deployment_manifest_document_ok: "document_ok deployment_manifest_document"
  by (simp add: document_ok_def deployment_manifest_document_def deployment_manifest_image_def deployment_manifest_properties_def deployment_manifest_required_names_def deployment_manifest_required_def
    core_simps del: dupdate_simps append.simps)

lemma cell_bootstrap_document_ok: "document_ok cell_bootstrap_document"
  by (simp add: document_ok_def cell_bootstrap_document_def
    core_simps del: dupdate_simps append.simps)

lemma certificate_request_document_ok: "document_ok certificate_request_document"
  by (simp add: document_ok_def certificate_request_document_def
    core_simps del: dupdate_simps append.simps)

lemma certificate_receipt_document_ok: "document_ok certificate_receipt_document"
  by (simp add: document_ok_def certificate_receipt_document_def
    core_simps del: dupdate_simps append.simps)

lemma certificate_recovery_renewal_document_ok: "document_ok certificate_recovery_renewal_document"
  by (simp add: document_ok_def certificate_recovery_renewal_document_def
    core_simps del: dupdate_simps append.simps)

lemma crl_publication_document_ok: "document_ok crl_publication_document"
  by (simp add: document_ok_def crl_publication_document_def crl_publication_revoked_serial_def
    core_simps del: dupdate_simps append.simps)

lemma release_binding_document_ok: "document_ok release_binding_document"
  by (simp add: document_ok_def release_binding_document_def
    core_simps del: dupdate_simps append.simps)

lemma release_upgrade_document_ok: "document_ok release_upgrade_document"
  by (simp add: document_ok_def release_upgrade_document_def
    core_simps del: dupdate_simps append.simps)

lemma control_region_failover_manifest_document_ok: "document_ok control_region_failover_manifest_document"
  by (simp add: document_ok_def control_region_failover_manifest_document_def control_region_failover_manifest_approval_def
    core_simps del: dupdate_simps append.simps)

lemma cell_command_document_ok: "document_ok cell_command_document"
  by (simp add: document_ok_def cell_command_document_def cell_command_variable_def
    core_simps del: dupdate_simps append.simps)

lemma cell_receipt_document_ok: "document_ok cell_receipt_document"
  by (simp add: document_ok_def cell_receipt_document_def cell_receipt_effect_def
    core_simps del: dupdate_simps append.simps)

lemma engine_operation_envelope_document_ok: "document_ok engine_operation_envelope_document"
  by (simp add: document_ok_def engine_operation_envelope_document_def
    core_simps del: dupdate_simps append.simps)

lemma engine_checkpoint_document_ok: "document_ok engine_checkpoint_document"
  by (simp add: document_ok_def engine_checkpoint_document_def engine_checkpoint_cursor_def
    core_simps del: dupdate_simps append.simps)

lemma engine_receipt_document_ok: "document_ok engine_receipt_document"
  by (simp add: document_ok_def engine_receipt_document_def
    core_simps del: dupdate_simps append.simps)

section \<open>All contracts of the module\<close>

text \<open>The schemas of \<open>artifacts\<close>, in its order: first these, then the nine state machines.\<close>

definition core_documents :: "document list" where
  "core_documents =
     [signature_envelope_document, public_key_registry_document, audit_checkpoint_document,
      mapping_spec_document, verification_rubric_document, attempt_document,
      reversibility_document, corridor_profile_document, placement_decision_document,
      custody_bootstrap_manifest_document, deployment_manifest_document, cell_bootstrap_document,
      certificate_request_document, certificate_receipt_document,
      certificate_recovery_renewal_document, crl_publication_document, release_binding_document,
      release_upgrade_document, control_region_failover_manifest_document, cell_command_document,
      cell_receipt_document, engine_operation_envelope_document, engine_checkpoint_document,
      engine_receipt_document]"

definition core_contracts :: "(build_error + json) list" where
  "core_contracts =
     [signature_envelope_schema, public_key_registry_schema, audit_checkpoint_schema,
      mapping_spec_schema, verification_rubric_schema, attempt_schema, reversibility_schema,
      corridor_profile_schema, placement_decision_schema, custody_bootstrap_manifest_schema,
      deployment_manifest_schema, cell_bootstrap_schema, certificate_request_schema,
      certificate_receipt_schema, certificate_recovery_renewal_schema, crl_publication_schema,
      release_binding_schema, release_upgrade_schema, control_region_failover_manifest_schema,
      cell_command_schema, cell_receipt_schema, engine_operation_envelope_schema,
      engine_checkpoint_schema, engine_receipt_schema] @
     workflow_contracts"

lemma core_documents_ok: "list_all document_ok core_documents"
  by (simp add: core_documents_def
      signature_envelope_document_ok public_key_registry_document_ok audit_checkpoint_document_ok
      mapping_spec_document_ok verification_rubric_document_ok attempt_document_ok
      reversibility_document_ok corridor_profile_document_ok placement_decision_document_ok
      custody_bootstrap_manifest_document_ok deployment_manifest_document_ok
      cell_bootstrap_document_ok certificate_request_document_ok certificate_receipt_document_ok
      certificate_recovery_renewal_document_ok crl_publication_document_ok
      release_binding_document_ok release_upgrade_document_ok
      control_region_failover_manifest_document_ok cell_command_document_ok
      cell_receipt_document_ok engine_operation_envelope_document_ok
      engine_checkpoint_document_ok engine_receipt_document_ok)

text \<open>The three checks of \<open>schema\<close> on the keyword arguments.\<close>

definition admitted :: "document \<Rightarrow> bool" where
  "admitted a =
     (ends_with (d_path a) ''.schema.json'' \<and> d_data_class a \<in> set data_classes \<and>
      d_flow_ids a \<noteq> [] \<and> list_all (full_match flow_pattern) (d_flow_ids a))"

lemma admitted_schema: "admitted a \<Longrightarrow> schema a = Inr (JDict (document_keywords a))"
  by (simp add: admitted_def schema_def)

lemma flow_ids_match:
  "full_match flow_pattern ''F01''" "full_match flow_pattern ''F02''"
  "full_match flow_pattern ''F03''" "full_match flow_pattern ''F04''"
  "full_match flow_pattern ''F05''" "full_match flow_pattern ''F06''"
  "full_match flow_pattern ''F07''" "full_match flow_pattern ''F08''"
  "full_match flow_pattern ''F09''" "full_match flow_pattern ''F10''"
  "full_match flow_pattern ''F11''" "full_match flow_pattern ''F12''"
  "full_match flow_pattern ''F13''" "full_match flow_pattern ''F14''"
  "full_match flow_pattern ''F15''" "full_match flow_pattern ''F16''"
  "full_match flow_pattern ''F17''" "full_match flow_pattern ''F18''"
  "full_match flow_pattern ''F19''" "full_match flow_pattern ''F20''"
  "full_match flow_pattern ''F21''" "full_match flow_pattern ''F22''"
  "full_match flow_pattern ''F23''" "full_match flow_pattern ''F24''"
  "full_match flow_pattern ''F25''" "full_match flow_pattern ''F26''"
  "full_match flow_pattern ''F27''" "full_match flow_pattern ''F28''"
  by code_simp+

lemma documents_admitted: "list_all admitted core_documents"
  by (simp add: core_documents_def admitted_def ends_with_def data_classes_def flow_ids_match
      signature_envelope_document_def public_key_registry_document_def
      audit_checkpoint_document_def mapping_spec_document_def verification_rubric_document_def
      attempt_document_def reversibility_document_def corridor_profile_document_def
      placement_decision_document_def custody_bootstrap_manifest_document_def
      deployment_manifest_document_def cell_bootstrap_document_def
      certificate_request_document_def certificate_receipt_document_def
      certificate_recovery_renewal_document_def crl_publication_document_def
      release_binding_document_def release_upgrade_document_def
      control_region_failover_manifest_document_def cell_command_document_def
      cell_receipt_document_def engine_operation_envelope_document_def
      engine_checkpoint_document_def engine_receipt_document_def
      del: dupdate_simps append.simps)

lemma core_schemas_def: "core_contracts = map schema core_documents @ workflow_contracts"
  by (simp add: core_contracts_def core_documents_def
      signature_envelope_schema_def public_key_registry_schema_def audit_checkpoint_schema_def
      mapping_spec_schema_def verification_rubric_schema_def attempt_schema_def
      reversibility_schema_def corridor_profile_schema_def placement_decision_schema_def
      custody_bootstrap_manifest_schema_def deployment_manifest_schema_def
      cell_bootstrap_schema_def certificate_request_schema_def certificate_receipt_schema_def
      certificate_recovery_renewal_schema_def crl_publication_schema_def
      release_binding_schema_def release_upgrade_schema_def
      control_region_failover_manifest_schema_def cell_command_schema_def cell_receipt_schema_def
      engine_operation_envelope_schema_def engine_checkpoint_schema_def engine_receipt_schema_def)

text \<open>
  C16: every schema of \<open>artifacts\<close> - the 24 documents and the nine state machines - is generated without an
  error, and each is a well-formed schema within the fragment the validator decides.
\<close>

theorem core_contracts_well_formed:
  "list_all (\<lambda>r. \<exists>s. r = Inr s \<and> plain_schema s) core_contracts"
proof -
  have "\<exists>s. schema a = Inr s \<and> plain_schema s" if "a \<in> set core_documents" for a
    using that core_documents_ok documents_admitted plain_document [of a]
    by (auto simp: list_all_iff admitted_schema)
  then show ?thesis
    using workflow_contracts_built by (auto simp: core_schemas_def list_all_iff)
qed

end
