(* ===== verification/Transition_Fixtures.thy ===== *)
theory Transition_Fixtures
  imports Workflow_Promises
begin

text \<open>
  The transition fixtures of internal/contracts/codegen/core_contracts.py: \<open>_transition_fixture\<close> lists for one
  machine every legal edge and every illegal pair of states, and \<open>artifacts\<close> does so for the nine machines. The
  fixture is shown to be an exhaustive partition that the machine's own contract classifies in the same way.
\<close>

section \<open>One fixture\<close>

text \<open>\<open>dimensions[edge]\<close> and \<open>state_dimensions[state]\<close> may raise \<open>KeyError\<close>, \<open>states[0]\<close> \<open>IndexError\<close>.\<close>

datatype fixture_error = FixtureKey | FixtureIndex

definition lookup :: "'k \<Rightarrow> ('k \<times> 'v) list \<Rightarrow> fixture_error + 'v" where
  "lookup k d = (case dget k d of None \<Rightarrow> Inl FixtureKey | Some v \<Rightarrow> Inr v)"

definition valid_record :: "domains option \<Rightarrow> string \<times> string \<Rightarrow> fixture_error + json dict" where
  "valid_record dimensions edge =
     (let record = [(''from_state'', JStr (fst edge)), (''to_state'', JStr (snd edge)),
        (''expected'', JStr ''valid'')] in
      case dimensions of
        None \<Rightarrow> Inr record
      | Some ds \<Rightarrow> bindE (lookup edge ds) (\<lambda>d. Inr (dset ''state_dimension'' (JStr d) record)))"

definition invalid_record :: "string dict option \<Rightarrow> string \<times> string \<Rightarrow> fixture_error + json dict" where
  "invalid_record state_dimensions pair =
     (let record = [(''from_state'', JStr (fst pair)), (''to_state'', JStr (snd pair)),
        (''expected'', JStr ''invalid''), (''expected_error'', JStr ''illegal_transition'')] in
      case state_dimensions of
        None \<Rightarrow> Inr record
      | Some ds \<Rightarrow>
          bindE (lookup (fst pair) ds) (\<lambda>a. bindE (lookup (snd pair) ds) (\<lambda>b.
          let record = dset ''state_dimension'' (JStr a) record in
          Inr (if a \<noteq> b then dset ''expected_error'' (JStr ''cross_dimension_transition'') record else record))))"

definition illegal_pairs :: "string list \<Rightarrow> edges \<Rightarrow> (string \<times> string) list" where
  "illegal_pairs states es =
     concat (map (\<lambda>a. map (Pair a) (filter (\<lambda>b. (a, b) \<notin> set es) states)) states)"

definition unknown_record :: "string \<Rightarrow> string \<Rightarrow> string \<Rightarrow> json dict" where
  "unknown_record a b reason =
     [(''from_state'', JStr a), (''to_state'', JStr b), (''expected'', JStr ''invalid''),
      (''expected_error'', JStr reason)]"

definition first_of :: "string list \<Rightarrow> fixture_error + string" where
  "first_of states = (case states of [] \<Rightarrow> Inl FixtureIndex | s # _ \<Rightarrow> Inr s)"

definition fixture_document ::
  "string \<Rightarrow> string \<Rightarrow> string list \<Rightarrow> json dict list \<Rightarrow> json dict list \<Rightarrow> json" where
  "fixture_document schema_path machine states valid invalid = JDict
     [(''schema_version'', JStr schema_version),
      (''kind'', JStr ''exhaustive-state-machine-transition-fixture-set''),
      (''schema_path'', JStr schema_path), (''machine'', JStr machine), (''states'', jstrs states),
      (''valid_transitions'', JList (map JDict valid)), (''invalid_transitions'', JList (map JDict invalid))]"

definition transition_fixture ::
  "string \<Rightarrow> string \<Rightarrow> string list \<Rightarrow> edges \<Rightarrow> domains option \<Rightarrow> string dict option \<Rightarrow> fixture_error + json" where
  "transition_fixture schema_path machine states es dimensions state_dimensions =
     bindE (mapE (valid_record dimensions) es) (\<lambda>valid.
     bindE (mapE (invalid_record state_dimensions) (illegal_pairs states es)) (\<lambda>invalid.
     bindE (first_of states) (\<lambda>s.
     Inr (fixture_document schema_path machine states valid (invalid @
       [unknown_record ''unknown_state'' s ''unknown_from_state'',
        unknown_record s ''unknown_state'' ''unknown_to_state''])))))"

section \<open>The nine fixtures\<close>

record transition_set =
  t_set :: string
  t_schema :: string
  t_states :: "string list"
  t_edges :: edges
  t_dimensions :: "domains option"
  t_state_dimensions :: "string dict option"

definition migration_state_dimensions :: "string dict" where
  "migration_state_dimensions =
     dupdate (map (\<lambda>s. (s, ''primary_phase'')) migration_phase_states)
       (map (\<lambda>s. (s, ''execution_status'')) migration_execution_states)"

definition plain_set :: "string \<Rightarrow> string \<Rightarrow> string list \<Rightarrow> edges \<Rightarrow> transition_set" where
  "plain_set name schema_path states es = \<lparr>t_set = name, t_schema = schema_path, t_states = states, t_edges = es,
     t_dimensions = None, t_state_dimensions = None\<rparr>"

definition transition_sets :: "transition_set list" where
  "transition_sets =
     [\<lparr>t_set = ''migration'', t_schema = ''workflow/migration-state-machine.schema.json'',
       t_states = migration_phase_states @ migration_execution_states, t_edges = migration_edges,
       t_dimensions = Some migration_domains, t_state_dimensions = Some migration_state_dimensions\<rparr>,
      plain_set ''traffic-authority'' ''workflow/traffic-authority-state-machine.schema.json'' traffic_states traffic_edges,
      plain_set ''decision'' ''workflow/decision-state-machine.schema.json'' decision_states decision_edges,
      plain_set ''consent'' ''workflow/consent-state-machine.schema.json'' consent_states consent_edges,
      plain_set ''artifact'' ''workflow/artifact-state-machine.schema.json'' artifact_states artifact_edges,
      plain_set ''cell'' ''workflow/cell-state-machine.schema.json'' cell_states cell_edges,
      plain_set ''attempt'' ''workflow/attempt-state-machine.schema.json'' attempt_states attempt_edges,
      plain_set ''operation'' ''workflow/operation-state-machine.schema.json'' operation_states operation_edges,
      plain_set ''reversibility'' ''decisions/reversibility-state-machine.schema.json'' reversibility_states
        reversibility_edges]"

definition fixture_path :: "transition_set \<Rightarrow> string" where
  "fixture_path t = ''contracts/fixtures/state-machines/'' @ t_set t @ ''.json''"

definition fixture_of :: "transition_set \<Rightarrow> fixture_error + json" where
  "fixture_of t = transition_fixture (''contracts/'' @ t_schema t) (replace_str ''-'' ''_'' (t_set t)) (t_states t)
     (t_edges t) (t_dimensions t) (t_state_dimensions t)"

section \<open>Partition\<close>

lemma set_illegal_pairs: "set (illegal_pairs states es) = set states \<times> set states - set es"
  by (auto simp: illegal_pairs_def)

lemma distinct_illegal_pairs: "distinct states \<Longrightarrow> distinct (illegal_pairs states es)"
proof -
  have "distinct (concat (map (\<lambda>a. map (Pair a) (filter (\<lambda>b. (a, b) \<notin> set es) states)) xs))"
    if "distinct xs" "distinct states" for xs
    using that by (induction xs) (auto simp: distinct_map inj_on_def)
  then show "distinct states \<Longrightarrow> distinct (illegal_pairs states es)" by (simp add: illegal_pairs_def)
qed

lemma valid_record_facts:
  "valid_record ds e = Inr r \<Longrightarrow> transition_of r = Some e \<and> dimension_ok ds r e \<and> distinct (dkeys r)"
  by (cases e) (auto simp: valid_record_def lookup_def transition_of_def dimension_ok_def bindE_Inr Let_def
      split: option.splits)

lemma invalid_record_facts:
  "invalid_record ds p = Inr r \<Longrightarrow> transition_of r = Some p \<and> distinct (dkeys r)"
  by (cases p) (auto simp: invalid_record_def lookup_def transition_of_def bindE_Inr Let_def
      split: option.splits if_splits)

lemma unknown_record_facts: "transition_of (unknown_record a b reason) = Some (a, b)"
  "distinct (dkeys (unknown_record a b reason))"
  by (simp_all add: unknown_record_def transition_of_def)

lemma mapE_images:
  "mapE f xs = Inr ys \<Longrightarrow> (\<And>x y. f x = Inr y \<Longrightarrow> g y = h x) \<Longrightarrow> map g ys = map h xs"
  by (induction xs arbitrary: ys) (auto simp: bindE_Inr)

text \<open>What has to hold of a set for its fixture to be made.\<close>

definition set_ok :: "transition_set \<Rightarrow> bool" where
  "set_ok t \<longleftrightarrow> table_ok (t_states t) (t_edges t) \<and> ''unknown_state'' \<notin> set (t_states t) \<and>
     (case t_dimensions t of None \<Rightarrow> True | Some ds \<Rightarrow> list_all (\<lambda>e. dhas e ds) (t_edges t)) \<and>
     (case t_state_dimensions t of None \<Rightarrow> True | Some ds \<Rightarrow> list_all (\<lambda>s. dhas s ds) (t_states t))"

lemma sets_ok: "list_all set_ok transition_sets"
  by code_simp

lemma fixture_made:
  assumes "set_ok t"
  obtains valid invalid s where
    "fixture_of t = Inr (fixture_document (''contracts/'' @ t_schema t) (replace_str ''-'' ''_'' (t_set t)) (t_states t)
      valid (invalid @ [unknown_record ''unknown_state'' s ''unknown_from_state'',
        unknown_record s ''unknown_state'' ''unknown_to_state'']))"
    and "mapE (valid_record (t_dimensions t)) (t_edges t) = Inr valid"
    and "mapE (invalid_record (t_state_dimensions t)) (illegal_pairs (t_states t) (t_edges t)) = Inr invalid"
    and "s = hd (t_states t)" and "s \<in> set (t_states t)"
proof -
  have "\<exists>r. valid_record (t_dimensions t) e = Inr r" if "e \<in> set (t_edges t)" for e
    using assms that by (auto simp: set_ok_def valid_record_def lookup_def list_all_iff dhas_def Let_def split: option.splits)
  then obtain valid where v: "mapE (valid_record (t_dimensions t)) (t_edges t) = Inr valid"
    using mapE_total [of "t_edges t"] by blast
  have "\<exists>r. invalid_record (t_state_dimensions t) p = Inr r" if "p \<in> set (illegal_pairs (t_states t) (t_edges t))" for p
  proof (cases "t_state_dimensions t")
    case None
    then show ?thesis by (simp add: invalid_record_def Let_def)
  next
    case (Some ds)
    from that have "fst p \<in> set (t_states t)" "snd p \<in> set (t_states t)" by (auto simp: set_illegal_pairs)
    with assms Some have "dhas (fst p) ds" "dhas (snd p) ds" by (auto simp: set_ok_def list_all_iff)
    then show ?thesis by (auto simp: Some invalid_record_def lookup_def dhas_def Let_def)
  qed
  then obtain invalid where i: "mapE (invalid_record (t_state_dimensions t)) (illegal_pairs (t_states t) (t_edges t)) = Inr invalid"
    using mapE_total [of "illegal_pairs (t_states t) (t_edges t)"] by blast
  from assms have "t_states t \<noteq> []" by (simp add: set_ok_def table_ok_def)
  then obtain s ss where s: "t_states t = s # ss" by (cases "t_states t") auto
  from v i s have "fixture_of t = Inr (fixture_document (''contracts/'' @ t_schema t) (replace_str ''-'' ''_'' (t_set t))
      (t_states t) valid (invalid @ [unknown_record ''unknown_state'' s ''unknown_from_state'',
        unknown_record s ''unknown_state'' ''unknown_to_state'']))"
    by (simp add: fixture_of_def transition_fixture_def first_of_def)
  from that [OF this v i] s show thesis by simp
qed

text \<open>
  \<open>valid\<close> and \<open>invalid\<close> are the two lists of the fixture of \<open>t\<close>: the edges in order, and every other pair of states once
  together with one unknown state on either side; and the \<open>oneOf\<close> of the machine's contract accepts the first
  and rejects the second.
\<close>

definition partitions :: "transition_set \<Rightarrow> json dict list \<Rightarrow> json dict list \<Rightarrow> bool" where
  "partitions t valid invalid \<longleftrightarrow>
     map transition_of valid = map Some (t_edges t) \<and>
     distinct (map transition_of invalid) \<and>
     set (map transition_of invalid) = Some ` (set (t_states t) \<times> set (t_states t) - set (t_edges t) \<union>
       {(''unknown_state'', hd (t_states t)), (hd (t_states t), ''unknown_state'')}) \<and>
     (\<forall>cs. edge_constraints (t_edges t) (t_dimensions t) = Inr cs \<longrightarrow>
       (\<forall>r \<in> set valid. sat (JDict [(''oneOf'', JList cs)]) (JDict r)) \<and>
       (\<forall>r \<in> set invalid. \<not> sat (JDict [(''oneOf'', JList cs)]) (JDict r)))"

lemma fixture_partitions:
  assumes ok: "set_ok t"
  shows "\<exists>valid invalid. fixture_of t = Inr (fixture_document (''contracts/'' @ t_schema t)
    (replace_str ''-'' ''_'' (t_set t)) (t_states t) valid invalid) \<and> partitions t valid invalid"
proof -
  obtain valid listed s where made: "fixture_of t = Inr (fixture_document (''contracts/'' @ t_schema t)
        (replace_str ''-'' ''_'' (t_set t)) (t_states t)
        valid (listed @ [unknown_record ''unknown_state'' s ''unknown_from_state'',
          unknown_record s ''unknown_state'' ''unknown_to_state'']))"
    and v: "mapE (valid_record (t_dimensions t)) (t_edges t) = Inr valid"
    and i: "mapE (invalid_record (t_state_dimensions t)) (illegal_pairs (t_states t) (t_edges t)) = Inr listed"
    and s: "s = hd (t_states t)" "s \<in> set (t_states t)"
    using fixture_made [OF ok] by metis
  define invalid where "invalid = listed @ [unknown_record ''unknown_state'' s ''unknown_from_state'',
    unknown_record s ''unknown_state'' ''unknown_to_state'']"
  have table: "distinct (t_states t)" "distinct (t_edges t)" "set (t_edges t) \<subseteq> set (t_states t) \<times> set (t_states t)"
    and unknown: "''unknown_state'' \<notin> set (t_states t)"
    using ok by (auto simp: set_ok_def table_ok_def list_all_iff)
  have edges: "map transition_of valid = map Some (t_edges t)"
    by (rule mapE_images [OF v]) (use valid_record_facts in blast)
  have pairs: "map transition_of listed = map Some (illegal_pairs (t_states t) (t_edges t))"
    by (rule mapE_images [OF i]) (use invalid_record_facts in blast)
  have all: "map transition_of invalid =
      map Some (illegal_pairs (t_states t) (t_edges t) @ [(''unknown_state'', s), (s, ''unknown_state'')])"
    by (simp add: invalid_def pairs unknown_record_facts)
  have apart: "distinct (illegal_pairs (t_states t) (t_edges t) @ [(''unknown_state'', s), (s, ''unknown_state'')])"
    using table unknown s(2) by (auto simp: set_illegal_pairs distinct_illegal_pairs)
  have outside: "p \<notin> set (t_edges t)"
    if "p \<in> set (illegal_pairs (t_states t) (t_edges t) @ [(''unknown_state'', s), (s, ''unknown_state'')])" for p
    using that table(3) unknown by (auto simp: set_illegal_pairs)
  have "distinct (dkeys r)" if "r \<in> set valid" for r
    using mapE_mem [OF v that] valid_record_facts by blast
  moreover have "distinct (dkeys r)" if "r \<in> set listed" for r
    using mapE_mem [OF i that] invalid_record_facts by blast
  ultimately have keys: "distinct (dkeys r)" if "r \<in> set valid \<union> set invalid" for r
    using that unknown_record_facts(2) unfolding invalid_def by auto
  have "sat (JDict [(''oneOf'', JList cs)]) (JDict r)"
    if "edge_constraints (t_edges t) (t_dimensions t) = Inr cs" "r \<in> set valid" for cs r
    using sat_edge_constraints [OF keys table(2) that(1)] mapE_mem [OF v that(2)] valid_record_facts that(2) by blast
  moreover have "\<not> sat (JDict [(''oneOf'', JList cs)]) (JDict r)"
    if "edge_constraints (t_edges t) (t_dimensions t) = Inr cs" "r \<in> set invalid" for cs r
  proof -
    from that(2) have "transition_of r \<in> set (map transition_of invalid)" by simp
    then obtain p where "transition_of r = Some p" "p \<notin> set (t_edges t)" unfolding all using outside by auto
    then show ?thesis using sat_edge_constraints [OF keys table(2) that(1)] that(2) by auto
  qed
  moreover have "distinct (map transition_of invalid)"
    unfolding all distinct_map using apart by (simp only: inj_Some inj_on_subset [OF inj_Some subset_UNIV] simp_thms)
  moreover have "set (map transition_of invalid) = Some ` (set (t_states t) \<times> set (t_states t) - set (t_edges t) \<union>
      {(''unknown_state'', hd (t_states t)), (hd (t_states t), ''unknown_state'')})"
    unfolding all s(1) by (simp add: set_illegal_pairs)
  ultimately show ?thesis using made edges unfolding partitions_def invalid_def by blast
qed

text \<open>
  C19: for each of the nine machines the transition fixture is generated without an error and is an exhaustive
  partition: its valid transitions are the edges, its invalid ones every other pair of states, each once, and an unknown
  state on either side; the contract's enumeration of edges accepts the first and rejects the second.
\<close>

theorem transition_fixtures_exact:
  "\<forall>t \<in> set transition_sets. \<exists>valid invalid. fixture_of t = Inr (fixture_document (''contracts/'' @ t_schema t)
    (replace_str ''-'' ''_'' (t_set t)) (t_states t) valid invalid) \<and> partitions t valid invalid"
  using sets_ok fixture_partitions by (auto simp: list_all_iff)

theorem transition_fixtures_exact_witness:
  "\<exists>cs document valid invalid. edge_constraints consent_edges None = Inr cs \<and>
    transition_fixture ''contracts/workflow/consent-state-machine.schema.json'' ''consent'' consent_states consent_edges
      None None = Inr document \<and> valid \<noteq> [] \<and> invalid \<noteq> [] \<and>
    (\<forall>r \<in> set valid. sat (JDict [(''oneOf'', JList cs)]) (JDict r)) \<and>
    (\<forall>r \<in> set invalid. \<not> sat (JDict [(''oneOf'', JList cs)]) (JDict r))"
proof -
  let ?t = "plain_set ''consent'' ''workflow/consent-state-machine.schema.json'' consent_states consent_edges"
  have "?t \<in> set transition_sets" by (simp add: transition_sets_def)
  with transition_fixtures_exact obtain valid invalid where
    f: "fixture_of ?t = Inr (fixture_document (''contracts/'' @ t_schema ?t) (replace_str ''-'' ''_'' (t_set ?t)) (t_states ?t)
      valid invalid)" and p: "partitions ?t valid invalid" by blast
  have "is_ok (edge_constraints consent_edges None)" by code_simp
  then obtain cs where cs: "edge_constraints consent_edges None = Inr cs" by (auto simp: is_ok_iff)
  have "consent_edges \<noteq> []" by code_simp
  with p have "valid \<noteq> []" "invalid \<noteq> []" by (auto simp: partitions_def plain_set_def)
  moreover have "replace_str ''-'' ''_'' ''consent'' = ''consent''" by code_simp
  ultimately show ?thesis using f p cs unfolding partitions_def by (auto simp: fixture_of_def plain_set_def)
qed

end
