(* ===== verification/Compatibility.thy ===== *)
theory Compatibility
  imports Contract_Model
begin

text \<open>
  The compatibility gate of the generated contracts, from internal/contracts/codegen/generate.py: the
  surface of the JSON Schemas (\<open>_schema_assertions\<close>, \<open>_compatibility_surface\<close>), the comparison with the
  checked-in baseline (\<open>_compare_exact_additive_map\<close>, \<open>_compare_compatibility\<close>) and the decision of
  \<open>render_compatibility_artifacts\<close>. A surface is the JSON document of the baseline file, so a section of the wrong
  type raises \<open>AttributeError\<close>, as \<open>.get\<close> and \<open>.keys\<close> do on what is not an object.
\<close>

section \<open>Python equality\<close>

text \<open>
  \<open>a == b\<close> on JSON data: a \<open>bool\<close> is the number 0 or 1, so \<open>True == 1 == 1.0\<close>. (Two NaN of one parser
  are one object, which a container compares as equal; the properties are about finite numbers.)
\<close>

fun py_num :: "json \<Rightarrow> pyfloat option" where
  "py_num (JBool b) = Some (Fin (if b then 1 else 0))"
| "py_num v = num_of v"

fun py_eq :: "json \<Rightarrow> json \<Rightarrow> bool" where
  "py_eq JNull r = (r = JNull)"
| "py_eq (JStr s) r = (r = JStr s)"
| "py_eq (JList xs) r =
     (case r of JList ys \<Rightarrow> length xs = length ys \<and> list_all (\<lambda>(a, b). py_eq a b) (zip xs ys) | _ \<Rightarrow> False)"
| "py_eq (JDict d) r =
     (case r of JDict e \<Rightarrow>
        set (dkeys d) = set (dkeys e) \<and>
        list_all (\<lambda>(k, v). case dget k e of None \<Rightarrow> False | Some w \<Rightarrow> py_eq v w) d
      | _ \<Rightarrow> False)"
| "py_eq (JBool b) r = (case py_num r of None \<Rightarrow> False | Some y \<Rightarrow> num_eq (Fin (if b then 1 else 0)) y)"
| "py_eq (JInt n) r = (case py_num r of None \<Rightarrow> False | Some y \<Rightarrow> num_eq (Fin (of_int n)) y)"
| "py_eq (JFloat x) r = (case py_num r of None \<Rightarrow> False | Some y \<Rightarrow> num_eq x y)"

section \<open>Surfaces\<close>

definition schema_annotations :: "string list" where
  "schema_annotations =
     [''$comment'', ''$schema'', ''default'', ''deprecated'', ''description'', ''examples'', ''readOnly'',
      ''title'', ''writeOnly'']"

definition assertion_key :: "string \<Rightarrow> bool" where
  "assertion_key key = (key \<notin> set schema_annotations \<and> \<not> starts_with key ''x-'')"

text \<open>Keys are distinct, so sorting the items sorts by key.\<close>

fun schema_assertions :: "json \<Rightarrow> json" where
  "schema_assertions (JDict d) =
     JDict (filter (\<lambda>(key, _). assertion_key key)
       (sort_key fst (map (\<lambda>(key, child). (key, schema_assertions child)) d)))"
| "schema_assertions (JList xs) = JList (map schema_assertions xs)"
| "schema_assertions v = v"

datatype compat_error = AttributeError

text \<open>\<open>v.get(k, {})\<close> and \<open>v.get(k)\<close>\<close>

definition get_or_dict :: "string \<Rightarrow> json \<Rightarrow> compat_error + json" where
  "get_or_dict k v = (case v of
     JDict d \<Rightarrow> Inr (case dget k d of None \<Rightarrow> JDict [] | Some x \<Rightarrow> x) | _ \<Rightarrow> Inl AttributeError)"

definition get_or_none :: "string \<Rightarrow> json \<Rightarrow> compat_error + json" where
  "get_or_none k v = (case v of
     JDict d \<Rightarrow> Inr (case dget k d of None \<Rightarrow> JNull | Some x \<Rightarrow> x) | _ \<Rightarrow> Inl AttributeError)"

definition items_of :: "json \<Rightarrow> compat_error + json dict" where
  "items_of v = (case v of JDict d \<Rightarrow> Inr d | _ \<Rightarrow> Inl AttributeError)"

text \<open>One entry of \<open>schemas\<close>: everything but the properties, and the properties.\<close>

definition schema_surface :: "json \<Rightarrow> compat_error + json" where
  "schema_surface document =
     bindE (items_of (schema_assertions document)) (\<lambda>assertions.
     Inr (JDict [(''root'', JDict (dpop ''properties'' assertions)),
       (''properties'', case dget ''properties'' assertions of None \<Rightarrow> JDict [] | Some ps \<Rightarrow> ps)]))"

definition schemas_surface :: "json dict \<Rightarrow> compat_error + json dict" where
  "schemas_surface artifacts =
     mapE (\<lambda>(name, document). bindE (schema_surface document) (\<lambda>s. Inr (name, s)))
       (filter (\<lambda>(name, _). ends_with name ''.schema.json'') (sort_key fst artifacts))"

section \<open>Comparison\<close>

text \<open>The two lists the comparison appends to: changes and breaking changes.\<close>

type_synonym compat_notes = "string list \<times> string list"

definition gather :: "compat_notes list \<Rightarrow> compat_notes" where
  "gather ns = (concat (map fst ns), concat (map snd ns))"

definition keys_without :: "'v dict \<Rightarrow> 'w dict \<Rightarrow> string list" where
  "keys_without a b = sort (filter (\<lambda>k. k \<notin> set (dkeys b)) (dkeys a))"

definition keys_common :: "'v dict \<Rightarrow> 'w dict \<Rightarrow> string list" where
  "keys_common a b = sort (filter (\<lambda>k. k \<in> set (dkeys b)) (dkeys a))"

definition breaking :: "string \<Rightarrow> compat_notes" where "breaking s = ([], [s])"

definition change :: "string \<Rightarrow> compat_notes" where "change s = ([s], [])"

text \<open>\<open>d[k]\<close> for a key of \<open>d\<close>\<close>

definition member :: "'v dict \<Rightarrow> string \<Rightarrow> 'v" where
  "member d k = the (dget k d)"

definition compare_key :: "string \<Rightarrow> json dict \<Rightarrow> json dict \<Rightarrow> string dict \<Rightarrow> string \<Rightarrow> compat_notes" where
  "compare_key label baseline current approved key =
     (if py_eq (member baseline key) (member current key) then ([], [])
      else case dget key approved of
        None \<Rightarrow> breaking (''changed '' @ label @ '' '' @ key)
      | Some authority \<Rightarrow> change (''approved replacement of '' @ label @ '' '' @ key @ '' under '' @ authority))"

definition compare_exact_additive_map ::
  "string \<Rightarrow> json \<Rightarrow> json \<Rightarrow> string dict \<Rightarrow> compat_error + compat_notes" where
  "compare_exact_additive_map label baseline current approved =
     bindE (items_of baseline) (\<lambda>b. bindE (items_of current) (\<lambda>c.
     Inr (gather
       (map (\<lambda>key. breaking (''removed '' @ label @ '' '' @ key)) (keys_without b c) @
        map (compare_key label b c approved) (keys_common b c) @
        map (\<lambda>key. change (''added '' @ label @ '' '' @ key)) (keys_without c b)))))"

record replacement =
  from_version :: string
  to_version :: string
  authority :: string

definition approved_versioned_schema_replacements :: "replacement dict" where
  "approved_versioned_schema_replacements =
     [(''contracts/client/customer-incapability-catalog.schema.json'',
       \<lparr>from_version = ''1.0.0'', to_version = ''2.0.0'', authority = ''P02-CATALOG-RU-HASH-CYCLE''\<rparr>)]"

definition approved_openapi_component_replacements :: "string dict" where
  "approved_openapi_component_replacements =
     [(''GetEnvironmentAgentIncapabilitiesResponse'', ''P02-CATALOG-RU-HASH-CYCLE''),
      (''GetMigrationAgentIncapabilitiesResponse'', ''P02-CATALOG-RU-HASH-CYCLE'')]"

definition version_of :: "json \<Rightarrow> compat_error + json" where
  "version_of s =
     bindE (get_or_dict ''properties'' s) (\<lambda>properties.
     bindE (get_or_dict ''schema_version'' properties) (\<lambda>version.
     get_or_none ''const'' version))"

definition compare_schema :: "string \<Rightarrow> json \<Rightarrow> json \<Rightarrow> compat_error + compat_notes" where
  "compare_schema name old_schema new_schema =
     bindE (get_or_none ''root'' old_schema) (\<lambda>old_root.
     bindE (get_or_none ''root'' new_schema) (\<lambda>new_root.
     if \<not> py_eq old_root new_root then
       bindE (version_of old_schema) (\<lambda>old_version.
       bindE (version_of new_schema) (\<lambda>new_version.
       case dget name approved_versioned_schema_replacements of
         None \<Rightarrow> Inr (breaking (''changed JSON Schema assertions '' @ name))
       | Some r \<Rightarrow>
           if old_version \<noteq> JStr (from_version r) \<or> new_version \<noteq> JStr (to_version r)
           then Inr (breaking (''changed JSON Schema assertions '' @ name))
           else Inr (change (''approved versioned replacement of JSON Schema '' @ name @ '' '' @
             from_version r @ ''->'' @ to_version r @ '' under '' @ authority r))))
     else
       bindE (get_or_dict ''properties'' old_schema) (\<lambda>old_properties.
       bindE (get_or_dict ''properties'' new_schema) (\<lambda>new_properties.
       compare_exact_additive_map (''optional property in '' @ name) old_properties new_properties []))))"

definition compare_schemas :: "json \<Rightarrow> json \<Rightarrow> compat_error + compat_notes" where
  "compare_schemas old_schemas new_schemas =
     bindE (items_of old_schemas) (\<lambda>b. bindE (items_of new_schemas) (\<lambda>c.
     bindE (mapE (\<lambda>name. compare_schema name (member b name) (member c name)) (keys_common b c)) (\<lambda>ns.
     Inr (gather
       (map (\<lambda>name. breaking (''removed JSON Schema '' @ name)) (keys_without b c) @
        map (\<lambda>name. change (''added JSON Schema '' @ name)) (keys_without c b) @ ns)))))"

definition compare_value :: "string \<Rightarrow> string \<Rightarrow> json \<Rightarrow> json \<Rightarrow> compat_error + compat_notes" where
  "compare_value label key old new =
     bindE (get_or_none key old) (\<lambda>a. bindE (get_or_none key new) (\<lambda>b.
     Inr (if \<not> py_eq a b then breaking (''changed '' @ label) else ([], []))))"

definition is_dict :: "json \<Rightarrow> bool" where
  "is_dict v = (case v of JDict _ \<Rightarrow> True | _ \<Rightarrow> False)"

definition compare_category :: "json \<Rightarrow> json \<Rightarrow> string \<Rightarrow> compat_error + compat_notes" where
  "compare_category old_components new_components category =
     bindE (get_or_dict category old_components) (\<lambda>old_category.
     bindE (get_or_dict category new_components) (\<lambda>new_category.
     if \<not> is_dict old_category \<or> \<not> is_dict new_category then
       Inr (if \<not> py_eq old_category new_category
            then breaking (''changed OpenAPI component category '' @ category) else ([], []))
     else compare_exact_additive_map (''OpenAPI '' @ category @ '' component'') old_category new_category
       (if category = ''schemas'' then approved_openapi_component_replacements else [])))"

definition compare_openapi :: "json \<Rightarrow> json \<Rightarrow> compat_error + compat_notes" where
  "compare_openapi old_openapi new_openapi =
     bindE (compare_value ''OpenAPI version'' ''version'' old_openapi new_openapi) (\<lambda>version.
     bindE (compare_value ''OpenAPI servers'' ''servers'' old_openapi new_openapi) (\<lambda>servers.
     bindE (get_or_dict ''operations'' old_openapi) (\<lambda>old_operations.
     bindE (get_or_dict ''operations'' new_openapi) (\<lambda>new_operations.
     bindE (compare_exact_additive_map ''OpenAPI operation'' old_operations new_operations []) (\<lambda>operations.
     bindE (get_or_dict ''components'' old_openapi) (\<lambda>old_components.
     bindE (get_or_dict ''components'' new_openapi) (\<lambda>new_components.
     bindE (items_of old_components) (\<lambda>b. bindE (items_of new_components) (\<lambda>c.
     bindE (mapE (compare_category old_components new_components)
         (sort (remdups (dkeys b @ dkeys c)))) (\<lambda>categories.
     Inr (gather ([version, servers, operations] @ categories))))))))))))"

definition proto_categories :: "(string \<times> string) list" where
  "proto_categories = [(''enums'', ''enum value''), (''messages'', ''field number''), (''services'', ''RPC method'')]"

definition compare_proto_category :: "json \<Rightarrow> json \<Rightarrow> string \<times> string \<Rightarrow> compat_error + compat_notes" where
  "compare_proto_category old_proto new_proto entry = (case entry of (category, member_label) \<Rightarrow>
     bindE (get_or_dict category old_proto) (\<lambda>old_groups.
     bindE (get_or_dict category new_proto) (\<lambda>new_groups.
     bindE (items_of old_groups) (\<lambda>b. bindE (items_of new_groups) (\<lambda>c.
     bindE (mapE (\<lambda>group. compare_exact_additive_map (''protobuf '' @ member_label @ '' in '' @ group)
         (member b group) (member c group) []) (keys_common b c)) (\<lambda>ns.
     Inr (gather
       (map (\<lambda>group. breaking (''removed protobuf '' @ butlast category @ '' '' @ group)) (keys_without b c) @
        map (\<lambda>group. change (''added protobuf '' @ butlast category @ '' '' @ group)) (keys_without c b) @
        ns))))))))"

definition compare_proto :: "json \<Rightarrow> json \<Rightarrow> compat_error + compat_notes" where
  "compare_proto old_proto new_proto =
     bindE (mapE (\<lambda>key. compare_value (''protobuf '' @ key) key old_proto new_proto) [''syntax'', ''package''])
       (\<lambda>values.
     bindE (mapE (compare_proto_category old_proto new_proto) proto_categories) (\<lambda>categories.
     Inr (gather (values @ categories))))"

definition compare_compatibility :: "json \<Rightarrow> json \<Rightarrow> compat_error + compat_notes" where
  "compare_compatibility baseline current =
     bindE (get_or_dict ''json_schemas'' baseline) (\<lambda>old_schemas.
     bindE (get_or_dict ''json_schemas'' current) (\<lambda>new_schemas.
     bindE (compare_schemas old_schemas new_schemas) (\<lambda>schemas.
     bindE (get_or_dict ''openapi'' baseline) (\<lambda>old_openapi.
     bindE (get_or_dict ''openapi'' current) (\<lambda>new_openapi.
     bindE (compare_openapi old_openapi new_openapi) (\<lambda>openapi.
     bindE (get_or_dict ''protobuf'' baseline) (\<lambda>old_proto.
     bindE (get_or_dict ''protobuf'' current) (\<lambda>new_proto.
     bindE (compare_proto old_proto new_proto) (\<lambda>protobuf.
     Inr (gather [schemas, openapi, protobuf]))))))))))"

section \<open>The generator run\<close>

datatype compat_reason =
    MalformedSurface
  | WrongKind
  | NoSurface
  | BreakingChange "string list"

datatype compat_status = CompatibleUnchanged | CompatibleAdditive

record compat_result =
  baseline_surface :: json
  compat_status :: compat_status
  compat_changes :: "string list"

text \<open>
  \<open>existing\<close> is the parsed baseline file, \<open>None\<close> when there is none; the result holds what both artifacts are
  made from.
\<close>

definition render_compatibility ::
  "json option \<Rightarrow> json \<Rightarrow> bool \<Rightarrow> compat_reason + compat_result" where
  "render_compatibility existing current_surface refresh_baseline = (case existing of
     None \<Rightarrow> Inr \<lparr>baseline_surface = current_surface, compat_status = CompatibleUnchanged, compat_changes = []\<rparr>
   | Some document \<Rightarrow>
       (case get_or_none ''kind'' document of
          Inl _ \<Rightarrow> Inl MalformedSurface
        | Inr kind \<Rightarrow>
       if kind \<noteq> JStr ''jumpship-contract-compatibility-baseline'' then Inl WrongKind else
       (case get_or_none ''surface'' document of
          Inl _ \<Rightarrow> Inl MalformedSurface
        | Inr surface \<Rightarrow>
       if \<not> is_dict surface then Inl NoSurface else
       (case compare_compatibility surface current_surface of
          Inl _ \<Rightarrow> Inl MalformedSurface
        | Inr (changes, broken) \<Rightarrow>
            if broken \<noteq> [] then Inl (BreakingChange broken)
            else if refresh_baseline then
              Inr \<lparr>baseline_surface = current_surface, compat_status = CompatibleUnchanged, compat_changes = []\<rparr>
            else
              Inr \<lparr>baseline_surface = surface,
                compat_status = (if changes \<noteq> [] then CompatibleAdditive else CompatibleUnchanged),
                compat_changes = changes\<rparr>))))"

definition baseline_document :: "compat_result \<Rightarrow> json dict" where
  "baseline_document r =
     [(''_generated'', JStr (''generated by '' @ generator @ ''; DO NOT EDIT'')),
      (''schema_version'', JStr ''1.0.0''), (''kind'', JStr ''jumpship-contract-compatibility-baseline''),
      (''policy'', JStr (
        ''Existing assertions, operations, component definitions, protobuf field numbers, enum values, '' @
        ''and RPC methods are immutable in v1; optional additions are permitted. The only approved '' @
        ''replacement is the P02-CATALOG-RU-HASH-CYCLE catalog 1.0.0 to 2.0.0 correction and its two API '' @
        ''response components.'')),
      (''surface'', baseline_surface r)]"

text \<open>A run of the generator: a refused one raises and writes nothing, an accepted one writes the baseline.\<close>

inductive generator_run :: "json option \<Rightarrow> json \<Rightarrow> bool \<Rightarrow> json option \<Rightarrow> bool" where
  accepted: "render_compatibility existing current refresh = Inr r \<Longrightarrow>
    generator_run existing current refresh (Some (JDict (baseline_document r)))"
| refused: "render_compatibility existing current refresh = Inl e \<Longrightarrow>
    generator_run existing current refresh existing"

end
