(* ===== verification/Compatibility_Promises.thy ===== *)
theory Compatibility_Promises
  imports Compatibility "HOL-Library.FSet"
begin

text \<open>
  What the compatibility gate keeps. \<open>preserves\<close> is the policy as a relation between two surfaces, stated over the
  values the documents denote; on well-shaped surfaces the comparison never raises and finds nothing breaking
  exactly when the new surface preserves the old one. \<open>lineage\<close> is what survives any number of accepted generator
  runs, whatever baselines were refreshed in between.
\<close>

section \<open>Python equality is equality of values\<close>

text \<open>A \<open>bool\<close> read as the number it equals.\<close>

fun numeric :: "json \<Rightarrow> json" where
  "numeric (JBool b) = JInt (if b then 1 else 0)"
| "numeric (JList xs) = JList (map numeric xs)"
| "numeric (JDict d) = JDict (map (\<lambda>(k, v). (k, numeric v)) d)"
| "numeric v = v"

definition same :: "json \<Rightarrow> json \<Rightarrow> bool" where
  "same v w \<longleftrightarrow> denote (numeric v) = denote (numeric w)"

lemma dkeys_numeric: "dkeys (map (\<lambda>(k, v). (k, numeric v)) d) = dkeys d"
  by (induction d) auto

lemma numeric_ok: "json_wf v \<Longrightarrow> json_wf (numeric v)" "all_finite v \<Longrightarrow> all_finite (numeric v)"
proof -
  show "json_wf v \<Longrightarrow> json_wf (numeric v)"
    by (induction v rule: numeric.induct) (auto simp: list_all_iff dkeys_numeric)
  show "all_finite v \<Longrightarrow> all_finite (numeric v)"
    by (induction v rule: numeric.induct) (auto simp: list_all_iff)
qed

lemma py_eq_numeric: "all_finite v \<Longrightarrow> all_finite w \<Longrightarrow> py_eq v w = json_equal (numeric v) (numeric w)"
proof (induction v w rule: py_eq.induct)
  case (1 r)
  then show ?case by (cases r) auto
next
  case (2 s r)
  then show ?case by (cases r) auto
next
  case (3 xs r)
  show ?case
  proof (cases r)
    case (JList ys)
    have "py_eq a b = json_equal (numeric a) (numeric b)" if "(a, b) \<in> set (zip xs ys)" for a b
      using 3(1) [OF JList that] 3(2,3) that JList
      by (auto simp: list_all_iff dest: set_zip_leftD set_zip_rightD)
    then show ?thesis by (auto simp: JList list_all_iff zip_map_map)
  qed auto
next
  case (4 d r)
  show ?case
  proof (cases r)
    case (JDict e)
    have "py_eq v w = json_equal (numeric v) (numeric w)" if "(k, v) \<in> set d" "dget k e = Some w" for k v w
      using 4(1) [OF JDict that(1) _ that(2)] 4(2,3) that dget_mem [OF that(2)] JDict
      by (fastforce simp: list_all_iff)
    then have "(case dget k e of None \<Rightarrow> False | Some w \<Rightarrow> py_eq v w) =
        (case map_option numeric (dget k e) of None \<Rightarrow> False | Some w \<Rightarrow> json_equal (numeric v) w)"
      if "(k, v) \<in> set d" for k v
      using that by (cases "dget k e") auto
    then show ?thesis by (auto simp: JDict list_all_iff dkeys_numeric dget_map_snd)
  qed auto
next
  case (5 b r)
  then show ?case by (cases r) auto
next
  case (6 n r)
  then show ?case by (cases r rule: numeric.cases) (auto elim: finite_number.elims)
next
  case (7 x r)
  then show ?case by (cases r rule: numeric.cases) (auto elim: finite_number.elims)
qed

interpretation python: equality_test py_eq json_ok "\<lambda>v. denote (numeric v)"
  by unfold_locales (simp add: json_ok_def py_eq_numeric json_equal_denote_aux numeric_ok)

lemma py_eq_same: "json_ok v \<Longrightarrow> json_ok w \<Longrightarrow> py_eq v w \<longleftrightarrow> same v w"
  unfolding same_def by (rule python.eq_iff)

lemma same_refl [simp]: "same v v"
  by (simp add: same_def)

lemma same_trans: "same u v \<Longrightarrow> same v w \<Longrightarrow> same u w"
  by (simp add: same_def)

lemma same_JStr: "same (JStr s) w \<longleftrightarrow> w = JStr s"
  by (cases w) (auto simp: same_def)

lemma same_is_dict: "same v w \<Longrightarrow> is_dict v = is_dict w"
  by (cases v; cases w) (auto simp: same_def is_dict_def)

lemma same_JNull: "same JNull w \<longleftrightarrow> w = JNull"
  by (cases w) (auto simp: same_def)

lemma same_member:
  assumes "same (JDict d) (JDict e)" and "dget k d = Some v"
  shows "\<exists>w. dget k e = Some w \<and> same v w"
proof -
  have "fmlookup (fmap_of_list (map (\<lambda>(k, v). (k, denote v)) (map (\<lambda>(k, v). (k, numeric v)) d))) k =
      fmlookup (fmap_of_list (map (\<lambda>(k, v). (k, denote v)) (map (\<lambda>(k, v). (k, numeric v)) e))) k"
    using assms(1) by (simp add: same_def)
  then show ?thesis using assms(2) unfolding fmlookup_denote dget_map_snd
    by (cases "dget k e") (auto simp: same_def)
qed

section \<open>The policy\<close>

definition section_of :: "string \<Rightarrow> json \<Rightarrow> json dict" where
  "section_of k v = (case jget k v of Some (JDict d) \<Rightarrow> d | _ \<Rightarrow> [])"

definition value_at :: "string \<Rightarrow> json \<Rightarrow> json" where
  "value_at k v = (case jget k v of Some x \<Rightarrow> x | None \<Rightarrow> JNull)"

definition dict_at :: "string \<Rightarrow> json \<Rightarrow> json" where
  "dict_at k v = (case jget k v of Some x \<Rightarrow> x | None \<Rightarrow> JDict [])"

definition sectioned :: "string \<Rightarrow> json \<Rightarrow> bool" where
  "sectioned k v = (is_dict v \<and> (case jget k v of None \<Rightarrow> True | Some x \<Rightarrow> is_dict x))"

text \<open>Each member of the old object is still there with the same value, or is one of the approved names.\<close>

definition members_kept :: "string set \<Rightarrow> json dict \<Rightarrow> json dict \<Rightarrow> bool" where
  "members_kept approved old new \<longleftrightarrow>
     (\<forall>k v. dget k old = Some v \<longrightarrow> (\<exists>w. dget k new = Some w \<and> (same v w \<or> k \<in> approved)))"

definition const_version :: "json \<Rightarrow> json" where
  "const_version s = value_at ''const'' (JDict (section_of ''schema_version'' (JDict (section_of ''properties'' s))))"

definition schema_kept :: "json \<Rightarrow> json \<Rightarrow> bool" where
  "schema_kept old new \<longleftrightarrow> same (value_at ''root'' old) (value_at ''root'' new) \<and>
     members_kept {} (section_of ''properties'' old) (section_of ''properties'' new)"

definition schema_replaced :: "string \<Rightarrow> json \<Rightarrow> json \<Rightarrow> bool" where
  "schema_replaced name old new \<longleftrightarrow> \<not> same (value_at ''root'' old) (value_at ''root'' new) \<and>
     (\<exists>r. dget name approved_versioned_schema_replacements = Some r \<and>
       const_version old = JStr (from_version r) \<and> const_version new = JStr (to_version r))"

definition category_kept :: "string \<Rightarrow> json \<Rightarrow> json \<Rightarrow> bool" where
  "category_kept category old new \<longleftrightarrow>
     (if is_dict old \<and> is_dict new
      then members_kept (if category = ''schemas'' then set (dkeys approved_openapi_component_replacements) else {})
        (members old) (members new)
      else same old new)"

definition openapi_kept :: "json \<Rightarrow> json \<Rightarrow> bool" where
  "openapi_kept old new \<longleftrightarrow>
     same (value_at ''version'' old) (value_at ''version'' new) \<and>
     same (value_at ''servers'' old) (value_at ''servers'' new) \<and>
     members_kept {} (section_of ''operations'' old) (section_of ''operations'' new) \<and>
     (\<forall>category. category_kept category (dict_at category (dict_at ''components'' old))
        (dict_at category (dict_at ''components'' new)))"

definition groups_kept :: "json dict \<Rightarrow> json dict \<Rightarrow> bool" where
  "groups_kept old new \<longleftrightarrow> (\<forall>g v. dget g old = Some v \<longrightarrow>
     (\<exists>w. dget g new = Some w \<and> members_kept {} (members v) (members w)))"

definition proto_kept :: "json \<Rightarrow> json \<Rightarrow> bool" where
  "proto_kept old new \<longleftrightarrow>
     (\<forall>key \<in> {''syntax'', ''package''}. same (value_at key old) (value_at key new)) \<and>
     (\<forall>category \<in> {''enums'', ''messages'', ''services''}.
        groups_kept (section_of category old) (section_of category new))"

definition schemas_kept :: "(string \<Rightarrow> json \<Rightarrow> json \<Rightarrow> bool) \<Rightarrow> json dict \<Rightarrow> json dict \<Rightarrow> bool" where
  "schemas_kept R old new \<longleftrightarrow> (\<forall>name s. dget name old = Some s \<longrightarrow> (\<exists>t. dget name new = Some t \<and> R name s t))"

definition keeps :: "(string \<Rightarrow> json \<Rightarrow> json \<Rightarrow> bool) \<Rightarrow> json \<Rightarrow> json \<Rightarrow> bool" where
  "keeps R old new \<longleftrightarrow>
     schemas_kept R (section_of ''json_schemas'' old) (section_of ''json_schemas'' new) \<and>
     openapi_kept (dict_at ''openapi'' old) (dict_at ''openapi'' new) \<and>
     proto_kept (dict_at ''protobuf'' old) (dict_at ''protobuf'' new)"

definition preserves :: "json \<Rightarrow> json \<Rightarrow> bool" where
  "preserves = keeps (\<lambda>name s t. schema_kept s t \<or> schema_replaced name s t)"

text \<open>What is left of a schema after several runs: it is kept, or it has reached the approved version.\<close>

definition lineage :: "json \<Rightarrow> json \<Rightarrow> bool" where
  "lineage = keeps (\<lambda>name s t. schema_kept s t \<or>
     (\<exists>r. dget name approved_versioned_schema_replacements = Some r \<and> const_version t = JStr (to_version r)))"

section \<open>Well-shaped surfaces\<close>

definition schema_shape :: "json \<Rightarrow> bool" where
  "schema_shape s = (sectioned ''properties'' s \<and> sectioned ''schema_version'' (JDict (section_of ''properties'' s)))"

definition proto_shape :: "json \<Rightarrow> bool" where
  "proto_shape p = list_all (\<lambda>category. sectioned category p \<and>
     list_all (\<lambda>(_, g). is_dict g) (section_of category p)) [''enums'', ''messages'', ''services'']"

definition surface_ok :: "json \<Rightarrow> bool" where
  "surface_ok v =
     (json_ok v \<and> sectioned ''json_schemas'' v \<and> sectioned ''openapi'' v \<and> sectioned ''protobuf'' v \<and>
      list_all (\<lambda>(_, s). schema_shape s) (section_of ''json_schemas'' v) \<and>
      sectioned ''operations'' (dict_at ''openapi'' v) \<and> sectioned ''components'' (dict_at ''openapi'' v) \<and>
      proto_shape (dict_at ''protobuf'' v))"

section \<open>The comparison decides the policy\<close>

lemma sectioned_simps:
  assumes "sectioned k v"
  shows "get_or_dict k v = Inr (JDict (section_of k v))" "dict_at k v = JDict (section_of k v)"
    "get_or_none j v = Inr (value_at j v)" "is_dict v"
  using assms by (cases v; auto simp: sectioned_def get_or_dict_def get_or_none_def section_of_def value_at_def
      dict_at_def is_dict_def split: option.splits json.splits)+

lemma json_ok_dget: "json_ok (JDict d) \<Longrightarrow> dget k d = Some v \<Longrightarrow> json_ok v"
  by (drule dget_mem) (auto simp: json_ok_def list_all_iff)

lemma json_ok_simps: "json_ok JNull" "json_ok (JDict [])"
  by (simp_all add: json_ok_def)

lemma json_ok_jget: "json_ok v \<Longrightarrow> jget k v = Some x \<Longrightarrow> json_ok x"
  by (cases v) (auto simp: jget_def intro: json_ok_dget)

lemma json_ok_at:
  assumes "json_ok v"
  shows "json_ok (value_at k v)" "json_ok (dict_at k v)" "json_ok (JDict (section_of k v))"
    "json_ok (JDict (members v))"
proof -
  show "json_ok (value_at k v)" "json_ok (dict_at k v)" "json_ok (JDict (section_of k v))"
    using json_ok_jget [OF assms, of k]
    by (auto simp: value_at_def dict_at_def section_of_def json_ok_simps split: option.split json.split)
  show "json_ok (JDict (members v))"
    using assms by (cases v) (simp_all add: members_def json_ok_simps)
qed

text \<open>The comparison returns, and notes nothing breaking exactly when \<open>P\<close> holds.\<close>

definition decides :: "compat_error + compat_notes \<Rightarrow> bool \<Rightarrow> bool" where
  "decides r P \<longleftrightarrow> (\<exists>n. r = Inr n \<and> (snd n = [] \<longleftrightarrow> P))"

lemma snd_gather: "snd (gather ns) = [] \<longleftrightarrow> (\<forall>n \<in> set ns. snd n = [])"
  by (auto simp: gather_def)

lemma note_simps [simp]: "snd (breaking s) = [s]" "snd (change s) = []"
  by (simp_all add: breaking_def change_def)

lemma decides_Inr: "decides (Inr n) P \<longleftrightarrow> (snd n = [] \<longleftrightarrow> P)"
  by (simp add: decides_def)

lemma decides_gather:
  assumes "\<And>x. x \<in> set xs \<Longrightarrow> decides (f x) (P x)"
  shows "decides (bindE (mapE f xs) (\<lambda>ns. Inr (gather (pre @ ns)))) ((\<forall>n \<in> set pre. snd n = []) \<and> (\<forall>x \<in> set xs. P x))"
proof -
  obtain ns where ns: "mapE f xs = Inr ns"
    using mapE_total [of xs f] assms by (meson decides_def)
  from ns assms have "(\<forall>n \<in> set ns. snd n = []) \<longleftrightarrow> (\<forall>x \<in> set xs. P x)"
  proof (induction xs arbitrary: ns)
    case (Cons x xs)
    from Cons.prems(1) obtain n ns' where n: "f x = Inr n" "mapE f xs = Inr ns'" "ns = n # ns'"
      by (auto simp: bindE_Inr)
    from Cons.prems(2) [of x] n(1) have "snd n = [] \<longleftrightarrow> P x" by (simp add: decides_Inr)
    with Cons.IH [OF n(2)] Cons.prems(2) n(3) show ?case by simp
  qed simp
  then show ?thesis by (auto simp: ns decides_def snd_gather)
qed

lemma set_keys: "set (keys_without a b) = set (dkeys a) - set (dkeys b)"
  "set (keys_common a b) = set (dkeys a) \<inter> set (dkeys b)"
  by (auto simp: keys_without_def keys_common_def)

text \<open>A section whose keys are all kept, each with \<open>Q\<close>: the two ways to say it.\<close>

lemma all_kept_iff:
  "set (dkeys a) \<subseteq> set (dkeys b) \<and> (\<forall>k \<in> set (dkeys a) \<inter> set (dkeys b). Q k (member a k) (member b k)) \<longleftrightarrow>
    (\<forall>k v. dget k a = Some v \<longrightarrow> (\<exists>w. dget k b = Some w \<and> Q k v w))"
proof
  assume l: "set (dkeys a) \<subseteq> set (dkeys b) \<and> (\<forall>k \<in> set (dkeys a) \<inter> set (dkeys b). Q k (member a k) (member b k))"
  show "\<forall>k v. dget k a = Some v \<longrightarrow> (\<exists>w. dget k b = Some w \<and> Q k v w)"
  proof (intro allI impI)
    fix k v assume v: "dget k a = Some v"
    then have k: "k \<in> set (dkeys a)" by (simp add: dget_is_Some)
    with l have "k \<in> set (dkeys b)" by blast
    then obtain w where "dget k b = Some w" by (auto simp: dget_is_Some)
    moreover from k l have "Q k (member a k) (member b k)" by blast
    ultimately show "\<exists>w. dget k b = Some w \<and> Q k v w" using v by (simp add: member_def)
  qed
next
  assume r: "\<forall>k v. dget k a = Some v \<longrightarrow> (\<exists>w. dget k b = Some w \<and> Q k v w)"
  have "k \<in> set (dkeys b) \<and> Q k (member a k) (member b k)" if "k \<in> set (dkeys a)" for k
    using that r by (fastforce simp: dget_is_Some member_def)
  then show "set (dkeys a) \<subseteq> set (dkeys b) \<and> (\<forall>k \<in> set (dkeys a) \<inter> set (dkeys b). Q k (member a k) (member b k))"
    by blast
qed

lemma decides_map:
  assumes "json_ok (JDict b)" and "json_ok (JDict c)"
  shows "decides (compare_exact_additive_map label (JDict b) (JDict c) approved)
    (members_kept (set (dkeys approved)) b c)"
proof -
  have "snd (compare_key label b c approved k) = [] \<longleftrightarrow>
      same (member b k) (member c k) \<or> k \<in> set (dkeys approved)"
    if k: "k \<in> set (dkeys b) \<inter> set (dkeys c)" for k
  proof -
    from k have "json_ok (member b k)" "json_ok (member c k)"
      using assms by (auto simp: dget_is_Some member_def intro: json_ok_dget)
    then show ?thesis
      using dget_None [of k approved] by (auto simp: compare_key_def py_eq_same split: option.split)
  qed
  then have "(\<forall>k \<in> set (dkeys b) \<inter> set (dkeys c). snd (compare_key label b c approved k) = []) \<longleftrightarrow>
      (\<forall>k \<in> set (dkeys b) \<inter> set (dkeys c). same (member b k) (member c k) \<or> k \<in> set (dkeys approved))"
    by simp
  then show ?thesis unfolding members_kept_def all_kept_iff [symmetric]
    by (simp add: compare_exact_additive_map_def items_of_def decides_Inr snd_gather set_keys ball_Un subset_iff)
qed

lemma version_of_const: "schema_shape s \<Longrightarrow> version_of s = Inr (const_version s)"
proof -
  assume "schema_shape s"
  then have s: "sectioned ''properties'' s" "sectioned ''schema_version'' (JDict (section_of ''properties'' s))"
    by (simp_all add: schema_shape_def)
  show ?thesis
    by (simp add: version_of_def sectioned_simps(1) [OF s(1)] sectioned_simps(1) [OF s(2)] const_version_def
        get_or_none_def value_at_def split: option.split)
qed

lemma decides_schema:
  assumes "schema_shape s" "schema_shape t" "json_ok s" "json_ok t"
  shows "decides (compare_schema name s t) (schema_kept s t \<or> schema_replaced name s t)"
proof -
  have shape: "sectioned ''properties'' s" "sectioned ''properties'' t"
    using assms by (simp_all add: schema_shape_def)
  have roots: "py_eq (value_at ''root'' s) (value_at ''root'' t) = same (value_at ''root'' s) (value_at ''root'' t)"
    using assms by (simp add: py_eq_same json_ok_at)
  have props: "decides (compare_exact_additive_map l (JDict (section_of ''properties'' s))
      (JDict (section_of ''properties'' t)) []) (members_kept {} (section_of ''properties'' s) (section_of ''properties'' t))" for l
    using decides_map [of "section_of ''properties'' s" "section_of ''properties'' t" l "[]"] assms
    by (simp add: json_ok_at)
  show ?thesis
  proof (cases "same (value_at ''root'' s) (value_at ''root'' t)")
    case True
    with props show ?thesis
      by (simp add: compare_schema_def sectioned_simps [OF shape(1)] sectioned_simps [OF shape(2)] roots
          schema_kept_def schema_replaced_def)
  next
    case False
    then show ?thesis
      by (simp add: compare_schema_def sectioned_simps [OF shape(1)] sectioned_simps [OF shape(2)] roots
          schema_kept_def schema_replaced_def version_of_const assms decides_Inr split: option.split)
  qed
qed

lemma decides_value:
  assumes "sectioned k a" "sectioned k' b" "json_ok a" "json_ok b"
  shows "decides (compare_value label key a b) (same (value_at key a) (value_at key b))"
  using assms by (simp add: compare_value_def sectioned_simps(3) [OF assms(1)] sectioned_simps(3) [OF assms(2)]
      decides_Inr py_eq_same json_ok_at)

lemma decides_category:
  assumes "is_dict a" "is_dict b" "json_ok a" "json_ok b"
  shows "decides (compare_category a b category) (category_kept category (dict_at category a) (dict_at category b))"
proof -
  obtain d e where ab: "a = JDict d" "b = JDict e" using assms by (auto simp: is_dict_def split: json.splits)
  have get: "get_or_dict category (JDict x) = Inr (dict_at category (JDict x))" for x
    by (simp add: get_or_dict_def dict_at_def split: option.split)
  have ok: "json_ok (dict_at category a)" "json_ok (dict_at category b)" using assms by (simp_all add: json_ok_at)
  show ?thesis
  proof (cases "is_dict (dict_at category a) \<and> is_dict (dict_at category b)")
    case True
    then obtain x y where xy: "dict_at category a = JDict x" "dict_at category b = JDict y"
      by (auto simp: is_dict_def split: json.splits)
    from ok have "json_ok (JDict x)" "json_ok (JDict y)" by (simp_all add: xy)
    from decides_map [OF this, of _ "[]"] decides_map [OF this, of _ approved_openapi_component_replacements]
    show ?thesis using xy
      by (simp add: compare_category_def ab get is_dict_def category_kept_def members_def)
  next
    case False
    with ok show ?thesis
      by (auto simp: compare_category_def ab get category_kept_def decides_Inr py_eq_same)
  qed
qed

lemma list_all_dget: "list_all (\<lambda>(_, v). P v) d \<Longrightarrow> dget k d = Some v \<Longrightarrow> P v"
  by (drule dget_mem) (auto simp: list_all_iff)

lemma member_dget: "k \<in> set (dkeys d) \<Longrightarrow> dget k d = Some (member d k)"
  by (auto simp: dget_is_Some member_def)

lemma decides_schemas:
  assumes "json_ok (JDict b)" "json_ok (JDict c)"
    and "list_all (\<lambda>(_, s). schema_shape s) b" "list_all (\<lambda>(_, s). schema_shape s) c"
  shows "decides (compare_schemas (JDict b) (JDict c))
    (schemas_kept (\<lambda>name s t. schema_kept s t \<or> schema_replaced name s t) b c)"
proof -
  define Q where "Q name s t \<longleftrightarrow> schema_kept s t \<or> schema_replaced name s t" for name s t
  have each: "decides (compare_schema k (member b k) (member c k)) (Q k (member b k) (member c k))"
    if "k \<in> set (keys_common b c)" for k
  proof -
    from that have "dget k b = Some (member b k)" "dget k c = Some (member c k)"
      by (simp_all add: set_keys member_dget)
    with assms show ?thesis unfolding Q_def by (intro decides_schema) (auto intro: list_all_dget json_ok_dget)
  qed
  let ?pre = "map (\<lambda>name. breaking (''removed JSON Schema '' @ name)) (keys_without b c) @
    map (\<lambda>name. change (''added JSON Schema '' @ name)) (keys_without c b)"
  have "(\<forall>n \<in> set ?pre. snd n = []) \<longleftrightarrow> set (dkeys b) \<subseteq> set (dkeys c)"
    by (simp add: set_keys ball_Un subset_iff)
  with decides_gather [where xs = "keys_common b c" and pre = ?pre, OF each] show ?thesis
    unfolding schemas_kept_def Q_def [symmetric] all_kept_iff [symmetric]
    by (simp add: compare_schemas_def items_of_def set_keys)
qed

lemma decides_openapi:
  assumes ok: "json_ok a" "json_ok b" and shape: "sectioned ''operations'' a" "sectioned ''operations'' b"
    "sectioned ''components'' a" "sectioned ''components'' b"
  shows "decides (compare_openapi a b) (openapi_kept a b)"
proof -
  let ?ca = "JDict (section_of ''components'' a)" and ?cb = "JDict (section_of ''components'' b)"
  let ?cats = "sort (remdups (dkeys (section_of ''components'' a) @ dkeys (section_of ''components'' b)))"
  have cats: "(\<forall>k. category_kept k (dict_at k ?ca) (dict_at k ?cb)) \<longleftrightarrow>
      (\<forall>k \<in> set ?cats. category_kept k (dict_at k ?ca) (dict_at k ?cb))"
  proof (intro iffI ballI allI)
    fix k assume r: "\<forall>k \<in> set ?cats. category_kept k (dict_at k ?ca) (dict_at k ?cb)"
    show "category_kept k (dict_at k ?ca) (dict_at k ?cb)"
    proof (cases "k \<in> set ?cats")
      case False
      then have "dict_at k ?ca = JDict []" "dict_at k ?cb = JDict []"
        by (auto simp: dict_at_def dget_None [symmetric])
      then show ?thesis by (simp add: category_kept_def is_dict_def members_def members_kept_def)
    qed (use r in blast)
  qed blast
  have ok_at: "json_ok ?ca" "json_ok ?cb" using ok by (simp_all add: json_ok_at)
  have each: "decides (compare_category ?ca ?cb k) (category_kept k (dict_at k ?ca) (dict_at k ?cb))" for k
    using ok_at by (intro decides_category) (simp_all add: is_dict_def)
  have rest: "decides (bindE (mapE (compare_category ?ca ?cb) ?cats) (\<lambda>ns. Inr (gather ([v, s, o'] @ ns))))
      (snd v = [] \<and> snd s = [] \<and> snd o' = [] \<and> (\<forall>k. category_kept k (dict_at k ?ca) (dict_at k ?cb)))" for v s o'
    using decides_gather [where xs = ?cats and pre = "[v, s, o']", OF each] unfolding cats by simp
  have ops: "decides (compare_exact_additive_map ''OpenAPI operation'' (JDict (section_of ''operations'' a))
      (JDict (section_of ''operations'' b)) []) (members_kept {} (section_of ''operations'' a) (section_of ''operations'' b))"
    using decides_map [of "section_of ''operations'' a" "section_of ''operations'' b" _ "[]"] ok
    by (simp add: json_ok_at)
  note s = sectioned_simps [OF shape(1)] sectioned_simps [OF shape(2)] sectioned_simps [OF shape(3)]
    sectioned_simps [OF shape(4)]
  obtain v where v: "compare_value ''OpenAPI version'' ''version'' a b = Inr v"
      "snd v = [] \<longleftrightarrow> same (value_at ''version'' a) (value_at ''version'' b)"
    using decides_value [OF shape(1,2) ok] unfolding decides_def by blast
  obtain u where u: "compare_value ''OpenAPI servers'' ''servers'' a b = Inr u"
      "snd u = [] \<longleftrightarrow> same (value_at ''servers'' a) (value_at ''servers'' b)"
    using decides_value [OF shape(1,2) ok] unfolding decides_def by blast
  obtain w where w: "compare_exact_additive_map ''OpenAPI operation'' (JDict (section_of ''operations'' a))
        (JDict (section_of ''operations'' b)) [] = Inr w"
      "snd w = [] \<longleftrightarrow> members_kept {} (section_of ''operations'' a) (section_of ''operations'' b)"
    using ops unfolding decides_def by blast
  have "compare_openapi a b = bindE (mapE (compare_category ?ca ?cb) ?cats) (\<lambda>ns. Inr (gather ([v, u, w] @ ns)))"
    by (simp add: compare_openapi_def s v(1) u(1) w(1) items_of_def)
  with rest [of v u w] v(2) u(2) w(2) show ?thesis
    by (simp add: openapi_kept_def s)
qed

lemma dict_members: "is_dict v \<Longrightarrow> v = JDict (members v)"
  by (cases v) (simp_all add: is_dict_def members_def)

lemma decides_group:
  assumes "is_dict v" "is_dict w" "json_ok v" "json_ok w"
  shows "decides (compare_exact_additive_map label v w []) (members_kept {} (members v) (members w))"
  using decides_map [of "members v" "members w" label "[]"] assms
  by (simp add: json_ok_at dict_members [symmetric])

lemma decides_groups:
  assumes ok: "json_ok a" "json_ok b" and shape: "sectioned k a" "sectioned k b"
    and groups: "list_all (\<lambda>(_, g). is_dict g) (section_of k a)" "list_all (\<lambda>(_, g). is_dict g) (section_of k b)"
  shows "decides (compare_proto_category a b (k, l)) (groups_kept (section_of k a) (section_of k b))"
proof -
  let ?a = "section_of k a" and ?b = "section_of k b"
  have each: "decides (compare_exact_additive_map (''protobuf '' @ l @ '' in '' @ g) (member ?a g) (member ?b g) [])
      (members_kept {} (members (member ?a g)) (members (member ?b g)))" if "g \<in> set (keys_common ?a ?b)" for g
  proof -
    from that have "dget g ?a = Some (member ?a g)" "dget g ?b = Some (member ?b g)"
      by (simp_all add: set_keys member_dget)
    with ok groups show ?thesis
      by (intro decides_group) (auto intro: list_all_dget json_ok_dget json_ok_at)
  qed
  let ?pre = "map (\<lambda>group. breaking (''removed protobuf '' @ butlast k @ '' '' @ group)) (keys_without ?a ?b) @
    map (\<lambda>group. change (''added protobuf '' @ butlast k @ '' '' @ group)) (keys_without ?b ?a)"
  have "(\<forall>n \<in> set ?pre. snd n = []) \<longleftrightarrow> set (dkeys ?a) \<subseteq> set (dkeys ?b)"
    by (simp add: set_keys ball_Un subset_iff)
  with decides_gather [where xs = "keys_common ?a ?b" and pre = ?pre, OF each] show ?thesis
    unfolding groups_kept_def all_kept_iff [symmetric]
    by (simp add: compare_proto_category_def items_of_def set_keys sectioned_simps [OF shape(1)]
        sectioned_simps [OF shape(2)])
qed

lemma proto_shape_simps:
  "proto_shape p \<Longrightarrow> k \<in> {''enums'', ''messages'', ''services''} \<Longrightarrow>
    sectioned k p \<and> list_all (\<lambda>(_, g). is_dict g) (section_of k p)"
  by (auto simp: proto_shape_def)

lemma decides_proto:
  assumes ok: "json_ok a" "json_ok b" and shape: "proto_shape a" "proto_shape b"
  shows "decides (compare_proto a b) (proto_kept a b)"
proof -
  have sec: "sectioned ''enums'' a" "sectioned ''enums'' b" using shape by (simp_all add: proto_shape_def)
  have vals: "\<exists>n. compare_value l key a b = Inr n \<and> (snd n = [] \<longleftrightarrow> same (value_at key a) (value_at key b))" for l key
    using decides_value [OF sec ok] unfolding decides_def .
  obtain x y where xy: "compare_value (''protobuf '' @ ''syntax'') ''syntax'' a b = Inr x"
      "snd x = [] \<longleftrightarrow> same (value_at ''syntax'' a) (value_at ''syntax'' b)"
      "compare_value (''protobuf '' @ ''package'') ''package'' a b = Inr y"
      "snd y = [] \<longleftrightarrow> same (value_at ''package'' a) (value_at ''package'' b)"
    using vals by meson
  have each: "decides (compare_proto_category a b e) (groups_kept (section_of (fst e) a) (section_of (fst e) b))"
    if "e \<in> set proto_categories" for e
  proof -
    obtain k l where e: "e = (k, l)" by (cases e)
    with that have k: "k \<in> {''enums'', ''messages'', ''services''}" by (auto simp: proto_categories_def)
    from proto_shape_simps [OF shape(1) k] proto_shape_simps [OF shape(2) k] show ?thesis
      using ok by (simp add: e decides_groups)
  qed
  have "compare_proto a b =
      bindE (mapE (compare_proto_category a b) proto_categories) (\<lambda>ns. Inr (gather ([x, y] @ ns)))"
    using xy(1,3) by (simp add: compare_proto_def)
  with decides_gather [where xs = proto_categories and pre = "[x, y]" and f = "compare_proto_category a b", OF each] xy(2,4) show ?thesis
    by (simp add: proto_kept_def proto_categories_def)
qed

lemma compare_decides:
  assumes a: "surface_ok a" and b: "surface_ok b"
  shows "decides (compare_compatibility a b) (preserves a b)"
proof -
  have ok: "json_ok a" "json_ok b" using a b by (simp_all add: surface_ok_def)
  have top: "sectioned ''json_schemas'' v" "sectioned ''openapi'' v" "sectioned ''protobuf'' v" if "surface_ok v" for v
    using that by (simp_all add: surface_ok_def)
  note s = sectioned_simps [OF top(1) [OF a]] sectioned_simps [OF top(1) [OF b]]
    sectioned_simps [OF top(2) [OF a]] sectioned_simps [OF top(2) [OF b]]
    sectioned_simps [OF top(3) [OF a]] sectioned_simps [OF top(3) [OF b]]
  obtain x where x: "compare_schemas (JDict (section_of ''json_schemas'' a)) (JDict (section_of ''json_schemas'' b)) = Inr x"
      "snd x = [] \<longleftrightarrow> schemas_kept (\<lambda>name s t. schema_kept s t \<or> schema_replaced name s t)
        (section_of ''json_schemas'' a) (section_of ''json_schemas'' b)"
    using decides_schemas [of "section_of ''json_schemas'' a" "section_of ''json_schemas'' b"] a b ok
    unfolding decides_def surface_ok_def by (auto simp: json_ok_at)
  obtain y where y: "compare_openapi (dict_at ''openapi'' a) (dict_at ''openapi'' b) = Inr y"
      "snd y = [] \<longleftrightarrow> openapi_kept (dict_at ''openapi'' a) (dict_at ''openapi'' b)"
    using decides_openapi [of "dict_at ''openapi'' a" "dict_at ''openapi'' b"] a b ok
    unfolding decides_def surface_ok_def by (auto simp: json_ok_at)
  obtain z where z: "compare_proto (dict_at ''protobuf'' a) (dict_at ''protobuf'' b) = Inr z"
      "snd z = [] \<longleftrightarrow> proto_kept (dict_at ''protobuf'' a) (dict_at ''protobuf'' b)"
    using decides_proto [of "dict_at ''protobuf'' a" "dict_at ''protobuf'' b"] a b ok
    unfolding decides_def surface_ok_def by (auto simp: json_ok_at)
  have "compare_compatibility a b = Inr (gather [x, y, z])"
    using x(1) y(1) z(1) by (simp add: compare_compatibility_def s)
  with x(2) y(2) z(2) show ?thesis by (simp add: decides_Inr snd_gather preserves_def keeps_def)
qed

end
