(* ===== verification/Compatibility_History.thy ===== *)
theory Compatibility_History
  imports Compatibility_Promises
begin

text \<open>
  Generator runs over time. Each run compares the surface it renders with the baseline file and, when asked to,
  replaces that baseline; so a chain of runs may refresh the baseline many times. What the first baseline promised
  holds for every surface a later run accepts (\<open>lineage\<close>). The properties of the compatibility gate are here.
\<close>

section \<open>Composing runs\<close>

lemma members_kept_trans: "members_kept A u v \<Longrightarrow> members_kept A v w \<Longrightarrow> members_kept A u w"
  unfolding members_kept_def using same_trans by meson

lemma members_kept_refl [simp]: "members_kept A v v"
  by (simp add: members_kept_def)

lemma category_kept_trans:
  assumes "category_kept k u v" and "category_kept k v w"
  shows "category_kept k u w"
proof (cases "is_dict u \<and> is_dict v \<and> is_dict w")
  case True
  define A where "A = (if k = ''schemas'' then set (dkeys approved_openapi_component_replacements) else {})"
  from assms True have "members_kept A (members u) (members v)" "members_kept A (members v) (members w)"
    by (simp_all add: category_kept_def A_def)
  then have "members_kept A (members u) (members w)" by (rule members_kept_trans)
  with True show ?thesis unfolding category_kept_def A_def by presburger
next
  case False
  have "is_dict u \<and> is_dict v \<or> same u v" "is_dict v \<and> is_dict w \<or> same v w"
    using assms unfolding category_kept_def by metis+
  with False same_is_dict have "\<not> (is_dict u \<and> is_dict w)" "same u v" "same v w" by blast+
  with same_trans show ?thesis unfolding category_kept_def by metis
qed

lemma category_kept_refl [simp]: "category_kept k v v"
  by (simp add: category_kept_def)

lemma openapi_kept_trans: "openapi_kept u v \<Longrightarrow> openapi_kept v w \<Longrightarrow> openapi_kept u w"
  unfolding openapi_kept_def by (meson same_trans members_kept_trans category_kept_trans)

lemma groups_kept_trans: "groups_kept u v \<Longrightarrow> groups_kept v w \<Longrightarrow> groups_kept u w"
  unfolding groups_kept_def by (meson members_kept_trans)

lemma proto_kept_trans: "proto_kept u v \<Longrightarrow> proto_kept v w \<Longrightarrow> proto_kept u w"
  unfolding proto_kept_def by (meson same_trans groups_kept_trans)

lemma schema_kept_trans: "schema_kept u v \<Longrightarrow> schema_kept v w \<Longrightarrow> schema_kept u w"
  unfolding schema_kept_def by (meson same_trans members_kept_trans)

lemma const_version_kept:
  assumes "schema_kept u v" and "const_version u = JStr s"
  shows "const_version v = JStr s"
proof -
  let ?u = "section_of ''properties'' u" and ?v = "section_of ''properties'' v"
  from assms(2) obtain d where d: "dget ''schema_version'' ?u = Some (JDict d)" "dget ''const'' d = Some (JStr s)"
    by (auto simp: const_version_def value_at_def section_of_def split: option.splits json.splits)
  from assms(1) d(1) obtain w where w: "dget ''schema_version'' ?v = Some w" "same (JDict d) w"
    by (auto simp: schema_kept_def members_kept_def)
  from same_is_dict [OF w(2)] obtain e where e: "w = JDict e" by (auto simp: is_dict_def split: json.splits)
  from same_member [OF w(2) [unfolded e] d(2)] have "dget ''const'' e = Some (JStr s)"
    by (auto simp: same_JStr)
  with w(1) e show ?thesis
    by (simp add: const_version_def value_at_def section_of_def)
qed

lemma schemas_kept_compose:
  assumes "schemas_kept R u v" "schemas_kept S v w" "\<And>k x y z. R k x y \<Longrightarrow> S k y z \<Longrightarrow> T k x z"
  shows "schemas_kept T u w"
  using assms unfolding schemas_kept_def by meson

lemma lineage_preserves:
  assumes "lineage u v" and "preserves v w"
  shows "lineage u w"
proof -
  have "schema_kept x z \<or> (\<exists>r. dget k approved_versioned_schema_replacements = Some r \<and> const_version z = JStr (to_version r))"
    if "schema_kept x y \<or> (\<exists>r. dget k approved_versioned_schema_replacements = Some r \<and> const_version y = JStr (to_version r))"
      and "schema_kept y z \<or> schema_replaced k y z" for k x y z
    using that schema_kept_trans const_version_kept unfolding schema_replaced_def by blast
  note step = this
  have "schemas_kept (\<lambda>name s t. schema_kept s t \<or>
      (\<exists>r. dget name approved_versioned_schema_replacements = Some r \<and> const_version t = JStr (to_version r)))
    (section_of ''json_schemas'' u) (section_of ''json_schemas'' w)"
    using assms unfolding lineage_def preserves_def keeps_def
    by (elim conjE) (erule schemas_kept_compose, assumption, rule step)
  with assms show ?thesis unfolding lineage_def preserves_def keeps_def
    using openapi_kept_trans proto_kept_trans by meson
qed

lemma lineage_refl: "lineage v v"
  by (auto simp: lineage_def keeps_def schemas_kept_def schema_kept_def openapi_kept_def proto_kept_def groups_kept_def)

section \<open>Runs\<close>

inductive_cases generator_run_elim: "generator_run existing current refresh file"

definition baseline_of :: "json option \<Rightarrow> json option" where
  "baseline_of file = (case file of None \<Rightarrow> None | Some document \<Rightarrow> jget ''surface'' document)"

lemma baseline_document_simps:
  "jget ''surface'' (JDict (baseline_document r)) = Some (baseline_surface r)"
  "jget ''kind'' (JDict (baseline_document r)) = Some (JStr ''jumpship-contract-compatibility-baseline'')"
  by (simp_all add: baseline_document_def)

definition file_for :: "json \<Rightarrow> json \<Rightarrow> bool" where
  "file_for s document \<longleftrightarrow> is_dict document \<and> jget ''surface'' document = Some s \<and>
     jget ''kind'' document = Some (JStr ''jumpship-contract-compatibility-baseline'')"

lemma file_for_document: "file_for (baseline_surface r) (JDict (baseline_document r))"
  using baseline_document_simps [of r] by (simp add: file_for_def is_dict_def)

lemma render_first: "render_compatibility None current refresh = Inr r \<longleftrightarrow>
    r = \<lparr>baseline_surface = current, compat_status = CompatibleUnchanged, compat_changes = []\<rparr>"
  by (auto simp: render_compatibility_def)

lemma render_existing:
  assumes "file_for s document" and "surface_ok s" and "surface_ok current"
  shows "render_compatibility (Some document) current refresh = Inr r \<longleftrightarrow>
    preserves s current \<and> (\<exists>changes. compare_compatibility s current = Inr (changes, []) \<and>
      r = (if refresh
        then \<lparr>baseline_surface = current, compat_status = CompatibleUnchanged, compat_changes = []\<rparr>
        else \<lparr>baseline_surface = s,
          compat_status = (if changes \<noteq> [] then CompatibleAdditive else CompatibleUnchanged),
          compat_changes = changes\<rparr>))"
proof -
  obtain d where d: "document = JDict d" "dget ''surface'' d = Some s"
      "dget ''kind'' d = Some (JStr ''jumpship-contract-compatibility-baseline'')"
    using assms(1) by (cases document) (auto simp: file_for_def is_dict_def)
  have dict: "is_dict s" using assms(2) by (simp add: surface_ok_def sectioned_def)
  obtain changes broken where c: "compare_compatibility s current = Inr (changes, broken)"
      "broken = [] \<longleftrightarrow> preserves s current"
    using compare_decides [OF assms(2,3)] by (auto simp: decides_def)
  show ?thesis
    using dict c by (auto simp: render_compatibility_def d get_or_none_def)
qed

text \<open>A step of the repository: some run with some well-shaped surface.\<close>

definition run_step :: "json option \<Rightarrow> json option \<Rightarrow> bool" where
  "run_step file file' \<longleftrightarrow> (\<exists>current refresh. surface_ok current \<and> generator_run file current refresh file')"

lemma run_steps_lineage:
  assumes "run_step\<^sup>*\<^sup>* file file'" and "file = Some document" and "file_for s document" and "surface_ok s"
    and "lineage s0 s"
  shows "\<exists>document' s'. file' = Some document' \<and> file_for s' document' \<and> surface_ok s' \<and> lineage s0 s'"
  using assms
proof (induction rule: rtranclp_induct)
  case base
  then show ?case by blast
next
  case (step file' file'')
  then obtain document' s' where f: "file' = Some document'" "file_for s' document'" "surface_ok s'" "lineage s0 s'"
    by blast
  from step.hyps(2) obtain current refresh where
    run: "surface_ok current" "generator_run file' current refresh file''" by (auto simp: run_step_def)
  from run(2) show ?case
  proof (cases rule: generator_run.cases)
    case (accepted r)
    with f run(1) have p: "preserves s' current" "baseline_surface r = current \<or> baseline_surface r = s'"
      by (auto simp: render_existing split: if_splits)
    have "lineage s0 current" using f(4) p(1) by (rule lineage_preserves)
    with p(2) f run(1) have "lineage s0 (baseline_surface r)" "surface_ok (baseline_surface r)" by auto
    with accepted file_for_document [of r] show ?thesis by blast
  next
    case (refused e)
    with f show ?thesis by blast
  qed
qed

section \<open>Properties\<close>

text \<open>
  C5: on well-shaped surfaces the comparison never raises, and it reports nothing breaking exactly when the policy
  holds: every schema keeps its assertions and its properties or is the approved version replacement, every
  operation, component, protobuf number, enum value and method is kept with its value.
\<close>

theorem compatibility_exact:
  assumes "surface_ok baseline" and "surface_ok current"
  shows "\<exists>changes broken. compare_compatibility baseline current = Inr (changes, broken) \<and>
    (broken = [] \<longleftrightarrow> preserves baseline current)"
  using compare_decides [OF assms] by (auto simp: decides_def)

definition sample_surface :: "json dict \<Rightarrow> string \<Rightarrow> json" where
  "sample_surface operations version = JDict
     [(''json_schemas'', JDict [(''contracts/client/customer-incapability-catalog.schema.json'', JDict
        [(''root'', JDict [(''required'', JStr version)]),
         (''properties'', JDict [(''schema_version'', JDict [(''const'', JStr version)])])])]),
      (''openapi'', JDict [(''version'', JStr ''3.1.0''), (''servers'', JList []),
        (''operations'', JDict operations), (''components'', JDict [(''schemas'', JDict [])])]),
      (''protobuf'', JDict [(''syntax'', JStr ''proto3''), (''package'', JStr ''jumpship.cell.v1''),
        (''enums'', JDict []), (''services'', JDict []),
        (''messages'', JDict [(''Ping'', JDict [(''1'', JDict [(''name'', JStr ''id'')])])])])]"

lemma sample_surfaces:
  "surface_ok (sample_surface [] ''1.0.0'')" "surface_ok (sample_surface [(''GET /a'', JDict [])] ''2.0.0'')"
  "surface_ok (sample_surface [(''GET /a'', JDict [])] ''1.0.0'')"
  by code_simp+

theorem compatibility_exact_witness:
  "preserves (sample_surface [] ''1.0.0'') (sample_surface [(''GET /a'', JDict [])] ''2.0.0'') \<and>
    \<not> preserves (sample_surface [(''GET /a'', JDict [])] ''1.0.0'') (sample_surface [] ''1.0.0'')"
proof -
  have "compare_compatibility (sample_surface [] ''1.0.0'') (sample_surface [(''GET /a'', JDict [])] ''2.0.0'') =
      Inr ([''approved versioned replacement of JSON Schema contracts/client/customer-incapability-catalog.schema.json 1.0.0->2.0.0 under P02-CATALOG-RU-HASH-CYCLE'',
        ''added OpenAPI operation GET /a''], [])"
    by code_simp
  moreover have "compare_compatibility (sample_surface [(''GET /a'', JDict [])] ''1.0.0'') (sample_surface [] ''1.0.0'') =
      Inr ([], [''removed OpenAPI operation GET /a''])"
    by code_simp
  ultimately show ?thesis
    using compatibility_exact [OF sample_surfaces(1,2)] compatibility_exact [OF sample_surfaces(3,1)] by auto
qed

text \<open>
  C11: from the run that writes the first baseline on, through any runs, refused or accepted, with or without a
  refreshed baseline, a surface that is accepted still carries the first one: each of its schemas is kept or
  has reached the approved version, everything else is kept.
\<close>

theorem compatibility_history:
  assumes "surface_ok first" and "generator_run None first refresh file" and "run_step\<^sup>*\<^sup>* file file'"
    and "surface_ok current" and "render_compatibility file' current refresh' = Inr r"
  shows "lineage first current"
proof -
  from assms(2) have "\<exists>document. file = Some document \<and> file_for first document"
  proof (cases rule: generator_run.cases)
    case (accepted r)
    with file_for_document [of r] show ?thesis by (auto simp: render_first)
  qed (simp add: render_compatibility_def)
  then obtain document where "file = Some document" "file_for first document" by blast
  from run_steps_lineage [OF assms(3) this assms(1) lineage_refl] obtain document' s where
    f: "file' = Some document'" "file_for s document'" "surface_ok s" "lineage first s" by blast
  with assms(4,5) have "preserves s current" by (simp add: render_existing)
  with f(4) show ?thesis by (rule lineage_preserves)
qed

theorem compatibility_history_witness:
  "lineage (sample_surface [] ''1.0.0'') (sample_surface [(''GET /a'', JDict [])] ''2.0.0'')"
proof -
  let ?a = "sample_surface [] ''1.0.0''" and ?b = "sample_surface [(''GET /a'', JDict [])] ''1.0.0''"
  let ?c = "sample_surface [(''GET /a'', JDict [])] ''2.0.0''"
  let ?file = "\<lambda>s. Some (JDict (baseline_document
    \<lparr>baseline_surface = s, compat_status = CompatibleUnchanged, compat_changes = []\<rparr>))"
  have "generator_run None ?a False (?file ?a)"
    by (rule generator_run.accepted) (simp add: render_first)
  moreover have "generator_run (?file ?a) ?b True (?file ?b)"
  proof (rule generator_run.accepted)
    show "render_compatibility (?file ?a) ?b True =
        Inr \<lparr>baseline_surface = ?b, compat_status = CompatibleUnchanged, compat_changes = []\<rparr>" by code_simp
  qed
  then have "run_step (?file ?a) (?file ?b)"
    using sample_surfaces(3) unfolding run_step_def by blast
  then have "run_step\<^sup>*\<^sup>* (?file ?a) (?file ?b)" by (rule r_into_rtranclp)
  moreover have "is_ok (render_compatibility (?file ?b) ?c False)" by code_simp
  then obtain r where "render_compatibility (?file ?b) ?c False = Inr r" by (auto simp: is_ok_iff)
  ultimately show ?thesis using compatibility_history [OF sample_surfaces(1) _ _ sample_surfaces(2)] by blast
qed

section \<open>A property the surface does not see\<close>

text \<open>
  \<open>_schema_assertions\<close> drops annotation keywords wherever they are a key, hence also a property that is named like
  one: a document whose property \<open>title\<close> changes its type has the same surface.
\<close>

definition titled :: "string \<Rightarrow> json" where
  "titled type = JDict [(''type'', JStr ''object''), (''properties'', JDict [(''title'', JDict [(''type'', JStr type)])])]"

lemma annotation_named_property:
  "schema_surface (titled ''string'') = schema_surface (titled ''integer'') \<and> titled ''string'' \<noteq> titled ''integer''"
  by (simp add: titled_def schema_surface_def assertion_key_def schema_annotations_def)

end
