(* ===== verification/Topological_Sort.thy ===== *)
theory Topological_Sort
  imports Prelude
begin

text \<open>
  The topological sort at the end of \<open>validate_graph\<close> (scripts/packets/packet_contract.py): Kahn's
  algorithm with in-degree counters and a ready list kept in the order of the document. A graph is the
  list of its nodes, each with its dependencies. The reference definition \<open>greedy\<close> has no counters: it
  takes, again and again, the first node of the document all of whose dependencies are taken.
\<close>

type_synonym 'a depgraph = "('a \<times> 'a list) list"

section \<open>The algorithm\<close>

definition nodes_of :: "'a depgraph \<Rightarrow> 'a list" where
  "nodes_of G = map fst G"

definition deps :: "'a depgraph \<Rightarrow> 'a \<Rightarrow> 'a list" where
  "deps G v = (case dget v G of None \<Rightarrow> [] | Some ds \<Rightarrow> ds)"

text \<open>The counters after the two nested loops, and the consumers of a node in document order.\<close>

definition indegrees :: "'a depgraph \<Rightarrow> ('a \<times> int) list" where
  "indegrees G = map (\<lambda>(v, ds). (v, int (length ds))) G"

definition consumers :: "'a depgraph \<Rightarrow> 'a \<Rightarrow> 'a list" where
  "consumers G d = concat (map (\<lambda>(v, ds). map (\<lambda>_. v) (filter (\<lambda>x. x = d) ds)) G)"

definition order_index :: "'a depgraph \<Rightarrow> 'a \<Rightarrow> nat" where
  "order_index G v = length (takeWhile (\<lambda>u. u \<noteq> v) (nodes_of G))"

text \<open>\<open>indegree[v]\<close>; every \<open>v\<close> it is asked for is a node, hence a key.\<close>

definition degree :: "('a \<times> int) list \<Rightarrow> 'a \<Rightarrow> int" where
  "degree deg v = (case dget v deg of None \<Rightarrow> 0 | Some n \<Rightarrow> n)"

text \<open>The body of the inner loop: one dependency of \<open>consumer\<close> is met.\<close>

definition release ::
  "'a depgraph \<Rightarrow> ('a \<times> int) list \<times> 'a list \<Rightarrow> 'a \<Rightarrow> ('a \<times> int) list \<times> 'a list" where
  "release G st consumer = (case st of (deg, ready) \<Rightarrow>
     let n = degree deg consumer - 1; deg' = dset consumer n deg
     in if n = 0 then (deg', sort_key (order_index G) (ready @ [consumer])) else (deg', ready))"

text \<open>\<open>while ready\<close>: the fuel bounds the number of rounds, \<open>None\<close> would be running out of it.\<close>

fun kahn_loop ::
  "'a depgraph \<Rightarrow> nat \<Rightarrow> ('a \<times> int) list \<Rightarrow> 'a list \<Rightarrow> 'a list \<Rightarrow> (('a \<times> int) list \<times> 'a list) option" where
  "kahn_loop G n deg [] order = Some (deg, order)"
| "kahn_loop G 0 deg (v # ready) order = None"
| "kahn_loop G (Suc n) deg (v # ready) order =
     (case foldl (release G) (deg, ready) (sort_key (order_index G) (consumers G v)) of
        (deg', ready') \<Rightarrow> kahn_loop G n deg' ready' (order @ [v]))"

definition kahn :: "'a depgraph \<Rightarrow> (('a \<times> int) list \<times> 'a list) option" where
  "kahn G = kahn_loop G (length G) (indegrees G)
     (sort_key (order_index G) (map fst (filter (\<lambda>(v, n). n = 0) (indegrees G)))) []"

section \<open>The reference definition\<close>

definition eligible :: "'a depgraph \<Rightarrow> 'a list \<Rightarrow> 'a list" where
  "eligible G order = filter (\<lambda>v. v \<notin> set order \<and> set (deps G v) \<subseteq> set order) (nodes_of G)"

fun greedy :: "'a depgraph \<Rightarrow> nat \<Rightarrow> 'a list \<Rightarrow> 'a list" where
  "greedy G 0 order = order"
| "greedy G (Suc n) order =
     (case eligible G order of [] \<Rightarrow> order | v # _ \<Rightarrow> greedy G n (order @ [v]))"

text \<open>What the sort promises: every node after its dependencies.\<close>

definition well_ordered :: "'a depgraph \<Rightarrow> 'a list \<Rightarrow> bool" where
  "well_ordered G order = list_all (\<lambda>i. set (deps G (order ! i)) \<subseteq> set (take i order)) [0..<length order]"

definition depends :: "'a depgraph \<Rightarrow> ('a \<times> 'a) set" where
  "depends G = {(v, d). d \<in> set (deps G v)}"

section \<open>The contract of a graph\<close>

locale dependency_graph =
  fixes G :: "'a depgraph"
  assumes distinct_nodes: "distinct (nodes_of G)"
    and distinct_deps: "(v, ds) \<in> set G \<Longrightarrow> distinct ds"
    and known_deps: "(v, ds) \<in> set G \<Longrightarrow> set ds \<subseteq> set (nodes_of G)"
begin

lemma deps_node: "(v, ds) \<in> set G \<Longrightarrow> deps G v = ds"
  using distinct_nodes by (simp add: deps_def nodes_of_def dget_distinct_mem dkeys_def)

lemma node_deps: "v \<in> set (nodes_of G) \<longleftrightarrow> (v, deps G v) \<in> set G"
proof
  assume "v \<in> set (nodes_of G)"
  then obtain ds where "(v, ds) \<in> set G" by (auto simp: nodes_of_def)
  with deps_node [OF this] show "(v, deps G v) \<in> set G" by simp
next
  assume "(v, deps G v) \<in> set G"
  from imageI [OF this, of fst] show "v \<in> set (nodes_of G)" by (simp add: nodes_of_def)
qed

lemma deps_outside: "v \<notin> set (nodes_of G) \<Longrightarrow> deps G v = []"
  by (simp add: deps_def nodes_of_def dget_map_of map_of_eq_None_iff split: option.split)
    (simp add: map_of_eq_None_iff [symmetric])

lemma deps_distinct: "distinct (deps G v)"
  using distinct_deps [of v] node_deps [of v] deps_outside [of v]
  by (cases "v \<in> set (nodes_of G)") simp_all

lemma deps_known: "set (deps G v) \<subseteq> set (nodes_of G)"
  using known_deps [of v] node_deps [of v] deps_outside [of v]
  by (cases "v \<in> set (nodes_of G)") simp_all

lemma nth_takeWhile_length: "v \<in> set xs \<Longrightarrow> xs ! length (takeWhile (\<lambda>u. u \<noteq> v) xs) = v"
  by (induction xs) auto

lemma takeWhile_length_less: "v \<in> set xs \<Longrightarrow> length (takeWhile (\<lambda>u. u \<noteq> v) xs) < length xs"
  by (induction xs) auto

lemma order_index_inj: "inj_on (order_index G) (set (nodes_of G))"
  unfolding order_index_def by (rule inj_onI) (metis nth_takeWhile_length)

lemma consumers_iff: "set (consumers G v) = {c. v \<in> set (deps G c)}"
proof -
  have "c \<in> set (consumers G v) \<longleftrightarrow> (\<exists>ds. (c, ds) \<in> set G \<and> v \<in> set ds)" for c
    by (auto simp: consumers_def)
  then show ?thesis
    using deps_node node_deps deps_outside by (auto, fastforce)
qed

lemma consumers_distinct: "distinct (consumers G v)"
proof -
  have "distinct (concat (map (\<lambda>(v, ds). map (\<lambda>_. v) (filter (\<lambda>x. x = d) ds)) H))"
    if "distinct (map fst H)" "\<forall>(v, ds) \<in> set H. distinct ds" for H :: "'a depgraph" and d
    using that
  proof (induction H)
    case (Cons p H)
    obtain v ds where p: "p = (v, ds)" by (cases p)
    have "distinct ds" using Cons.prems(2) by (simp add: p)
    then have "filter (\<lambda>x. x = d) ds = (if d \<in> set ds then [d] else [])"
      by (induction ds) (auto simp: filter_empty_conv)
    moreover have "v \<notin> set (concat (map (\<lambda>(v, ds). map (\<lambda>_. v) (filter (\<lambda>x. x = d) ds)) H))"
      using Cons.prems(1) by (force simp: p)
    ultimately show ?case using Cons by (simp add: p)
  qed simp
  then show ?thesis
    using distinct_nodes distinct_deps unfolding consumers_def nodes_of_def by fastforce
qed

section \<open>One round\<close>

text \<open>The counter of every node is the number of its unmet dependencies.\<close>

definition counts :: "'a list \<Rightarrow> ('a \<times> int) list \<Rightarrow> bool" where
  "counts order deg = (map fst deg = nodes_of G \<and> (\<forall>v \<in> set (nodes_of G).
     degree deg v = int (length (filter (\<lambda>d. d \<notin> set order) (deps G v)))))"

lemma degree_dset: "degree (dset v n deg) w = (if w = v then n else degree deg w)"
  by (simp add: degree_def)

lemma keys_dset: "k \<in> fst ` set d \<Longrightarrow> map fst (dset k v d) = map fst d"
  by (induction k v d rule: dset.induct) auto

lemma release_keys:
  "foldl (release G) (deg, ready) cs = (deg', ready') \<Longrightarrow> set cs \<subseteq> fst ` set deg \<Longrightarrow>
    map fst deg' = map fst deg"
proof (induction cs arbitrary: deg ready)
  case (Cons c cs)
  define deg1 where "deg1 = dset c (degree deg c - 1) deg"
  have keys: "map fst deg1 = map fst deg" using Cons.prems(2) by (simp add: deg1_def keys_dset)
  obtain ready1 where "release G (deg, ready) c = (deg1, ready1)"
    by (cases "degree deg c = 1") (simp_all add: release_def Let_def deg1_def)
  moreover have "set cs \<subseteq> fst ` set deg1"
    using Cons.prems(2) arg_cong [OF keys, of set] by simp
  ultimately show ?case using Cons.IH [of deg1 ready1] Cons.prems(1) keys by simp
qed simp

lemma release_all:
  assumes "foldl (release G) (deg, ready) cs = (deg', ready')" "distinct cs"
    "sorted (map (order_index G) ready)" "distinct ready" "set cs \<inter> set ready = {}"
  shows "(\<forall>w. degree deg' w = degree deg w - (if w \<in> set cs then 1 else 0)) \<and>
    sorted (map (order_index G) ready') \<and> distinct ready' \<and>
    set ready' = set ready \<union> {c \<in> set cs. degree deg c = 1}"
  using assms
proof (induction cs arbitrary: deg ready)
  case (Cons c cs)
  define ready1 where
    "ready1 = (if degree deg c = 1 then sort_key (order_index G) (ready @ [c]) else ready)"
  have step: "release G (deg, ready) c = (dset c (degree deg c - 1) deg, ready1)"
    by (simp add: release_def ready1_def Let_def)
  have ready1: "sorted (map (order_index G) ready1)" "distinct ready1" "set cs \<inter> set ready1 = {}"
    "set ready1 = set ready \<union> (if degree deg c = 1 then {c} else {})"
    using Cons.prems by (auto simp: ready1_def)
  have prems: "foldl (release G) (dset c (degree deg c - 1) deg, ready1) cs = (deg', ready')"
      "distinct cs" "c \<notin> set cs"
    using Cons.prems step by simp_all
  from Cons.IH [OF prems(1,2) ready1(1-3)] ready1(4) prems(3) show ?case
    by (auto simp: degree_dset)
qed simp_all

lemma nodes_sorted: "sorted (map (order_index G) (nodes_of G))"
proof -
  have "length (takeWhile (\<lambda>u. u \<noteq> xs ! i) xs) = i" if "distinct xs" "i < length xs" for xs :: "'a list" and i
    using takeWhile_eq_take_P_nth [of i xs "\<lambda>u. u \<noteq> xs ! i"] that by (auto simp: nth_eq_iff_index_eq)
  then have "map (order_index G) (nodes_of G) = [0..<length (nodes_of G)]"
    using distinct_nodes by (intro nth_equalityI) (simp_all add: order_index_def)
  then show ?thesis by simp
qed

lemma eligible_props:
  "sorted (map (order_index G) (eligible G order))" "distinct (eligible G order)"
  "set (eligible G order) \<subseteq> set (nodes_of G)"
  using nodes_sorted distinct_nodes by (auto simp: eligible_def sorted_filter)

lemma eligible_hd:
  assumes "eligible G order = v # ready"
  shows "v \<in> set (nodes_of G)" "v \<notin> set order" "set (deps G v) \<subseteq> set order"
proof -
  have "v \<in> set (eligible G order)" by (simp add: assms)
  then show "v \<in> set (nodes_of G)" "v \<notin> set order" "set (deps G v) \<subseteq> set order"
    by (auto simp: eligible_def)
qed

lemma ready_unique:
  assumes "sorted (map (order_index G) xs)" "distinct xs" "set xs = set (eligible G order)"
  shows "xs = eligible G order"
proof (rule map_sorted_distinct_set_unique [of "order_index G"])
  have inj: "inj_on (order_index G) (set (eligible G order))"
    using order_index_inj eligible_props(3) by (rule inj_on_subset)
  then show "inj_on (order_index G) (set xs \<union> set (eligible G order))" using assms(3) by simp
  show "distinct (map (order_index G) xs)" "distinct (map (order_index G) (eligible G order))"
    using inj assms(2,3) eligible_props(2) by (simp_all add: distinct_map)
qed (use assms eligible_props in simp_all)

text \<open>A node that is taken has its dependencies taken.\<close>

definition closed :: "'a list \<Rightarrow> bool" where
  "closed order = (\<forall>v \<in> set order. v \<in> set (nodes_of G) \<and> set (deps G v) \<subseteq> set order)"

lemma one_unmet:
  assumes "v \<in> set (deps G c)" "v \<notin> set order"
  shows "length (filter (\<lambda>d. d \<notin> set order) (deps G c)) = 1 \<longleftrightarrow> set (deps G c) \<subseteq> insert v (set order)"
proof -
  let ?U = "filter (\<lambda>d. d \<notin> set order) (deps G c)"
  have U: "distinct ?U" "v \<in> set ?U" using deps_distinct assms by simp_all
  have "length ?U = 1 \<longleftrightarrow> set ?U = {v}"
    unfolding distinct_card [OF U(1), symmetric] card_1_singleton_iff One_nat_def
    using U(2) by (auto simp del: set_filter)
  then show ?thesis using assms by auto
qed

lemma met_count:
  assumes "v \<notin> set order"
  shows "length (filter (\<lambda>d. d \<notin> set (order @ [v])) (deps G c)) =
    length (filter (\<lambda>d. d \<notin> set order) (deps G c)) - (if v \<in> set (deps G c) then 1 else 0)"
proof -
  have "filter (\<lambda>d. d \<notin> set (order @ [v])) (deps G c) = removeAll v (filter (\<lambda>d. d \<notin> set order) (deps G c))"
    by (simp add: removeAll_filter_not_eq conj_commute eq_commute)
  then show ?thesis
    using assms deps_distinct [of c] by (simp add: distinct_remove1_removeAll [symmetric] length_remove1)
qed

lemma round:
  assumes deg: "counts order deg" and closed: "closed order" and ready: "eligible G order = v # ready"
    and body: "foldl (release G) (deg, ready) (sort_key (order_index G) (consumers G v)) = (deg', ready')"
  shows "counts (order @ [v]) deg'" "closed (order @ [v])" "ready' = eligible G (order @ [v])"
proof -
  note v = eligible_hd [OF ready]
  have rest: "sorted (map (order_index G) ready)" "distinct ready"
      "set ready = set (eligible G order) - {v}"
    using eligible_props [of order] by (auto simp: ready)
  have waiting: "c \<notin> set order \<and> c \<noteq> v \<and> c \<in> set (nodes_of G)" if "v \<in> set (deps G c)" for c
    using that v closed deps_outside [of c] by (cases "c \<in> set (nodes_of G)") (auto simp: closed_def)
  have disjoint: "set (consumers G v) \<inter> set ready = {}"
    using v(2) by (auto simp: consumers_iff rest(3) eligible_def)
  from release_all [OF body] rest(1,2) disjoint consumers_distinct
  have fold: "degree deg' w = degree deg w - (if v \<in> set (deps G w) then 1 else 0)"
      "sorted (map (order_index G) ready')" "distinct ready'"
      "set ready' = set ready \<union> {c. v \<in> set (deps G c) \<and> degree deg c = 1}" for w
    by (auto simp: consumers_iff)
  have unmet: "0 < length (filter (\<lambda>d. d \<notin> set order) (deps G c))" if "v \<in> set (deps G c)" for c
    using that v(2) by (auto simp: filter_empty_conv)
  have "set (sort_key (order_index G) (consumers G v)) \<subseteq> fst ` set deg"
    using deg waiting by (auto simp: counts_def consumers_iff simp flip: set_map)
  from release_keys [OF body this] have "map fst deg' = nodes_of G" using deg by (simp add: counts_def)
  then show "counts (order @ [v]) deg'"
    using deg fold(1) unmet unfolding counts_def met_count [OF v(2)] by (auto simp: of_nat_diff Suc_leI)
  show "closed (order @ [v])" using closed v by (auto simp: closed_def)
  have one: "degree deg c = 1 \<longleftrightarrow> set (deps G c) \<subseteq> insert v (set order)" if "v \<in> set (deps G c)" for c
    using one_unmet [OF that v(2)] deg waiting [OF that] by (auto simp: counts_def)
  have "set ready' = set (eligible G (order @ [v]))"
    unfolding fold(4) rest(3) using one waiting by (auto simp: eligible_def)
  with fold(2,3) show "ready' = eligible G (order @ [v])" by (intro ready_unique)
qed

section \<open>The whole loop\<close>

lemma loop_greedy:
  assumes "counts order deg" "closed order" "distinct order" "length (nodes_of G) \<le> n + length order"
  shows "\<exists>deg'. kahn_loop G n deg (eligible G order) order = Some (deg', greedy G n order) \<and>
    counts (greedy G n order) deg' \<and> closed (greedy G n order) \<and> distinct (greedy G n order) \<and>
    eligible G (greedy G n order) = []"
  using assms
proof (induction n arbitrary: order deg)
  case 0
  have sub: "set order \<subseteq> set (nodes_of G)" using 0(2) by (auto simp: closed_def)
  have "card (set (nodes_of G)) \<le> card (set order)"
    using 0(3,4) distinct_nodes by (simp add: distinct_card)
  with sub have "set order = set (nodes_of G)" by (simp add: card_seteq)
  then have "eligible G order = []" by (auto simp: eligible_def filter_empty_conv)
  with 0 show ?case by simp
next
  case (Suc n)
  show ?case
  proof (cases "eligible G order")
    case Nil
    with Suc.prems show ?thesis by simp
  next
    case (Cons v ready)
    obtain deg' ready' where
      body: "foldl (release G) (deg, ready) (sort_key (order_index G) (consumers G v)) = (deg', ready')"
      by (cases "foldl (release G) (deg, ready) (sort_key (order_index G) (consumers G v))")
    from Suc.IH [OF round(1,2) [OF Suc.prems(1,2) Cons body]] Suc.prems(3,4)
      eligible_hd(2) [OF Cons] show ?thesis
      by (simp add: Cons body flip: round(3) [OF Suc.prems(1,2) Cons body])
  qed
qed

lemma initial_ready:
  "sort_key (order_index G) (map fst (filter (\<lambda>(v, n). n = 0) (indegrees G))) = eligible G []"
proof (rule ready_unique)
  have fst: "map fst (filter (\<lambda>(v, n). n = 0) (indegrees G)) = map fst (filter (\<lambda>(v, ds). ds = []) G)"
    by (simp add: indegrees_def filter_map comp_def case_prod_unfold)
  show "distinct (sort_key (order_index G) (map fst (filter (\<lambda>(v, n). n = 0) (indegrees G))))"
    unfolding fst using distinct_nodes by (simp add: nodes_of_def distinct_map_filter)
  show "set (sort_key (order_index G) (map fst (filter (\<lambda>(v, n). n = 0) (indegrees G)))) = set (eligible G [])"
    unfolding fst using deps_node by (force simp: eligible_def nodes_of_def)
qed simp

lemma initial_counts: "counts [] (indegrees G)"
proof -
  have "degree (indegrees G) v = int (length (deps G v))" if "v \<in> set (nodes_of G)" for v
    unfolding degree_def deps_def indegrees_def dget_map_snd by (cases "dget v G") simp_all
  then show ?thesis by (simp add: counts_def indegrees_def nodes_of_def comp_def case_prod_unfold)
qed

lemma kahn_greedy:
  "\<exists>deg. kahn G = Some (deg, greedy G (length G) []) \<and> counts (greedy G (length G) []) deg \<and>
    closed (greedy G (length G) []) \<and> distinct (greedy G (length G) []) \<and>
    eligible G (greedy G (length G) []) = []"
  unfolding kahn_def initial_ready
  by (rule loop_greedy) (simp_all add: initial_counts closed_def nodes_of_def)

lemma greedy_ordered: "well_ordered G order \<Longrightarrow> well_ordered G (greedy G n order)"
proof (induction n arbitrary: order)
  case (Suc n)
  show ?case
  proof (cases "eligible G order")
    case (Cons v ready)
    from eligible_hd(3) [OF this] Suc.prems have "well_ordered G (order @ [v])"
      by (auto simp: well_ordered_def nth_append list_all_iff)
    with Suc.IH show ?thesis by (simp add: Cons)
  qed (use Suc.prems in simp)
qed simp

lemma complete_acyclic:
  assumes "well_ordered G order" "distinct order" "set order = set (nodes_of G)"
  shows "acyclic (depends G)"
proof -
  define pos where "pos v = length (takeWhile (\<lambda>u. u \<noteq> v) order)" for v
  have before: "pos d < pos v" if "(v, d) \<in> depends G" for v d
  proof -
    have dep: "d \<in> set (deps G v)" using that by (simp add: depends_def)
    then have mem: "v \<in> set order"
      using deps_outside [of v] unfolding assms(3) by (cases "v \<in> set (nodes_of G)") simp_all
    have v: "order ! pos v = v" "pos v < length order"
      unfolding pos_def by (rule nth_takeWhile_length [OF mem], rule takeWhile_length_less [OF mem])
    have "set (deps G (order ! pos v)) \<subseteq> set (take (pos v) order)"
      using assms(1) v(2) by (simp add: well_ordered_def list_all_iff)
    with dep have "d \<in> set (take (pos v) order)" by (auto simp: v(1))
    then obtain i where "i < pos v" "order ! i = d"
      using v(2) by (auto simp: in_set_conv_nth)
    moreover have "pos d \<le> i"
    proof (rule ccontr)
      assume "\<not> pos d \<le> i"
      then have "i < length (takeWhile (\<lambda>u. u \<noteq> d) order)" by (simp add: pos_def)
      then have "takeWhile (\<lambda>u. u \<noteq> d) order ! i \<in> set (takeWhile (\<lambda>u. u \<noteq> d) order)"
          "takeWhile (\<lambda>u. u \<noteq> d) order ! i = order ! i"
        by (rule nth_mem, rule takeWhile_nth)
      then have "order ! i \<noteq> d" using set_takeWhileD by metis
      with \<open>order ! i = d\<close> show False by simp
    qed
    ultimately show ?thesis by simp
  qed
  then have "(depends G)\<inverse> \<subseteq> measure pos" by auto
  then have "wf ((depends G)\<inverse>)" by (rule wf_subset [OF wf_measure])
  then show ?thesis using wf_acyclic by fastforce
qed

lemma acyclic_complete:
  assumes "acyclic (depends G)" "eligible G order = []"
  shows "set (nodes_of G) \<subseteq> set order"
proof (rule ccontr)
  assume "\<not> ?thesis"
  then obtain u where u: "u \<in> set (nodes_of G) - set order" by blast
  have "depends G \<subseteq> set (nodes_of G) \<times> set (nodes_of G)"
    using deps_known deps_outside by (fastforce simp: depends_def)
  then have "finite (depends G)" by (rule finite_subset) simp
  then have "wf ((depends G)\<inverse>)" using assms(1) by (rule finite_acyclic_wf_converse)
  from wfE_min [OF this u] obtain v where
    v: "v \<in> set (nodes_of G) - set order" "\<And>y. (y, v) \<in> (depends G)\<inverse> \<Longrightarrow> y \<notin> set (nodes_of G) - set order"
    by blast
  then have "set (deps G v) \<subseteq> set order" using deps_known by (auto simp: depends_def)
  with v(1) have "v \<in> set (eligible G order)" by (simp add: eligible_def)
  with assms(2) show False by simp
qed

lemma sort_result:
  obtains deg order where "kahn G = Some (deg, order)" "order = greedy G (length G) []" "distinct order"
    "well_ordered G order" "set order \<subseteq> set (nodes_of G)"
    "set order = set (nodes_of G) \<longleftrightarrow> acyclic (depends G)"
    "map fst (filter (\<lambda>(v, n). n \<noteq> 0) deg) = filter (\<lambda>v. v \<notin> set order) (nodes_of G)"
    "eligible G order = []"
proof -
  let ?o = "greedy G (length G) []"
  obtain deg where deg: "kahn G = Some (deg, ?o)" "counts ?o deg" "closed ?o" "distinct ?o" "eligible G ?o = []"
    using kahn_greedy by blast
  have ordered: "well_ordered G ?o" by (rule greedy_ordered) (simp add: well_ordered_def)
  have known: "set ?o \<subseteq> set (nodes_of G)" using deg(3) by (auto simp: closed_def)
  have complete: "set ?o = set (nodes_of G) \<longleftrightarrow> acyclic (depends G)"
    using complete_acyclic [OF ordered deg(4)] acyclic_complete [OF _ deg(5)] known by blast
  have degree: "degree deg v = 0 \<longleftrightarrow> v \<in> set ?o" if "v \<in> set (nodes_of G)" for v
  proof -
    have "degree deg v = 0 \<longleftrightarrow> set (deps G v) \<subseteq> set ?o"
      using deg(2) that by (auto simp: counts_def filter_empty_conv)
    moreover have "set (deps G v) \<subseteq> set ?o \<Longrightarrow> v \<in> set ?o"
      using deg(5) that by (auto simp: eligible_def filter_empty_conv)
    ultimately show ?thesis using deg(3) by (auto simp: closed_def)
  qed
  have keys: "map fst deg = nodes_of G" using deg(2) by (simp add: counts_def)
  have zero: "n = 0 \<longleftrightarrow> v \<in> set ?o" if "(v, n) \<in> set deg" for v n
  proof -
    have "dget v deg = Some n"
      using that distinct_nodes unfolding keys [symmetric] by (simp add: dget_distinct_mem dkeys_def)
    moreover have "v \<in> set (nodes_of G)" using that unfolding keys [symmetric] by force
    ultimately show ?thesis using degree [of v] by (simp add: degree_def)
  qed
  have "filter (\<lambda>(v, n). n \<noteq> 0) deg = filter (\<lambda>p. fst p \<notin> set ?o) deg"
    by (intro filter_cong refl) (use zero in \<open>simp add: case_prod_unfold\<close>)
  then have "map fst (filter (\<lambda>(v, n). n \<noteq> 0) deg) = filter (\<lambda>v. v \<notin> set ?o) (nodes_of G)"
    by (simp add: keys [symmetric] filter_map comp_def)
  with complete show thesis using that deg(1,4,5) ordered known by blast
qed

end

section \<open>The sort of a well-formed graph\<close>

definition graph_ok :: "'a depgraph \<Rightarrow> bool" where
  "graph_ok G = (distinct (nodes_of G) \<and>
     list_all (\<lambda>(v, ds). distinct ds \<and> list_all (\<lambda>d. d \<in> set (nodes_of G)) ds) G)"

lemma graph_okI: "graph_ok G \<Longrightarrow> dependency_graph G"
  by unfold_locales (auto simp: graph_ok_def list_all_iff)

lemmas kahn_result = dependency_graph.sort_result [OF graph_okI]

end
