(* ===== verification/Packet_Graph.thy ===== *)
theory Packet_Graph
  imports Topological_Sort Contract_Model
begin

text \<open>
  The packet graph of scripts/packets/packet_contract.py: \<open>expand_dependencies\<close> and
  \<open>validate_graph\<close>. \<open>_fail\<close> raises \<open>ContractError\<close>; the model keeps which statement raised (and the
  packets a cycle error names) instead of the text. A membership test of a JSON array or object in a Python set
  raises \<open>TypeError\<close>, since they are not hashable.
\<close>

section \<open>Errors\<close>

datatype packet_reason =
    BadVersion | BadDocumentKind | NodesNotArray | NodeNotObject | DuplicateNodes | NodeSetMismatch
  | BadNodeKind | BadNodeOwner | BadLifecycle | NotStringArray | ReversedRange | RangeTooHigh
  | JoinInRange | BadExpression | UnknownDependency | DuplicateDependency | SelfDependency
  | RepeatedDependency | BadJoin13 | BadJoin19 | Cycle "string list"
    \<comment> \<open>of the command contract\<close>
  | BadSelectorKeys | GroupsNotArray | GroupNotObject | GroupOwner | GroupKind | GroupTargets
  | TargetName | TargetDescription | DuplicateTargets | SelectorsNotArray | SelectorNotObject
  | SelectorTarget | SelectorKey | SelectorValue | SelectorOwner | DuplicateSelector | HookRefs
  | HooksNotArray | HookNotObject | HookDispatcher | HookNotDispatcher | HookKey | HookSelector
  | HookOwner | HookLifecycle | HookDependencies | DuplicateHook | HookTarget | DuplicateHookTarget
  | UnknownHook | HookReferencedTwice | HookOfOtherTarget | CompositeOwner | HookUnregistered
  | SelectorOwnership | AdaptersNotArray | AdapterNotObject | AdapterTarget | DuplicateInternal
  | AdapterPublicTarget | AdapterOwner

datatype packet_error = ContractError packet_reason | UnhashableType

abbreviation fail_if :: "bool \<Rightarrow> packet_reason \<Rightarrow> packet_error check" where
  "fail_if b r \<equiv> raise_if b (ContractError r)"

text \<open>\<open>raw.get(key)\<close>: an absent key reads as \<open>None\<close>, the value of JSON's null.\<close>

definition get_or_null :: "string \<Rightarrow> json dict \<Rightarrow> json" where
  "get_or_null k d = (case dget k d of None \<Rightarrow> JNull | Some v \<Rightarrow> v)"

definition hashable :: "json \<Rightarrow> bool" where
  "hashable v = (case v of JList _ \<Rightarrow> False | JDict _ \<Rightarrow> False | _ \<Rightarrow> True)"

text \<open>\<open>if value not in names: _fail(...)\<close> for a set or dictionary of strings.\<close>

definition require_member :: "json \<Rightarrow> string list \<Rightarrow> packet_reason \<Rightarrow> packet_error check" where
  "require_member v names r =
     checks [raise_if (\<not> hashable v) UnhashableType, fail_if (v \<notin> JStr ` set names) r]"

section \<open>Identifiers\<close>

text \<open>\<open>f"P{number:02d}"\<close>\<close>

definition packet_id :: "nat \<Rightarrow> string" where
  "packet_id n = ''P'' @ (if n < 10 then ''0'' else []) @ show_nat n"

definition expected_node_ids :: "string list" where
  "expected_node_ids = map packet_id [0..<29] @ [''J13'', ''J19'']"

definition expected_join_owners :: "(string \<times> string) list" where
  "expected_join_owners = [(''J13'', ''P13''), (''J19'', ''P19'')]"

definition lifecycles :: "string list" where
  "lifecycles = [''planned'', ''present'', ''active'']"

text \<open>
  \<open>RANGE_RE.fullmatch(s)\<close>, \<open>^(P\d{2})\.\.(P\d{2})$\<close>, with \<open>int(token[1:])\<close> of both groups; a full match
  leaves nothing after the second group. \<open>\d\<close> of a code point below U+0100 is an ASCII digit.
\<close>

definition range_match :: "string \<Rightarrow> (nat \<times> nat) option" where
  "range_match s =
     (if length s = 8 \<and> s ! 0 = CHR ''P'' \<and> is_digit (s ! 1) \<and> is_digit (s ! 2) \<and>
         s ! 3 = CHR ''.'' \<and> s ! 4 = CHR ''.'' \<and> s ! 5 = CHR ''P'' \<and> is_digit (s ! 6) \<and> is_digit (s ! 7)
      then Some (digits_value [s ! 1, s ! 2], digits_value [s ! 6, s ! 7]) else None)"

definition node_pattern :: string where
  "node_pattern = ''^(?:P(?:0[0-9]|1[0-9]|2[0-8])|J(?:13|19))$''"

text \<open>\<open>NODE_RE.fullmatch(s) is not None\<close>, as the names it matches (\<open>node_match_pattern\<close> below).\<close>

definition node_match :: "string \<Rightarrow> bool" where
  "node_match s =
     (length s = 3 \<and>
      ((s ! 0 = CHR ''P'' \<and>
          ((s ! 1 = CHR ''0'' \<or> s ! 1 = CHR ''1'') \<and> is_digit (s ! 2) \<or>
           s ! 1 = CHR ''2'' \<and> CHR ''0'' \<le> s ! 2 \<and> s ! 2 \<le> CHR ''8'')) \<or>
       s \<in> {''J13'', ''J19''}))"

text \<open>\<open>needle in s\<close> for strings.\<close>

definition contains_str :: "string \<Rightarrow> string \<Rightarrow> bool" where
  "contains_str s needle = list_ex (\<lambda>i. starts_with (drop i s) needle) [0..<Suc (length s)]"

section \<open>Dependencies\<close>

definition string_list :: "json \<Rightarrow> packet_error + string list" where
  "string_list v = (case str_list v of None \<Rightarrow> Inl (ContractError NotStringArray) | Some ss \<Rightarrow> Inr ss)"

text \<open>The identifiers of one expression.\<close>

definition expand_expression :: "string \<Rightarrow> packet_error + string list" where
  "expand_expression expression =
     (case range_match expression of
        Some (start, end_) \<Rightarrow>
          if end_ < start then Inl (ContractError ReversedRange)
          else if 28 < end_ then Inl (ContractError RangeTooHigh)
          else Inr (map packet_id [start..<Suc end_])
      | None \<Rightarrow>
          if contains_str expression ''..'' \<or>
             starts_with expression ''J'' \<and> list_ex (\<lambda>c. c = CHR ''.'' \<or> c = CHR ''-'') expression
          then Inl (ContractError JoinInRange)
          else if \<not> node_match expression then Inl (ContractError BadExpression)
          else Inr [expression])"

text \<open>The inner loop: \<open>seen\<close> holds the same identifiers as \<open>expanded\<close>, so one list is kept.\<close>

definition add_dependency :: "string list \<Rightarrow> string list \<Rightarrow> string \<Rightarrow> packet_error + string list" where
  "add_dependency known expanded v =
     (if v \<notin> set known then Inl (ContractError UnknownDependency)
      else if v \<in> set expanded then Inl (ContractError DuplicateDependency)
      else Inr (expanded @ [v]))"

definition add_expression :: "string list \<Rightarrow> string list \<Rightarrow> string \<Rightarrow> packet_error + string list" where
  "add_expression known expanded expression =
     bindE (expand_expression expression) (foldE (add_dependency known) expanded)"

definition expand_dependencies :: "json \<Rightarrow> string list \<Rightarrow> packet_error + string list" where
  "expand_dependencies expressions known =
     bindE (string_list expressions) (foldE (add_expression known) [])"

section \<open>The graph document\<close>

record graph_node =
  g_id :: string
  g_kind :: string
  g_owner :: string
  g_lifecycle :: string
  g_start :: "string list"
  g_completion :: "string list"

definition node_id_of :: "json \<Rightarrow> packet_error + string" where
  "node_id_of raw =
     (case jget ''id'' raw of Some (JStr s) \<Rightarrow> Inr s | _ \<Rightarrow> Inl (ContractError NodeNotObject))"

text \<open>The members of a node that has passed \<open>node_id_of\<close>, hence is an object.\<close>

definition members_of :: "json \<Rightarrow> json dict" where
  "members_of raw = (case raw of JDict d \<Rightarrow> d | _ \<Rightarrow> [])"

definition expected_kind :: "string \<Rightarrow> string" where
  "expected_kind node_id = (if starts_with node_id ''J'' then ''join'' else ''packet'')"

definition expected_owner :: "string \<Rightarrow> string" where
  "expected_owner node_id =
     (case dget node_id expected_join_owners of None \<Rightarrow> node_id | Some owner \<Rightarrow> owner)"

definition read_node :: "string list \<Rightarrow> string \<Rightarrow> json \<Rightarrow> packet_error + graph_node" where
  "read_node ids node_id raw_node =
     (let raw = members_of raw_node; lifecycle = get_or_null ''lifecycle'' raw in
      bindE (fail_if (get_or_null ''kind'' raw \<noteq> JStr (expected_kind node_id)) BadNodeKind) (\<lambda>_.
      bindE (fail_if (get_or_null ''owner'' raw \<noteq> JStr (expected_owner node_id)) BadNodeOwner) (\<lambda>_.
      bindE (require_member lifecycle lifecycles BadLifecycle) (\<lambda>_.
      bindE (expand_dependencies (get_or_null ''start_requires'' raw) ids) (\<lambda>start.
      bindE (expand_dependencies (get_or_null ''completion_requires'' raw) ids) (\<lambda>completion.
      bindE (fail_if (node_id \<in> set start \<or> node_id \<in> set completion) SelfDependency) (\<lambda>_.
      bindE (fail_if (set start \<inter> set completion \<noteq> {}) RepeatedDependency) (\<lambda>_.
      Inr \<lparr>g_id = node_id, g_kind = expected_kind node_id, g_owner = expected_owner node_id,
           g_lifecycle = (case lifecycle of JStr s \<Rightarrow> s | _ \<Rightarrow> []),
           g_start = start, g_completion = completion\<rparr>))))))))"

definition dependencies_of :: "graph_node \<Rightarrow> string list" where
  "dependencies_of n = g_start n @ g_completion n"

definition graph_of :: "graph_node list \<Rightarrow> string depgraph" where
  "graph_of nodes = map (\<lambda>n. (g_id n, dependencies_of n)) nodes"

text \<open>\<open>by_id[name].start_requires\<close>, for a name that is the identifier of a node.\<close>

definition start_requires_of :: "graph_node list \<Rightarrow> string \<Rightarrow> string list option" where
  "start_requires_of nodes name = map_option g_start (find (\<lambda>n. g_id n = name) nodes)"

definition join13 :: "string list" where
  "join13 = [''P13'', ''P14'', ''P15'', ''P16'', ''P17'', ''P18'', ''P26'']"

definition join19 :: "string list" where
  "join19 = [''P19'', ''P20'']"

text \<open>The sort, and the packets its error names; the fuel never runs out (\<open>kahn_result\<close>).\<close>

definition sort_nodes :: "graph_node list \<Rightarrow> packet_error + string list" where
  "sort_nodes nodes =
     (case kahn (graph_of nodes) of
        None \<Rightarrow> Inl (ContractError (Cycle []))
      | Some (deg, order) \<Rightarrow>
          if length order \<noteq> length nodes
          then Inl (ContractError (Cycle (sort (map fst (filter (\<lambda>(v, n). n \<noteq> 0) deg)))))
          else Inr order)"

definition validate_graph :: "json dict \<Rightarrow> packet_error + (graph_node list \<times> string list)" where
  "validate_graph document =
     bindE (fail_if (get_or_null ''schema_version'' document \<noteq> JStr ''1.0.0'') BadVersion) (\<lambda>_.
     bindE (fail_if (get_or_null ''kind'' document \<noteq> JStr ''jumpship-mvp-packet-graph'') BadDocumentKind) (\<lambda>_.
     bindE (case get_or_null ''nodes'' document of
              JList raw_nodes \<Rightarrow> Inr raw_nodes | _ \<Rightarrow> Inl (ContractError NodesNotArray)) (\<lambda>raw_nodes.
     bindE (mapE node_id_of raw_nodes) (\<lambda>ids.
     bindE (fail_if (\<not> distinct ids) DuplicateNodes) (\<lambda>_.
     bindE (fail_if (set ids \<noteq> set expected_node_ids) NodeSetMismatch) (\<lambda>_.
     bindE (mapE (\<lambda>(node_id, raw). read_node ids node_id raw) (zip ids raw_nodes)) (\<lambda>nodes.
     bindE (fail_if (start_requires_of nodes ''J13'' \<noteq> Some join13) BadJoin13) (\<lambda>_.
     bindE (fail_if (start_requires_of nodes ''J19'' \<noteq> Some join19) BadJoin19) (\<lambda>_.
     bindE (sort_nodes nodes) (\<lambda>order. Inr (nodes, order)))))))))))"

end
