(* ===== verification/Packet_Commands.thy ===== *)
theory Packet_Commands
  imports Packet_Graph
begin

text \<open>
  The command contract of scripts/packets/packet_contract.py: \<open>_expand_target_groups\<close> and
  \<open>validate_commands\<close>, which check the public targets, the selectors, the hidden hooks and the adapters
  against the packet graph. The sets of seen identities are read off the accumulated list.
\<close>

section \<open>Strings\<close>

text \<open>\<open>str.lower\<close> on code points below U+0100.\<close>

definition lower_char :: "char \<Rightarrow> char" where
  "lower_char c = (let n = (of_char c :: nat) in
     if 65 \<le> n \<and> n \<le> 90 \<or> 192 \<le> n \<and> n \<le> 222 \<and> n \<noteq> 215 then char_of (n + 32) else c)"

definition strip_str :: "string \<Rightarrow> string" where
  "strip_str s = rev (dropWhile is_space (rev (dropWhile is_space s)))"

definition target_pattern :: string where
  "target_pattern = ''^[a-z][a-z0-9]*(?:-[a-z0-9]+)*$''"

definition selector_pattern :: string where
  "selector_pattern = ''^[a-z0-9][a-z0-9-]*$''"

definition adapter_pattern :: string where
  "adapter_pattern = ''_p'' @ esc ''d{2}_[a-z][a-z0-9-]*''"

definition selector_keys :: "string list" where
  "selector_keys = [''SUITE'', ''PHASE'', ''PLANE'', ''LAYER'']"

section \<open>The parts of a contract\<close>

record public_target =
  t_name :: string
  t_owner :: string
  t_kind :: string
  t_description :: string

record selector =
  s_target :: string
  s_key :: string
  s_value :: string
  s_owner :: string
  s_hook_refs :: "string list"

record hook =
  h_target :: string
  h_dispatcher :: string
  h_key :: string
  h_selector :: string
  h_owner :: string
  h_depends_on :: "string list"
  h_lifecycle :: string

record adapter =
  a_target :: string
  a_public_target :: string
  a_owner :: string

text \<open>\<open>owner not in graph_ids or str(owner).startswith("J")\<close>; returns the string.\<close>

definition read_owner :: "string list \<Rightarrow> packet_reason \<Rightarrow> json \<Rightarrow> packet_error + string" where
  "read_owner ids r v =
     (case v of
        JStr s \<Rightarrow> if s \<notin> set ids \<or> starts_with s ''J'' then Inl (ContractError r) else Inr s
      | _ \<Rightarrow> if hashable v then Inl (ContractError r) else Inl UnhashableType)"

text \<open>A string that has to be in a set of names, or in the keys of a dictionary.\<close>

definition read_member :: "string list \<Rightarrow> packet_reason \<Rightarrow> json \<Rightarrow> packet_error + string" where
  "read_member names r v =
     (case v of
        JStr s \<Rightarrow> if s \<notin> set names then Inl (ContractError r) else Inr s
      | _ \<Rightarrow> if hashable v then Inl (ContractError r) else Inl UnhashableType)"

text \<open>A string that matches a pattern fully.\<close>

definition read_matching :: "string \<Rightarrow> packet_reason \<Rightarrow> json \<Rightarrow> packet_error + string" where
  "read_matching pattern r v =
     (case v of
        JStr s \<Rightarrow> if full_match pattern s then Inr s else Inl (ContractError r)
      | _ \<Rightarrow> Inl (ContractError r))"

definition read_object :: "packet_reason \<Rightarrow> json \<Rightarrow> packet_error + json dict" where
  "read_object r v = (case v of JDict d \<Rightarrow> Inr d | _ \<Rightarrow> Inl (ContractError r))"

definition read_array :: "packet_reason \<Rightarrow> json \<Rightarrow> packet_error + json list" where
  "read_array r v = (case v of JList xs \<Rightarrow> Inr xs | _ \<Rightarrow> Inl (ContractError r))"

text \<open>\<open>raw.get(key, [])\<close>\<close>

definition get_or_empty :: "string \<Rightarrow> json dict \<Rightarrow> json" where
  "get_or_empty k d = (case dget k d of None \<Rightarrow> JList [] | Some v \<Rightarrow> v)"

section \<open>Public targets\<close>

definition target_kinds :: "string list" where
  "target_kinds = [''direct'', ''aggregate'', ''composite'', ''dispatcher'']"

definition read_target :: "string \<Rightarrow> string \<Rightarrow> string \<times> json \<Rightarrow> packet_error + public_target" where
  "read_target owner kind item = (case item of (name, description) \<Rightarrow>
     bindE (fail_if (\<not> full_match target_pattern name) TargetName) (\<lambda>_.
     case description of
       JStr s \<Rightarrow>
         if strip_str s = [] then Inl (ContractError TargetDescription)
         else Inr \<lparr>t_name = name, t_owner = owner, t_kind = kind, t_description = strip_str s\<rparr>
     | _ \<Rightarrow> Inl (ContractError TargetDescription)))"

definition read_group :: "string list \<Rightarrow> json \<Rightarrow> packet_error + public_target list" where
  "read_group ids raw =
     bindE (read_object GroupNotObject raw) (\<lambda>group.
     bindE (read_owner ids GroupOwner (get_or_null ''owner'' group)) (\<lambda>owner.
     bindE (read_member target_kinds GroupKind (get_or_null ''kind'' group)) (\<lambda>kind.
     bindE (read_object GroupTargets (get_or_null ''targets'' group)) (\<lambda>targets.
     bindE (fail_if (targets = []) GroupTargets) (\<lambda>_.
     mapE (read_target owner kind) targets)))))"

definition expand_target_groups :: "json dict \<Rightarrow> string list \<Rightarrow> packet_error + public_target list" where
  "expand_target_groups document ids =
     bindE (read_array GroupsNotArray (get_or_null ''target_groups'' document)) (\<lambda>groups.
     bindE (mapE (read_group ids) groups) (\<lambda>targets.
     bindE (fail_if (\<not> distinct (map t_name (concat targets))) DuplicateTargets) (\<lambda>_.
     Inr (concat targets))))"

section \<open>Selectors\<close>

definition selector_identity :: "selector \<Rightarrow> string \<times> string \<times> string" where
  "selector_identity s = (s_target s, s_key s, s_value s)"

definition read_selector ::
  "string list \<Rightarrow> string list \<Rightarrow> selector list \<Rightarrow> json \<Rightarrow> packet_error + selector list" where
  "read_selector names ids selectors raw_selector =
     bindE (read_object SelectorNotObject raw_selector) (\<lambda>raw.
     bindE (read_member names SelectorTarget (get_or_null ''target'' raw)) (\<lambda>target.
     bindE (read_member selector_keys SelectorKey (get_or_null ''key'' raw)) (\<lambda>key.
     bindE (read_matching selector_pattern SelectorValue (get_or_null ''value'' raw)) (\<lambda>v.
     bindE (read_owner ids SelectorOwner (get_or_null ''owner'' raw)) (\<lambda>owner.
     bindE (fail_if ((target, key, v) \<in> set (map selector_identity selectors)) DuplicateSelector) (\<lambda>_.
     bindE (case str_list (get_or_empty ''hook_refs'' raw) of
              None \<Rightarrow> Inl (ContractError HookRefs) | Some refs \<Rightarrow> Inr refs) (\<lambda>refs.
     Inr (selectors @ [\<lparr>s_target = target, s_key = key, s_value = v, s_owner = owner,
       s_hook_refs = refs\<rparr>]))))))))"

section \<open>Hooks\<close>

definition hidden_hook_name :: "string \<Rightarrow> string \<Rightarrow> string \<Rightarrow> string \<Rightarrow> string" where
  "hidden_hook_name owner dispatcher key selector =
     ''_'' @ map lower_char owner @ ''_'' @ dispatcher @ ''_'' @ key @ ''-'' @ selector"

definition hook_identity :: "hook \<Rightarrow> string \<times> string \<times> string" where
  "hook_identity h = (h_dispatcher h, h_key h, h_selector h)"

definition kind_of :: "public_target list \<Rightarrow> string \<Rightarrow> string option" where
  "kind_of targets name = map_option t_kind (find (\<lambda>t. t_name t = name) targets)"

definition read_hook ::
  "public_target list \<Rightarrow> graph_node list \<Rightarrow> hook list \<Rightarrow> json \<Rightarrow> packet_error + hook list" where
  "read_hook targets nodes hooks raw_hook =
     bindE (read_object HookNotObject raw_hook) (\<lambda>raw.
     bindE (read_member (map t_name targets) HookDispatcher (get_or_null ''dispatcher'' raw)) (\<lambda>dispatcher.
     bindE (fail_if (kind_of targets dispatcher \<notin> Some ` {''aggregate'', ''composite'', ''dispatcher''})
       HookNotDispatcher) (\<lambda>_.
     bindE (read_member selector_keys HookKey (get_or_null ''selector_key'' raw)) (\<lambda>key.
     bindE (read_matching selector_pattern HookSelector (get_or_null ''selector'' raw)) (\<lambda>selector.
     bindE (read_owner (map g_id nodes) HookOwner (get_or_null ''owner'' raw)) (\<lambda>owner.
     bindE (fail_if (get_or_null ''lifecycle'' raw \<noteq> JStr ''planned'') HookLifecycle) (\<lambda>_.
     bindE (expand_dependencies (get_or_null ''depends_on'' raw) (map g_id nodes)) (\<lambda>dependencies.
     bindE (fail_if (start_requires_of nodes owner \<noteq> Some dependencies) HookDependencies) (\<lambda>_.
     bindE (fail_if ((dispatcher, key, selector) \<in> set (map hook_identity hooks)) DuplicateHook) (\<lambda>_.
     bindE (fail_if (get_or_null ''target'' raw \<noteq> JStr (hidden_hook_name owner dispatcher key selector))
       HookTarget) (\<lambda>_.
     bindE (fail_if (hidden_hook_name owner dispatcher key selector \<in> set (map h_target hooks))
       DuplicateHookTarget) (\<lambda>_.
     Inr (hooks @ [\<lparr>h_target = hidden_hook_name owner dispatcher key selector, h_dispatcher = dispatcher,
       h_key = key, h_selector = selector, h_owner = owner, h_depends_on = dependencies,
       h_lifecycle = ''planned''\<rparr>])))))))))))))"

section \<open>References between selectors and hooks\<close>

text \<open>The inner loop over \<open>hook_refs\<close>; \<open>referenced\<close> is the set of hooks referenced so far.\<close>

definition reference_hook ::
  "hook list \<Rightarrow> selector \<Rightarrow> string list \<Rightarrow> string \<Rightarrow> packet_error + string list" where
  "reference_hook hooks s referenced name =
     (case find (\<lambda>h. h_target h = name) hooks of
        None \<Rightarrow> Inl (ContractError UnknownHook)
      | Some h \<Rightarrow>
          if name \<in> set referenced then Inl (ContractError HookReferencedTwice)
          else if h_dispatcher h \<noteq> s_target s then Inl (ContractError HookOfOtherTarget)
          else Inr (referenced @ [name]))"

definition reference_hooks ::
  "hook list \<Rightarrow> string list \<Rightarrow> selector \<Rightarrow> packet_error + string list" where
  "reference_hooks hooks referenced s =
     bindE (foldE (reference_hook hooks s) referenced (s_hook_refs s)) (\<lambda>referenced'.
     bindE (fail_if (s_hook_refs s \<noteq> [] \<and> s_owner s \<noteq> ''P01'') CompositeOwner) (\<lambda>_.
     Inr referenced'))"

definition check_hook :: "selector list \<Rightarrow> string list \<Rightarrow> hook \<Rightarrow> packet_error check" where
  "check_hook selectors referenced h =
     (case find (\<lambda>s. selector_identity s = hook_identity h) selectors of
        None \<Rightarrow> fail_if (h_target h \<notin> set referenced) HookUnregistered
      | Some s \<Rightarrow> fail_if (s_owner s \<noteq> h_owner h) SelectorOwnership)"

section \<open>Adapters\<close>

definition read_adapter ::
  "string list \<Rightarrow> string list \<Rightarrow> string list \<Rightarrow> adapter list \<Rightarrow> json \<Rightarrow> packet_error + adapter list" where
  "read_adapter names ids hook_names adapters raw_adapter =
     bindE (read_object AdapterNotObject raw_adapter) (\<lambda>raw.
     bindE (read_matching adapter_pattern AdapterTarget (get_or_null ''target'' raw)) (\<lambda>target.
     bindE (fail_if (target \<in> set (map a_target adapters) \<or> target \<in> set hook_names) DuplicateInternal) (\<lambda>_.
     bindE (read_member names AdapterPublicTarget (get_or_null ''public_target'' raw)) (\<lambda>public.
     bindE (read_owner ids AdapterOwner (get_or_null ''owner'' raw)) (\<lambda>owner.
     Inr (adapters @ [\<lparr>a_target = target, a_public_target = public, a_owner = owner\<rparr>]))))))"

section \<open>The contract\<close>

record commands =
  c_targets :: "public_target list"
  c_selectors :: "selector list"
  c_hooks :: "hook list"
  c_adapters :: "adapter list"

text \<open>\<open>set(declared_keys) != SELECTOR_KEYS or len(declared_keys) != 4\<close>\<close>

definition check_selector_keys :: "json \<Rightarrow> packet_error check" where
  "check_selector_keys v =
     (case v of
        JList xs \<Rightarrow>
          checks [raise_if (\<not> list_all hashable xs) UnhashableType,
            fail_if (set xs \<noteq> JStr ` set selector_keys \<or> length xs \<noteq> 4) BadSelectorKeys]
      | _ \<Rightarrow> Inl (ContractError BadSelectorKeys))"

definition validate_commands :: "json dict \<Rightarrow> graph_node list \<Rightarrow> packet_error + commands" where
  "validate_commands document nodes =
     bindE (fail_if (get_or_null ''schema_version'' document \<noteq> JStr ''1.0.0'') BadVersion) (\<lambda>_.
     bindE (fail_if (get_or_null ''kind'' document \<noteq> JStr ''jumpship-mvp-command-contract'') BadDocumentKind) (\<lambda>_.
     bindE (check_selector_keys (get_or_null ''selector_keys'' document)) (\<lambda>_.
     let ids = map g_id nodes in
     bindE (expand_target_groups document ids) (\<lambda>targets.
     let names = map t_name targets in
     bindE (read_array SelectorsNotArray (get_or_null ''selectors'' document)) (\<lambda>raw_selectors.
     bindE (foldE (read_selector names ids) [] raw_selectors) (\<lambda>selectors.
     bindE (read_array HooksNotArray (get_or_null ''hooks'' document)) (\<lambda>raw_hooks.
     bindE (foldE (read_hook targets nodes) [] raw_hooks) (\<lambda>hooks.
     bindE (foldE (reference_hooks hooks) [] selectors) (\<lambda>referenced.
     bindE (for_each (check_hook selectors referenced) hooks) (\<lambda>_.
     bindE (read_array AdaptersNotArray (get_or_empty ''adapters'' document)) (\<lambda>raw_adapters.
     bindE (foldE (read_adapter names ids (map h_target hooks)) [] raw_adapters) (\<lambda>adapters.
     Inr \<lparr>c_targets = targets, c_selectors = selectors, c_hooks = hooks, c_adapters = adapters\<rparr>))))))))))))"

end
