(* ===== verification/Packet_Catalog.thy ===== *)
theory Packet_Catalog
  imports Packet_Commands
begin

text \<open>
  The catalogue of \<open>build_catalog\<close> (scripts/packets/packet_contract.py) from the two validated documents,
  the lifecycles of the runtime inventory, and the ownership check of the Make definitions. Reading files,
  hashing them and scanning references are parameters: the documents, their digests and the outcome of
  \<open>validate_public_references\<close> are arguments.
\<close>

section \<open>Consumers\<close>

definition consumers_by :: "(graph_node \<Rightarrow> string list) \<Rightarrow> graph_node list \<Rightarrow> string \<Rightarrow> string list" where
  "consumers_by requires nodes v =
     concat (map (\<lambda>n. map (\<lambda>_. g_id n) (filter (\<lambda>d. d = v) (requires n))) nodes)"

definition node_entry :: "graph_node list \<Rightarrow> graph_node \<Rightarrow> json" where
  "node_entry nodes n = JDict
     [(''id'', JStr (g_id n)), (''kind'', JStr (g_kind n)), (''owner'', JStr (g_owner n)),
      (''lifecycle'', JStr (g_lifecycle n)), (''start_requires'', jstrs (g_start n)),
      (''completion_requires'', jstrs (g_completion n)),
      (''start_consumers'', jstrs (consumers_by g_start nodes (g_id n))),
      (''completion_consumers'', jstrs (consumers_by g_completion nodes (g_id n)))]"

section \<open>Commands\<close>

text \<open>\<open>node_by_id[owner].start_requires\<close>; every owner is the identifier of a node.\<close>

definition owner_requires :: "graph_node list \<Rightarrow> string \<Rightarrow> string list" where
  "owner_requires nodes owner = (case start_requires_of nodes owner of None \<Rightarrow> [] | Some ds \<Rightarrow> ds)"

definition target_entry :: "graph_node list \<Rightarrow> public_target \<Rightarrow> json" where
  "target_entry nodes t = JDict
     [(''name'', JStr (t_name t)), (''owner'', JStr (t_owner t)), (''kind'', JStr (t_kind t)),
      (''description'', JStr (t_description t)),
      (''depends_on'', jstrs (owner_requires nodes (t_owner t))), (''lifecycle'', JStr ''planned'')]"

definition selector_entry :: "selector \<Rightarrow> json" where
  "selector_entry s = JDict
     [(''target'', JStr (s_target s)), (''key'', JStr (s_key s)), (''value'', JStr (s_value s)),
      (''owner'', JStr (s_owner s)), (''hook_refs'', jstrs (s_hook_refs s))]"

definition hook_entry :: "hook \<Rightarrow> json" where
  "hook_entry h = JDict
     [(''target'', JStr (h_target h)), (''dispatcher'', JStr (h_dispatcher h)),
      (''selector_key'', JStr (h_key h)), (''selector'', JStr (h_selector h)),
      (''owner'', JStr (h_owner h)), (''depends_on'', jstrs (h_depends_on h)),
      (''lifecycle'', JStr ''planned'')]"

definition adapter_entry :: "graph_node list \<Rightarrow> adapter \<Rightarrow> json" where
  "adapter_entry nodes a = JDict
     [(''target'', JStr (a_target a)), (''public_target'', JStr (a_public_target a)),
      (''owner'', JStr (a_owner a)), (''depends_on'', jstrs (owner_requires nodes (a_owner a))),
      (''lifecycle'', JStr ''planned'')]"

section \<open>The catalogue\<close>

definition catalog_of :: "string \<Rightarrow> string \<Rightarrow> graph_node list \<Rightarrow> string list \<Rightarrow> commands \<Rightarrow> json" where
  "catalog_of graph_digest command_digest nodes order c = JDict
     [(''_generated'', JStr ''generated by scripts/packets/check; DO NOT EDIT''),
      (''schema_version'', JStr ''1.0.0''),
      (''kind'', JStr ''jumpship-mvp-packet-execution-manifest''),
      (''catalog_semantics'', JStr
        (''Static public design catalog derived only from delivery/mvp/packet-graph.yaml and '' @
         ''delivery/mvp/command-contract.yaml; runtime availability is intentionally excluded.'')),
      (''sources'', JDict
        [(''delivery/mvp/packet-graph.yaml'', JDict [(''sha256'', JStr graph_digest)]),
         (''delivery/mvp/command-contract.yaml'', JDict [(''sha256'', JStr command_digest)])]),
      (''graph'', JDict
        [(''topological_order'', jstrs order), (''nodes'', JList (map (node_entry nodes) nodes))]),
      (''commands'', JDict
        [(''targets'', JList (map (target_entry nodes) (c_targets c))),
         (''selectors'', JList (map selector_entry (c_selectors c))),
         (''internal_targets'', JList
           (map hook_entry (c_hooks c) @ map (adapter_entry nodes) (c_adapters c)))])]"

definition build_catalog ::
  "packet_error check \<Rightarrow> string \<Rightarrow> string \<Rightarrow> json dict \<Rightarrow> json dict \<Rightarrow> packet_error + json" where
  "build_catalog references graph_digest command_digest graph_document command_document =
     bindE references (\<lambda>_.
     bindE (validate_graph graph_document) (\<lambda>(nodes, order).
     bindE (validate_commands command_document nodes) (\<lambda>c.
     Inr (catalog_of graph_digest command_digest nodes order c))))"

section \<open>Lifecycles of the runtime inventory\<close>

definition command_lifecycle :: "bool \<Rightarrow> string list \<Rightarrow> string list \<Rightarrow> string" where
  "command_lifecycle present dependencies markers =
     (if \<not> present then ''planned''
      else if set dependencies \<subseteq> set markers then ''active'' else ''present'')"

definition node_lifecycle :: "string list \<Rightarrow> string list \<Rightarrow> string \<Rightarrow> string" where
  "node_lifecycle markers owners_present v =
     (if v \<in> set markers then ''active'' else if v \<in> set owners_present then ''present'' else ''planned'')"

section \<open>Ownership of Make definitions\<close>

datatype make_reason = UndocumentedTargets "string list" | WrongOwner string

text \<open>
  \<open>_validated_make_definitions\<close> after the scan: \<open>definitions\<close> maps each defined target to its owner (and
  location), \<open>targets\<close> and \<open>internals\<close> are the catalogue's names with their owners.
\<close>

definition check_definitions ::
  "string dict \<Rightarrow> string dict \<Rightarrow> string dict \<Rightarrow> make_reason check" where
  "check_definitions targets internals definitions =
     (let undocumented = filter (\<lambda>n. n \<notin> set (dkeys targets) \<union> set (dkeys internals)) (dkeys definitions) in
      checks [raise_if (undocumented \<noteq> []) (UndocumentedTargets (sort undocumented)),
        for_each (\<lambda>(name, owner).
          raise_if (Some owner \<noteq> (case dget name targets of Some o' \<Rightarrow> Some o' | None \<Rightarrow> dget name internals))
            (WrongOwner name)) definitions])"

end
