(* ===== verification/Packet_Promises.thy ===== *)
theory Packet_Promises
  imports Packet_Graph
begin

text \<open>
  What an accepted packet graph is: its dependencies are the expanded expressions, its nodes are exactly the
  released packets and joins, it has no cycle, and its order is the first one in document order that
  puts every node after its dependencies.
\<close>

section \<open>Expansion\<close>

lemma add_dependencies:
  "foldE (add_dependency known) expanded vs = Inr ds \<longleftrightarrow>
    ds = expanded @ vs \<and> distinct vs \<and> set vs \<inter> set expanded = {} \<and> set vs \<subseteq> set known"
proof (induction vs arbitrary: expanded)
  case (Cons v vs)
  show ?case
  proof (cases "v \<in> set known \<and> v \<notin> set expanded")
    case True
    then have "foldE (add_dependency known) expanded (v # vs) = foldE (add_dependency known) (expanded @ [v]) vs"
      by (simp add: add_dependency_def)
    then show ?thesis using True by (auto simp: Cons.IH)
  qed (auto simp: add_dependency_def)
qed auto

lemma add_expressions:
  "foldE (add_expression known) expanded es = Inr ds \<longleftrightarrow>
    (\<exists>groups. mapE expand_expression es = Inr groups \<and> ds = expanded @ concat groups \<and>
      distinct (concat groups) \<and> set (concat groups) \<inter> set expanded = {} \<and>
      set (concat groups) \<subseteq> set known)"
proof (induction es arbitrary: expanded)
  case (Cons e es)
  show ?case
  proof (cases "expand_expression e")
    case (Inr vs)
    then have "add_expression known expanded e = foldE (add_dependency known) expanded vs"
      by (simp add: add_expression_def)
    then have step: "foldE (add_expression known) expanded (e # es) = Inr ds \<longleftrightarrow>
        distinct vs \<and> set vs \<inter> set expanded = {} \<and> set vs \<subseteq> set known \<and>
        foldE (add_expression known) (expanded @ vs) es = Inr ds"
      by (auto simp: bindE_Inr add_dependencies)
    have groups: "mapE expand_expression (e # es) = Inr groups \<longleftrightarrow>
        (\<exists>rest. groups = vs # rest \<and> mapE expand_expression es = Inr rest)" for groups
      using Inr by (auto simp: bindE_Inr)
    show ?thesis
      unfolding step groups Cons.IH
    proof (intro iffI; elim exE conjE)
      fix rest assume "distinct vs" "set vs \<inter> set expanded = {}" "set vs \<subseteq> set known"
        "mapE expand_expression es = Inr rest" "ds = (expanded @ vs) @ concat rest" "distinct (concat rest)"
        "set (concat rest) \<inter> set (expanded @ vs) = {}" "set (concat rest) \<subseteq> set known"
      then show "\<exists>groups. (\<exists>rest. groups = vs # rest \<and> mapE expand_expression es = Inr rest) \<and>
          ds = expanded @ concat groups \<and> distinct (concat groups) \<and>
          set (concat groups) \<inter> set expanded = {} \<and> set (concat groups) \<subseteq> set known"
        by (intro exI [of _ "vs # rest"]) auto
    next
      fix groups rest assume "ds = expanded @ concat groups" "distinct (concat groups)"
        "set (concat groups) \<inter> set expanded = {}" "set (concat groups) \<subseteq> set known"
        "groups = vs # rest" "mapE expand_expression es = Inr rest"
      then show "distinct vs \<and> set vs \<inter> set expanded = {} \<and> set vs \<subseteq> set known \<and>
          (\<exists>groups. mapE expand_expression es = Inr groups \<and> ds = (expanded @ vs) @ concat groups \<and>
            distinct (concat groups) \<and> set (concat groups) \<inter> set (expanded @ vs) = {} \<and>
            set (concat groups) \<subseteq> set known)"
        by auto
    qed
  qed (simp add: add_expression_def)
qed auto

lemma expand_iff:
  "expand_dependencies v known = Inr ds \<longleftrightarrow>
    (\<exists>es groups. v = jstrs es \<and> mapE expand_expression es = Inr groups \<and> ds = concat groups \<and>
      distinct ds \<and> set ds \<subseteq> set known)"
proof -
  have list: "str_list v = Some es \<longleftrightarrow> v = jstrs es" for es
  proof
    assume "str_list v = Some es"
    then obtain xs where xs: "v = JList xs" "list_all (\<lambda>x. str_of x \<noteq> None) xs" "es = map (\<lambda>x. the (str_of x)) xs"
      by (auto simp: str_list_def split: json.splits if_splits)
    have "x = JStr (the (str_of x))" if "x \<in> set xs" for x
      using that xs(2) by (cases x rule: str_of.cases) (auto simp: list_all_iff)
    then show "v = jstrs es" using xs by (simp add: map_idI)
  qed (simp add: str_list_def list_all_iff comp_def)
  have "expand_dependencies v known = Inr ds \<longleftrightarrow>
      (\<exists>es. str_list v = Some es \<and> foldE (add_expression known) [] es = Inr ds)"
    by (cases "str_list v") (simp_all add: expand_dependencies_def string_list_def)
  then show ?thesis
    unfolding list add_expressions by auto
qed

section \<open>Names\<close>

text \<open>The direct reading of \<open>NODE_RE\<close> is the pattern's, and its names are the released nodes.\<close>

lemma digit_iff: "is_digit c \<longleftrightarrow> c \<in> set ''0123456789''"
proof
  assume d: "is_digit c"
  define n where "n = (of_char c :: nat)"
  have c: "c = char_of n" by (simp add: n_def)
  have "48 \<le> n" "n \<le> 57" using d by (simp_all add: is_digit_def n_def)
  then have "n = 48 \<or> n = 49 \<or> n = 50 \<or> n = 51 \<or> n = 52 \<or> n = 53 \<or> n = 54 \<or> n = 55 \<or>
      n = 56 \<or> n = 57"
    by presburger
  then show "c \<in> set ''0123456789''" unfolding c by (elim disjE) (simp_all add: char_of_def bit_simps)
qed (auto simp: is_digit_def)

lemma length3: "length s = 3 \<longleftrightarrow> (\<exists>a b c. s = [a, b, c])"
  by (auto simp: numeral_3_eq_3 length_Suc_conv)

lemma single_range: "in_cset (CSet False [(a, a)]) x \<longleftrightarrow> x = a"
  by (auto simp: in_cset_def)

lemma digit_range: "in_cset (CSet False [(CHR ''0'', CHR ''9'')]) x \<longleftrightarrow> is_digit x"
  by (simp add: in_cset_def is_digit_def less_eq_char_def)

lemma node_match_pattern: "full_match node_pattern s \<longleftrightarrow> node_match s"
proof -
  let ?c = "\<lambda>a. RSet (CSet False [(a, a)])" and ?r = "\<lambda>a b. RSet (CSet False [(a, b)])"
  have "re_compile node_pattern = Some (RSeq RBegin (RSeq (RAlt
     (RSeq (?c CHR ''P'') (RAlt (RSeq (?c CHR ''0'') (?r CHR ''0'' CHR ''9''))
        (RAlt (RSeq (?c CHR ''1'') (?r CHR ''0'' CHR ''9'')) (RSeq (?c CHR ''2'') (?r CHR ''0'' CHR ''8'')))))
     (RSeq (?c CHR ''J'') (RAlt (RSeq (?c CHR ''1'') (?c CHR ''3'')) (RSeq (?c CHR ''1'') (?c CHR ''9'')))))
     REol))"
    by code_simp
  then have m: "full_match node_pattern s \<longleftrightarrow> re_fullmatch (RSeq RBegin (RSeq (RAlt
     (RSeq (?c CHR ''P'') (RAlt (RSeq (?c CHR ''0'') (?r CHR ''0'' CHR ''9''))
        (RAlt (RSeq (?c CHR ''1'') (?r CHR ''0'' CHR ''9'')) (RSeq (?c CHR ''2'') (?r CHR ''0'' CHR ''8'')))))
     (RSeq (?c CHR ''J'') (RAlt (RSeq (?c CHR ''1'') (?c CHR ''3'')) (RSeq (?c CHR ''1'') (?c CHR ''9'')))))
     REol)) s"
    by (simp add: full_match_def)
  have "s = [] \<or> (\<exists>a. s = [a]) \<or> (\<exists>a b. s = [a, b]) \<or> (\<exists>a b c t. s = a # b # c # t)"
    by (metis list.exhaust)
  then show ?thesis
    unfolding m re_fullmatch_def node_match_def
    by (elim disjE exE)
      (simp_all add: single_range digit_range in_cset_def [of "CSet False [(CHR ''0'', CHR ''8'')]"])
qed

lemma node_match_iff: "node_match s \<longleftrightarrow> s \<in> set expected_node_ids"
proof
  assume "node_match s"
  moreover have "c \<in> set ''012345678''" if "CHR ''0'' \<le> c" "c \<le> CHR ''8''" for c
  proof -
    have "is_digit c" "c \<noteq> CHR ''9''" using that by (auto simp: is_digit_def less_eq_char_def)
    then show ?thesis by (simp add: digit_iff)
  qed
  moreover have "list_all (\<lambda>c. ''P0'' @ [c] \<in> set expected_node_ids \<and> ''P1'' @ [c] \<in> set expected_node_ids)
      ''0123456789''" "list_all (\<lambda>c. ''P2'' @ [c] \<in> set expected_node_ids) ''012345678''"
      "''J13'' \<in> set expected_node_ids" "''J19'' \<in> set expected_node_ids"
    by code_simp+
  ultimately show "s \<in> set expected_node_ids"
    unfolding node_match_def length3 list_all_iff by (auto simp: digit_iff simp del: list.set)
next
  have "list_all node_match expected_node_ids" by code_simp
  then show "s \<in> set expected_node_ids \<Longrightarrow> node_match s" by (simp add: list_all_iff)
qed
lemma packet_ids: "list_all (\<lambda>n. packet_id n \<in> set expected_node_ids) [0..<29]" "distinct (map packet_id [0..<29])"
  by code_simp+

lemma expression_groups:
  "expand_expression e \<in> Inr ` {g. g \<noteq> [] \<and> distinct g \<and> set g \<subseteq> set expected_node_ids} \<or>
    expand_expression e \<in> (Inl \<circ> ContractError) ` {ReversedRange, RangeTooHigh, JoinInRange, BadExpression}"
proof -
  have "distinct (map packet_id [a..<Suc b]) \<and> set (map packet_id [a..<Suc b]) \<subseteq> set expected_node_ids"
    if "b \<le> 28" for a b
  proof -
    have "set [a..<Suc b] \<subseteq> set [0..<29]" using that by auto
    then show ?thesis
      using packet_ids by (auto simp: distinct_map list_all_iff intro: inj_on_subset)
  qed
  then show ?thesis
    by (auto simp: expand_expression_def node_match_iff not_less simp del: upt_Suc split: option.split)
qed

section \<open>Nodes\<close>

text \<open>The nodes carry the identifiers in order, and their dependencies form a well-formed graph.\<close>

lemma read_node_Inr:
  assumes "read_node ids v raw = Inr n"
  shows "g_id n = v" "distinct (dependencies_of n)" "set (dependencies_of n) \<subseteq> set ids"
    "v \<notin> set (dependencies_of n)"
    "g_kind n = expected_kind v" "g_owner n = expected_owner v" "g_lifecycle n \<in> set lifecycles"
  using assms
  by (auto simp: read_node_def Let_def bindE_Inr expand_iff dependencies_of_def require_member_def)

lemma read_nodes:
  assumes "mapE (\<lambda>(v, raw). read_node ids v raw) (zip ids' raws) = Inr nodes" "length ids' = length raws"
  shows "map g_id nodes = ids'" "list_all (\<lambda>n. \<exists>raw. read_node ids (g_id n) raw = Inr n) nodes"
proof -
  have rel: "list_all2 (\<lambda>p n. g_id n = fst p \<and> (\<exists>raw. read_node ids (g_id n) raw = Inr n)) (zip ids' raws) nodes"
    using assms(1) unfolding mapE_Inr
    by (rule list_all2_mono) (auto dest: read_node_Inr(1))
  then have "list_all2 (\<lambda>p n. g_id n = fst p) (zip ids' raws) nodes"
    by (rule list_all2_mono) simp
  then have "map fst (zip ids' raws) = map g_id nodes"
    by (induction rule: list_all2_induct) simp_all
  with assms(2) show "map g_id nodes = ids'" by simp
  have "list_all2 (\<lambda>p n. \<exists>raw. read_node ids (g_id n) raw = Inr n) (zip ids' raws) nodes"
    using rel by (rule list_all2_mono) blast
  then show "list_all (\<lambda>n. \<exists>raw. read_node ids (g_id n) raw = Inr n) nodes"
    by (induction rule: list_all2_induct) simp_all
qed

lemma nodes_of_graph: "nodes_of (graph_of nodes) = map g_id nodes"
  by (simp add: nodes_of_def graph_of_def)

text \<open>What every statement before the sort has established.\<close>

definition nodes_ok :: "graph_node list \<Rightarrow> bool" where
  "nodes_ok nodes =
     (graph_ok (graph_of nodes) \<and> set (map g_id nodes) = set expected_node_ids \<and>
      list_all (\<lambda>n. g_id n \<notin> set (dependencies_of n) \<and> g_kind n = expected_kind (g_id n) \<and>
        g_owner n = expected_owner (g_id n) \<and> g_lifecycle n \<in> set lifecycles) nodes)"

lemma validate_graph_Inr:
  assumes "validate_graph document = Inr (nodes, order)"
  shows "nodes_ok nodes" "sort_nodes nodes = Inr order"
    "start_requires_of nodes ''J13'' = Some join13" "start_requires_of nodes ''J19'' = Some join19"
proof -
  from assms obtain raws ids where
    ids: "mapE node_id_of raws = Inr ids" "distinct ids" "set ids = set expected_node_ids"
    and nodes: "mapE (\<lambda>(node_id, raw). read_node ids node_id raw) (zip ids raws) = Inr nodes"
    and rest: "start_requires_of nodes ''J13'' = Some join13" "start_requires_of nodes ''J19'' = Some join19"
      "sort_nodes nodes = Inr order"
    by (auto simp: validate_graph_def bindE_Inr)
  have "length ids = length raws" using ids(1) by (auto simp: mapE_Inr dest: list_all2_lengthD)
  note read = read_nodes [OF nodes this]
  have each: "distinct (dependencies_of n) \<and> set (dependencies_of n) \<subseteq> set ids \<and>
      g_id n \<notin> set (dependencies_of n) \<and> g_kind n = expected_kind (g_id n) \<and>
      g_owner n = expected_owner (g_id n) \<and> g_lifecycle n \<in> set lifecycles" if n: "n \<in> set nodes" for n
  proof -
    from bspec [OF read(2) [unfolded list_all_iff] n]
    obtain raw where "read_node ids (g_id n) raw = Inr n" by (rule exE)
    from read_node_Inr(2-7) [OF this] show ?thesis by (intro conjI)
  qed
  have "graph_ok (graph_of nodes)"
    unfolding graph_ok_def nodes_of_graph read(1) using ids(2) each by (auto simp: graph_of_def list_all_iff)
  with ids(3) read(1) each show "nodes_ok nodes" by (simp add: nodes_ok_def list_all_iff)
  show "sort_nodes nodes = Inr order" "start_requires_of nodes ''J13'' = Some join13"
      "start_requires_of nodes ''J19'' = Some join19"
    by (rule rest)+
qed

section \<open>The sort\<close>

lemma graph_length: "length (graph_of nodes) = length nodes"
  by (simp add: graph_of_def)

lemma sort_nodes_Inr:
  assumes ok: "graph_ok (graph_of nodes)"
  shows "sort_nodes nodes = Inr order \<longleftrightarrow>
    acyclic (depends (graph_of nodes)) \<and> order = greedy (graph_of nodes) (length nodes) []"
    and "sort_nodes nodes = Inr order \<Longrightarrow>
      distinct order \<and> set order = set (map g_id nodes) \<and> well_ordered (graph_of nodes) order"
proof -
  obtain deg o' where r: "kahn (graph_of nodes) = Some (deg, o')"
      "o' = greedy (graph_of nodes) (length nodes) []" "distinct o'" "well_ordered (graph_of nodes) o'"
      "set o' \<subseteq> set (map g_id nodes)" "set o' = set (map g_id nodes) \<longleftrightarrow> acyclic (depends (graph_of nodes))"
    by (rule kahn_result [OF ok, unfolded nodes_of_graph graph_length]) blast
  have "distinct (map g_id nodes)" using ok by (simp add: graph_ok_def nodes_of_graph)
  then have full: "length o' = length nodes \<longleftrightarrow> set o' = set (map g_id nodes)"
    using r(3,5) by (metis card_subset_eq distinct_card length_map List.finite_set)
  show "sort_nodes nodes = Inr order \<longleftrightarrow>
      acyclic (depends (graph_of nodes)) \<and> order = greedy (graph_of nodes) (length nodes) []"
    using r(1) full r(6) by (auto simp: sort_nodes_def r(2))
  show "sort_nodes nodes = Inr order \<Longrightarrow>
      distinct order \<and> set order = set (map g_id nodes) \<and> well_ordered (graph_of nodes) order"
    using r full by (auto simp: sort_nodes_def split: if_splits)
qed

lemma cycle_named:
  assumes ok: "graph_ok (graph_of nodes)" and fail: "sort_nodes nodes = Inl e"
  obtains ids where "e = ContractError (Cycle ids)" "ids \<noteq> []" "set ids \<subseteq> set (map g_id nodes)"
    "\<And>v. v \<in> set ids \<Longrightarrow> \<exists>d \<in> set ids. (v, d) \<in> depends (graph_of nodes)"
proof -
  let ?G = "graph_of nodes" and ?N = "map g_id nodes"
  obtain deg o' where r: "kahn ?G = Some (deg, o')" "distinct o'" "set o' \<subseteq> set ?N"
      "map fst (filter (\<lambda>(v, n). n \<noteq> 0) deg) = filter (\<lambda>v. v \<notin> set o') ?N" "eligible ?G o' = []"
    by (rule kahn_result [OF ok, unfolded nodes_of_graph]) blast
  have e: "e = ContractError (Cycle (sort (filter (\<lambda>v. v \<notin> set o') ?N)))" and "length o' \<noteq> length nodes"
    using fail by (simp_all add: sort_nodes_def r(1,4) split: if_splits)
  have known: "set (deps ?G v) \<subseteq> set ?N" for v
    using dependency_graph.deps_known [OF graph_okI [OF ok]] by (simp add: nodes_of_graph)
  have "filter (\<lambda>v. v \<notin> set o') ?N \<noteq> []"
  proof
    assume "filter (\<lambda>v. v \<notin> set o') ?N = []"
    then have "set o' = set ?N" using r(3) by (auto simp: filter_empty_conv)
    moreover have "distinct ?N" using ok by (simp add: graph_ok_def nodes_of_graph)
    ultimately have "length o' = length ?N" using r(2) by (metis distinct_card)
    with \<open>length o' \<noteq> length nodes\<close> show False by simp
  qed
  moreover have "\<exists>d \<in> set ?N - set o'. (v, d) \<in> depends ?G" if v: "v \<in> set ?N - set o'" for v
  proof -
    have "\<not> set (deps ?G v) \<subseteq> set o'"
      using r(5) v by (auto simp: eligible_def nodes_of_graph filter_empty_conv)
    then show ?thesis using known [of v] by (auto simp: depends_def)
  qed
  moreover have "set (sort (filter (\<lambda>v. v \<notin> set o') ?N)) = set ?N - set o'" by auto
  ultimately show thesis
    by (intro that [OF e]) (auto simp: set_empty [symmetric] simp del: set_empty)
qed

end
