(* ===== verification/Packet_Command_Promises.thy ===== *)
theory Packet_Command_Promises
  imports Packet_Catalog Packet_Promises
begin

text \<open>
  What an accepted command contract is: targets, selectors and internal targets are named once, every hook
  belongs to a dispatcher and to the packet whose start dependencies it repeats, and every hook can be run through
  a public selector. Hook names are injective, so the check against duplicate names never fires.
\<close>

section \<open>Readers\<close>

text \<open>Reading one part of the contract.\<close>

lemma read_owner_Inr: "read_owner ids r v = Inr s \<longleftrightarrow> v = JStr s \<and> s \<in> set ids \<and> \<not> starts_with s ''J''"
  by (cases v) (auto simp: read_owner_def hashable_def)

lemma read_member_Inr: "read_member names r v = Inr s \<longleftrightarrow> v = JStr s \<and> s \<in> set names"
  by (cases v) (auto simp: read_member_def hashable_def)

lemma read_matching_Inr: "read_matching p r v = Inr s \<longleftrightarrow> v = JStr s \<and> full_match p s"
  by (cases v) (auto simp: read_matching_def)

lemma read_object_Inr: "read_object r v = Inr d \<longleftrightarrow> v = JDict d"
  by (cases v) (auto simp: read_object_def)

lemma read_array_Inr: "read_array r v = Inr xs \<longleftrightarrow> v = JList xs"
  by (cases v) (auto simp: read_array_def)

lemmas read_Inr = read_owner_Inr read_member_Inr read_matching_Inr read_object_Inr read_array_Inr

definition packet_of :: "graph_node list \<Rightarrow> string \<Rightarrow> bool" where
  "packet_of nodes v = (v \<in> set (map g_id nodes) \<and> \<not> starts_with v ''J'')"

section \<open>Targets\<close>

definition targets_ok :: "graph_node list \<Rightarrow> public_target list \<Rightarrow> bool" where
  "targets_ok nodes targets =
     (distinct (map t_name targets) \<and>
      list_all (\<lambda>t. full_match target_pattern (t_name t) \<and> packet_of nodes (t_owner t) \<and>
        t_kind t \<in> set target_kinds \<and> t_description t \<noteq> []) targets)"

lemma read_target_Inr:
  assumes "read_target owner kind item = Inr t"
  shows "full_match target_pattern (t_name t)" "t_owner t = owner" "t_kind t = kind" "t_description t \<noteq> []"
  using assms by (auto simp: read_target_def bindE_Inr split: prod.splits json.splits if_splits)

lemma read_group_Inr:
  assumes "read_group (map g_id nodes) raw = Inr ts" "t \<in> set ts"
  shows "full_match target_pattern (t_name t) \<and> packet_of nodes (t_owner t) \<and>
    t_kind t \<in> set target_kinds \<and> t_description t \<noteq> []"
proof -
  from assms(1) obtain owner kind targets where
    g: "packet_of nodes owner" "kind \<in> set target_kinds" "mapE (read_target owner kind) targets = Inr ts"
    by (auto simp: read_group_def bindE_Inr read_Inr packet_of_def)
  from mapE_mem [OF g(3) assms(2)] obtain item where "read_target owner kind item = Inr t" ..
  from read_target_Inr [OF this] g(1,2) show ?thesis by simp
qed

lemma targets_Inr:
  assumes "expand_target_groups document (map g_id nodes) = Inr targets"
  shows "targets_ok nodes targets"
proof -
  from assms obtain raws groups where
    g: "mapE (read_group (map g_id nodes)) raws = Inr groups" "distinct (map t_name (concat groups))"
      "targets = concat groups"
    by (auto simp: expand_target_groups_def bindE_Inr)
  have "full_match target_pattern (t_name t) \<and> packet_of nodes (t_owner t) \<and>
      t_kind t \<in> set target_kinds \<and> t_description t \<noteq> []" if t: "t \<in> set targets" for t
  proof -
    obtain ts where ts: "ts \<in> set groups" "t \<in> set ts" using t g(3) by auto
    from mapE_mem [OF g(1) ts(1)] obtain raw where "read_group (map g_id nodes) raw = Inr ts" ..
    then show ?thesis using ts(2) by (rule read_group_Inr)
  qed
  with g(2,3) show ?thesis by (simp add: targets_ok_def list_all_iff)
qed

section \<open>Selectors\<close>

definition selectors_ok :: "graph_node list \<Rightarrow> public_target list \<Rightarrow> selector list \<Rightarrow> bool" where
  "selectors_ok nodes targets selectors =
     (distinct (map selector_identity selectors) \<and>
      list_all (\<lambda>s. s_target s \<in> set (map t_name targets) \<and> s_key s \<in> set selector_keys \<and>
        full_match selector_pattern (s_value s) \<and> packet_of nodes (s_owner s)) selectors)"

lemma read_selector_step:
  assumes "selectors_ok nodes targets selectors"
    and "read_selector (map t_name targets) (map g_id nodes) selectors raw = Inr selectors'"
  shows "selectors_ok nodes targets selectors'"
  using assms
  by (auto simp: read_selector_def bindE_Inr read_Inr selectors_ok_def packet_of_def selector_identity_def
      split: option.splits)

lemma selectors_Inr:
  assumes "foldE (read_selector (map t_name targets) (map g_id nodes)) [] raws = Inr selectors"
  shows "selectors_ok nodes targets selectors"
  by (rule foldE_invariant [OF assms]) (auto simp: selectors_ok_def [of _ _ "[]"] intro: read_selector_step)

section \<open>Hooks\<close>

definition hook_ok :: "graph_node list \<Rightarrow> public_target list \<Rightarrow> hook \<Rightarrow> bool" where
  "hook_ok nodes targets h =
     (kind_of targets (h_dispatcher h) \<in> Some ` {''aggregate'', ''composite'', ''dispatcher''} \<and>
      h_dispatcher h \<in> set (map t_name targets) \<and> h_key h \<in> set selector_keys \<and>
      full_match selector_pattern (h_selector h) \<and> packet_of nodes (h_owner h) \<and>
      start_requires_of nodes (h_owner h) = Some (h_depends_on h) \<and>
      h_target h = hidden_hook_name (h_owner h) (h_dispatcher h) (h_key h) (h_selector h))"

definition hooks_ok :: "graph_node list \<Rightarrow> public_target list \<Rightarrow> hook list \<Rightarrow> bool" where
  "hooks_ok nodes targets hooks =
     (distinct (map hook_identity hooks) \<and> distinct (map h_target hooks) \<and>
      list_all (hook_ok nodes targets) hooks)"

lemma read_hook_step:
  assumes "hooks_ok nodes targets hooks" "read_hook targets nodes hooks raw = Inr hooks'"
  shows "hooks_ok nodes targets hooks'"
proof -
  from assms(2) obtain h where h: "hooks' = hooks @ [h]" "hook_ok nodes targets h"
      "hook_identity h \<notin> set (map hook_identity hooks)" "h_target h \<notin> set (map h_target hooks)"
    unfolding read_hook_def bindE_Inr read_Inr
    by (auto simp: hook_ok_def packet_of_def hook_identity_def)
  with assms(1) show ?thesis by (auto simp: hooks_ok_def)
qed

lemma hooks_Inr:
  assumes "foldE (read_hook targets nodes) [] raws = Inr hooks"
  shows "hooks_ok nodes targets hooks"
  by (rule foldE_invariant [OF assms]) (auto simp: hooks_ok_def [of _ _ "[]"] intro: read_hook_step)

section \<open>References\<close>

lemma find_mem: "find P xs = Some x \<Longrightarrow> x \<in> set xs \<and> P x"
  by (auto simp: find_Some_iff)

lemma reference_hook_Inr:
  "reference_hook hooks s referenced name = Inr referenced' \<Longrightarrow>
    referenced' = referenced @ [name] \<and> name \<notin> set referenced \<and>
    (\<exists>h \<in> set hooks. h_target h = name \<and> h_dispatcher h = s_target s)"
  by (auto simp: reference_hook_def split: option.splits if_splits dest!: find_mem)

text \<open>After the loop over one selector and over all of them: what has been referenced.\<close>

lemma reference_loop:
  "foldE (reference_hook hooks s) referenced names = Inr referenced' \<Longrightarrow> distinct referenced \<Longrightarrow>
    referenced' = referenced @ names \<and> distinct referenced' \<and>
    (\<forall>n \<in> set names. \<exists>h \<in> set hooks. h_target h = n \<and> h_dispatcher h = s_target s)"
proof (induction names arbitrary: referenced)
  case (Cons n names)
  from Cons.prems(1) obtain r where r: "reference_hook hooks s referenced n = Inr r"
      "foldE (reference_hook hooks s) r names = Inr referenced'"
    by (auto simp: bindE_Inr)
  have "distinct r" using reference_hook_Inr [OF r(1)] Cons.prems(2) by auto
  from Cons.IH [OF r(2) this] reference_hook_Inr [OF r(1)] show ?case by auto
qed simp

definition references_ok :: "hook list \<Rightarrow> selector list \<Rightarrow> bool" where
  "references_ok hooks selectors =
     (distinct (concat (map s_hook_refs selectors)) \<and>
      list_all (\<lambda>s. (s_hook_refs s = [] \<or> s_owner s = ''P01'') \<and>
        list_all (\<lambda>n. list_ex (\<lambda>h. h_target h = n \<and> h_dispatcher h = s_target s) hooks) (s_hook_refs s)) selectors)"

lemma reference_hooks_Inr:
  "reference_hooks hooks referenced s = Inr r \<longleftrightarrow>
    foldE (reference_hook hooks s) referenced (s_hook_refs s) = Inr r \<and>
    (s_hook_refs s = [] \<or> s_owner s = ''P01'')"
  by (auto simp: reference_hooks_def bindE_Inr)

lemma references_loop:
  "foldE (reference_hooks hooks) referenced selectors = Inr referenced' \<Longrightarrow> distinct referenced \<Longrightarrow>
    referenced' = referenced @ concat (map s_hook_refs selectors) \<and> distinct referenced' \<and>
    (\<forall>s \<in> set selectors. (s_hook_refs s = [] \<or> s_owner s = ''P01'') \<and>
      (\<forall>n \<in> set (s_hook_refs s). \<exists>h \<in> set hooks. h_target h = n \<and> h_dispatcher h = s_target s))"
proof (induction selectors arbitrary: referenced)
  case (Cons s selectors)
  from Cons.prems(1) obtain r where r: "foldE (reference_hook hooks s) referenced (s_hook_refs s) = Inr r"
      "s_hook_refs s = [] \<or> s_owner s = ''P01''" "foldE (reference_hooks hooks) r selectors = Inr referenced'"
    by (auto simp: bindE_Inr reference_hooks_Inr)
  note one = reference_loop [OF r(1) Cons.prems(2)]
  then have d: "distinct r" by (elim conjE)
  note rest = Cons.IH [OF r(3) d]
  show ?case
  proof (intro conjI)
    show "referenced' = referenced @ concat (map s_hook_refs (s # selectors))"
      using conjunct1 [OF rest] conjunct1 [OF one] by simp
    show "distinct referenced'" using rest by (elim conjE)
    show "\<forall>s' \<in> set (s # selectors). (s_hook_refs s' = [] \<or> s_owner s' = ''P01'') \<and>
        (\<forall>n \<in> set (s_hook_refs s'). \<exists>h \<in> set hooks. h_target h = n \<and> h_dispatcher h = s_target s')"
      using rest one r(2) by simp
  qed
qed simp

lemma references_Inr:
  assumes "foldE (reference_hooks hooks) [] selectors = Inr referenced"
  shows "references_ok hooks selectors" "referenced = concat (map s_hook_refs selectors)"
proof -
  note loop = references_loop [OF assms, simplified]
  then show r: "referenced = concat (map s_hook_refs selectors)" by simp
  show "references_ok hooks selectors"
    using loop unfolding r by (simp add: references_ok_def list_all_iff list_ex_iff)
qed

lemma references_okD:
  "references_ok hooks selectors \<Longrightarrow> s \<in> set selectors \<Longrightarrow> n \<in> set (s_hook_refs s) \<Longrightarrow>
    s_owner s = ''P01'' \<and> (\<exists>h \<in> set hooks. h_target h = n \<and> h_dispatcher h = s_target s)"
  by (fastforce simp: references_ok_def list_all_iff list_ex_iff)

text \<open>A hook is run by the selector registered for it, or by one composite selector.\<close>

definition runs :: "selector \<Rightarrow> hook \<Rightarrow> bool" where
  "runs s h = (selector_identity s = hook_identity h \<and> s_owner s = h_owner h \<or>
     h_target h \<in> set (s_hook_refs s))"

lemma check_hook_Inr:
  "check_hook selectors (concat (map s_hook_refs selectors)) h = Inr () \<Longrightarrow> \<exists>s \<in> set selectors. runs s h"
  by (auto simp: check_hook_def runs_def split: option.splits dest!: find_mem)

section \<open>Adapters\<close>

definition adapters_ok ::
  "graph_node list \<Rightarrow> public_target list \<Rightarrow> string list \<Rightarrow> adapter list \<Rightarrow> bool" where
  "adapters_ok nodes targets hook_names adapters =
     (distinct (map a_target adapters) \<and> set (map a_target adapters) \<inter> set hook_names = {} \<and>
      list_all (\<lambda>a. a_public_target a \<in> set (map t_name targets) \<and> packet_of nodes (a_owner a)) adapters)"

lemma read_adapter_step:
  assumes "adapters_ok nodes targets hook_names adapters"
    and "read_adapter (map t_name targets) (map g_id nodes) hook_names adapters raw = Inr adapters'"
  shows "adapters_ok nodes targets hook_names adapters'"
proof -
  from assms(2) obtain a where a: "adapters' = adapters @ [a]" "a_target a \<notin> set (map a_target adapters)"
      "a_target a \<notin> set hook_names" "a_public_target a \<in> set (map t_name targets)" "packet_of nodes (a_owner a)"
    unfolding read_adapter_def bindE_Inr read_Inr by (auto simp: packet_of_def)
  have "set (map a_target adapters') = insert (a_target a) (set (map a_target adapters))" by (simp add: a(1))
  with assms(1) a show ?thesis by (simp add: adapters_ok_def)
qed

lemma adapters_Inr:
  assumes "foldE (read_adapter (map t_name targets) (map g_id nodes) hook_names) [] raws = Inr adapters"
  shows "adapters_ok nodes targets hook_names adapters"
  by (rule foldE_invariant [OF assms]) (auto simp: adapters_ok_def [of _ _ _ "[]"] intro: read_adapter_step)

section \<open>The whole contract\<close>

definition commands_ok :: "graph_node list \<Rightarrow> commands \<Rightarrow> bool" where
  "commands_ok nodes c =
     (targets_ok nodes (c_targets c) \<and> selectors_ok nodes (c_targets c) (c_selectors c) \<and>
      hooks_ok nodes (c_targets c) (c_hooks c) \<and> references_ok (c_hooks c) (c_selectors c) \<and>
      list_all (\<lambda>h. list_ex (\<lambda>s. runs s h) (c_selectors c)) (c_hooks c) \<and>
      adapters_ok nodes (c_targets c) (map h_target (c_hooks c)) (c_adapters c))"

lemma commands_Inr:
  assumes "validate_commands document nodes = Inr c"
  shows "commands_ok nodes c"
proof -
  from assms obtain targets raw_selectors selectors raw_hooks hooks referenced raw_adapters adapters where
    p: "expand_target_groups document (map g_id nodes) = Inr targets"
      "foldE (read_selector (map t_name targets) (map g_id nodes)) [] raw_selectors = Inr selectors"
      "foldE (read_hook targets nodes) [] raw_hooks = Inr hooks"
      "foldE (reference_hooks hooks) [] selectors = Inr referenced"
      "\<forall>h \<in> set hooks. check_hook selectors referenced h = Inr ()"
      "foldE (read_adapter (map t_name targets) (map g_id nodes) (map h_target hooks)) [] raw_adapters = Inr adapters"
      "c = \<lparr>c_targets = targets, c_selectors = selectors, c_hooks = hooks, c_adapters = adapters\<rparr>"
    by (auto simp: validate_commands_def Let_def bindE_Inr)
  have "list_all (\<lambda>h. list_ex (\<lambda>s. runs s h) selectors) hooks"
    using p(5) check_hook_Inr unfolding references_Inr(2) [OF p(4)] by (simp add: list_all_iff list_ex_iff)
  then show ?thesis
    unfolding p(7) commands_ok_def
    using targets_Inr [OF p(1)] selectors_Inr [OF p(2)] hooks_Inr [OF p(3)] references_Inr(1) [OF p(4)]
      adapters_Inr [OF p(6)] by simp
qed

section \<open>Hook names\<close>

lemma split_at:
  assumes "d @ c # r = d' @ c # r'" "c \<notin> set d" "c \<notin> set d'"
  shows "d = d'" "r = r'"
proof -
  have part: "takeWhile (\<lambda>x. x \<noteq> c) (e @ c # s) = e" if "c \<notin> set e" for e s
    using that by (induction e) auto
  from arg_cong [OF assms(1), of "takeWhile (\<lambda>x. x \<noteq> c)"] show "d = d'"
    unfolding part [OF assms(2)] part [OF assms(3)] .
  with assms(1) show "r = r'" by simp
qed

text \<open>Every character a pattern can consume satisfies a predicate.\<close>

primrec over :: "(char \<Rightarrow> bool) \<Rightarrow> re \<Rightarrow> bool" where
  "over P REmpty = True"
| "over P (RSet c) = (\<forall>x. in_cset c x \<longrightarrow> P x)"
| "over P RBegin = True"
| "over P REol = True"
| "over P REnd = True"
| "over P (RSeq r s) = (over P r \<and> over P s)"
| "over P (RAlt r s) = (over P r \<and> over P s)"
| "over P (RRep r lo hi) = over P r"
| "over P (RLook neg r) = True"

lemma copies_over:
  "copies D n b u t \<Longrightarrow> (\<And>b u t. D b u t \<Longrightarrow> \<forall>x \<in> set u. P x) \<Longrightarrow> \<forall>x \<in> set u. P x"
proof (induction n arbitrary: b u t)
  case (Suc n)
  then show ?case by (auto simp: ball_Un)
qed simp

lemma den_over: "den r b u t \<Longrightarrow> over P r \<Longrightarrow> \<forall>x \<in> set u. P x"
proof (induction r arbitrary: b u t)
  case (RRep r lo hi)
  from RRep.prems obtain n where n: "copies (den r) n b u t" and r: "over P r" by auto
  show ?case by (rule copies_over [OF n]) (rule RRep.IH [OF _ r])
qed (auto simp: ball_Un)

lemma target_no_underscore: "full_match target_pattern s \<Longrightarrow> CHR ''_'' \<notin> set s"
proof -
  obtain r where r: "re_compile target_pattern = Some r" "over (\<lambda>x. x \<noteq> CHR ''_'') r"
  proof -
    let ?a = "RSet (CSet False [(CHR ''a'', CHR ''z'')])"
      and ?w = "RSet (CSet False [(CHR ''a'', CHR ''z''), (CHR ''0'', CHR ''9'')])"
      and ?m = "RSet (CSet False [(CHR ''-'', CHR ''-'')])"
    have "re_compile target_pattern = Some (RSeq RBegin (RSeq ?a (RSeq (RRep ?w 0 None)
        (RSeq (RRep (RSeq ?m (RRep ?w 1 None)) 0 None) REol))))"
      by code_simp
    then show thesis by (rule that) (auto simp: in_cset_def)
  qed
  assume "full_match target_pattern s"
  then have "den r True s []" by (simp add: full_match_def r(1) re_fullmatch_iff)
  from den_over [OF this r(2)] show "CHR ''_'' \<notin> set s" by auto
qed

lemma id_shape: "v \<in> set expected_node_ids \<Longrightarrow> length v = 3"
proof -
  have "list_all (\<lambda>v. length v = 3) expected_node_ids" by code_simp
  then show "v \<in> set expected_node_ids \<Longrightarrow> length v = 3" by (simp add: list_all_iff)
qed

lemma lower_ids: "inj_on (map lower_char) (set expected_node_ids)"
proof -
  have "distinct (map (map lower_char) expected_node_ids)" by code_simp
  then show ?thesis by (simp add: distinct_map)
qed

lemma key_no_dash: "k \<in> set selector_keys \<Longrightarrow> CHR ''-'' \<notin> set k"
  by (auto simp: selector_keys_def)

lemma hook_name_inj:
  assumes name: "hidden_hook_name u d k s = hidden_hook_name u' d' k' s'"
    and "u \<in> set expected_node_ids" "u' \<in> set expected_node_ids"
    and "full_match target_pattern d" "full_match target_pattern d'"
    and "k \<in> set selector_keys" "k' \<in> set selector_keys"
  shows "u = u' \<and> d = d' \<and> k = k' \<and> s = s'"
proof -
  have "length (map lower_char u) = length (map lower_char u')" using assms(2,3) id_shape by simp
  with name have u: "map lower_char u = map lower_char u'" and
    rest: "d @ CHR ''_'' # (k @ CHR ''-'' # s) = d' @ CHR ''_'' # (k' @ CHR ''-'' # s')"
    by (simp_all add: hidden_hook_name_def)
  note d = split_at [OF rest target_no_underscore [OF assms(4)] target_no_underscore [OF assms(5)]]
  note k = split_at [OF d(2) key_no_dash [OF assms(6)] key_no_dash [OF assms(7)]]
  from u assms(2,3) have "u = u'" by (rule inj_onD [OF lower_ids])
  with d(1) k show ?thesis by simp
qed

lemma add_dependency_Inl:
  "add_dependency known expanded v = Inl e \<Longrightarrow> e \<in> ContractError ` {UnknownDependency, DuplicateDependency}"
  by (auto simp: add_dependency_def split: if_splits)

lemma expand_expression_Inl:
  "expand_expression x = Inl e \<Longrightarrow> e \<in> ContractError ` {ReversedRange, RangeTooHigh, JoinInRange, BadExpression}"
  using expression_groups [of x] by auto

lemma expand_Inl:
  assumes "expand_dependencies v known = Inl e"
  shows "e \<in> ContractError ` {NotStringArray, ReversedRange, RangeTooHigh, JoinInRange, BadExpression,
    UnknownDependency, DuplicateDependency}"
proof (cases "string_list v")
  case (Inl e')
  with assms show ?thesis by (auto simp: expand_dependencies_def string_list_def split: option.splits)
next
  case (Inr es)
  with assms have "foldE (add_expression known) [] es = Inl e" by (simp add: expand_dependencies_def)
  from foldE_Inl [OF this, of "\<lambda>_. True"] obtain ex x where "add_expression known ex x = Inl e" by auto
  then consider "expand_expression x = Inl e" | vs where "foldE (add_dependency known) ex vs = Inl e"
    by (auto simp: add_expression_def bindE_Inl)
  then show ?thesis
  proof cases
    case 1
    from expand_expression_Inl [OF this] show ?thesis by auto
  next
    case 2
    from foldE_Inl [OF this, of "\<lambda>_. True"] obtain ex' x' where "add_dependency known ex' x' = Inl e" by auto
    from add_dependency_Inl [OF this] show ?thesis by auto
  qed
qed

lemma read_Inl:
  "read_owner ids r v = Inl e \<Longrightarrow> e \<in> {ContractError r, UnhashableType}"
  "read_member names r v = Inl e \<Longrightarrow> e \<in> {ContractError r, UnhashableType}"
  "read_matching p r v = Inl e \<Longrightarrow> e = ContractError r"
  "read_object r v = Inl e \<Longrightarrow> e = ContractError r"
  by (cases v; auto simp: read_owner_def read_member_def read_matching_def read_object_def split: if_splits)+

lemma duplicate_name:
  assumes "read_hook targets nodes hooks raw = Inl (ContractError DuplicateHookTarget)"
  shows "\<exists>u d k s. u \<in> set (map g_id nodes) \<and> d \<in> set (map t_name targets) \<and> k \<in> set selector_keys \<and>
    (d, k, s) \<notin> set (map hook_identity hooks) \<and> hidden_hook_name u d k s \<in> set (map h_target hooks)"
  using assms
  by (auto simp: read_hook_def bindE_Inl read_Inr simp del: set_map dest!: read_Inl expand_Inl)

lemma hooks_never_collide:
  assumes "nodes_ok nodes" "targets_ok nodes targets"
  shows "foldE (read_hook targets nodes) [] raws \<noteq> Inl (ContractError DuplicateHookTarget)"
proof
  assume "foldE (read_hook targets nodes) [] raws = Inl (ContractError DuplicateHookTarget)"
  from foldE_Inl [OF this, of "hooks_ok nodes targets"] obtain hooks raw where
    hooks: "hooks_ok nodes targets hooks" and
    read: "read_hook targets nodes hooks raw = Inl (ContractError DuplicateHookTarget)"
    by (auto simp: hooks_ok_def [of _ _ "[]"] intro: read_hook_step)
  from duplicate_name [OF read] obtain u d k s where
    new: "u \<in> set (map g_id nodes)" "d \<in> set (map t_name targets)" "k \<in> set selector_keys"
      "(d, k, s) \<notin> set (map hook_identity hooks)"
    and name: "hidden_hook_name u d k s \<in> set (map h_target hooks)"
    by blast
  from name obtain h where h: "h \<in> set hooks" "hidden_hook_name u d k s = h_target h" by auto
  have ok: "hook_ok nodes targets h" using hooks h(1) by (simp add: hooks_ok_def list_all_iff)
  have names: "full_match target_pattern x" if "x \<in> set (map t_name targets)" for x
    using assms(2) that by (auto simp: targets_ok_def list_all_iff)
  have ids: "set (map g_id nodes) = set expected_node_ids" using assms(1) by (simp add: nodes_ok_def)
  have "hidden_hook_name u d k s = hidden_hook_name (h_owner h) (h_dispatcher h) (h_key h) (h_selector h)"
    using h(2) ok by (simp add: hook_ok_def)
  from hook_name_inj [OF this] have "d = h_dispatcher h \<and> k = h_key h \<and> s = h_selector h"
    using new(1-3) ok names unfolding ids hook_ok_def packet_of_def by blast
  with h(1) new(4) show False by (auto simp: hook_identity_def)
qed

section \<open>The catalogue\<close>

lemma consumers_by_iff: "set (consumers_by requires nodes v) = {g_id n | n. n \<in> set nodes \<and> v \<in> set (requires n)}"
  by (auto simp: consumers_by_def)

end
