(* ===== verification/Packet_Release.thy ===== *)
theory Packet_Release
  imports Packet_Command_Promises
begin

text \<open>
  The promises of the packet graph and of the command contract as properties, and the released graph of
  delivery/mvp/packet-graph.yaml, on which the contract \<open>dependency_graph\<close> is interpreted.
\<close>

section \<open>The released graph\<close>

definition released_node :: "string \<Rightarrow> string list \<Rightarrow> string list \<Rightarrow> json" where
  "released_node v start completion = JDict
     [(''id'', JStr v), (''kind'', JStr (expected_kind v)), (''owner'', JStr (expected_owner v)),
      (''lifecycle'', JStr ''planned''), (''start_requires'', jstrs start),
      (''completion_requires'', jstrs completion)]"

definition released_graph :: "json dict" where
  "released_graph =
     [(''schema_version'', JStr ''1.0.0''), (''kind'', JStr ''jumpship-mvp-packet-graph''),
      (''nodes'', JList
       [released_node ''P00'' [] [],
        released_node ''P01'' [''P00''] [],
        released_node ''P02'' [''P00'', ''P01''] [],
        released_node ''P03'' [''P01'', ''P02''] [],
        released_node ''P04'' [''P02'', ''P03''] [],
        released_node ''P05'' [''P02'', ''P03''] [],
        released_node ''P06'' [''P02'', ''P04''] [],
        released_node ''P07'' [''P02'', ''P04'', ''P06''] [],
        released_node ''P08'' [''P02'', ''P04'', ''P06'', ''P07''] [],
        released_node ''P09'' [''P00''] [''P01''],
        released_node ''P10'' [''P03'', ''P04'', ''P09''] [],
        released_node ''P11'' [''P02'', ''P09''] [],
        released_node ''P12'' [''P02'', ''P05'', ''P08'', ''P11''] [],
        released_node ''P13'' [''P05'', ''P12''] [],
        released_node ''P14'' [''P07'', ''P12''] [],
        released_node ''P15'' [''P08'', ''P13'', ''P14''] [],
        released_node ''P16'' [''P05'', ''P12'', ''P15''] [],
        released_node ''P17'' [''P13'', ''P15'', ''P16''] [],
        released_node ''P18'' [''P11'', ''P13'', ''P14'', ''P15'', ''P16'', ''P17''] [],
        released_node ''P19'' [''P02'', ''P05'', ''P08'', ''P12''] [],
        released_node ''P20'' [''P12'', ''P14'', ''P19''] [''P15''],
        released_node ''J19'' [''P19'', ''P20''] [],
        released_node ''P21'' [''P10'', ''P13'', ''P14'', ''P15'', ''P16'', ''P17'',
          ''P18'', ''J19''] [],
        released_node ''P22'' [''P02'', ''P03''] [],
        released_node ''P23'' [''P06'', ''P07'', ''P08'', ''P14'', ''P22''] [],
        released_node ''P24'' [''P08'', ''P22'', ''P23''] [],
        released_node ''P25'' [''P06'', ''P08'', ''P14'', ''P17'', ''P18'', ''P22'',
          ''P23'', ''P24''] [],
        released_node ''P26'' [''P08'', ''P14'', ''P15'', ''P16'', ''P17'', ''P18'',
          ''P19'', ''P20'', ''P21''] [],
        released_node ''J13'' [''P13'', ''P14'', ''P15'', ''P16'', ''P17'', ''P18'',
          ''P26''] [],
        released_node ''P27'' [''P10'', ''P11'', ''P12'', ''P13'', ''P14'', ''P15'',
          ''P16'', ''P17'', ''P18'', ''P19'', ''P20'', ''P21'', ''P22'', ''P23'', ''P24'',
          ''P25'', ''P26'', ''J13'', ''J19''] [],
        released_node ''P28'' [''P27''] []])]"

lemma released_accepted: "is_ok (validate_graph released_graph)"
  by code_simp

text \<open>The dependencies of the released graph, as the validation reads them.\<close>

definition released_dependencies :: "string depgraph" where
  "released_dependencies =
     (case validate_graph released_graph of Inl _ \<Rightarrow> [] | Inr (nodes, order) \<Rightarrow> graph_of nodes)"

interpretation released: dependency_graph released_dependencies
proof -
  obtain nodes order where r: "validate_graph released_graph = Inr (nodes, order)"
    using released_accepted by (auto simp: is_ok_iff)
  then have "graph_ok (graph_of nodes)"
    using validate_graph_Inr(1) by (auto simp: nodes_ok_def)
  then show "dependency_graph released_dependencies"
    by (intro graph_okI) (simp add: released_dependencies_def r)
qed

lemmas released_sorted = released.kahn_greedy

section \<open>Properties\<close>

text \<open>
  C10: an accepted packet graph consists of exactly the released packets and joins, is acyclic, and
  comes with an order of its nodes in which every node follows its start and completion dependencies; the
  order is the one that takes, again and again, the first node of the document that is free.
\<close>

theorem packet_graph_accepted:
  assumes "validate_graph document = Inr (nodes, order)"
  shows "distinct order \<and> set order = set expected_node_ids \<and>
    acyclic (depends (graph_of nodes)) \<and> well_ordered (graph_of nodes) order \<and>
    order = greedy (graph_of nodes) (length nodes) []"
proof -
  note ok = validate_graph_Inr [OF assms]
  have g: "graph_ok (graph_of nodes)" and ids: "set (map g_id nodes) = set expected_node_ids"
    using ok(1) by (simp_all add: nodes_ok_def)
  then show ?thesis
    using sort_nodes_Inr(1) [OF g, of order] sort_nodes_Inr(2) [OF g ok(2)] ok(2) ids by simp
qed

theorem packet_graph_accepted_witness:
  "\<exists>nodes order. validate_graph released_graph = Inr (nodes, order) \<and>
    set order = set expected_node_ids \<and> well_ordered (graph_of nodes) order"
proof -
  obtain nodes order where "validate_graph released_graph = Inr (nodes, order)"
    using released_accepted by (auto simp: is_ok_iff)
  with packet_graph_accepted [OF this] show ?thesis by blast
qed

text \<open>
  C13: Kahn's algorithm with its counters and its sorted ready list returns, within as many rounds as there
  are nodes, the order of the reference definition that recomputes the free nodes from scratch.
\<close>

theorem kahn_refines_greedy:
  "graph_ok G \<Longrightarrow> map_option snd (kahn G) = Some (greedy G (length G) [])"
  by (erule kahn_result) simp

theorem kahn_refines_greedy_witness:
  "map_option snd (kahn [(1::nat, []), (2, [1, 3]), (3, [1])]) = Some [1, 3, 2]"
  using kahn_refines_greedy [of "[(1::nat, []), (2, [1, 3]), (3, [1])]"] by code_simp

text \<open>
  C25: on nodes with distinct identifiers and known dependencies the sort succeeds exactly when there is no cycle;
  otherwise the error names at least one packet, and every packet it names waits for another it names.
\<close>

theorem sort_or_cycle:
  assumes "graph_ok (graph_of nodes)"
  shows "(case sort_nodes nodes of
      Inr order \<Rightarrow> acyclic (depends (graph_of nodes)) \<and> distinct order \<and> set order = set (map g_id nodes) \<and>
        well_ordered (graph_of nodes) order
    | Inl e \<Rightarrow> \<not> acyclic (depends (graph_of nodes)) \<and> (\<exists>ids. e = ContractError (Cycle ids) \<and> ids \<noteq> [] \<and>
        set ids \<subseteq> set (map g_id nodes) \<and>
        (\<forall>v \<in> set ids. \<exists>d \<in> set ids. (v, d) \<in> depends (graph_of nodes))))"
proof (cases "sort_nodes nodes")
  case (Inl e)
  have "\<not> acyclic (depends (graph_of nodes))"
    using sort_nodes_Inr(1) [OF assms, of "greedy (graph_of nodes) (length nodes) []"] Inl by simp
  moreover from assms Inl obtain ids where "e = ContractError (Cycle ids)" "ids \<noteq> []"
      "set ids \<subseteq> set (map g_id nodes)"
      "\<And>v. v \<in> set ids \<Longrightarrow> \<exists>d \<in> set ids. (v, d) \<in> depends (graph_of nodes)"
    by (rule cycle_named) blast
  ultimately show ?thesis using Inl by simp
next
  case (Inr order)
  then show ?thesis using sort_nodes_Inr [OF assms, of order] by simp
qed

definition sample_packet :: "string \<Rightarrow> string list \<Rightarrow> graph_node" where
  "sample_packet v ds = \<lparr>g_id = v, g_kind = ''packet'', g_owner = v, g_lifecycle = ''planned'',
     g_start = ds, g_completion = []\<rparr>"

definition sample_cycle :: "graph_node list" where
  "sample_cycle = [sample_packet ''P00'' [], sample_packet ''P01'' [''P00'', ''P02''],
     sample_packet ''P02'' [''P01'']]"

theorem sort_or_cycle_witness:
  "sort_nodes sample_cycle = Inl (ContractError (Cycle [''P01'', ''P02''])) \<and>
    \<not> acyclic (depends (graph_of sample_cycle))"
proof -
  have "graph_ok (graph_of sample_cycle)" by code_simp
  note sort_or_cycle [OF this]
  moreover have "sort_nodes sample_cycle = Inl (ContractError (Cycle [''P01'', ''P02'']))" by code_simp
  ultimately show ?thesis by simp
qed

text \<open>
  C38: a list of dependency expressions expands to the concatenation of what each expression stands for, in
  order; it is accepted exactly when every expression is, nothing occurs twice, and all is known. What an
  expression stands for is a non-empty, repetition-free part of the released identifiers.
\<close>

theorem expansion_exact:
  "(expand_dependencies v known = Inr ds \<longleftrightarrow>
    (\<exists>es groups. v = jstrs es \<and> list_all2 (\<lambda>e g. expand_expression e = Inr g) es groups \<and>
      ds = concat groups \<and> distinct ds \<and> set ds \<subseteq> set known)) \<and>
   (expand_expression e \<in> Inr ` {g. g \<noteq> [] \<and> distinct g \<and> set g \<subseteq> set expected_node_ids} \<or>
    expand_expression e \<in> (Inl \<circ> ContractError) ` {ReversedRange, RangeTooHigh, JoinInRange, BadExpression})"
proof (intro conjI)
  show "expand_dependencies v known = Inr ds \<longleftrightarrow>
      (\<exists>es groups. v = jstrs es \<and> list_all2 (\<lambda>e g. expand_expression e = Inr g) es groups \<and>
        ds = concat groups \<and> distinct ds \<and> set ds \<subseteq> set known)"
    unfolding expand_iff mapE_Inr ..
  show "expand_expression e \<in> Inr ` {g. g \<noteq> [] \<and> distinct g \<and> set g \<subseteq> set expected_node_ids} \<or>
      expand_expression e \<in> (Inl \<circ> ContractError) ` {ReversedRange, RangeTooHigh, JoinInRange, BadExpression}"
    by (rule expression_groups)
qed



section \<open>Commands\<close>

text \<open>
  C23: in an accepted command contract every public target, every selector and every internal target is
  named once; every hook belongs to a dispatching target and to a packet whose start dependencies it
  repeats; and a selector of that target runs it: the one registered for it, with the same owner, or a
  composite one of P01 that refers to it.
\<close>

theorem command_contract_accepted:
  assumes "validate_commands document nodes = Inr c"
  shows "distinct (map t_name (c_targets c)) \<and> distinct (map selector_identity (c_selectors c)) \<and>
    distinct (map h_target (c_hooks c) @ map a_target (c_adapters c)) \<and>
    (\<forall>h \<in> set (c_hooks c).
      kind_of (c_targets c) (h_dispatcher h) \<in> Some ` {''aggregate'', ''composite'', ''dispatcher''} \<and>
      start_requires_of nodes (h_owner h) = Some (h_depends_on h) \<and>
      (\<exists>s \<in> set (c_selectors c). s_target s = h_dispatcher h \<and>
        ((s_key s, s_value s) = (h_key h, h_selector h) \<and> s_owner s = h_owner h \<or>
         h_target h \<in> set (s_hook_refs s) \<and> s_owner s = ''P01'')))"
proof -
  note ok = commands_Inr [OF assms, unfolded commands_ok_def]
  have hooks: "distinct (map h_target (c_hooks c))" "list_all (hook_ok nodes (c_targets c)) (c_hooks c)"
    using ok by (simp_all add: hooks_ok_def)
  have names: "distinct (map t_name (c_targets c))" "distinct (map selector_identity (c_selectors c))"
      "distinct (map h_target (c_hooks c) @ map a_target (c_adapters c))"
    using ok hooks(1) by (auto simp: targets_ok_def selectors_ok_def adapters_ok_def)
  have run: "\<exists>s \<in> set (c_selectors c). s_target s = h_dispatcher h \<and>
      ((s_key s, s_value s) = (h_key h, h_selector h) \<and> s_owner s = h_owner h \<or>
       h_target h \<in> set (s_hook_refs s) \<and> s_owner s = ''P01'')" if h: "h \<in> set (c_hooks c)" for h
  proof -
    obtain s where s: "s \<in> set (c_selectors c)" "runs s h"
      using ok h by (auto simp: list_all_iff list_ex_iff)
    show ?thesis
    proof (cases "h_target h \<in> set (s_hook_refs s)")
      case True
      from ok have "references_ok (c_hooks c) (c_selectors c)" by (elim conjE)
      from references_okD [OF this s(1) True]
      obtain h' where "h' \<in> set (c_hooks c)" "h_target h' = h_target h" "h_dispatcher h' = s_target s"
          "s_owner s = ''P01''"
        by (elim conjE bexE) (rule that)
      moreover from this hooks(1) h have "h' = h" by (auto simp: distinct_map dest: inj_onD)
      ultimately show ?thesis using s(1) True by (intro bexI [of _ s]) simp_all
    next
      case False
      with s(2) have "selector_identity s = hook_identity h" "s_owner s = h_owner h" by (simp_all add: runs_def)
      with s(1) show ?thesis by (intro bexI [of _ s]) (simp_all add: selector_identity_def hook_identity_def)
    qed
  qed
  show ?thesis
    using names hooks(2) run by (simp add: list_all_iff hook_ok_def)
qed

definition sample_nodes :: "graph_node list" where
  "sample_nodes = [sample_packet ''P00'' [], sample_packet ''P01'' [''P00''],
     sample_packet ''P05'' [''P00'', ''P01'']]"

definition sample_commands :: "json dict" where
  "sample_commands =
     [(''schema_version'', JStr ''1.0.0''), (''kind'', JStr ''jumpship-mvp-command-contract''),
      (''selector_keys'', jstrs [''SUITE'', ''PHASE'', ''PLANE'', ''LAYER'']),
      (''target_groups'', JList
        [JDict [(''owner'', JStr ''P01''), (''kind'', JStr ''aggregate''),
           (''targets'', JDict [(''test-unit'', JStr ''Run unit-test hooks.'')])]]),
      (''selectors'', JList
        [JDict [(''target'', JStr ''test-unit''), (''key'', JStr ''SUITE''), (''value'', JStr ''api''),
           (''owner'', JStr ''P05'')]]),
      (''hooks'', JList
        [JDict [(''dispatcher'', JStr ''test-unit''), (''selector_key'', JStr ''SUITE''),
           (''selector'', JStr ''api''), (''owner'', JStr ''P05''), (''lifecycle'', JStr ''planned''),
           (''depends_on'', jstrs [''P00..P01'']), (''target'', JStr ''_p05_test-unit_SUITE-api'')]])]"

lemma sample_commands_accepted: "is_ok (validate_commands sample_commands sample_nodes)"
  by code_simp

theorem command_contract_accepted_witness:
  "\<exists>c. validate_commands sample_commands sample_nodes = Inr c \<and> distinct (map t_name (c_targets c))"
proof -
  obtain c where "validate_commands sample_commands sample_nodes = Inr c"
    using sample_commands_accepted by (auto simp: is_ok_iff)
  with command_contract_accepted [OF this] show ?thesis by blast
qed

text \<open>
  The name of a hidden hook determines its owner, dispatcher, key and selector, so that the check for
  duplicate hook names never fires once the identities are distinct.
\<close>

theorem hook_names_roundtrip:
  assumes "nodes_ok nodes" "targets_ok nodes targets"
  shows "foldE (read_hook targets nodes) [] raws \<noteq> Inl (ContractError DuplicateHookTarget) \<and>
    inj_on (\<lambda>(owner, dispatcher, key, selector). hidden_hook_name owner dispatcher key selector)
      (set (map g_id nodes) \<times> set (map t_name targets) \<times> set selector_keys \<times> UNIV)"
proof
  have names: "full_match target_pattern x" if "x \<in> set (map t_name targets)" for x
    using assms(2) that by (auto simp: targets_ok_def list_all_iff)
  have ids: "set (map g_id nodes) = set expected_node_ids" using assms(1) by (simp add: nodes_ok_def)
  show "inj_on (\<lambda>(owner, dispatcher, key, selector). hidden_hook_name owner dispatcher key selector)
      (set (map g_id nodes) \<times> set (map t_name targets) \<times> set selector_keys \<times> UNIV)"
  proof (rule inj_onI)
    fix p q
    assume pq: "p \<in> set (map g_id nodes) \<times> set (map t_name targets) \<times> set selector_keys \<times> UNIV"
      "q \<in> set (map g_id nodes) \<times> set (map t_name targets) \<times> set selector_keys \<times> UNIV"
      "(case p of (owner, dispatcher, key, selector) \<Rightarrow> hidden_hook_name owner dispatcher key selector) =
       (case q of (owner, dispatcher, key, selector) \<Rightarrow> hidden_hook_name owner dispatcher key selector)"
    obtain u d k s where p: "p = (u, d, k, s)" by (cases p)
    obtain u' d' k' s' where q: "q = (u', d', k', s')" by (cases q)
    have "hidden_hook_name u d k s = hidden_hook_name u' d' k' s'" using pq(3) by (simp add: p q)
    moreover have "u \<in> set expected_node_ids" "u' \<in> set expected_node_ids"
        "full_match target_pattern d" "full_match target_pattern d'"
        "k \<in> set selector_keys" "k' \<in> set selector_keys"
      using pq(1,2) names unfolding ids p q mem_Times_iff fst_conv snd_conv by simp_all
    ultimately have "u = u' \<and> d = d' \<and> k = k' \<and> s = s'" by (rule hook_name_inj)
    then show "p = q" by (simp add: p q)
  qed
qed (rule hooks_never_collide [OF assms])

theorem hook_names_roundtrip_witness:
  "\<exists>(nodes :: graph_node list) (targets :: public_target list). targets \<noteq> [] \<and>
    inj_on (\<lambda>(owner, dispatcher, key, selector). hidden_hook_name owner dispatcher key selector)
      (set (map g_id nodes) \<times> set (map t_name targets) \<times> set selector_keys \<times> UNIV)"
proof -
  obtain nodes order where "validate_graph released_graph = Inr (nodes, order)"
    using released_accepted by (auto simp: is_ok_iff)
  then have nodes: "nodes_ok nodes" by (rule validate_graph_Inr)
  let ?t = "\<lparr>t_name = ''help'', t_owner = ''P01'', t_kind = ''direct'', t_description = ''Help.''\<rparr>"
  have "full_match target_pattern ''help''" "''P01'' \<in> set expected_node_ids" by code_simp+
  then have "targets_ok nodes [?t]"
    using nodes by (simp add: targets_ok_def packet_of_def nodes_ok_def target_kinds_def starts_with_def)
  note inj = conjunct2 [OF hook_names_roundtrip [OF nodes this]]
  show ?thesis by (rule exI [of _ nodes], rule exI [of _ "[?t]"], rule conjI [OF _ inj]) simp
qed

text \<open>
  In the catalogue a node is listed as a start consumer of another exactly when it names that other in its
  start dependencies, and likewise for completion; the order it publishes is the sorted one.
\<close>

theorem catalog_consumers:
  assumes "build_catalog references graph_digest command_digest graph_document command_document = Inr catalog"
  shows "\<exists>nodes order c. validate_graph graph_document = Inr (nodes, order) \<and>
    validate_commands command_document nodes = Inr c \<and> references = Inr () \<and>
    catalog = catalog_of graph_digest command_digest nodes order c \<and>
    (\<forall>m \<in> set nodes. \<forall>n \<in> set nodes.
      (g_id n \<in> set (consumers_by g_start nodes (g_id m)) \<longleftrightarrow> g_id m \<in> set (g_start n)) \<and>
      (g_id n \<in> set (consumers_by g_completion nodes (g_id m)) \<longleftrightarrow> g_id m \<in> set (g_completion n)))"
proof -
  from assms obtain nodes order c where v: "validate_graph graph_document = Inr (nodes, order)"
      "validate_commands command_document nodes = Inr c" "references = Inr ()"
      "catalog = catalog_of graph_digest command_digest nodes order c"
    by (auto simp: build_catalog_def bindE_Inr)
  have "inj_on g_id (set nodes)"
    using validate_graph_Inr(1) [OF v(1)] by (simp add: nodes_ok_def graph_ok_def nodes_of_graph distinct_map)
  then have "g_id n \<in> set (consumers_by r nodes v) \<longleftrightarrow> v \<in> set (r n)" if "n \<in> set nodes" for n r v
    using that by (auto simp: consumers_by_iff dest: inj_onD)
  with v show ?thesis by blast
qed

definition sample_contract :: "json dict" where
  "sample_contract =
     [(''schema_version'', JStr ''1.0.0''), (''kind'', JStr ''jumpship-mvp-command-contract''),
      (''selector_keys'', jstrs [''SUITE'', ''PHASE'', ''PLANE'', ''LAYER'']),
      (''target_groups'', JList []), (''selectors'', JList []), (''hooks'', JList [])]"

theorem catalog_consumers_witness:
  "\<exists>nodes order. validate_graph released_graph = Inr (nodes, order) \<and>
    (\<forall>m \<in> set nodes. \<forall>n \<in> set nodes.
      g_id n \<in> set (consumers_by g_start nodes (g_id m)) \<longleftrightarrow> g_id m \<in> set (g_start n))"
proof -
  obtain nodes order where r: "validate_graph released_graph = Inr (nodes, order)"
    using released_accepted by (auto simp: is_ok_iff)
  let ?c = "\<lparr>c_targets = [], c_selectors = [], c_hooks = [], c_adapters = []\<rparr>"
  have "check_selector_keys (jstrs [''SUITE'', ''PHASE'', ''PLANE'', ''LAYER'']) = Inr ()" by code_simp
  then have "validate_commands sample_contract nodes = Inr ?c"
    by (simp add: validate_commands_def sample_contract_def get_or_null_def get_or_empty_def raise_if_def
        read_array_def expand_target_groups_def for_each_def)
  then have "build_catalog (Inr ()) [] [] released_graph sample_contract =
      Inr (catalog_of [] [] nodes order ?c)"
    by (simp add: build_catalog_def r)
  from catalog_consumers [OF this] show ?thesis by blast
qed

end
