(* ===== verification/Import_Graph.thy ===== *)
theory Import_Graph
  imports Transition_Graph "HOL-Library.Product_Lexorder"
begin

text \<open>
  Import boundaries, from scripts/architecture/architecture_check.py: the path predicates, the rule table
  \<open>RULES\<close>, the breadth-first search \<open>_shortest_paths\<close> and \<open>_boundary_violations\<close>, which
  applies the rules to everything a package reaches, so that no intermediate package hides a forbidden
  dependency. Reading the sources is not modelled: the import sites are the input.
\<close>

section \<open>Paths of packages\<close>

definition source_roots :: "string list" where
  "source_roots = [''agent'', ''cmd'', ''contracts'', ''evals'', ''internal'', ''test'', ''web'']"

definition external_go_target_prefix :: string where
  "external_go_target_prefix = ''external:''"

definition sanitized_trajectory_contract_package :: string where
  "sanitized_trajectory_contract_package = ''internal/contracts/quality/sanitizedtrajectory''"

definition model_provider_import_prefixes :: "string list" where
  "model_provider_import_prefixes =
     [''github.com/anthropics/anthropic-sdk-go'', ''github.com/google/generative-ai-go'',
      ''github.com/openai/openai-go'', ''github.com/sashabaranov/go-openai'', ''google.golang.org/genai'']"

definition model_provider_import_family_prefixes :: "string list" where
  "model_provider_import_family_prefixes =
     [''github.com/aws/aws-sdk-go-v2/service/bedrock'', ''github.com/aws/aws-sdk-go/service/bedrock'']"

definition aws_provisioning_import_prefixes :: "string list" where
  "aws_provisioning_import_prefixes =
     [''github.com/aws/aws-sdk-go-v2/service/autoscaling'',
      ''github.com/aws/aws-sdk-go-v2/service/cloudformation'',
      ''github.com/aws/aws-sdk-go-v2/service/ec2'', ''github.com/aws/aws-sdk-go-v2/service/ecs'',
      ''github.com/aws/aws-sdk-go-v2/service/iam'', ''github.com/aws/aws-sdk-go-v2/service/rds'',
      ''github.com/aws/aws-sdk-go/service/autoscaling'',
      ''github.com/aws/aws-sdk-go/service/cloudformation'',
      ''github.com/aws/aws-sdk-go/service/ec2'', ''github.com/aws/aws-sdk-go/service/ecs'',
      ''github.com/aws/aws-sdk-go/service/iam'', ''github.com/aws/aws-sdk-go/service/rds'']"

definition direct_database_driver_import_prefixes :: "string list" where
  "direct_database_driver_import_prefixes =
     [''github.com/go-sql-driver/mysql'', ''github.com/jackc/pgx'', ''github.com/lib/pq'',
      ''go.mongodb.org/mongo-driver'']"

definition has_prefix :: "string \<Rightarrow> string list \<Rightarrow> bool" where
  "has_prefix pkg prefixes = list_ex (\<lambda>p. pkg = p \<or> starts_with pkg (p @ ''/'')) prefixes"

definition external_import_path :: "string \<Rightarrow> string option" where
  "external_import_path pkg =
     (if starts_with pkg external_go_target_prefix
      then Some (drop (length external_go_target_prefix) pkg) else None)"

definition matches_external_import :: "string \<Rightarrow> string list \<Rightarrow> string list \<Rightarrow> bool" where
  "matches_external_import pkg prefixes family_prefixes =
     (case external_import_path pkg of
        None \<Rightarrow> False
      | Some imported \<Rightarrow>
          has_prefix imported prefixes \<or> list_ex (\<lambda>p. starts_with imported p) family_prefixes)"

definition is_repository_domain :: "string \<Rightarrow> bool" where
  "is_repository_domain pkg = (hd (split_on CHR ''/'' pkg) \<in> set source_roots)"

definition is_quality_forbidden_target :: "string \<Rightarrow> bool" where
  "is_quality_forbidden_target pkg =
     (if external_import_path pkg \<noteq> None then True
      else if \<not> is_repository_domain pkg then False
      else if has_prefix pkg [''internal/quality''] then False
      else pkg \<noteq> sanitized_trajectory_contract_package)"

definition is_guarded_external_target :: "string \<Rightarrow> bool" where
  "is_guarded_external_target pkg =
     (matches_external_import pkg model_provider_import_prefixes model_provider_import_family_prefixes \<or>
      matches_external_import pkg aws_provisioning_import_prefixes [] \<or>
      matches_external_import pkg direct_database_driver_import_prefixes [])"

definition is_direct_driver :: "string \<Rightarrow> bool" where
  "is_direct_driver pkg =
     (let parts = split_on CHR ''/'' pkg in
      if has_prefix pkg [''internal/persistence/target''] then True
      else if 4 \<le> length parts \<and> take 2 parts = [''internal'', ''corridors'']
      then parts ! 3 \<in> {''source'', ''target''}
      else False)"

definition is_implementation_from_contracts :: "string \<Rightarrow> bool" where
  "is_implementation_from_contracts pkg =
     (starts_with pkg ''internal/'' \<and> \<not> has_prefix pkg [''internal/contracts''])"

section \<open>The rules\<close>

record boundary_rule =
  r_name :: string
  r_explanation :: string
  r_source :: "string \<Rightarrow> bool"
  r_target :: "string \<Rightarrow> bool"

definition boundary_rules :: "boundary_rule list" where
  "boundary_rules =
     [\<lparr>r_name = ''mothership-narrow-authority'',
       r_explanation =
         (''mothership lifecycle code cannot reach harness, engine, decision, or evidence '' @
          ''implementations''),
       r_source = (\<lambda>pkg. has_prefix pkg [''cmd/mothership'', ''internal/mothership'']),
       r_target = (\<lambda>pkg. has_prefix pkg
         [''internal/harness'', ''internal/engine'', ''internal/decisions'', ''internal/evidence''])\<rparr>,
      \<lparr>r_name = ''harness-no-provisioning-or-drivers'',
       r_explanation =
         (''harness code cannot reach provisioning authority or direct source/target drivers''),
       r_source = (\<lambda>pkg. has_prefix pkg
         [''cmd/cell-agent'', ''cmd/analysis-runner'', ''internal/harness'']),
       r_target = (\<lambda>pkg. has_prefix pkg [''internal/mothership''] \<or> has_prefix pkg [''infra''] \<or>
         is_direct_driver pkg \<or> matches_external_import pkg aws_provisioning_import_prefixes [] \<or>
         matches_external_import pkg direct_database_driver_import_prefixes [])\<rparr>,
      \<lparr>r_name = ''engine-no-model-provider'',
       r_explanation = ''the deterministic engine cannot reach model or provider implementations'',
       r_source = (\<lambda>pkg. has_prefix pkg [''cmd/engine'', ''internal/engine'']),
       r_target = (\<lambda>pkg.
         has_prefix pkg [''internal/harness/provider'', ''internal/provider'', ''internal/providers''] \<or>
         matches_external_import pkg model_provider_import_prefixes
           model_provider_import_family_prefixes)\<rparr>,
      \<lparr>r_name = ''engine-typed-data-ports-only'',
       r_explanation =
         (''the deterministic engine must use typed ports and cannot reach provisioning or '' @
          ''direct database drivers''),
       r_source = (\<lambda>pkg. has_prefix pkg [''cmd/engine'', ''internal/engine'']),
       r_target = (\<lambda>pkg. has_prefix pkg [''infra'', ''internal/mothership''] \<or>
         is_direct_driver pkg \<or> matches_external_import pkg aws_provisioning_import_prefixes [] \<or>
         matches_external_import pkg direct_database_driver_import_prefixes [])\<rparr>,
      \<lparr>r_name = ''quality-sanitized-input-only'',
       r_explanation =
         (''internal quality code may import only its own packages and the explicit '' @
          ''sanitized-trajectory contract''),
       r_source = (\<lambda>pkg. has_prefix pkg [''internal/quality'']),
       r_target = is_quality_forbidden_target\<rparr>,
      \<lparr>r_name = ''quality-composition-no-restricted-state'',
       r_explanation =
         (''quality composition code cannot reach cell artifacts, evidence stores, persistence, '' @
          ''or corridor drivers''),
       r_source = (\<lambda>pkg. has_prefix pkg
         [''cmd/agent-quality'', ''cmd/agent-eval'', ''cmd/bundle-activator'', ''evals'']),
       r_target = (\<lambda>pkg. has_prefix pkg
         [''internal/cell'', ''internal/cellidentity'', ''internal/corridors'', ''internal/evidence'',
          ''internal/persistence/cell'', ''internal/persistence/target''])\<rparr>,
      \<lparr>r_name = ''contracts-no-implementation'',
       r_explanation = ''contract packages cannot import implementation packages'',
       r_source = (\<lambda>pkg. has_prefix pkg [''contracts'', ''internal/contracts'']),
       r_target = is_implementation_from_contracts\<rparr>]"

section \<open>Breadth-first search\<close>

record import_site =
  i_source :: string
  i_target :: string
  i_file :: string
  i_line :: int
  i_ecosystem :: string

definition edges_of :: "import_site list \<Rightarrow> edges" where
  "edges_of sites = map (\<lambda>s. (i_source s, i_target s)) sites"

text \<open>\<open>sorted(graph.get(v, set()))\<close>\<close>

definition successors :: "edges \<Rightarrow> string \<Rightarrow> string list" where
  "successors E v = sort (remdups (map snd (filter (\<lambda>e. fst e = v) E)))"

type_synonym search = "string list list \<times> string list \<times> string list dict"

text \<open>One target of the inner loop; the search state is the queue, the visited nodes and the paths.\<close>

definition visit :: "string list \<Rightarrow> search \<Rightarrow> string \<Rightarrow> search" where
  "visit way st target = (case st of (queue, visited, paths) \<Rightarrow>
     if target \<in> set visited then st
     else (queue @ [way @ [target]], visited @ [target], dset target (way @ [target]) paths))"

fun search_loop :: "edges \<Rightarrow> nat \<Rightarrow> search \<Rightarrow> string list dict option" where
  "search_loop E n ([], visited, paths) = Some paths"
| "search_loop E 0 (way # queue, visited, paths) = None"
| "search_loop E (Suc n) (way # queue, visited, paths) =
     search_loop E n (foldl (visit way) (queue, visited, paths) (successors E (last way)))"

text \<open>Every node is put into the queue at most once, so the nodes and the start bound the rounds.\<close>

definition shortest_paths :: "edges \<Rightarrow> string \<Rightarrow> string list dict option" where
  "shortest_paths E start = search_loop E (Suc (length (remdups (map snd E)))) ([[start]], [start], [])"

section \<open>Violations\<close>

record violation =
  v_rule :: string
  v_explanation :: string
  v_source :: string
  v_target :: string
  v_path :: "string list"
  v_direct :: bool
  v_edges :: "import_site list"
  v_source_file :: string
  v_line :: int

text \<open>The \<open>KeyError\<close> of \<open>site_by_edge\<close>, the \<open>IndexError\<close> of \<open>path_sites[0]\<close>; neither happens.\<close>

datatype boundary_error = MissingEdge | EmptyPath | SearchFuel

text \<open>\<open>setdefault\<close> keeps the first site of an edge.\<close>

definition site_by_edge :: "import_site list \<Rightarrow> string \<times> string \<Rightarrow> boundary_error + import_site" where
  "site_by_edge sites e =
     (case find (\<lambda>s. (i_source s, i_target s) = e) sites of
        None \<Rightarrow> Inl MissingEdge | Some s \<Rightarrow> Inr s)"

definition violation_of ::
  "import_site list \<Rightarrow> boundary_rule \<Rightarrow> string \<Rightarrow> string \<times> string list \<Rightarrow> boundary_error + violation" where
  "violation_of sites r source entry = (case entry of (target, way) \<Rightarrow>
     bindE (mapE (site_by_edge sites) (zip way (tl way))) (\<lambda>path_sites.
     case path_sites of
       [] \<Rightarrow> Inl EmptyPath
     | first_site # _ \<Rightarrow> Inr
         \<lparr>v_rule = r_name r, v_explanation = r_explanation r, v_source = source, v_target = target,
          v_path = way, v_direct = (length way = 2), v_edges = path_sites,
          v_source_file = i_file first_site, v_line = i_line first_site\<rparr>))"

text \<open>The targets of one source in sorted order; the targets are the keys of \<open>paths\<close>, hence distinct.\<close>

definition violations_from ::
  "import_site list \<Rightarrow> boundary_rule \<Rightarrow> string \<Rightarrow> boundary_error + violation list" where
  "violations_from sites r source =
     (case shortest_paths (edges_of sites) source of
        None \<Rightarrow> Inl SearchFuel
      | Some paths \<Rightarrow>
          mapE (violation_of sites r source) (filter (\<lambda>(target, way). r_target r target) (sort_key fst paths)))"

definition all_nodes :: "import_site list \<Rightarrow> string list" where
  "all_nodes sites = sort (remdups (map i_source sites @ map i_target sites))"

definition violations_of_rule ::
  "import_site list \<Rightarrow> boundary_rule \<Rightarrow> boundary_error + violation list" where
  "violations_of_rule sites r =
     bindE (mapE (violations_from sites r) (filter (r_source r) (all_nodes sites))) (\<lambda>vs. Inr (concat vs))"

definition boundary_violations :: "import_site list \<Rightarrow> boundary_error + violation list" where
  "boundary_violations sites =
     bindE (mapE (violations_of_rule sites) boundary_rules) (\<lambda>vs.
     Inr (sort_key (\<lambda>v. (v_rule v, v_source v, v_target v, v_path v)) (concat vs)))"

end
