(* ===== verification/Import_Promises.thy ===== *)
theory Import_Promises
  imports Import_Graph "HOL-Library.Sublist"
begin

text \<open>
  What the import checker promises. The search state is determined by the list of paths found so far, in
  the order found, and by how many of them left the queue (\<open>search_inv\<close>); from that the search returns, its
  keys are exactly the nodes the start reaches, and every recorded path is a shortest one. The boundary
  check therefore never raises and reports exactly the forbidden pairs, however long the chain between.
\<close>

section \<open>Prefixes\<close>

lemma split_on_append: "split_on c (a @ c # b) = split_on c a @ split_on c b"
proof (induction a)
  case (Cons x a)
  then show ?case by (cases "split_on c a") auto
qed simp

lemma has_prefix_parts:
  "p = q \<or> starts_with p (q @ ''/'') \<longleftrightarrow> prefix (split_on CHR ''/'' q) (split_on CHR ''/'' p)"
proof
  assume "p = q \<or> starts_with p (q @ ''/'')"
  then show "prefix (split_on CHR ''/'' q) (split_on CHR ''/'' p)"
    by (auto simp: starts_with_iff split_on_append)
next
  assume "prefix (split_on CHR ''/'' q) (split_on CHR ''/'' p)"
  then obtain zs where zs: "split_on CHR ''/'' p = split_on CHR ''/'' q @ zs" by (auto elim: prefixE)
  have p: "p = join_with ''/'' (split_on CHR ''/'' q @ zs)"
    using join_split [of "CHR ''/''" p] by (simp add: zs)
  have "join_with ''/'' (ws @ zs) = (if zs = [] then join_with ''/'' ws
      else join_with ''/'' ws @ ''/'' @ join_with ''/'' zs)" if "ws \<noteq> []" for ws
    using that
  proof (induction ws rule: induct_list012)
    case (2 w)
    then show ?case by (cases zs) auto
  qed auto
  from this [OF split_on_nonempty] p join_split [of "CHR ''/''" q]
  show "p = q \<or> starts_with p (q @ ''/'')"
    by (auto simp: starts_with_iff split: if_splits)
qed

lemma has_prefix_iff:
  "has_prefix p qs \<longleftrightarrow> (\<exists>q \<in> set qs. prefix (split_on CHR ''/'' q) (split_on CHR ''/'' p))"
  by (simp add: has_prefix_def list_ex_iff has_prefix_parts)

section \<open>The search\<close>

lemma set_successors [simp]: "t \<in> set (successors E v) \<longleftrightarrow> (v, t) \<in> set E"
  by (force simp: successors_def)

lemma distinct_successors: "distinct (successors E v)"
  by (simp add: successors_def)

definition entries :: "string list list \<Rightarrow> string list dict" where
  "entries A = map (\<lambda>w. (last w, w)) A"

definition extensions :: "string list list \<Rightarrow> string list \<Rightarrow> string list \<Rightarrow> string list list" where
  "extensions A w ts = map (\<lambda>t. w @ [t]) (filter (\<lambda>t. t \<notin> last ` set A) ts)"

lemma dkeys_entries: "dkeys (entries A) = map last A"
  by (simp add: dkeys_def entries_def)

lemma entries_append: "entries (A @ B) = entries A @ entries B"
  by (simp add: entries_def)

lemma foldl_visit:
  assumes "distinct ts" and "A \<noteq> []"
  shows "foldl (visit w) (Q, map last A, entries (tl A)) ts =
    (Q @ extensions A w ts, map last (A @ extensions A w ts), entries (tl (A @ extensions A w ts)))"
  using assms
proof (induction ts arbitrary: Q A)
  case Nil
  then show ?case by (simp add: extensions_def)
next
  case (Cons t ts)
  show ?case
  proof (cases "t \<in> last ` set A")
    case True
    with Cons show ?thesis by (auto simp: visit_def extensions_def)
  next
    case False
    have ext: "extensions A w (t # ts) = (w @ [t]) # extensions (A @ [w @ [t]]) w ts"
    proof -
      have "filter (\<lambda>x. x \<notin> last ` set A) ts = filter (\<lambda>x. x \<notin> last ` set (A @ [w @ [t]])) ts"
        by (rule filter_cong) (use Cons.prems(1) in auto)
      with False show ?thesis by (simp add: extensions_def)
    qed
    have fresh: "t \<notin> set (dkeys (entries (tl A)))"
      using False Cons.prems(2) by (cases A) (auto simp: dkeys_entries)
    have "visit w (Q, map last A, entries (tl A)) t =
        (Q @ [w @ [t]], map last (A @ [w @ [t]]), entries (tl (A @ [w @ [t]])))"
      using False Cons.prems(2) by (simp add: visit_def dset_fresh [OF fresh] entries_append) (simp add: entries_def)
    with Cons.IH [of "A @ [w @ [t]]" "Q @ [w @ [t]]"] Cons.prems show ?thesis
      by (simp add: ext)
  qed
qed

text \<open>\<open>X\<close> are the paths taken from the queue, \<open>Q\<close> the queue.\<close>

definition search_inv :: "edges \<Rightarrow> string \<Rightarrow> string list list \<Rightarrow> string list list \<Rightarrow> bool" where
  "search_inv E s X Q \<longleftrightarrow> X @ Q \<noteq> [] \<and> hd (X @ Q) = [s] \<and> distinct (map last (X @ Q)) \<and>
     (\<forall>w \<in> set (X @ Q). path E w \<and> hd w = s) \<and> sorted (map length (X @ Q)) \<and>
     (Q \<noteq> [] \<longrightarrow> (\<forall>w \<in> set (X @ Q). length w \<le> Suc (length (hd Q)))) \<and>
     (\<forall>w \<in> set X. \<forall>t. (last w, t) \<in> set E \<longrightarrow>
        (\<exists>v \<in> set (X @ Q). last v = t \<and> length v \<le> Suc (length w)))"

lemma search_inv_start: "search_inv E s [] [[s]]"
  by (simp add: search_inv_def)

lemma path_nonempty: "path E w \<Longrightarrow> w \<noteq> []"
  by auto

lemma path_snoc: "w \<noteq> [] \<Longrightarrow> path E (w @ [t]) \<longleftrightarrow> path E w \<and> (last w, t) \<in> set E"
  by (induction w rule: induct_list012) auto

lemma hd_snoc: "w \<noteq> [] \<Longrightarrow> hd (w @ [t]) = hd w"
  by simp

lemma search_inv_step:
  assumes inv: "search_inv E s X (w # Q)"
  shows "search_inv E s (X @ [w]) (Q @ extensions (X @ w # Q) w (successors E (last w)))"
proof -
  define A where "A = X @ w # Q"
  define N where "N = extensions A w (successors E (last w))"
  have A: "A \<noteq> []" "hd A = [s]" "distinct (map last A)" "\<forall>v \<in> set A. path E v \<and> hd v = s"
      "sorted (map length A)" "\<forall>v \<in> set A. length v \<le> Suc (length w)"
      "\<forall>x \<in> set X. \<forall>t. (last x, t) \<in> set E \<longrightarrow> (\<exists>v \<in> set A. last v = t \<and> length v \<le> Suc (length x))"
    using inv by (auto simp: search_inv_def A_def)
  have w: "path E w" "hd w = s" "w \<noteq> []"
    using A(4) path_nonempty by (auto simp: A_def)
  have N_mem: "v \<in> set N \<longleftrightarrow> (\<exists>t. v = w @ [t] \<and> (last w, t) \<in> set E \<and> t \<notin> last ` set A)" for v
    by (auto simp: N_def extensions_def)
  have N_last: "map last N = filter (\<lambda>t. t \<notin> last ` set A) (successors E (last w))"
    by (simp add: N_def extensions_def comp_def)
  have sorted_Q: "\<forall>v \<in> set Q. length w \<le> length v" and sorted_A: "sorted (map length (A @ N))"
    using A(5,6) by (auto simp: A_def sorted_append N_mem sorted_map N_def extensions_def sorted_wrt_map)
  have distinct_A: "distinct (map last (A @ N))"
    using A(3) by (auto simp: N_last distinct_successors)
  have paths_A: "\<forall>v \<in> set (A @ N). path E v \<and> hd v = s"
    using A(4) w by (auto simp: N_mem path_snoc)
  have heads: "length v \<le> Suc (length (hd (Q @ N)))" if "Q @ N \<noteq> []" "v \<in> set (A @ N)" for v
  proof -
    have "hd (Q @ N) \<in> set Q \<union> set N" using that(1) hd_in_set [of "Q @ N"] by simp
    then have "length w \<le> length (hd (Q @ N))" using sorted_Q by (auto simp: N_mem)
    moreover have "length v \<le> Suc (length w)" using that(2) A(6) by (auto simp: N_mem)
    ultimately show ?thesis by simp
  qed
  have steps: "\<exists>v \<in> set (A @ N). last v = t \<and> length v \<le> Suc (length x)"
    if "x \<in> set (X @ [w])" "(last x, t) \<in> set E" for x t
  proof (cases "x \<in> set X")
    case True
    with A(7) that(2) show ?thesis by fastforce
  next
    case False
    with that have x: "x = w" and t: "(last w, t) \<in> set E" by auto
    show ?thesis
    proof (cases "t \<in> last ` set A")
      case True
      with A(6) show ?thesis by (auto simp: x)
    next
      case False
      with t have "w @ [t] \<in> set N" by (simp add: N_mem)
      then show ?thesis by (intro bexI [of _ "w @ [t]"]) (simp_all add: x)
    qed
  qed
  have "(X @ [w]) @ Q @ N = A @ N" by (simp add: A_def)
  moreover have "hd (A @ N) = [s]" using A(1,2) by simp
  ultimately show ?thesis
    using A(1) distinct_A paths_A sorted_A heads steps
    unfolding search_inv_def A_def [symmetric] N_def [symmetric]
    by (metis Nil_is_append_conv)
qed

lemma unvisited_decreases:
  fixes T :: "string set"
  assumes fin: "finite T" and "set ns \<subseteq> T - V" and "distinct ns"
  shows "length ns + card (T - (V \<union> set ns)) = card (T - V)"
proof -
  have "T - (V \<union> set ns) = (T - V) - set ns" by auto
  then have "card (T - (V \<union> set ns)) = card (T - V) - length ns"
    using card_Diff_subset [of "set ns" "T - V"] assms(2,3) by (simp add: distinct_card)
  moreover have "length ns \<le> card (T - V)"
    using card_mono [OF _ assms(2)] fin assms(3) by (simp add: distinct_card)
  ultimately show ?thesis by simp
qed

lemma search_loop_returns:
  assumes "search_inv E s X Q"
    and "length Q + card (snd ` set E - last ` set (X @ Q)) \<le> n"
  shows "\<exists>A. search_loop E n (Q, map last (X @ Q), entries (tl (X @ Q))) = Some (entries (tl A)) \<and>
    search_inv E s A []"
  using assms
proof (induction n arbitrary: X Q)
  case 0
  then show ?case by (auto intro!: exI [of _ X])
next
  case (Suc n)
  show ?case
  proof (cases Q)
    case Nil
    with Suc.prems(1) show ?thesis by auto
  next
    case (Cons w Q')
    define N where "N = extensions (X @ w # Q') w (successors E (last w))"
    define T where "T = snd ` set E"
    have inv: "search_inv E s (X @ [w]) (Q' @ N)"
      using Suc.prems(1) search_inv_step by (simp add: Cons N_def)
    have "set (map last N) \<subseteq> T - last ` set (X @ Q)"
      by (force simp: N_def extensions_def T_def Cons)
    moreover have "distinct (map last N)"
      using inv by (simp add: search_inv_def)
    moreover have "finite T" by (simp add: T_def)
    ultimately have "length N + card (T - (last ` set (X @ Q) \<union> set (map last N))) = card (T - last ` set (X @ Q))"
      using unvisited_decreases [of T "map last N"] by simp
    with Suc.prems(2) have "length (Q' @ N) + card (T - last ` set ((X @ [w]) @ Q' @ N)) \<le> n"
      by (simp add: Cons T_def image_Un Un_assoc insert_commute)
    from Suc.IH [OF inv this [unfolded T_def]] show ?thesis
      using foldl_visit [OF distinct_successors, of "X @ w # Q'" w Q' E "last w"]
      by (simp add: Cons N_def)
  qed
qed

lemma reach_path: "reach E a b \<longleftrightarrow> (\<exists>w. path E w \<and> hd w = a \<and> last w = b)"
proof
  show "reach E a b \<Longrightarrow> \<exists>w. path E w \<and> hd w = a \<and> last w = b"
  proof (induction rule: reach.induct)
    case (refl a)
    show ?case by (rule exI [of _ "[a]"]) simp
  next
    case (step a b c)
    then obtain w where w: "path E w" "hd w = a" "last w = b" by blast
    from w(1) have "w \<noteq> []" by (rule path_nonempty)
    with w step.hyps(2) show ?case by (intro exI [of _ "w @ [c]"]) (simp add: path_snoc)
  qed
qed (auto dest: path_reach)

lemma search_shortest:
  assumes inv: "search_inv E s A []" and "path E u" and "hd u = s"
  shows "\<exists>v \<in> set A. last v = last u \<and> length v \<le> length u"
  using assms(2,3)
proof (induction u rule: rev_induct)
  case (snoc t u)
  show ?case
  proof (cases "u = []")
    case True
    have "A \<noteq> []" "hd A = [s]" using inv by (simp_all add: search_inv_def)
    then have "[s] \<in> set A" using hd_in_set [of A] by simp
    with True snoc.prems show ?thesis by (intro bexI [of _ "[s]"]) simp_all
  next
    case False
    with snoc.prems have u: "path E u" "hd u = s" "(last u, t) \<in> set E" by (simp_all add: path_snoc)
    from snoc.IH [OF u(1,2)] obtain v where v: "v \<in> set A" "last v = last u" "length v \<le> length u"
      by blast
    with inv u(3) obtain v' where "v' \<in> set A" "last v' = t" "length v' \<le> Suc (length v)"
      unfolding search_inv_def by (metis append_Nil2)
    with v(3) show ?thesis by (intro bexI [of _ v']) simp_all
  qed
qed simp

lemma shortest_paths_returns:
  "\<exists>A. shortest_paths E s = Some (entries (tl A)) \<and> search_inv E s A []"
proof -
  have "card (snd ` set E - {s}) \<le> length (remdups (map snd E))"
    by (simp add: card_Diff_subset length_remdups_card_conv card_mono)
  with search_loop_returns [OF search_inv_start, where E = E and s = s and n = "Suc (length (remdups (map snd E)))"]
  show ?thesis by (simp add: shortest_paths_def entries_def)
qed

definition shortest :: "edges \<Rightarrow> string \<Rightarrow> string \<Rightarrow> string list \<Rightarrow> bool" where
  "shortest E s t w \<longleftrightarrow> path E w \<and> hd w = s \<and> last w = t \<and>
     (\<forall>u. path E u \<longrightarrow> hd u = s \<longrightarrow> last u = t \<longrightarrow> length w \<le> length u)"

lemma shortest_paths_facts:
  "\<exists>P. shortest_paths E s = Some P \<and> distinct (dkeys P) \<and>
    (\<forall>t. t \<in> set (dkeys P) \<longleftrightarrow> reach E s t \<and> t \<noteq> s) \<and>
    (\<forall>t w. (t, w) \<in> set P \<longrightarrow> shortest E s t w)"
proof -
  obtain A where A: "shortest_paths E s = Some (entries (tl A))" and inv: "search_inv E s A []"
    using shortest_paths_returns by blast
  from inv obtain L where L: "A = [s] # L" by (cases A) (auto simp: search_inv_def)
  have dist: "distinct (map last A)" and paths: "\<And>w. w \<in> set A \<Longrightarrow> path E w \<and> hd w = s"
    using inv by (auto simp: search_inv_def)
  have mem: "t \<in> last ` set A \<longleftrightarrow> reach E s t" for t
  proof
    assume "t \<in> last ` set A"
    then obtain w where "w \<in> set A" "t = last w" by blast
    with paths show "reach E s t" by (auto simp: reach_path)
  next
    assume "reach E s t"
    then obtain u where "path E u" "hd u = s" "last u = t" by (auto simp: reach_path)
    with search_shortest [OF inv, of u] show "t \<in> last ` set A" by (metis imageI)
  qed
  have keys: "t \<in> set (dkeys (entries (tl A))) \<longleftrightarrow> reach E s t \<and> t \<noteq> s" for t
    using dist mem [of t] by (auto simp: dkeys_entries L)
  have least: "shortest E s t w" if "(t, w) \<in> set (entries (tl A))" for t w
  proof -
    from that have w: "w \<in> set A" "t = last w" by (auto simp: entries_def L)
    have "length w \<le> length u" if u: "path E u" "hd u = s" "last u = t" for u
    proof -
      from search_shortest [OF inv u(1,2)] obtain v where
        v: "v \<in> set A" "last v = last u" "length v \<le> length u" by blast
      have "v = w"
        using dist v w u(3) by (simp add: distinct_map inj_on_def)
      with v(3) show ?thesis by simp
    qed
    with paths [OF w(1)] w(2) show ?thesis by (simp add: shortest_def)
  qed
  have "distinct (dkeys (entries (tl A)))" using dist by (simp add: dkeys_entries L)
  with A keys least show ?thesis by blast
qed

end
