(* ===== verification/Import_Boundaries.thy ===== *)
theory Import_Boundaries
  imports Import_Promises
begin

text \<open>
  The boundary check: what a reported violation is (\<open>reported\<close>), that nothing else is reported, and that
  every forbidden pair is, whatever packages lie between. The properties of the import checker are here.
\<close>

section \<open>Sites of a path\<close>

lemma edges_of_mem: "(a, b) \<in> set (edges_of sites) \<longleftrightarrow> (\<exists>s \<in> set sites. i_source s = a \<and> i_target s = b)"
  by (auto simp: edges_of_def)

lemma site_by_edge_Inr: "site_by_edge sites e = Inr s \<Longrightarrow> s \<in> set sites \<and> (i_source s, i_target s) = e"
  by (auto simp: site_by_edge_def find_Some_iff split: option.splits)

lemma site_by_edge_total: "e \<in> set (edges_of sites) \<Longrightarrow> \<exists>s. site_by_edge sites e = Inr s"
  by (cases "find (\<lambda>s. (i_source s, i_target s) = e) sites")
    (auto simp: site_by_edge_def find_None_iff edges_of_def)

lemma path_steps: "path E w \<Longrightarrow> set (zip w (tl w)) \<subseteq> set E"
  by (induction E w rule: path.induct) auto

lemma path_two: "path E w \<Longrightarrow> hd w \<noteq> last w \<Longrightarrow> \<exists>a b u. w = a # b # u"
  by (cases w; cases "tl w") auto

lemma path_sites:
  assumes "path (edges_of sites) w"
  obtains us where "mapE (site_by_edge sites) (zip w (tl w)) = Inr us" and "set us \<subseteq> set sites"
    and "map (\<lambda>s. (i_source s, i_target s)) us = zip w (tl w)"
proof -
  obtain us where us: "mapE (site_by_edge sites) (zip w (tl w)) = Inr us"
    using mapE_total [of "zip w (tl w)" "site_by_edge sites"] site_by_edge_total path_steps [OF assms]
    by blast
  from us have rel: "list_all2 (\<lambda>e s. site_by_edge sites e = Inr s) (zip w (tl w)) us"
    by (simp add: mapE_Inr)
  have "set us \<subseteq> set sites"
    using mapE_mem [OF us] site_by_edge_Inr by blast
  moreover from rel have "map (\<lambda>s. (i_source s, i_target s)) us = zip w (tl w)"
    by (induction rule: list_all2_induct) (auto dest: site_by_edge_Inr)
  ultimately show thesis using us that by blast
qed

section \<open>Violations\<close>

text \<open>
  A violation of the rule \<open>r\<close>: a source and a target the rule forbids, a shortest chain between them, an
  import site for each step of it, and the place of the first one. It is marked direct exactly when the
  source imports the target itself.
\<close>

definition reported :: "import_site list \<Rightarrow> boundary_rule \<Rightarrow> violation \<Rightarrow> bool" where
  "reported sites r v \<longleftrightarrow>
     v_rule v = r_name r \<and> v_explanation v = r_explanation r \<and>
     r_source r (v_source v) \<and> r_target r (v_target v) \<and> v_source v \<noteq> v_target v \<and>
     shortest (edges_of sites) (v_source v) (v_target v) (v_path v) \<and>
     v_direct v = ((v_source v, v_target v) \<in> set (edges_of sites)) \<and>
     set (v_edges v) \<subseteq> set sites \<and> v_edges v \<noteq> [] \<and>
     map (\<lambda>s. (i_source s, i_target s)) (v_edges v) = zip (v_path v) (tl (v_path v)) \<and>
     v_source_file v = i_file (hd (v_edges v)) \<and> v_line v = i_line (hd (v_edges v))"

lemma shortest_direct:
  assumes "shortest E s t w" and "s \<noteq> t"
  shows "length w = 2 \<longleftrightarrow> (s, t) \<in> set E"
proof
  assume "length w = 2"
  then obtain a b where "w = [a, b]" by (auto simp: length_Suc_conv numeral_2_eq_2)
  with assms show "(s, t) \<in> set E" by (auto simp: shortest_def)
next
  assume "(s, t) \<in> set E"
  then have "path E [s, t]" by simp
  with assms(1) have "length w \<le> length [s, t]" unfolding shortest_def
    by (metis last.simps list.sel(1) list.distinct(1))
  moreover obtain a b u where "w = a # b # u"
    using assms path_two [of E w] by (auto simp: shortest_def)
  ultimately show "length w = 2" by simp
qed

lemma violation_of_reported:
  assumes w: "shortest (edges_of sites) s t w" and "s \<noteq> t" and "r_source r s" and "r_target r t"
  obtains v where "violation_of sites r s (t, w) = Inr v" and "reported sites r v"
    and "v_source v = s" and "v_target v = t"
proof -
  have p: "path (edges_of sites) w" "hd w = s" "last w = t" using w by (simp_all add: shortest_def)
  from path_sites [OF p(1)] obtain us where
    us: "mapE (site_by_edge sites) (zip w (tl w)) = Inr us" "set us \<subseteq> set sites"
      "map (\<lambda>s. (i_source s, i_target s)) us = zip w (tl w)" .
  from path_two [OF p(1)] p \<open>s \<noteq> t\<close> obtain a b u where "w = a # b # u" by auto
  with us(3) obtain u0 us' where us': "us = u0 # us'" by (cases us) auto
  define v where "v = \<lparr>v_rule = r_name r, v_explanation = r_explanation r, v_source = s, v_target = t,
    v_path = w, v_direct = (length w = 2), v_edges = us, v_source_file = i_file u0, v_line = i_line u0\<rparr>"
  have "violation_of sites r s (t, w) = Inr v"
    using us(1) by (simp add: violation_of_def us' v_def)
  moreover have "reported sites r v"
    using assms us(2,3) shortest_direct [OF w \<open>s \<noteq> t\<close>] by (simp add: reported_def v_def us')
  ultimately show thesis using that by (simp add: v_def)
qed

lemma violations_from_exact:
  assumes "r_source r s"
  obtains vs where "violations_from sites r s = Inr vs"
    and "\<And>v. v \<in> set vs \<Longrightarrow> reported sites r v"
    and "\<And>t. reach (edges_of sites) s t \<Longrightarrow> s \<noteq> t \<Longrightarrow> r_target r t \<Longrightarrow>
      \<exists>v \<in> set vs. v_source v = s \<and> v_target v = t"
proof -
  obtain P where P: "shortest_paths (edges_of sites) s = Some P"
    and all_keys: "\<forall>t. t \<in> set (dkeys P) \<longleftrightarrow> reach (edges_of sites) s t \<and> t \<noteq> s"
    and all_least: "\<forall>t w. (t, w) \<in> set P \<longrightarrow> shortest (edges_of sites) s t w"
    using shortest_paths_facts [of "edges_of sites" s] by (elim exE conjE)
  note keys = all_keys [rule_format] and least = all_least [rule_format]
  define es where "es = filter (\<lambda>(target, way). r_target r target) (sort_key fst P)"
  have es: "(t, w) \<in> set es \<longleftrightarrow> (t, w) \<in> set P \<and> r_target r t" for t w
    by (auto simp: es_def)
  have made: "\<exists>v. violation_of sites r s (t, w) = Inr v \<and> reported sites r v \<and> v_source v = s \<and> v_target v = t"
    if "(t, w) \<in> set es" for t w
  proof -
    from that have "(t, w) \<in> set P" "r_target r t" by (simp_all add: es)
    moreover have "t \<in> set (dkeys P)" using \<open>(t, w) \<in> set P\<close> by (force simp: dkeys_def)
    ultimately show ?thesis
      using violation_of_reported [OF least [OF \<open>(t, w) \<in> set P\<close>] _ assms] keys by metis
  qed
  then obtain vs where vs: "mapE (violation_of sites r s) es = Inr vs"
    using mapE_total [of es "violation_of sites r s"] by (metis surj_pair)
  show thesis
  proof (rule that)
    show "violations_from sites r s = Inr vs"
      using P vs by (simp add: violations_from_def es_def)
    show "reported sites r v" if v: "v \<in> set vs" for v
    proof -
      from mapE_mem [OF vs v] obtain e where e: "e \<in> set es" "violation_of sites r s e = Inr v" by blast
      obtain t w where "e = (t, w)" by (cases e)
      with e made [of t w] show ?thesis by auto
    qed
    show "\<exists>v \<in> set vs. v_source v = s \<and> v_target v = t"
      if "reach (edges_of sites) s t" "s \<noteq> t" "r_target r t" for t
    proof -
      from that(1,2) keys have "t \<in> set (dkeys P)" by simp
      then obtain w where "(t, w) \<in> set P" by (auto simp: dkeys_def)
      with that(3) have tw: "(t, w) \<in> set es" by (simp add: es)
      from mapE_image [OF vs tw] made [OF tw] show ?thesis by auto
    qed
  qed
qed

lemma all_nodes_source: "reach (edges_of sites) s t \<Longrightarrow> s \<noteq> t \<Longrightarrow> s \<in> set (all_nodes sites)"
proof -
  assume "reach (edges_of sites) s t" "s \<noteq> t"
  then obtain w where w: "path (edges_of sites) w" "hd w = s" "last w = t" by (auto simp: reach_path)
  with path_two [OF w(1)] \<open>s \<noteq> t\<close> obtain b u where "w = s # b # u" by auto
  with w(1) have "(s, b) \<in> set (edges_of sites)" by simp
  then show ?thesis by (auto simp: all_nodes_def edges_of_mem)
qed

lemma violations_of_rule_exact:
  obtains vs where "violations_of_rule sites r = Inr vs"
    and "\<And>v. v \<in> set vs \<Longrightarrow> reported sites r v"
    and "\<And>s t. r_source r s \<Longrightarrow> reach (edges_of sites) s t \<Longrightarrow> s \<noteq> t \<Longrightarrow> r_target r t \<Longrightarrow>
      \<exists>v \<in> set vs. v_source v = s \<and> v_target v = t"
proof -
  define ss where "ss = filter (r_source r) (all_nodes sites)"
  have ss: "s \<in> set ss \<longleftrightarrow> r_source r s \<and> s \<in> set (all_nodes sites)" for s by (auto simp: ss_def)
  obtain vss where vss: "mapE (violations_from sites r) ss = Inr vss"
    using mapE_total [of ss "violations_from sites r"] violations_from_exact ss by metis
  show thesis
  proof (rule that)
    show "violations_of_rule sites r = Inr (concat vss)"
      using vss by (simp add: violations_of_rule_def ss_def)
    show "reported sites r v" if "v \<in> set (concat vss)" for v
    proof -
      from that obtain vs where vs: "vs \<in> set vss" "v \<in> set vs" by auto
      from mapE_mem [OF vss vs(1)] obtain s where "s \<in> set ss" "violations_from sites r s = Inr vs" by blast
      moreover from this(1) have "r_source r s" by (simp add: ss)
      ultimately show ?thesis using violations_from_exact [of r s sites] vs(2) by (metis sum.inject(2))
    qed
    show "\<exists>v \<in> set (concat vss). v_source v = s \<and> v_target v = t"
      if "r_source r s" "reach (edges_of sites) s t" "s \<noteq> t" "r_target r t" for s t
    proof -
      have "s \<in> set ss" using that all_nodes_source by (simp add: ss)
      from mapE_image [OF vss this] obtain vs where vs: "vs \<in> set vss" "violations_from sites r s = Inr vs"
        by blast
      from violations_from_exact [OF that(1), of sites] vs(2) that(2-4)
      have "\<exists>v \<in> set vs. v_source v = s \<and> v_target v = t" by (metis sum.inject(2))
      with vs(1) show ?thesis by auto
    qed
  qed
qed

lemma boundary_violations_facts:
  "\<exists>vs. boundary_violations sites = Inr vs \<and>
    (\<forall>v \<in> set vs. \<exists>r \<in> set boundary_rules. reported sites r v) \<and>
    (\<forall>r \<in> set boundary_rules. \<forall>s t. r_source r s \<longrightarrow> r_target r t \<longrightarrow> s \<noteq> t \<longrightarrow>
      reach (edges_of sites) s t \<longrightarrow>
      (\<exists>v \<in> set vs. v_rule v = r_name r \<and> v_source v = s \<and> v_target v = t))"
proof -
  obtain vss where vss: "mapE (violations_of_rule sites) boundary_rules = Inr vss"
    using mapE_total [of boundary_rules "violations_of_rule sites"] violations_of_rule_exact by metis
  define vs where "vs = sort_key (\<lambda>v. (v_rule v, v_source v, v_target v, v_path v)) (concat vss)"
  have returned: "boundary_violations sites = Inr vs"
    using vss by (simp add: boundary_violations_def vs_def)
  have vs: "v \<in> set vs \<longleftrightarrow> (\<exists>us \<in> set vss. v \<in> set us)" for v by (auto simp: vs_def)
  have sound: "\<exists>r \<in> set boundary_rules. reported sites r v" if v: "v \<in> set vs" for v
  proof -
    from v obtain us where us: "us \<in> set vss" "v \<in> set us" by (auto simp: vs)
    from mapE_mem [OF vss us(1)] obtain r where
      r: "r \<in> set boundary_rules" "violations_of_rule sites r = Inr us" by blast
    then show ?thesis using violations_of_rule_exact [of sites r] us(2) by (metis sum.inject(2))
  qed
  have complete: "\<exists>v \<in> set vs. v_rule v = r_name r \<and> v_source v = s \<and> v_target v = t"
    if r: "r \<in> set boundary_rules" and st: "r_source r s" "r_target r t" "s \<noteq> t"
      "reach (edges_of sites) s t" for r s t
  proof -
    from mapE_image [OF vss r] obtain us where us: "us \<in> set vss" "violations_of_rule sites r = Inr us"
      by blast
    from violations_of_rule_exact [of sites r] us(2) st
    obtain v where v: "v \<in> set us" "reported sites r v" "v_source v = s" "v_target v = t"
      by (metis sum.inject(2))
    from v(1) us(1) have "v \<in> set vs" using vs by blast
    moreover from v(2) have "v_rule v = r_name r" by (simp add: reported_def)
    ultimately show ?thesis using v(3,4) by blast
  qed
  from returned sound complete show ?thesis by blast
qed

lemma boundary_clean:
  assumes "boundary_violations sites = Inr []" and "r \<in> set boundary_rules" and "r_source r s"
    and "reach (edges_of sites) s t" and "s \<noteq> t"
  shows "\<not> r_target r t"
  using boundary_violations_facts [of sites] assms by auto

lemma rule_member: "n < 7 \<Longrightarrow> boundary_rules ! n \<in> set boundary_rules"
  by (rule nth_mem) (simp add: boundary_rules_def)

section \<open>Properties\<close>

text \<open>
  A package path has one of the prefixes exactly when the segments of a prefix are its first segments, so that
  \<open>internal/engine\<close> covers \<open>internal/engine/plan\<close> and not \<open>internal/engines\<close>.
\<close>

theorem has_prefix_segments:
  "has_prefix pkg ps \<longleftrightarrow>
    (\<exists>p \<in> set ps. \<exists>rest. split_on CHR ''/'' pkg = split_on CHR ''/'' p @ rest)"
  unfolding has_prefix_iff prefix_def ..

text \<open>
  C24: for every graph the search returns within its fuel; it records exactly the nodes other than the start
  that the start reaches, each once, and for each a path of the graph from the start to it of least length.
\<close>

theorem shortest_paths_exact:
  "\<exists>P. shortest_paths E start = Some P \<and> distinct (map fst P) \<and>
    (\<forall>t. t \<in> set (map fst P) \<longleftrightarrow> reach E start t \<and> t \<noteq> start) \<and>
    (\<forall>(t, w) \<in> set P. path E w \<and> hd w = start \<and> last w = t \<and>
      (\<forall>u. path E u \<longrightarrow> hd u = start \<longrightarrow> last u = t \<longrightarrow> length w \<le> length u))"
proof -
  obtain P where P: "shortest_paths E start = Some P" "distinct (dkeys P)"
    and keys: "\<forall>t. t \<in> set (dkeys P) \<longleftrightarrow> reach E start t \<and> t \<noteq> start"
    and least: "\<forall>t w. (t, w) \<in> set P \<longrightarrow> shortest E start t w"
    using shortest_paths_facts [of E start] by blast
  from least have "\<forall>(t, w) \<in> set P. path E w \<and> hd w = start \<and> last w = t \<and>
      (\<forall>u. path E u \<longrightarrow> hd u = start \<longrightarrow> last u = t \<longrightarrow> length w \<le> length u)"
    unfolding shortest_def by fast
  with P keys show ?thesis unfolding dkeys_def by (intro exI [of _ P] conjI)
qed

definition sample_graph :: edges where
  "sample_graph = [(''a'', ''c''), (''a'', ''b''), (''b'', ''d''), (''c'', ''d''), (''d'', ''a''), (''d'', ''e''), (''f'', ''e'')]"

theorem shortest_paths_exact_witness:
  "\<exists>P. shortest_paths sample_graph ''a'' = Some P \<and>
    P = [(''b'', [''a'', ''b'']), (''c'', [''a'', ''c'']), (''d'', [''a'', ''b'', ''d'']),
      (''e'', [''a'', ''b'', ''d'', ''e''])] \<and>
    \<not> reach sample_graph ''a'' ''f'' \<and> path sample_graph [''a'', ''c'', ''d''] \<and>
    (\<forall>u. path sample_graph u \<longrightarrow> hd u = ''a'' \<longrightarrow> last u = ''e'' \<longrightarrow> 4 \<le> length u)"
proof -
  have run: "shortest_paths sample_graph ''a'' = Some [(''b'', [''a'', ''b'']), (''c'', [''a'', ''c'']),
      (''d'', [''a'', ''b'', ''d'']), (''e'', [''a'', ''b'', ''d'', ''e''])]" by code_simp
  then obtain P where P: "shortest_paths sample_graph ''a'' = Some P" "map fst P = [''b'', ''c'', ''d'', ''e'']"
      "(''e'', [''a'', ''b'', ''d'', ''e'']) \<in> set P" by simp
  from shortest_paths_exact [of sample_graph "''a''"] P(1)
  have keys: "''f'' \<in> set (map fst P) \<longleftrightarrow> reach sample_graph ''a'' ''f'' \<and> ''f'' \<noteq> ''a''"
    and least: "\<forall>(t, w) \<in> set P. \<forall>u. path sample_graph u \<longrightarrow> hd u = ''a'' \<longrightarrow> last u = t \<longrightarrow> length w \<le> length u"
    by auto
  from keys have "\<not> reach sample_graph ''a'' ''f''" unfolding P(2) by simp
  moreover from bspec [OF least P(3)]
  have "\<forall>u. path sample_graph u \<longrightarrow> hd u = ''a'' \<longrightarrow> last u = ''e'' \<longrightarrow> 4 \<le> length u"
    by (simp add: eval_nat_numeral)
  moreover have "path sample_graph [''a'', ''c'', ''d'']" by code_simp
  ultimately show ?thesis using run by blast
qed

text \<open>
  C9: the boundary check returns for every list of import sites, it never raises; each violation it reports is
  one of a rule, with a shortest import chain, the sites of its steps and the place of the first; and every
  pair a rule forbids is reported as soon as the target can be reached, through any number of packages.
\<close>

theorem boundary_violations_exact:
  "\<exists>vs. boundary_violations sites = Inr vs \<and>
    (\<forall>v \<in> set vs. \<exists>r \<in> set boundary_rules. reported sites r v) \<and>
    (\<forall>r \<in> set boundary_rules. \<forall>s t. r_source r s \<longrightarrow> r_target r t \<longrightarrow> s \<noteq> t \<longrightarrow>
      reach (edges_of sites) s t \<longrightarrow>
      (\<exists>v \<in> set vs. v_rule v = r_name r \<and> v_source v = s \<and> v_target v = t))"
  by (rule boundary_violations_facts)

definition hidden_driver :: "import_site list" where
  "hidden_driver =
     [\<lparr>i_source = ''internal/engine/plan'', i_target = ''internal/shared'', i_file = ''plan.go'', i_line = 3,
       i_ecosystem = ''go''\<rparr>,
      \<lparr>i_source = ''internal/shared'', i_target = ''external:github.com/jackc/pgx/v5'', i_file = ''db.go'',
       i_line = 7, i_ecosystem = ''go''\<rparr>]"

theorem boundary_violations_exact_witness:
  "\<exists>vs. boundary_violations hidden_driver = Inr vs \<and>
    (\<exists>v \<in> set vs. v_rule v = ''engine-typed-data-ports-only'' \<and>
      v_source v = ''internal/engine/plan'' \<and> v_target v = ''external:github.com/jackc/pgx/v5'')"
proof -
  have "path (edges_of hidden_driver) [''internal/engine/plan'', ''internal/shared'', ''external:github.com/jackc/pgx/v5'']"
    by code_simp
  from path_reach [OF this] have
    "reach (edges_of hidden_driver) ''internal/engine/plan'' ''external:github.com/jackc/pgx/v5''" by simp
  moreover define r where "r = boundary_rules ! 3"
  have "r_source r ''internal/engine/plan''" "r_target r ''external:github.com/jackc/pgx/v5''"
    and name: "r_name r = ''engine-typed-data-ports-only''" unfolding r_def by code_simp+
  moreover have "r \<in> set boundary_rules" by (simp add: r_def rule_member)
  moreover have "''internal/engine/plan'' \<noteq> ''external:github.com/jackc/pgx/v5''" by simp
  ultimately show ?thesis using boundary_violations_exact [of hidden_driver] unfolding name [symmetric] by blast
qed

text \<open>
  C26: when the check reports nothing, what quality code reaches, directly or not, is its own packages, the
  sanitized-trajectory contract, or a package outside the repository's domains.
\<close>

theorem quality_isolation:
  assumes "boundary_violations sites = Inr []"
    and "has_prefix source [''internal/quality'']" and "reach (edges_of sites) source target"
  shows "has_prefix target [''internal/quality''] \<or>
    target = ''internal/contracts/quality/sanitizedtrajectory'' \<or>
    (\<not> starts_with target ''external:'' \<and> hd (split_on CHR ''/'' target) \<notin> set source_roots)"
proof (cases "source = target")
  case False
  have "r_source (boundary_rules ! 4) source" "r_target (boundary_rules ! 4) = is_quality_forbidden_target"
    using assms(2) by (simp_all add: boundary_rules_def)
  with boundary_clean [OF assms(1) rule_member [of 4] _ assms(3) False] show ?thesis
    by (auto simp: is_quality_forbidden_target_def external_import_path_def external_go_target_prefix_def
        is_repository_domain_def sanitized_trajectory_contract_package_def split: if_splits)
qed (use assms(2) in simp)

definition quality_sites :: "import_site list" where
  "quality_sites =
     [\<lparr>i_source = ''internal/quality/score'', i_target = ''internal/quality'', i_file = ''score.go'', i_line = 4,
       i_ecosystem = ''go''\<rparr>,
      \<lparr>i_source = ''internal/quality'', i_target = ''internal/contracts/quality/sanitizedtrajectory'',
       i_file = ''quality.go'', i_line = 5, i_ecosystem = ''go''\<rparr>]"

theorem quality_isolation_witness:
  "boundary_violations quality_sites = Inr [] \<and>
    reach (edges_of quality_sites) ''internal/quality/score'' ''internal/contracts/quality/sanitizedtrajectory'' \<and>
    \<not> reach (edges_of quality_sites) ''internal/quality/score'' ''internal/engine''"
proof -
  have run: "boundary_violations quality_sites = Inr []" by code_simp
  have source: "has_prefix ''internal/quality/score'' [''internal/quality'']" by code_simp
  have "path (edges_of quality_sites) [''internal/quality/score'', ''internal/quality'',
      ''internal/contracts/quality/sanitizedtrajectory'']" by code_simp
  from path_reach [OF this] have
    "reach (edges_of quality_sites) ''internal/quality/score'' ''internal/contracts/quality/sanitizedtrajectory''"
    by simp
  moreover have "\<not> has_prefix ''internal/engine'' [''internal/quality'']" by code_simp
  moreover have "hd (split_on CHR ''/'' ''internal/engine'') \<in> set source_roots" by code_simp
  ultimately show ?thesis
    using run quality_isolation [OF run source, of "''internal/engine''"] by fastforce
qed

end
