(* ===== verification/Jsonc.thy ===== *)
theory Jsonc
  imports Prelude
begin

text \<open>
  The two passes that turn a tsconfig/jsconfig with comments into JSON, from
  scripts/architecture/architecture_check.py: \<open>_strip_jsonc_comments\<close> and \<open>_strip_jsonc_trailing_commas\<close>. Both blank
  characters in place, so that positions and lines of the text stay those of the file.
\<close>

definition quote :: char where "quote = CHR 0x22"

definition backslash :: char where "backslash = CHR 0x5C"

section \<open>The passes\<close>

text \<open>Where the scan is: \<open>InString escaped\<close>, or inside one of the two inner loops.\<close>

datatype jsonc_mode = InCode | InString bool | InLine | InBlock

definition string_step :: "bool \<Rightarrow> char \<Rightarrow> jsonc_mode" where
  "string_step escaped c =
     (if escaped then InString False
      else if c = backslash then InString True
      else if c = quote then InCode
      else InString False)"

lemma string_step_modes [simp]: "string_step e c \<noteq> InLine" "string_step e c \<noteq> InBlock"
  by (simp_all add: string_step_def)

lemma marks [simp]: "quote \<noteq> CHR '' ''" "CHR '' '' \<noteq> quote" "quote \<noteq> CHR ''/''" "CHR ''/'' \<noteq> quote"
  "quote \<noteq> newline" "newline \<noteq> quote" "newline \<noteq> CHR '' ''" "CHR '' '' \<noteq> newline" "newline \<noteq> CHR ''/''" "CHR '','' \<noteq> quote" "quote \<noteq> CHR '','' "
  by (simp_all add: quote_def newline_def)

function (sequential) strip_comments :: "jsonc_mode \<Rightarrow> string \<Rightarrow> string" where
  "strip_comments mode [] = []"
| "strip_comments (InString escaped) (c # cs) = c # strip_comments (string_step escaped c) cs"
| "strip_comments InCode (c # cs) =
     (if c = quote then c # strip_comments (InString False) cs
      else if c = CHR ''/'' \<and> starts_with cs ''/'' then '' '' @ '' '' @ strip_comments InLine (tl cs)
      else if c = CHR ''/'' \<and> starts_with cs ''*'' then '' '' @ '' '' @ strip_comments InBlock (tl cs)
      else c # strip_comments InCode cs)"
| "strip_comments InLine (c # cs) =
     (if c \<noteq> newline then CHR '' '' # strip_comments InLine cs else strip_comments InCode (c # cs))"
| "strip_comments InBlock (c # cs) =
     (if c = CHR ''*'' \<and> starts_with cs ''/'' then '' '' @ '' '' @ strip_comments InCode (tl cs)
      else (if c = newline then newline else CHR '' '') # strip_comments InBlock cs)"
  by pat_completeness auto
termination
  by (relation "measures [\<lambda>(m, s). length s, \<lambda>(m, s). if m = InLine then 1 else 0]") auto

definition strip_jsonc_comments :: "string \<Rightarrow> string" where
  "strip_jsonc_comments content = strip_comments InCode content"

text \<open>The cursor of the comma pass: past the white space, is there a closing bracket?\<close>

definition closes :: "string \<Rightarrow> bool" where
  "closes rest = (case dropWhile is_space rest of [] \<Rightarrow> False | c # _ \<Rightarrow> c \<in> set ''}]'')"

text \<open>This pass has its own copy of the step inside a literal.\<close>

definition comma_string_step :: "bool \<Rightarrow> char \<Rightarrow> jsonc_mode" where
  "comma_string_step escaped c =
     (if escaped then InString False
      else if c = backslash then InString True
      else if c = quote then InCode
      else InString False)"

fun strip_commas :: "jsonc_mode \<Rightarrow> string \<Rightarrow> string" where
  "strip_commas mode [] = []"
| "strip_commas mode (c # cs) =
     (case mode of
        InString escaped \<Rightarrow> c # strip_commas (comma_string_step escaped c) cs
      | _ \<Rightarrow>
        if c = quote then c # strip_commas (InString False) cs
        else if c = CHR '','' \<and> closes cs then CHR '' '' # strip_commas InCode cs
        else c # strip_commas InCode cs)"

definition strip_jsonc_trailing_commas :: "string \<Rightarrow> string" where
  "strip_jsonc_trailing_commas content = strip_commas InCode content"

section \<open>Layout\<close>

text \<open>A character is kept or blanked, and a line break is never blanked.\<close>

definition kept_or_blank :: "char \<Rightarrow> char \<Rightarrow> bool" where
  "kept_or_blank c d \<longleftrightarrow> d = c \<or> (d = CHR '' '' \<and> c \<noteq> newline)"

lemma kept [simp]: "kept_or_blank c c"
  by (simp add: kept_or_blank_def)

lemma strip_comments_layout: "list_all2 kept_or_blank s (strip_comments m s)"
proof (induction m s rule: strip_comments.induct)
  case (3 c cs)
  then show ?case by (cases cs) (auto simp: kept_or_blank_def newline_def starts_with_def)
next
  case (5 c cs)
  then show ?case by (cases cs) (auto simp: kept_or_blank_def newline_def starts_with_def)
qed (auto simp: kept_or_blank_def)

lemma strip_commas_layout: "list_all2 kept_or_blank s (strip_commas m s)"
proof (induction s arbitrary: m)
  case (Cons c s)
  have "kept_or_blank CHR '','' CHR '' ''" by (simp add: kept_or_blank_def newline_def)
  with Cons show ?case by (cases m) auto
qed simp

lemma kept_or_blank_trans: "kept_or_blank a b \<Longrightarrow> kept_or_blank b c \<Longrightarrow> kept_or_blank a c"
  by (auto simp: kept_or_blank_def newline_def)

lemma strip_layout: "list_all2 kept_or_blank s (strip_jsonc_trailing_commas (strip_jsonc_comments s))"
  unfolding strip_jsonc_trailing_commas_def strip_jsonc_comments_def
  using kept_or_blank_trans strip_comments_layout strip_commas_layout by (rule list_all2_trans)

section \<open>Comments\<close>

text \<open>
  The pieces of a JSONC text, how they are written and what is left of them. The body of a literal is its
  source text, escapes included.
\<close>

datatype piece = Plain char | Literal string | Line string | Block string

fun written :: "piece \<Rightarrow> string" where
  "written (Plain c) = [c]"
| "written (Literal body) = quote # body @ [quote]"
| "written (Line body) = ''//'' @ body"
| "written (Block body) = ''/*'' @ body @ ''*/''"

definition blank :: "char \<Rightarrow> char" where
  "blank c = (if c = newline then newline else CHR '' '')"

fun without_comment :: "piece \<Rightarrow> string" where
  "without_comment (Plain c) = [c]"
| "without_comment (Literal body) = quote # body @ [quote]"
| "without_comment (Line body) = map blank (written (Line body))"
| "without_comment (Block body) = map blank (written (Block body))"

fun literal_body :: "bool \<Rightarrow> string \<Rightarrow> bool" where
  "literal_body escaped [] = (\<not> escaped)"
| "literal_body escaped (c # cs) =
     (if escaped then literal_body False cs
      else if c = backslash then literal_body True cs
      else c \<noteq> quote \<and> literal_body False cs)"

fun has_end :: "string \<Rightarrow> bool" where
  "has_end [] = False"
| "has_end [a] = False"
| "has_end (a # b # s) = (a = CHR ''*'' \<and> b = CHR ''/'' \<or> has_end (b # s))"

text \<open>A slash of the code is not the first half of a comment mark, and a line comment runs to its line's end.\<close>

fun pieces_ok :: "piece list \<Rightarrow> bool" where
  "pieces_ok [] = True"
| "pieces_ok (Plain c # ps) =
     (c \<noteq> quote \<and> pieces_ok ps \<and>
      (c = CHR ''/'' \<longrightarrow> \<not> starts_with (concat (map written ps)) ''/'' \<and>
        \<not> starts_with (concat (map written ps)) ''*''))"
| "pieces_ok (Literal body # ps) = (literal_body False body \<and> pieces_ok ps)"
| "pieces_ok (Line body # ps) =
     (newline \<notin> set body \<and> pieces_ok ps \<and> (case ps of [] \<Rightarrow> True | p # _ \<Rightarrow> p = Plain newline))"
| "pieces_ok (Block body # ps) = (\<not> has_end body \<and> pieces_ok ps)"

lemma strip_literal:
  "literal_body e body \<Longrightarrow>
    strip_comments (InString e) (body @ quote # s) = body @ quote # strip_comments InCode s"
  by (induction e body rule: literal_body.induct)
    (auto simp: string_step_def backslash_def quote_def split: if_splits)

lemma strip_line:
  "newline \<notin> set body \<Longrightarrow> s = [] \<or> hd s = newline \<Longrightarrow>
    strip_comments InLine (body @ s) = map blank body @ strip_comments InCode s"
proof (induction body)
  case Nil
  then show ?case by (cases s) auto
qed (auto simp: blank_def)

lemma strip_block:
  "\<not> has_end body \<Longrightarrow>
    strip_comments InBlock (body @ ''*/'' @ s) = map blank (body @ ''*/'') @ strip_comments InCode s"
proof (induction body rule: has_end.induct)
  case (3 a b body)
  then show ?case by (auto simp: starts_with_def blank_def)
next
  case (2 c)
  then show ?case by (auto simp: starts_with_def blank_def newline_def)
qed (auto simp: starts_with_def blank_def newline_def)

lemma strip_pieces:
  "pieces_ok ps \<Longrightarrow> strip_comments InCode (concat (map written ps)) = concat (map without_comment ps)"
proof (induction ps rule: pieces_ok.induct)
  case (2 c ps)
  then show ?case by auto
next
  case (3 body ps)
  then show ?case by (simp add: strip_literal)
next
  case (4 body ps)
  have "concat (map written ps) = [] \<or> hd (concat (map written ps)) = newline"
    using 4(2) by (cases ps) auto
  with 4 strip_line [of body "concat (map written ps)"] show ?case
    by (simp add: quote_def starts_with_def blank_def newline_def)
next
  case (5 body ps)
  with strip_block [of body "concat (map written ps)"] show ?case
    by (simp add: quote_def starts_with_def blank_def newline_def)
qed simp

lemma strip_comments_hd:
  "strip_comments InCode (c # cs) = d # ds \<Longrightarrow> d = c \<or> d = CHR '' ''"
  by (auto split: if_splits)

definition settled :: "jsonc_mode \<Rightarrow> jsonc_mode" where
  "settled m = (case m of InString e \<Rightarrow> InString e | _ \<Rightarrow> InCode)"

lemma blank_mode: "strip_comments InCode (CHR '' '' # s) = CHR '' '' # strip_comments InCode s"
  "strip_comments InCode (newline # s) = newline # strip_comments InCode s"
  by (simp_all add: quote_def newline_def)

lemma strip_comments_again: "strip_comments (settled m) (strip_comments m s) = strip_comments m s"
proof (induction m s rule: strip_comments.induct)
  case (2 e c cs)
  then show ?case by (cases "string_step e c") (simp_all add: settled_def)
next
  case (3 c cs)
  have slash: "strip_comments InCode (CHR ''/'' # strip_comments InCode cs) =
      CHR ''/'' # strip_comments InCode (strip_comments InCode cs)"
    if "\<not> starts_with cs ''/''" "\<not> starts_with cs ''*''"
  proof (cases cs)
    case (Cons d ds)
    then obtain e es where e: "strip_comments InCode cs = e # es"
      using strip_comments_layout [of cs InCode] by (auto simp: list_all2_Cons1)
    with strip_comments_hd [of d ds e es] Cons have "e = d \<or> e = CHR '' ''" by simp
    with that Cons e show ?thesis by (auto simp: quote_def starts_with_def)
  qed (simp add: quote_def starts_with_def)
  consider "c = quote" | "c = CHR ''/''" "starts_with cs ''/''" | "c = CHR ''/''" "starts_with cs ''*''"
    | "c = CHR ''/''" "\<not> starts_with cs ''/''" "\<not> starts_with cs ''*''" | "c \<noteq> quote" "c \<noteq> CHR ''/''"
    by blast
  then show ?case
  proof cases
    case 4
    with 3 slash show ?thesis by (simp add: settled_def)
  next
    case 5
    with 3 show ?thesis by (simp add: settled_def)
  qed (use 3 in \<open>auto simp: settled_def blank_mode starts_with_def\<close>)
next
  case (4 c cs)
  then show ?case by (auto simp: settled_def blank_mode)
next
  case (5 c cs)
  then show ?case by (auto simp: settled_def blank_mode)
qed simp

section \<open>Commas\<close>

lemma closes_iff:
  "closes s \<longleftrightarrow> (\<exists>ws b rest. s = ws @ b # rest \<and> list_all is_space ws \<and> b \<in> {CHR ''}'', CHR '']''})"
proof
  assume "closes s"
  then obtain b rest where b: "dropWhile is_space s = b # rest" "b \<in> {CHR ''}'', CHR '']''}"
    by (auto simp: closes_def split: list.splits)
  then have "s = takeWhile is_space s @ b # rest" by (metis takeWhile_dropWhile_id)
  moreover have "list_all is_space (takeWhile is_space s)"
    by (auto simp: list_all_iff dest: set_takeWhileD)
  ultimately show "\<exists>ws b rest. s = ws @ b # rest \<and> list_all is_space ws \<and> b \<in> {CHR ''}'', CHR '']''}"
    using b(2) by blast
next
  assume "\<exists>ws b rest. s = ws @ b # rest \<and> list_all is_space ws \<and> b \<in> {CHR ''}'', CHR '']''}"
  then obtain ws b rest where s: "s = ws @ b # rest" "list_all is_space ws" "b \<in> {CHR ''}'', CHR '']''}"
    by blast
  then have "\<not> is_space b" by (auto simp: is_space_def)
  with s have "dropWhile is_space s = b # rest" by (simp add: list_all_iff dropWhile_append2)
  with s(3) show "closes s" by (auto simp: closes_def)
qed

text \<open>
  A text without comments is made of characters of the code and string literals, and may end inside a literal that
  is never closed.
\<close>

fun code_pieces :: "piece list \<Rightarrow> bool" where
  "code_pieces [] = True"
| "code_pieces (Plain c # ps) = (c \<noteq> quote \<and> code_pieces ps)"
| "code_pieces (Literal body # ps) = (literal_body False body \<and> code_pieces ps)"
| "code_pieces (p # ps) = False"

fun open_body :: "bool \<Rightarrow> string \<Rightarrow> bool" where
  "open_body escaped [] = True"
| "open_body escaped (c # cs) =
     (if escaped then open_body False cs
      else if c = backslash then open_body True cs
      else c \<noteq> quote \<and> open_body False cs)"

definition open_literal :: "string \<Rightarrow> bool" where
  "open_literal rest \<longleftrightarrow> rest = [] \<or> (\<exists>body. rest = quote # body \<and> open_body False body)"

text \<open>What is left: a comma of the code is blanked when a closing bracket is the next thing after white space.\<close>

fun commas_blanked :: "piece list \<Rightarrow> string \<Rightarrow> string" where
  "commas_blanked [] rest = rest"
| "commas_blanked (Plain c # ps) rest =
     (if c = CHR '','' \<and> (\<exists>ws b s. concat (map written ps) @ rest = ws @ b # s \<and>
           list_all is_space ws \<and> b \<in> {CHR ''}'', CHR '']''})
      then CHR '' '' else c) # commas_blanked ps rest"
| "commas_blanked (p # ps) rest = written p @ commas_blanked ps rest"

lemma strip_commas_literal:
  "literal_body e body \<Longrightarrow> strip_commas (InString e) (body @ quote # s) = body @ quote # strip_commas InCode s"
  by (induction e body rule: literal_body.induct)
    (auto simp: comma_string_step_def backslash_def quote_def split: if_splits)

lemma strip_commas_open: "open_body e body \<Longrightarrow> strip_commas (InString e) body = body"
  by (induction e body rule: open_body.induct)
    (auto simp: comma_string_step_def backslash_def quote_def split: if_splits)

lemma strip_commas_pieces:
  "code_pieces ps \<Longrightarrow> open_literal rest \<Longrightarrow>
    strip_commas InCode (concat (map written ps) @ rest) = commas_blanked ps rest"
proof (induction ps rule: code_pieces.induct)
  case 1
  then show ?case using strip_commas_open by (auto simp: open_literal_def)
next
  case (2 c ps)
  then show ?case by (auto simp: closes_iff)
next
  case (3 body ps)
  then show ?case by (simp add: strip_commas_literal)
qed simp_all

text \<open>Every text without comments reads so.\<close>

lemma literal_or_open: "open_body e s \<or> (\<exists>body rest. s = body @ quote # rest \<and> literal_body e body)"
proof (induction e s rule: open_body.induct)
  case (2 e c cs)
  consider "e" | "\<not> e" "c = backslash" | "\<not> e" "c = quote" | "\<not> e" "c \<noteq> backslash" "c \<noteq> quote" by blast
  then show ?case
  proof cases
    case 3
    then have "c # cs = [] @ quote # cs \<and> literal_body e []" by simp
    then show ?thesis by blast
  qed (use 2 in \<open>simp; metis append_Cons literal_body.simps(2)\<close>)+
qed simp

lemma code_pieces_cover: "\<exists>ps rest. s = concat (map written ps) @ rest \<and> code_pieces ps \<and> open_literal rest"
proof (induction s rule: length_induct)
  case (1 s)
  show ?case
  proof (cases s)
    case Nil
    then show ?thesis by (intro exI [of _ "[]"]) (simp add: open_literal_def)
  next
    case (Cons c cs)
    consider "c \<noteq> quote" | "c = quote" "open_body False cs"
      | body tail where "c = quote" "cs = body @ quote # tail" "literal_body False body"
      using literal_or_open [of False cs] by blast
    then show ?thesis
    proof cases
      case 1
      obtain ps rest where "cs = concat (map written ps) @ rest" "code_pieces ps" "open_literal rest"
        using "1.IH" [rule_format, of cs] Cons by auto
      with 1 Cons show ?thesis by (intro exI [of _ "Plain c # ps"] exI [of _ rest]) simp
    next
      case 2
      with Cons show ?thesis by (intro exI [of _ "[]"] exI [of _ s]) (simp add: open_literal_def)
    next
      case 3
      obtain ps rest where "tail = concat (map written ps) @ rest" "code_pieces ps" "open_literal rest"
        using "1.IH" [rule_format, of tail] Cons 3 by auto
      with 3 Cons show ?thesis by (intro exI [of _ "Literal body # ps"] exI [of _ rest]) simp
    qed
  qed
qed

section \<open>Properties\<close>

text \<open>
  The two passes keep the layout of the file: the result has the same length, every character is kept or
  replaced by a blank, and a line break is never replaced nor introduced.
\<close>

theorem jsonc_layout:
  "length (strip_jsonc_trailing_commas (strip_jsonc_comments s)) = length s \<and>
    list_all2 (\<lambda>c d. (d = c \<or> d = CHR '' '') \<and> (c = newline) = (d = newline)) s
      (strip_jsonc_trailing_commas (strip_jsonc_comments s))"
proof
  from list_all2_mono [OF strip_layout]
  show "list_all2 (\<lambda>c d. (d = c \<or> d = CHR '' '') \<and> (c = newline) = (d = newline)) s
      (strip_jsonc_trailing_commas (strip_jsonc_comments s))"
    by (rule list_all2_mono) (auto simp: kept_or_blank_def)
qed (use list_all2_lengthD [OF strip_layout] in simp)

text \<open>
  C18: of a text made of code, string literals, line comments and block comments exactly the comments are
  blanked, so a comment mark inside a string stays and a quote inside a comment opens nothing; a second pass changes
  nothing.
\<close>

theorem strip_comments_exact:
  assumes "pieces_ok ps"
  shows "strip_jsonc_comments (concat (map written ps)) = concat (map without_comment ps) \<and>
    strip_jsonc_comments (concat (map without_comment ps)) = concat (map without_comment ps)"
proof -
  have "strip_jsonc_comments (concat (map written ps)) = concat (map without_comment ps)"
    unfolding strip_jsonc_comments_def by (rule strip_pieces [OF assms])
  moreover have "strip_jsonc_comments (strip_jsonc_comments s) = strip_jsonc_comments s" for s
    unfolding strip_jsonc_comments_def using strip_comments_again [of InCode] by (simp add: settled_def)
  ultimately show ?thesis by metis
qed

definition sample_pieces :: "piece list" where
  "sample_pieces =
     [Plain CHR ''{'', Literal ''a//b'', Plain CHR '':'', Literal (''x'' @ [backslash, quote] @ ''/*''),
      Block (''* '' @ [quote] @ '' *''), Plain CHR ''/'', Plain CHR ''}'', Line ('' '' @ [quote] @ '' /* ''), Plain newline]"

theorem strip_comments_exact_witness:
  "strip_jsonc_comments (concat (map written sample_pieces)) = concat (map without_comment sample_pieces) \<and>
    concat (map without_comment sample_pieces) \<noteq> concat (map written sample_pieces)"
proof -
  have "pieces_ok sample_pieces" by code_simp
  moreover have "concat (map without_comment sample_pieces) \<noteq> concat (map written sample_pieces)" by code_simp
  ultimately show ?thesis using strip_comments_exact [of sample_pieces] by blast
qed

text \<open>
  C27: of a text read as code characters, string literals and perhaps an unclosed literal at its end, the second
  pass blanks exactly the commas of the code whose next character other than white space is a closing brace or
  bracket, and keeps every literal, escapes included; and every text can be read so.
\<close>

theorem trailing_commas_exact:
  "(code_pieces ps \<and> open_literal rest \<longrightarrow>
      strip_jsonc_trailing_commas (concat (map written ps) @ rest) = commas_blanked ps rest) \<and>
   (\<exists>qs tail. s = concat (map written qs) @ tail \<and> code_pieces qs \<and> open_literal tail)"
  using strip_commas_pieces [of ps rest] code_pieces_cover [of s] by (simp add: strip_jsonc_trailing_commas_def)

definition sample_code :: "piece list" where
  "sample_code = [Plain CHR ''['', Literal (''a'' @ [backslash, quote] @ '',]''), Plain CHR '','', Plain CHR '' '', Plain CHR '']'']"

theorem trailing_commas_exact_witness:
  "strip_jsonc_trailing_commas (concat (map written sample_code)) = commas_blanked sample_code [] \<and>
    hd (rev (commas_blanked sample_code [])) = CHR '']''"
proof -
  have "code_pieces sample_code \<and> open_literal []" by (simp add: sample_code_def open_literal_def backslash_def quote_def)
  then have "strip_jsonc_trailing_commas (concat (map written sample_code) @ []) = commas_blanked sample_code []"
    using trailing_commas_exact [of sample_code "[]"] by blast
  then show ?thesis by (simp add: sample_code_def)
qed

end
