(* ===== verification/Lock_Values.thy ===== *)
theory Lock_Values
  imports Packet_Commands Compatibility
begin

text \<open>
  The value checks of scripts/dependency-locks/dependency_locks.py: the constants of the module, the parts of
  \<open>urllib.parse.urlparse\<close> that \<open>_is_https\<close> and \<open>_provenance_url\<close> read, exact versions, UTC timestamps,
  integrity values (with the alphabet and padding rules of \<open>base64.b64decode(s, validate=True)\<close>) and
  secret-bearing keys.

  A function that Python would leave with an exception other than \<open>LockError\<close> returns it as a \<open>crash\<close>.
  \<open>Unmodelled\<close> marks the two places where the standard library does more than the model: an IPv6 address
  in a URL, and the text of a float, list or dictionary inside a message or comparison.
\<close>

section \<open>Exceptions and error lists\<close>

datatype crash = CrashType | CrashAttribute | CrashValue | CrashKey | Unmodelled

text \<open>A statement list in which every statement may append to \<open>errors\<close> or raise.\<close>

fun gather :: "(crash + 'e list) list \<Rightarrow> crash + 'e list" where
  "gather [] = Inr []"
| "gather (c # cs) = bindE c (\<lambda>es. bindE (gather cs) (\<lambda>fs. Inr (es @ fs)))"

abbreviation err_if :: "bool \<Rightarrow> 'e \<Rightarrow> crash + 'e list" where
  "err_if b e \<equiv> Inr (if b then [e] else [])"

lemma gather_Nil: "gather cs = Inr [] \<longleftrightarrow> (\<forall>c \<in> set cs. c = Inr [])"
  by (induction cs) (auto simp: bindE_Inr)

lemma gather_append:
  "gather (cs @ ds) = bindE (gather cs) (\<lambda>es. bindE (gather ds) (\<lambda>fs. Inr (es @ fs)))"
proof (induction cs)
  case Nil
  then show ?case by (cases "gather ds") simp_all
next
  case (Cons c cs)
  then show ?case by (cases c; cases "gather cs"; cases "gather ds") simp_all
qed

declare gather.simps [simp del]

text \<open>A condition that may raise, and then one error.\<close>

definition err_when :: "crash + bool \<Rightarrow> 'e \<Rightarrow> crash + 'e list" where
  "err_when c e = bindE c (\<lambda>b. err_if b e)"

lemma err_when_Nil [simp]: "err_when c e = Inr [] \<longleftrightarrow> c = Inr False"
  by (auto simp: err_when_def bindE_Inr)

lemma err_if_Nil [simp]: "(if b then [e] else []) = [] \<longleftrightarrow> \<not> b"
  by simp

text \<open>\<open>v in names\<close> for a Python set of strings, and \<open>v not in names\<close>.\<close>

definition in_names :: "json \<Rightarrow> string list \<Rightarrow> crash + bool" where
  "in_names v names = (if hashable v then Inr (v \<in> JStr ` set names) else Inl CrashType)"

abbreviation not_in_names :: "json \<Rightarrow> string list \<Rightarrow> crash + bool" where
  "not_in_names v names \<equiv> bindE (in_names v names) (\<lambda>b. Inr (\<not> b))"

lemma in_names_True: "in_names v names = Inr True \<longleftrightarrow> (\<exists>s. v = JStr s \<and> s \<in> set names)"
  by (cases v) (auto simp: in_names_def hashable_def)

lemma not_in_names_False [simp]:
  "not_in_names v names = Inr False \<longleftrightarrow> (\<exists>s. v = JStr s \<and> s \<in> set names)"
  by (auto simp: in_names_True [symmetric] bindE_Inr)

text \<open>\<open>bool(v)\<close> and \<open>str(v)\<close>.\<close>

fun truthy :: "json \<Rightarrow> bool" where
  "truthy JNull = False"
| "truthy (JBool b) = b"
| "truthy (JInt n) = (n \<noteq> 0)"
| "truthy (JFloat x) = (x \<noteq> Fin 0)"
| "truthy (JStr s) = (s \<noteq> [])"
| "truthy (JList xs) = (xs \<noteq> [])"
| "truthy (JDict d) = (d \<noteq> [])"

definition show_integer :: "int \<Rightarrow> string" where
  "show_integer i = (if i < 0 then CHR ''-'' # show_nat (nat (- i)) else show_nat (nat i))"

fun py_str :: "json \<Rightarrow> crash + string" where
  "py_str (JStr s) = Inr s"
| "py_str JNull = Inr ''None''"
| "py_str (JBool b) = Inr (if b then ''True'' else ''False'')"
| "py_str (JInt n) = Inr (show_integer n)"
| "py_str _ = Inl Unmodelled"

definition is_str :: "json \<Rightarrow> bool" where
  "is_str v = (case v of JStr _ \<Rightarrow> True | _ \<Rightarrow> False)"

definition is_bool :: "json \<Rightarrow> bool" where
  "is_bool v = (case v of JBool _ \<Rightarrow> True | _ \<Rightarrow> False)"

lemma is_str_iff: "is_str v \<longleftrightarrow> (\<exists>s. v = JStr s)"
  by (cases v) (auto simp: is_str_def)

lemma is_bool_iff: "is_bool v \<longleftrightarrow> (\<exists>b. v = JBool b)"
  by (cases v) (auto simp: is_bool_def)

text \<open>\<open>isinstance(v, str) and v\<close> (negated in the code) and \<open>set(d) == names\<close> for a dictionary.\<close>

definition nonempty_str :: "json \<Rightarrow> bool" where
  "nonempty_str v = (case v of JStr s \<Rightarrow> s \<noteq> [] | _ \<Rightarrow> False)"

definition has_text :: "json \<Rightarrow> bool" where
  "has_text v = (case v of JStr s \<Rightarrow> strip_str s \<noteq> [] | _ \<Rightarrow> False)"

definition min_text :: "nat \<Rightarrow> json \<Rightarrow> bool" where
  "min_text n v = (case v of JStr s \<Rightarrow> n \<le> length s | _ \<Rightarrow> False)"

definition keys_are :: "string list \<Rightarrow> json dict \<Rightarrow> bool" where
  "keys_are names d = (set (dkeys d) = set names)"

section \<open>Constants\<close>

definition supported_platforms :: "string list" where
  "supported_platforms = [''darwin-amd64'', ''darwin-arm64'', ''linux-amd64'', ''linux-arm64'']"

definition bootstrap_names :: "string list" where
  "bootstrap_names = [''go'', ''node'', ''pnpm'', ''opentofu'', ''golangci-lint'', ''trivy'']"

definition lock_paths :: "string list" where
  "lock_paths = [''.tool-versions'', ''go.mod'', ''go.sum'', ''mise.toml'', ''package.json'',
     ''pnpm-lock.yaml'', ''tools/manifest.yaml'', ''web/package.json'']"

definition allowed_licenses :: "string list" where
  "allowed_licenses = [''Apache-2.0'', ''BSD-3-Clause'', ''GPL-3.0-only'', ''LGPL-2.1-or-later'', ''MIT'',
     ''MPL-2.0'', ''PostgreSQL'']"

definition package_license_allowlist :: "string list" where
  "package_license_allowlist = [''0BSD'', ''Apache-2.0'', ''BSD-2-Clause'', ''BSD-3-Clause'', ''CC-BY-4.0'',
     ''ISC'', ''LGPL-3.0-or-later'', ''MIT'']"

definition request_license_allowlist :: "string list" where
  "request_license_allowlist = package_license_allowlist @ allowed_licenses @
     [''BlueOak-1.0.0'', ''GPL-2.0-only'', ''GPL-2.0-or-later'', ''GPL-3.0-or-later'', ''LGPL-2.1-only'',
      ''LGPL-3.0-only'', ''Unicode-3.0'']"

definition exact_version_pattern :: string where
  "exact_version_pattern = ''^v?[0-9]+(?:'' @ esc ''.[0-9A-Za-z-]+)+(?:'' @ esc ''+[0-9A-Za-z.-]+)?$''"

definition packet_pattern :: string where
  "packet_pattern = ''^P(?:0[2-9]|1[0-9]|2[0-8])$''"

definition request_id_pattern :: string where
  "request_id_pattern = ''^(P[0-9]{2})-dep-[a-z0-9]+(?:-[a-z0-9]+)*$''"

definition hex_pattern :: "string \<Rightarrow> string option" where
  "hex_pattern algorithm = dget algorithm
     [(''sha256'', ''^[0-9a-f]{64}$''), (''sha512'', ''^[0-9a-f]{128}$'')]"

definition rfc3339_utc_pattern :: string where
  "rfc3339_utc_pattern = ''^[0-9]{4}-[0-9]{2}-[0-9]{2}T[0-9]{2}:[0-9]{2}:[0-9]{2}Z$''"

definition provenance_hosts :: "string list" where
  "provenance_hosts = [''files.pythonhosted.org'', ''github.com'', ''proxy.golang.org'', ''pypi.org'',
     ''registry.npmjs.org'', ''release-assets.githubusercontent.com'']"

section \<open>URLs\<close>

record url_parts =
  u_scheme :: string
  u_netloc :: string
  u_query :: string
  u_fragment :: string

definition is_letter :: "char \<Rightarrow> bool" where
  "is_letter c = (let n = (of_char c :: nat) in (65 \<le> n \<and> n \<le> 90) \<or> (97 \<le> n \<and> n \<le> 122))"

definition scheme_char :: "char \<Rightarrow> bool" where
  "scheme_char c = (is_letter c \<or> is_digit c \<or> c = CHR ''+'' \<or> c = CHR ''-'' \<or> c = CHR ''.'')"

text \<open>Leading control characters and blanks, and tabs and line breaks anywhere, are dropped.\<close>

definition clean_url :: "string \<Rightarrow> string" where
  "clean_url s = filter (\<lambda>c. c \<noteq> CHR 0x09 \<and> c \<noteq> CHR 0x0A \<and> c \<noteq> CHR 0x0D)
     (dropWhile (\<lambda>c. (of_char c :: nat) \<le> 32) s)"

definition split_scheme :: "string \<Rightarrow> string \<times> string" where
  "split_scheme s = (case partition_on (CHR '':'') s of (h, found, t) \<Rightarrow>
     if found \<and> h \<noteq> [] \<and> is_letter (hd h) \<and> list_all scheme_char h then (map lower_char h, t)
     else ([], s))"

definition split_netloc :: "string \<Rightarrow> string \<times> string" where
  "split_netloc s =
     (let in_netloc = (\<lambda>c. c \<noteq> CHR ''/'' \<and> c \<noteq> CHR ''?'' \<and> c \<noteq> CHR ''#'') in
      if starts_with s ''//'' then (takeWhile in_netloc (drop 2 s), dropWhile in_netloc (drop 2 s))
      else ([], s))"

definition urlparse :: "string \<Rightarrow> crash + url_parts" where
  "urlparse url =
     (let (scheme, rest) = split_scheme (clean_url url);
          (netloc, path_part) = split_netloc rest;
          (front, _, fragment) = partition_on (CHR ''#'') path_part;
          (_, _, query) = partition_on (CHR ''?'') front;
          opening = CHR ''['' \<in> set netloc; closing = CHR '']'' \<in> set netloc in
      if opening \<noteq> closing then Inl CrashValue
      else if opening then Inl Unmodelled
      else Inr \<lparr>u_scheme = scheme, u_netloc = netloc, u_query = query, u_fragment = fragment\<rparr>)"

text \<open>\<open>netloc.rpartition("@")\<close>: the user information, and the host with its port.\<close>

definition host_info :: "url_parts \<Rightarrow> string" where
  "host_info u = rev (takeWhile (\<lambda>c. c \<noteq> CHR ''@'') (rev (u_netloc u)))"

definition user_info :: "url_parts \<Rightarrow> string option" where
  "user_info u =
     (if CHR ''@'' \<in> set (u_netloc u)
      then Some (take (length (u_netloc u) - length (host_info u) - 1) (u_netloc u)) else None)"

text \<open>\<open>hostname\<close>, \<open>username\<close> and \<open>password\<close>; the empty string stands for \<open>None\<close>, which is as falsy.\<close>

definition url_hostname :: "url_parts \<Rightarrow> string" where
  "url_hostname u = map lower_char (fst (partition_on (CHR '':'') (host_info u)))"

definition url_username :: "url_parts \<Rightarrow> string" where
  "url_username u = (case user_info u of None \<Rightarrow> [] | Some i \<Rightarrow> fst (partition_on (CHR '':'') i))"

definition url_password :: "url_parts \<Rightarrow> string" where
  "url_password u = (case user_info u of None \<Rightarrow> [] | Some i \<Rightarrow> snd (snd (partition_on (CHR '':'') i)))"

definition https_parts :: "url_parts \<Rightarrow> bool" where
  "https_parts u = (u_scheme u = ''https'' \<and> url_hostname u \<noteq> [] \<and> url_username u = [] \<and>
     url_password u = [] \<and> u_query u = [] \<and> u_fragment u = [])"

text \<open>
  \<open>_is_https(value)\<close>. \<open>urlparse\<close> reads a falsy value that is no string as the empty URL and fails on any
  other with \<open>AttributeError\<close>.
\<close>

definition is_https :: "json \<Rightarrow> crash + bool" where
  "is_https v =
     (case v of
        JStr s \<Rightarrow> bindE (urlparse s) (\<lambda>u. Inr (https_parts u))
      | _ \<Rightarrow> if truthy v then Inl CrashAttribute else Inr False)"

abbreviation not_https :: "json \<Rightarrow> crash + bool" where
  "not_https v \<equiv> bindE (is_https v) (\<lambda>b. Inr (\<not> b))"

definition https_value :: "json \<Rightarrow> bool" where
  "https_value v = (is_https v = Inr True)"

lemma not_https_False [simp]: "not_https v = Inr False \<longleftrightarrow> https_value v"
  by (auto simp: https_value_def bindE_Inr)

text \<open>\<open>_provenance_url\<close>: whether the URL is inside the closed host set.\<close>

definition provenance_url :: "bool \<Rightarrow> string \<Rightarrow> crash + bool" where
  "provenance_url allow_redirect_query url =
     bindE (urlparse url) (\<lambda>u. Inr (u_scheme u = ''https'' \<and> url_hostname u \<in> set provenance_hosts \<and>
       url_username u = [] \<and> url_password u = [] \<and> u_fragment u = [] \<and>
       (u_query u = [] \<or> allow_redirect_query)))"

section \<open>Versions and times\<close>

definition exact_version :: "json \<Rightarrow> bool" where
  "exact_version v =
     (case v of JStr s \<Rightarrow> full_match exact_version_pattern s \<and>
        \<not> contains_str (map lower_char s) ''latest'' | _ \<Rightarrow> False)"

definition month_days :: "nat \<Rightarrow> nat \<Rightarrow> nat" where
  "month_days y m =
     (if m = 2 then (if 4 dvd y \<and> (\<not> 100 dvd y \<or> 400 dvd y) then 29 else 28)
      else if m \<in> {4, 6, 9, 11} then 30 else 31)"

definition number_at :: "nat \<Rightarrow> nat \<Rightarrow> string \<Rightarrow> nat" where
  "number_at i n s = digits_value (take n (drop i s))"

text \<open>\<open>_utc_timestamp\<close>: the six fields of a real point in time, which compare like \<open>datetime\<close> values.\<close>

definition utc_timestamp :: "json \<Rightarrow> nat list option" where
  "utc_timestamp v =
     (case v of
        JStr s \<Rightarrow>
          (let y = number_at 0 4 s; mo = number_at 5 2 s; d = number_at 8 2 s;
               h = number_at 11 2 s; mi = number_at 14 2 s; sec = number_at 17 2 s in
           if full_match rfc3339_utc_pattern s \<and> 1 \<le> y \<and> 1 \<le> mo \<and> mo \<le> 12 \<and> 1 \<le> d \<and>
              d \<le> month_days y mo \<and> h \<le> 23 \<and> mi \<le> 59 \<and> sec \<le> 59
           then Some [y, mo, d, h, mi, sec] else None)
      | _ \<Rightarrow> None)"

section \<open>Integrity values\<close>

definition base64_char :: "char \<Rightarrow> bool" where
  "base64_char c = (is_letter c \<or> is_digit c \<or> c = CHR ''+'' \<or> c = CHR ''/'')"

text \<open>
  The number of bytes \<open>base64.b64decode(s, validate=True)\<close> decodes, or \<open>None\<close> when it raises: symbols of
  the alphabet, and after them exactly the padding characters that complete the last group of four. This is
  the strict mode of Python 3.11 and later, which tolerates padding after a complete group.
\<close>

definition base64_length :: "string \<Rightarrow> nat option" where
  "base64_length s =
     (let body = takeWhile base64_char s; pads = dropWhile base64_char s; n = length body in
      if \<not> list_all (\<lambda>c. c = CHR ''='') pads then None
      else if n mod 4 = 0 then (if n = 0 \<and> pads \<noteq> [] then None else Some (3 * (n div 4)))
      else if n mod 4 = 1 \<or> length pads \<noteq> 4 - n mod 4 then None
      else Some (3 * (n div 4) + (n mod 4 - 1)))"

definition integrity_value_valid :: "json \<Rightarrow> json \<Rightarrow> bool" where
  "integrity_value_valid algorithm v =
     (case (algorithm, v) of
        (JStr a, JStr s) \<Rightarrow>
          (case hex_pattern a of
             Some p \<Rightarrow> full_match p s
           | None \<Rightarrow>
               if a = ''oci-digest'' then full_match ''sha256:[0-9a-f]{64}'' s
               else if a = ''npm-sri'' then
                 starts_with s ''sha512-'' \<and> base64_length (drop 7 s) = Some 64
               else if a = ''go-sum'' then
                 starts_with s ''h1:'' \<and> base64_length (drop 3 s) = Some 32
               else False)
      | _ \<Rightarrow> False)"

definition digest_string :: "json \<Rightarrow> bool" where
  "digest_string v = (case v of JStr s \<Rightarrow> full_match ''^[0-9a-f]{64}$'' s | _ \<Rightarrow> False)"

section \<open>Secrets\<close>

definition secret_words :: string where
  "secret_words = ''(password|private[_-]?key|secret|token|credential)''"

text \<open>\<open>re.search(r"(?i)...", key)\<close>: the words are ASCII, so the search is over the lower-case key.\<close>

definition secret_key :: "string \<Rightarrow> bool" where
  "secret_key k =
     (case re_compile secret_words of None \<Rightarrow> False | Some r \<Rightarrow> re_search r (map lower_char k))"

lemma zip_json_size [termination_simp]: "(i, x) \<in> set (zip ns xs) \<Longrightarrow> size x < Suc (size_list size xs)"
  by (drule set_zip_rightD) (simp add: size_list_estimation' le_imp_less_Suc)

fun keys_containing_secrets :: "string \<Rightarrow> json \<Rightarrow> string list" where
  "keys_containing_secrets location (JDict d) =
     concat (map (\<lambda>(k, child).
       (if secret_key k then [location @ ''.'' @ k] else []) @
       keys_containing_secrets (location @ ''.'' @ k) child) d)"
| "keys_containing_secrets location (JList xs) =
     concat (map (\<lambda>(i, child). keys_containing_secrets (location @ ''['' @ show_nat i @ '']'') child)
       (zip [0..<length xs] xs))"
| "keys_containing_secrets location v = []"

end
