(* ===== verification/Git_Outputs.thy ===== *)
theory Git_Outputs
  imports Lock_Values
begin

text \<open>
  How scripts/dependency-locks/dependency_locks.py reads git: \<open>_git\<close>, \<open>_parse_status_z\<close>,
  \<open>_commit_bytes\<close>, \<open>_parse_diff_name_status_z\<close> and \<open>_candidate_changes\<close>.

  The git program is no code of the repository: it is the argument \<open>git\<close>, which gives the exit code and the
  standard output of a command in a state of the world. The world itself is the type of \<open>git\<close>'s argument.
\<close>

datatype lock_error =
    GitFailed "string list" | StatusRenames string string | DiffUnparsable | DiffRenames string
  | DiffStatus string string | DiffRepeats string | CandidateMerge | CandidateParent
    \<comment> \<open>of requests and receipts\<close>
  | RequestIsSymlink | RequestDirectory | RequestInvalid
    \<comment> \<open>of the serialized apply\<close>
  | UnsafePath string | NotPrivate string | ExpectedDigest | ConfirmId | NotMain | NotAccepted
  | BaseCommitForm | BaseCommitResolve | WorktreeDirty | HeadRequest | UnrelatedPaths "string list"
  | DeletedPath | NoLockChange | UndeclaredLocks "string list" | RequestNotChanged | ReceiptExists
  | MissingLock string | LostMain | HeadMoved | WorktreeChanged | RequestTypeChanged | RequestBytesChanged
  | CandidateBinding | LockChanged string | JournalChanged | LockPathSymlink | LockFile | NotDirectory | ValidationFailed string
    \<comment> \<open>\<open>OSError\<close>, and what the model leaves out\<close>
  | OsFailure string | LockHeld | Crashed crash

section \<open>Running git\<close>

type_synonym 'w git_program = "'w \<Rightarrow> string list \<Rightarrow> nat \<times> string"

definition run_git :: "'w git_program \<Rightarrow> 'w \<Rightarrow> string list \<Rightarrow> lock_error + string" where
  "run_git git w args = (case git w args of (code, out) \<Rightarrow>
     if code \<noteq> 0 then Inl (GitFailed args) else Inr out)"

definition commit_bytes :: "'w git_program \<Rightarrow> 'w \<Rightarrow> string \<Rightarrow> string \<Rightarrow> string option" where
  "commit_bytes git w commit file = (case git w [''show'', commit @ '':'' @ file] of (code, out) \<Rightarrow>
     if code = 0 then Some out else None)"

section \<open>Status output\<close>

definition nul :: char where
  "nul = CHR 0x00"

text \<open>An entry is two status letters, a blank and a path; the paths are collected as a set.\<close>

definition status_entry :: "string list \<Rightarrow> string \<Rightarrow> lock_error + string list" where
  "status_entry paths entry =
     (if entry = [] then Inr paths
      else let status = take 2 entry; file = drop 3 entry in
        if CHR ''R'' \<in> set status \<or> CHR ''C'' \<in> set status then Inl (StatusRenames status file)
        else Inr (paths @ [file]))"

definition parse_status_z :: "string \<Rightarrow> lock_error + string list" where
  "parse_status_z output = foldE status_entry [] (split_on nul output)"

definition status_command :: "string list" where
  "status_command = [''status'', ''--porcelain=v1'', ''--untracked-files=all'', ''-z'']"

definition status_paths :: "'w git_program \<Rightarrow> 'w \<Rightarrow> lock_error + string list" where
  "status_paths git w = bindE (run_git git w status_command) parse_status_z"

section \<open>Changes of a candidate commit\<close>

fun diff_entries :: "string dict \<Rightarrow> string list \<Rightarrow> lock_error + string dict" where
  "diff_entries changes [] = Inr changes"
| "diff_entries changes [status] = (if status = [] then Inr changes else Inl DiffUnparsable)"
| "diff_entries changes (status # file # entries) =
     (if status = [] then diff_entries changes (file # entries)
      else if file = [] then Inl DiffUnparsable
      else let code = take 1 status in
        if code = ''R'' \<or> code = ''C'' then Inl (DiffRenames file)
        else if code \<noteq> ''A'' \<and> code \<noteq> ''M'' \<and> code \<noteq> ''D'' then Inl (DiffStatus status file)
        else if dhas file changes then Inl (DiffRepeats file)
        else diff_entries (changes @ [(file, code)]) entries)"

definition parse_diff_name_status_z :: "string \<Rightarrow> lock_error + string dict" where
  "parse_diff_name_status_z output = diff_entries [] (split_on nul output)"

text \<open>\<open>s.split()\<close>\<close>

fun words_from :: "string \<Rightarrow> string \<Rightarrow> string list" where
  "words_from w [] = (if w = [] then [] else [w])"
| "words_from w (c # cs) =
     (if is_space c then (if w = [] then [] else [w]) @ words_from [] cs else words_from (w @ [c]) cs)"

definition words_of :: "string \<Rightarrow> string list" where
  "words_of s = words_from [] s"

definition candidate_changes ::
  "'w git_program \<Rightarrow> 'w \<Rightarrow> string \<Rightarrow> string \<Rightarrow> lock_error + string dict" where
  "candidate_changes git w base candidate =
     bindE (run_git git w [''rev-list'', ''--parents'', ''-n'', ''1'', candidate]) (\<lambda>line.
     let parents = words_of line in
     if length parents \<noteq> 2 then Inl CandidateMerge
     else if parents ! 1 \<noteq> base then Inl CandidateParent
     else bindE (run_git git w [''diff'', ''--name-status'', ''--no-renames'', ''-z'', base, candidate])
       parse_diff_name_status_z)"

section \<open>What the parsers accept\<close>

text \<open>The output for a list of changes: every status and path ends in NUL.\<close>

definition render_changes :: "string dict \<Rightarrow> string" where
  "render_changes changes = concat (map (\<lambda>(file, code). code @ [nul] @ file @ [nul]) changes)"

lemma split_on_field: "c \<notin> set w \<Longrightarrow> split_on c (w @ c # s) = w # split_on c s"
  by (induction w) auto

lemma split_render:
  "\<forall>(file, code) \<in> set changes. nul \<notin> set file \<and> nul \<notin> set code \<Longrightarrow>
    split_on nul (render_changes changes) = concat (map (\<lambda>(file, code). [code, file]) changes) @ [[]]"
  by (induction changes) (auto simp: render_changes_def split_on_field)

text \<open>What the entries add to the changes already read.\<close>

lemma diff_entries_adds:
  "diff_entries cs es = Inr ds \<Longrightarrow> distinct (dkeys cs) \<Longrightarrow>
    \<exists>new. ds = cs @ new \<and> distinct (dkeys ds) \<and>
      (\<forall>(file, code) \<in> set new. file \<noteq> [] \<and> code \<in> {''A'', ''M'', ''D''})"
proof (induction cs es rule: diff_entries.induct)
  case (2 cs s)
  then show ?case by (auto split: if_splits)
next
  case (3 cs s f es)
  show ?case
  proof (cases "s = []")
    case True
    then show ?thesis using 3 by auto
  next
    case False
    with "3.prems"(1) have ok: "f \<noteq> []" "take 1 s \<in> {''A'', ''M'', ''D''}" "\<not> dhas f cs"
      and rest: "diff_entries (cs @ [(f, take 1 s)]) es = Inr ds"
      by (auto simp: Let_def split: if_splits)
    have "distinct (dkeys (cs @ [(f, take 1 s)]))" using "3.prems"(2) ok(3) by (simp add: dhas_iff)
    then obtain new where "ds = (cs @ [(f, take 1 s)]) @ new" "distinct (dkeys ds)"
      "\<forall>(file, code) \<in> set new. file \<noteq> [] \<and> code \<in> {''A'', ''M'', ''D''}"
      using "3.IH"(2) [OF False ok(1) refl] ok(2) rest \<open>\<not> dhas f cs\<close> by (auto simp: Let_def)
    then show ?thesis using ok(1,2) by auto
  qed
qed auto

text \<open>
  The fields that stand for a list of changes: a status that begins with A, M or D and a non-empty path for each,
  no path twice, and nothing else but empty fields in front of a status or at the end.
\<close>

inductive name_status :: "string list \<Rightarrow> string dict \<Rightarrow> bool" where
  no_fields: "name_status [] []"
| empty_field: "name_status parts changes \<Longrightarrow> name_status ([] # parts) changes"
| change_fields: "name_status parts changes \<Longrightarrow> file \<noteq> [] \<Longrightarrow> code \<in> {CHR ''A'', CHR ''M'', CHR ''D''} \<Longrightarrow>
    file \<notin> set (dkeys changes) \<Longrightarrow> name_status ((code # rest) # file # parts) ((file, [code]) # changes)"

inductive_cases name_status_fields:
  "name_status [] changes" "name_status [status] changes" "name_status (status # file # parts) changes"

lemma diff_entries_sound:
  "diff_entries cs es = Inr ds \<Longrightarrow>
    \<exists>new. ds = cs @ new \<and> name_status es new \<and> set (dkeys cs) \<inter> set (dkeys new) = {}"
proof (induction cs es rule: diff_entries.induct)
  case (2 cs s)
  then show ?case by (auto split: if_splits intro: name_status.intros)
next
  case (3 cs s f es)
  show ?case
  proof (cases s)
    case Nil
    then show ?thesis using 3 by (auto intro: empty_field)
  next
    case (Cons c rest)
    with "3.prems" have ok: "f \<noteq> []" "c \<in> {CHR ''A'', CHR ''M'', CHR ''D''}" "\<not> dhas f cs"
      and tail: "diff_entries (cs @ [(f, [c])]) es = Inr ds"
      by (auto simp: Let_def split: if_splits)
    obtain new where "ds = (cs @ [(f, [c])]) @ new" "name_status es new" "set (dkeys (cs @ [(f, [c])])) \<inter> set (dkeys new) = {}"
      using "3.IH"(2) [of "take 1 s"] Cons ok tail by auto
    then show ?thesis using Cons ok
      by (intro exI [of _ "(f, [c]) # new"]) (auto simp: dhas_iff intro: change_fields)
  qed
qed (auto intro: no_fields)

lemma diff_entries_complete:
  "name_status es new \<Longrightarrow> set (dkeys cs) \<inter> set (dkeys new) = {} \<Longrightarrow> diff_entries cs es = Inr (cs @ new)"
proof (induction arbitrary: cs rule: name_status.induct)
  case (empty_field parts changes)
  then show ?case by (cases parts) auto
next
  case (change_fields parts changes f code rest)
  then have "diff_entries (cs @ [(f, [code])]) parts = Inr ((cs @ [(f, [code])]) @ changes)" by auto
  with change_fields show ?case by (auto simp: dhas_iff)
qed simp

lemma name_status_render:
  "distinct (dkeys changes) \<Longrightarrow> \<forall>(file, code) \<in> set changes. file \<noteq> [] \<and> code \<in> {''A'', ''M'', ''D''} \<Longrightarrow>
    name_status (concat (map (\<lambda>(file, code). [code, file]) changes) @ [[]]) changes"
proof (induction changes)
  case (Cons d ds)
  obtain f c where d: "d = (f, c)" by (cases d)
  with Cons have "name_status (concat (map (\<lambda>(file, code). [code, file]) ds) @ [[]]) ds" "f \<noteq> []" "f \<notin> set (dkeys ds)"
    and c: "c = ''A'' \<or> c = ''M'' \<or> c = ''D''" by auto
  then show ?case using c unfolding d by (elim disjE) (auto intro: change_fields)
qed (auto intro: name_status.intros)

text \<open>
  C22: the diff parser accepts an output exactly when its NUL-separated fields are those of a list of additions,
  modifications and deletions of distinct paths, and then it returns that list; a rename, a copy, another status, a
  status without a path or a repeated path is an error. Every such list, written with NUL after each field, is
  read back.
\<close>

theorem diff_changes_exact:
  "(parse_diff_name_status_z out = Inr changes \<longleftrightarrow> name_status (split_on nul out) changes) \<and>
   (distinct (dkeys changes) \<and>
      (\<forall>(file, code) \<in> set changes. file \<noteq> [] \<and> nul \<notin> set file \<and> code \<in> {''A'', ''M'', ''D''}) \<longrightarrow>
    parse_diff_name_status_z (render_changes changes) = Inr changes)"
proof -
  have exact: "parse_diff_name_status_z s = Inr cs \<longleftrightarrow> name_status (split_on nul s) cs" for s cs
    using diff_entries_sound [of "[]" "split_on nul s" cs] diff_entries_complete [of "split_on nul s" cs "[]"]
    by (auto simp: parse_diff_name_status_z_def)
  have "name_status (split_on nul (render_changes changes)) changes" if c: "distinct (dkeys changes) \<and>
      (\<forall>(file, code) \<in> set changes. file \<noteq> [] \<and> nul \<notin> set file \<and> code \<in> {''A'', ''M'', ''D''})"
  proof -
    have plain: "nul \<notin> set code" if "code \<in> {''A'', ''M'', ''D''}" for code
      using that by (auto simp: nul_def)
    have "split_on nul (render_changes changes) = concat (map (\<lambda>(file, code). [code, file]) changes) @ [[]]"
      by (rule split_render) (use c plain in blast)
    then show ?thesis using name_status_render [of changes] c by auto
  qed
  with exact show ?thesis by blast
qed

theorem diff_changes_exact_witness:
  "parse_diff_name_status_z (''M'' @ [nul] @ ''go.mod'' @ [nul]) = Inr [(''go.mod'', ''M'')] \<and>
    \<not> is_ok (parse_diff_name_status_z (''R100'' @ [nul] @ ''go.mod'' @ [nul] @ ''go.sum'' @ [nul]))"
proof -
  have "distinct (dkeys [(''go.mod'', ''M'')]) \<and>
      (\<forall>(file, code) \<in> set [(''go.mod'', ''M'')]. file \<noteq> [] \<and> nul \<notin> set file \<and> code \<in> {''A'', ''M'', ''D''})"
    by (simp add: nul_def)
  then have "parse_diff_name_status_z (render_changes [(''go.mod'', ''M'')]) = Inr [(''go.mod'', ''M'')]"
    using diff_changes_exact [of "[]" "[(''go.mod'', ''M'')]"] by blast
  moreover have "\<not> name_status (split_on nul (''R100'' @ [nul] @ ''go.mod'' @ [nul] @ ''go.sum'' @ [nul])) cs" for cs
    by (auto simp: nul_def elim: name_status_fields)
  then have "parse_diff_name_status_z (''R100'' @ [nul] @ ''go.mod'' @ [nul] @ ''go.sum'' @ [nul]) \<noteq> Inr cs" for cs
    using diff_changes_exact [of _ cs] by blast
  ultimately show ?thesis by (auto simp: render_changes_def is_ok_def split: sum.splits)
qed

text \<open>
  A status output that is accepted lists its paths, and no entry is a rename or a copy; the empty output
  means a clean work tree.
\<close>

lemma status_entries:
  "foldE status_entry ps es = Inr qs \<Longrightarrow> qs = ps @ map (drop 3) (filter (\<lambda>e. e \<noteq> []) es)"
proof (induction es arbitrary: ps)
  case (Cons e es)
  from Cons.prems obtain ps' where "status_entry ps e = Inr ps'" "foldE status_entry ps' es = Inr qs"
    by (auto simp: bindE_Inr)
  moreover from this(1) have "ps' = ps @ map (drop 3) (filter (\<lambda>e. e \<noteq> []) [e])"
    by (simp add: status_entry_def Let_def split: if_splits)
  ultimately show ?case using Cons.IH [of ps'] by simp
qed simp

lemma parse_status_paths:
  "parse_status_z out = Inr ps \<Longrightarrow> ps = map (drop 3) (filter (\<lambda>e. e \<noteq> []) (split_on nul out))"
  unfolding parse_status_z_def by (drule status_entries) simp

end
