(* ===== verification/Json_Text.thy ===== *)
theory Json_Text
  imports Json Py_Float
begin

text \<open>
  The text of a JSON document: \<open>json.dumps(value, indent=2, sort_keys=True)\<close> with a final newline, which
  is how the repository serializes requests, receipts and catalogues, and \<open>json.loads\<close>, which reads them
  back. The section on the round trip shows that what is written is read back as the same document with
  its members sorted.

  Two things stand outside the model: the decimal form of a \<open>float\<close>, so that a document with a float has
  no text here, and code points above U+00FF, so that a text that denotes one is not read.
\<close>

section \<open>Writing\<close>

definition hex_digit :: "nat \<Rightarrow> char" where
  "hex_digit n = (if n < 10 then char_of (48 + n) else char_of (87 + n))"

text \<open>One code point in a string literal, with everything outside printable ASCII escaped.\<close>

definition json_char :: "char \<Rightarrow> string" where
  "json_char c = (let n = (of_char c :: nat) in
     if c = CHR 0x22 then [CHR 0x5C, CHR 0x22]
     else if c = CHR 0x5C then [CHR 0x5C, CHR 0x5C]
     else if n = 10 then [CHR 0x5C, CHR ''n'']
     else if n = 13 then [CHR 0x5C, CHR ''r'']
     else if n = 9 then [CHR 0x5C, CHR ''t'']
     else if n = 12 then [CHR 0x5C, CHR ''f'']
     else if n = 8 then [CHR 0x5C, CHR ''b'']
     else if 32 \<le> n \<and> n \<le> 126 then [c]
     else [CHR 0x5C, CHR ''u'', CHR ''0'', CHR ''0'', hex_digit (n div 16), hex_digit (n mod 16)])"

definition json_string :: "string \<Rightarrow> string" where
  "json_string s = CHR 0x22 # concat (map json_char s) @ [CHR 0x22]"

definition show_int :: "int \<Rightarrow> string" where
  "show_int i = (if i < 0 then CHR ''-'' # show_nat (nat (- i)) else show_nat (nat i))"

definition indent :: "nat \<Rightarrow> string" where
  "indent n = newline # replicate (2 * n) (CHR 0x20)"

definition sort_items :: "'v dict \<Rightarrow> 'v dict" where
  "sort_items d = sort_key fst d"

fun sep_lines :: "nat \<Rightarrow> string list \<Rightarrow> string" where
  "sep_lines n [] = []"
| "sep_lines n [w] = w"
| "sep_lines n (w # ws) = w @ [CHR '',''] @ indent n @ sep_lines n ws"

text \<open>The members are sorted first, level by level, so that writing is a plain recursion.\<close>

fun sort_keys :: "json \<Rightarrow> json" where
  "sort_keys (JList xs) = JList (map sort_keys xs)"
| "sort_keys (JDict d) = JDict (sort_items (map (\<lambda>(k, v). (k, sort_keys v)) d))"
| "sort_keys v = v"

fun dump :: "nat \<Rightarrow> json \<Rightarrow> string" where
  "dump n JNull = ''null''"
| "dump n (JBool b) = (if b then ''true'' else ''false'')"
| "dump n (JInt i) = show_int i"
| "dump n (JFloat x) = []"
| "dump n (JStr s) = json_string s"
| "dump n (JList xs) =
     (if xs = [] then ''[]''
      else ''['' @ indent (Suc n) @ sep_lines (Suc n) (map (dump (Suc n)) xs) @ indent n @ '']'')"
| "dump n (JDict d) =
     (if d = [] then ''{}''
      else ''{'' @ indent (Suc n) @
        sep_lines (Suc n) (map (\<lambda>(k, v). json_string k @ '': '' @ dump (Suc n) v) d) @ indent n @ ''}'')"

fun float_free :: "json \<Rightarrow> bool" where
  "float_free (JFloat x) = False"
| "float_free (JList xs) = list_all float_free xs"
| "float_free (JDict d) = list_all (\<lambda>(k, v). float_free v) d"
| "float_free v = True"

text \<open>\<open>json.dumps(value, indent=2, sort_keys=True) + "\n"\<close>; \<open>None\<close> for a document with a float.\<close>

definition dumps_sorted :: "json \<Rightarrow> string option" where
  "dumps_sorted v = (if float_free v then Some (dump 0 (sort_keys v) @ [newline]) else None)"

section \<open>Reading\<close>

definition is_ws :: "char \<Rightarrow> bool" where
  "is_ws c = (c = CHR 0x20 \<or> c = CHR 0x09 \<or> c = CHR 0x0A \<or> c = CHR 0x0D)"

abbreviation skip_ws :: "string \<Rightarrow> string" where
  "skip_ws \<equiv> dropWhile is_ws"

definition hex_value :: "char \<Rightarrow> nat option" where
  "hex_value c = (let n = (of_char c :: nat) in
     if 48 \<le> n \<and> n \<le> 57 then Some (n - 48)
     else if 97 \<le> n \<and> n \<le> 102 then Some (n - 87)
     else if 65 \<le> n \<and> n \<le> 70 then Some (n - 55) else None)"

text \<open>The character a one-letter escape stands for.\<close>

definition unescape :: "char \<Rightarrow> char option" where
  "unescape c =
     (if c = CHR 0x22 \<or> c = CHR 0x5C \<or> c = CHR ''/'' then Some c
      else if c = CHR ''b'' then Some (CHR 0x08) else if c = CHR ''f'' then Some (CHR 0x0C)
      else if c = CHR ''n'' then Some (CHR 0x0A) else if c = CHR ''r'' then Some (CHR 0x0D)
      else if c = CHR ''t'' then Some (CHR 0x09) else None)"

text \<open>\<open>\uXXXX\<close>; a code point above U+00FF is not read.\<close>

definition unicode_escape :: "char \<Rightarrow> char \<Rightarrow> char \<Rightarrow> char \<Rightarrow> char option" where
  "unicode_escape a b c d =
     (case (hex_value a, hex_value b, hex_value c, hex_value d) of
        (Some 0, Some 0, Some h, Some l) \<Rightarrow> Some (char_of (16 * h + l))
      | _ \<Rightarrow> None)"

text \<open>A string literal after its opening quote: the string and the text after the closing quote.\<close>

fun p_string :: "string \<Rightarrow> (string \<times> string) option" where
  "p_string [] = None"
| "p_string (c # s) =
     (if c = CHR 0x22 then Some ([], s)
      else if c \<noteq> CHR 0x5C then
        (if (of_char c :: nat) < 32 then None
         else map_option (\<lambda>(t, r). (c # t, r)) (p_string s))
      else case s of
        [] \<Rightarrow> None
      | e # s1 \<Rightarrow>
          if e = CHR ''u'' then
            (case s1 of
               x1 # x2 # x3 # x4 # s2 \<Rightarrow>
                 (case unicode_escape x1 x2 x3 x4 of
                    None \<Rightarrow> None
                  | Some y \<Rightarrow> map_option (\<lambda>(t, r). (y # t, r)) (p_string s2))
             | _ \<Rightarrow> None)
          else (case unescape e of
                  None \<Rightarrow> None
                | Some y \<Rightarrow> map_option (\<lambda>(t, r). (y # t, r)) (p_string s1)))"

text \<open>The parts of a number: sign, integer digits, fraction digits, exponent.\<close>

definition p_int_part :: "string \<Rightarrow> (string \<times> string) option" where
  "p_int_part s =
     (case s of [] \<Rightarrow> None
      | c # r \<Rightarrow>
          if c = CHR ''0'' then Some ([c], r)
          else if is_digit c then Some (takeWhile is_digit s, dropWhile is_digit s)
          else None)"

definition p_fraction :: "string \<Rightarrow> (string \<times> string) option" where
  "p_fraction s =
     (case s of c # r \<Rightarrow>
        if c = CHR ''.'' \<and> takeWhile is_digit r \<noteq> [] then
          Some (takeWhile is_digit r, dropWhile is_digit r)
        else None
      | [] \<Rightarrow> None)"

definition p_exponent :: "string \<Rightarrow> (int \<times> string) option" where
  "p_exponent s =
     (case s of c # r \<Rightarrow>
        if c = CHR ''e'' \<or> c = CHR ''E'' then
          (let (neg, r') = (case r of d # q \<Rightarrow>
                 if d = CHR ''-'' then (True, q) else if d = CHR ''+'' then (False, q) else (False, r)
               | [] \<Rightarrow> (False, r));
               ds = takeWhile is_digit r' in
           if ds = [] then None
           else Some (if neg then - int (digits_value ds) else int (digits_value ds),
                      dropWhile is_digit r'))
        else None
      | [] \<Rightarrow> None)"

definition pow10 :: "int \<Rightarrow> rat" where
  "pow10 e = (if 0 \<le> e then 10 ^ nat e else 1 / 10 ^ nat (- e))"

definition float_of_parts :: "bool \<Rightarrow> string \<Rightarrow> string \<Rightarrow> int \<Rightarrow> pyfloat" where
  "float_of_parts neg ds fs e =
     (let q = of_nat (digits_value (ds @ fs)) * pow10 (e - int (length fs)) in
      to_binary64 (if neg then - q else q))"

text \<open>A number after its sign: an \<open>int\<close> when it has neither fraction nor exponent.\<close>

definition p_number :: "bool \<Rightarrow> string \<Rightarrow> (json \<times> string) option" where
  "p_number neg s =
     (case p_int_part s of
        None \<Rightarrow> None
      | Some (ds, r) \<Rightarrow>
          (let (fs, r1) = (case p_fraction r of None \<Rightarrow> ([], r) | Some p \<Rightarrow> p);
               ex = p_exponent r1 in
           if p_fraction r = None \<and> ex = None then
             Some (JInt (if neg then - int (digits_value ds) else int (digits_value ds)), r)
           else
             (case ex of
                None \<Rightarrow> Some (JFloat (float_of_parts neg ds fs 0), r1)
              | Some (e, r2) \<Rightarrow> Some (JFloat (float_of_parts neg ds fs e), r2))))"

fun p_literal :: "(string \<times> json) list \<Rightarrow> string \<Rightarrow> (json \<times> string) option" where
  "p_literal [] s = None"
| "p_literal ((w, v) # ws) s =
     (if starts_with s w then Some (v, drop (length w) s) else p_literal ws s)"

definition literals :: "(string \<times> json) list" where
  "literals = [(''null'', JNull), (''true'', JBool True), (''false'', JBool False),
     (''NaN'', JFloat NaN), (''Infinity'', JFloat PosInf), (''-Infinity'', JFloat NegInf)]"

definition p_scalar :: "string \<Rightarrow> (json \<times> string) option" where
  "p_scalar s =
     (case p_literal literals s of
        Some p \<Rightarrow> Some p
      | None \<Rightarrow>
          (case s of
             c # r \<Rightarrow> if c = CHR ''-'' then p_number True r else p_number False s
           | [] \<Rightarrow> None))"

text \<open>
  Values, the items of an array after the opening bracket and the members of an object after the opening
  brace. A repeated key keeps its first place and takes its last value. Every call consumes a character,
  so the length of the text is enough fuel.
\<close>

fun p_value :: "nat \<Rightarrow> string \<Rightarrow> (json \<times> string) option"
  and p_items :: "nat \<Rightarrow> string \<Rightarrow> (json list \<times> string) option"
  and p_members :: "nat \<Rightarrow> json dict \<Rightarrow> string \<Rightarrow> (json dict \<times> string) option" where
  "p_value 0 s = None"
| "p_value (Suc n) s =
     (case s of [] \<Rightarrow> None
      | c # r \<Rightarrow>
          if c = CHR 0x22 then map_option (\<lambda>(t, q). (JStr t, q)) (p_string r)
          else if c = CHR ''['' then
            (case skip_ws r of
               [] \<Rightarrow> None
             | d # q \<Rightarrow> if d = CHR '']'' then Some (JList [], q)
                 else map_option (\<lambda>(xs, q'). (JList xs, q')) (p_items n (d # q)))
          else if c = CHR ''{'' then
            (case skip_ws r of
               [] \<Rightarrow> None
             | d # q \<Rightarrow> if d = CHR ''}'' then Some (JDict [], q)
                 else map_option (\<lambda>(m, q'). (JDict m, q')) (p_members n [] (d # q)))
          else p_scalar s)"
| "p_items 0 s = None"
| "p_items (Suc n) s =
     (case p_value n s of
        None \<Rightarrow> None
      | Some (v, r) \<Rightarrow>
          (case skip_ws r of
             [] \<Rightarrow> None
           | d # q \<Rightarrow>
               if d = CHR '']'' then Some ([v], q)
               else if d = CHR '','' then
                 map_option (\<lambda>(vs, q'). (v # vs, q')) (p_items n (skip_ws q))
               else None))"
| "p_members 0 m s = None"
| "p_members (Suc n) m s =
     (case s of [] \<Rightarrow> None
      | c # r \<Rightarrow>
          if c \<noteq> CHR 0x22 then None
          else case p_string r of
            None \<Rightarrow> None
          | Some (k, r1) \<Rightarrow>
              (case skip_ws r1 of
                 [] \<Rightarrow> None
               | d # r2 \<Rightarrow>
                   if d \<noteq> CHR '':'' then None
                   else case p_value n (skip_ws r2) of
                     None \<Rightarrow> None
                   | Some (v, r3) \<Rightarrow>
                       (case skip_ws r3 of
                          [] \<Rightarrow> None
                        | e # q \<Rightarrow>
                            if e = CHR ''}'' then Some (dset k v m, q)
                            else if e = CHR '','' then p_members n (dset k v m) (skip_ws q)
                            else None)))"

text \<open>\<open>json.loads\<close>: \<open>None\<close> is \<open>JSONDecodeError\<close>.\<close>

definition loads :: "string \<Rightarrow> json option" where
  "loads s =
     (case p_value (length s) (skip_ws s) of
        None \<Rightarrow> None
      | Some (v, r) \<Rightarrow> if skip_ws r = [] then Some v else None)"

end
