(* ===== verification/Dependency_Requests.thy ===== *)
theory Dependency_Requests
  imports Lock_Values Json_Text
begin

text \<open>
  \<open>request_errors\<close> of scripts/dependency-locks/dependency_locks.py: every error of a dependency request,
  in the order the code appends them. An error is a constructor with the index or name its message
  contains. \<open>request_errors\<close> itself reads the file; its text is an argument here.
\<close>

datatype request_error =
    RequestUnreadable | RequestNotObject | UnexpectedProperty string | MissingProperty string
  | PacketIdRange | RequestIdNamespace | RequestFileName | RequestVersion | RequesterMissing
  | CreatedAtUnreal | StatusUnknown | ProposedApproval | ProposedReason
  | ApprovalMissing | ApprovalFields | ApprovalRole | ApprovalValue string | ApprovedAtUnreal
  | ApprovedBeforeCreated | AcceptedReason | ReasonMissing | RejectedApproval
  | DependenciesMissing | DependencyNotObject nat | DependencyFields nat | DependencyEcosystem nat
  | DependencyName nat | DependencyVersion nat | DependencyLicense nat | DependencyPurpose nat
  | DependencySource nat | DependencyDirectness nat | IntegrityFields nat | IntegrityAlgorithm nat
  | IntegrityValue nat | IntegritySource nat | DependencyIdentities
  | LockfilesNotRootLocks | LockfilesRepeat | BuildsMissing | BuildsRepeat | RequirementsClosed
  | RiskFields | RiskSensitivity | RiskImpact | RiskJustification | SecretFields "string list"

definition allowed_top :: "string list" where
  "allowed_top = [''schema_version'', ''request_id'', ''packet_id'', ''status'', ''created_at'',
     ''requested_by'', ''dependencies'', ''affected_lockfiles'', ''affected_builds'', ''risk'',
     ''validation_requirements'', ''approval'', ''rejection_reason'']"

definition required_top :: "string list" where
  "required_top = filter (\<lambda>k. k \<notin> {''approval'', ''rejection_reason''}) allowed_top"

section \<open>Identity\<close>

text \<open>\<open>REQUEST_ID_RE.fullmatch(request_id).group(1) == packet_id\<close>: the group is the first three characters.\<close>

definition namespaced :: "json \<Rightarrow> json \<Rightarrow> bool" where
  "namespaced request_id packet =
     (case request_id of
        JStr s \<Rightarrow> full_match request_id_pattern s \<and> packet = JStr (take 3 s)
      | _ \<Rightarrow> False)"

definition packet_in_range :: "json \<Rightarrow> bool" where
  "packet_in_range v = (case v of JStr s \<Rightarrow> full_match packet_pattern s | _ \<Rightarrow> False)"

definition identity_errors :: "string \<Rightarrow> json dict \<Rightarrow> crash + request_error list" where
  "identity_errors name r =
     (let packet = get_or_null ''packet_id'' r in gather
       [Inr (map UnexpectedProperty (sort (filter (\<lambda>k. k \<notin> set allowed_top) (dkeys r)))),
        Inr (map MissingProperty (sort (filter (\<lambda>k. k \<notin> set (dkeys r)) required_top))),
        err_if (\<not> packet_in_range packet) PacketIdRange,
        err_if (\<not> namespaced (get_or_null ''request_id'' r) packet) RequestIdNamespace,
        err_when (bindE (py_str packet) (\<lambda>s. Inr (name \<noteq> s @ ''.yaml''))) RequestFileName,
        err_if (\<not> py_eq (get_or_null ''schema_version'' r) (JInt 1)) RequestVersion,
        err_if (\<not> has_text (get_or_null ''requested_by'' r)) RequesterMissing,
        err_if (utc_timestamp (get_or_null ''created_at'' r) = None) CreatedAtUnreal])"

section \<open>Lifecycle\<close>

definition statuses :: "string list" where
  "statuses = [''proposed'', ''accepted'', ''rejected'', ''applied'']"

definition approval_errors :: "json dict \<Rightarrow> crash + request_error list" where
  "approval_errors r =
     (case get_or_null ''approval'' r of
        JDict a \<Rightarrow> gather
          [err_if (\<not> keys_are [''decision_id'', ''approved_by'', ''approver_role'', ''approved_at''] a)
             ApprovalFields,
           err_if (get_or_null ''approver_role'' a \<noteq> JStr ''p01-root-lock-steward'') ApprovalRole,
           Inr (map ApprovalValue (filter (\<lambda>k. \<not> nonempty_str (get_or_null k a))
             [''decision_id'', ''approved_by'', ''approved_at''])),
           (case utc_timestamp (get_or_null ''approved_at'' a) of
              None \<Rightarrow> Inr [ApprovedAtUnreal]
            | Some t \<Rightarrow>
                (case utc_timestamp (get_or_null ''created_at'' r) of
                   None \<Rightarrow> Inr []
                 | Some c \<Rightarrow> err_if (t < c) ApprovedBeforeCreated))]
      | _ \<Rightarrow> Inr [ApprovalMissing])"

definition lifecycle_field_errors :: "json dict \<Rightarrow> crash + request_error list" where
  "lifecycle_field_errors r =
     (let status = get_or_null ''status'' r in gather
       [err_when (not_in_names status statuses) StatusUnknown,
        Inr (if status = JStr ''proposed'' then
               (if dhas ''approval'' r then [ProposedApproval] else []) @
               (if dhas ''rejection_reason'' r then [ProposedReason] else []) else []),
        (if status = JStr ''accepted'' \<or> status = JStr ''applied'' then
           gather [approval_errors r, err_if (dhas ''rejection_reason'' r) AcceptedReason]
         else Inr []),
        err_if (status = JStr ''rejected'' \<and> \<not> has_text (get_or_null ''rejection_reason'' r)) ReasonMissing,
        err_if (status = JStr ''rejected'' \<and> dhas ''approval'' r) RejectedApproval])"

section \<open>Dependencies\<close>

definition required_dependency :: "string list" where
  "required_dependency = [''ecosystem'', ''name'', ''version'', ''license'', ''purpose'', ''source_url'',
     ''integrity'', ''direct_runtime_dependency'']"

definition integrity_algorithms :: "string list" where
  "integrity_algorithms = [''sha256'', ''sha512'', ''npm-sri'', ''go-sum'', ''oci-digest'']"

definition integrity_errors :: "nat \<Rightarrow> json \<Rightarrow> crash + request_error list" where
  "integrity_errors i integrity =
     (case integrity of
        JDict d \<Rightarrow>
          if \<not> keys_are [''algorithm'', ''value'', ''source_url''] d then Inr [IntegrityFields i]
          else gather
            [err_when (not_in_names (get_or_null ''algorithm'' d) integrity_algorithms) (IntegrityAlgorithm i),
             err_if (\<not> integrity_value_valid (get_or_null ''algorithm'' d) (get_or_null ''value'' d))
               (IntegrityValue i),
             err_when (not_https (get_or_null ''source_url'' d)) (IntegritySource i)]
      | _ \<Rightarrow> Inr [IntegrityFields i])"

text \<open>\<open>d.get("source_url", "")\<close>\<close>

definition get_or_empty_str :: "string \<Rightarrow> json dict \<Rightarrow> json" where
  "get_or_empty_str k d = (case dget k d of None \<Rightarrow> JStr [] | Some v \<Rightarrow> v)"

definition dependency_errors :: "nat \<Rightarrow> json \<Rightarrow> crash + request_error list" where
  "dependency_errors i dependency =
     (case dependency of
        JDict d \<Rightarrow> gather
          [err_if (\<not> keys_are required_dependency d) (DependencyFields i),
           err_when (not_in_names (get_or_null ''ecosystem'' d) [''go'', ''pnpm'', ''tool'']) (DependencyEcosystem i),
           err_if (\<not> nonempty_str (get_or_null ''name'' d)) (DependencyName i),
           err_if (\<not> exact_version (get_or_null ''version'' d)) (DependencyVersion i),
           err_when (not_in_names (get_or_null ''license'' d) request_license_allowlist) (DependencyLicense i),
           err_if (\<not> min_text 8 (get_or_null ''purpose'' d)) (DependencyPurpose i),
           err_when (not_https (get_or_empty_str ''source_url'' d)) (DependencySource i),
           err_if (\<not> is_bool (get_or_null ''direct_runtime_dependency'' d)) (DependencyDirectness i),
           integrity_errors i (get_or_null ''integrity'' d)]
      | _ \<Rightarrow> Inr [DependencyNotObject i])"

text \<open>\<open>(dependency.get("ecosystem"), dependency.get("name"))\<close> of the entries that are objects.\<close>

fun identities :: "json list \<Rightarrow> (json \<times> json) list" where
  "identities [] = []"
| "identities (JDict d # xs) = (get_or_null ''ecosystem'' d, get_or_null ''name'' d) # identities xs"
| "identities (_ # xs) = identities xs"

definition pair_eq :: "json \<times> json \<Rightarrow> json \<times> json \<Rightarrow> bool" where
  "pair_eq p q = (py_eq (fst p) (fst q) \<and> py_eq (snd p) (snd q))"

definition repeated_identities :: "json list \<Rightarrow> crash + bool" where
  "repeated_identities xs =
     (if list_all (\<lambda>(e, n). hashable e \<and> hashable n) (identities xs)
      then Inr (has_repeat pair_eq [] (identities xs)) else Inl CrashType)"

definition dependencies_errors :: "json \<Rightarrow> crash + request_error list" where
  "dependencies_errors v =
     (case v of
        JList xs \<Rightarrow>
          if xs = [] then Inr [DependenciesMissing]
          else gather (map (\<lambda>(i, x). dependency_errors i x) (zip [0..<length xs] xs) @
            [err_when (repeated_identities xs) DependencyIdentities])
      | _ \<Rightarrow> Inr [DependenciesMissing])"

section \<open>What the request affects\<close>

text \<open>\<open>set(xs)\<close> needs hashable elements.\<close>

definition when_hashable :: "json list \<Rightarrow> bool \<Rightarrow> crash + bool" where
  "when_hashable xs b = (if list_all hashable xs then Inr b else Inl CrashType)"

definition lockfile_errors :: "json \<Rightarrow> crash + request_error list" where
  "lockfile_errors v =
     (case v of
        JList xs \<Rightarrow>
          if xs = [] then Inr [LockfilesNotRootLocks]
          else bindE (when_hashable xs (set xs \<subseteq> JStr ` set lock_paths)) (\<lambda>subset.
            Inr (if \<not> subset then [LockfilesNotRootLocks]
                 else if \<not> distinct xs then [LockfilesRepeat] else []))
      | _ \<Rightarrow> Inr [LockfilesNotRootLocks])"

definition build_errors :: "json \<Rightarrow> crash + request_error list" where
  "build_errors v =
     (case v of
        JList xs \<Rightarrow> Inr (if xs = [] \<or> \<not> list_all has_text xs then [BuildsMissing]
          else if \<not> distinct xs then [BuildsRepeat] else [])
      | _ \<Rightarrow> Inr [BuildsMissing])"

definition requirement_names :: "string list" where
  "requirement_names = [''license'', ''vulnerability'', ''clean-clone'']"

definition requirement_errors :: "json \<Rightarrow> crash + request_error list" where
  "requirement_errors v =
     (case v of
        JList xs \<Rightarrow>
          if length xs \<noteq> 3 then Inr [RequirementsClosed]
          else err_when (when_hashable xs (set xs \<noteq> JStr ` set requirement_names)) RequirementsClosed
      | _ \<Rightarrow> Inr [RequirementsClosed])"

definition risk_errors :: "json \<Rightarrow> crash + request_error list" where
  "risk_errors v =
     (case v of
        JDict d \<Rightarrow>
          if \<not> keys_are [''security_sensitive'', ''data_boundary_impact'', ''justification''] d
          then Inr [RiskFields]
          else gather
            [err_if (\<not> is_bool (get_or_null ''security_sensitive'' d)) RiskSensitivity,
             err_when (not_in_names (get_or_null ''data_boundary_impact'' d) [''none'', ''review-required'']) RiskImpact,
             err_if (\<not> (case get_or_null ''justification'' d of
                JStr s \<Rightarrow> 8 \<le> length (strip_str s) | _ \<Rightarrow> False)) RiskJustification]
      | _ \<Rightarrow> Inr [RiskFields])"

section \<open>The request\<close>

definition document_errors :: "string \<Rightarrow> json \<Rightarrow> crash + request_error list" where
  "document_errors name request =
     (case request of
        JDict r \<Rightarrow> gather
          [identity_errors name r,
           lifecycle_field_errors r,
           dependencies_errors (get_or_null ''dependencies'' r),
           lockfile_errors (get_or_null ''affected_lockfiles'' r),
           build_errors (get_or_null ''affected_builds'' r),
           requirement_errors (get_or_null ''validation_requirements'' r),
           risk_errors (get_or_null ''risk'' r),
           (let found = keys_containing_secrets ''$'' request in
            err_if (found \<noteq> []) (SecretFields found))]
      | _ \<Rightarrow> Inr [RequestNotObject])"

definition request_errors :: "string \<Rightarrow> string option \<Rightarrow> crash + request_error list" where
  "request_errors name content =
     (case content of
        None \<Rightarrow> Inr [RequestUnreadable]
      | Some s \<Rightarrow> (case loads s of
          None \<Rightarrow> Inr [RequestUnreadable]
        | Some request \<Rightarrow> document_errors name request))"

end
