(* ===== verification/Lock_World.thy ===== *)
theory Lock_World
  imports Git_Outputs Dependency_Requests
begin

text \<open>
  The files a serialized apply reads and writes: the file-system state, \<open>assert_safe_mutable_paths\<close> of
  scripts/dev/tool_lock.py, and \<open>_private_regular_file\<close>, \<open>_ensure_safe_repository_directory\<close>,
  \<open>_preflight_apply_journal_paths\<close>, \<open>_write_exclusive\<close>, \<open>_atomic_replace\<close>, \<open>_ensure_receipt_absent\<close> and
  \<open>_apply_lock\<close> of scripts/dependency-locks/dependency_locks.py.

  Paths are relative to the repository root, whose own path is the empty string. A symbolic link has no
  target here: the code refuses each one it meets before it would follow it. The content of a file is its
  text, over U+0000 to U+00FF.

  A step that writes gives every state a reader could see while it runs. A run is the list of these states
  in order and the outcome; a process that dies leaves one of them behind.
\<close>

section \<open>The state\<close>

datatype node = File string nat | Symlink | Directory
  \<comment> \<open>content and number of links\<close>

record 'g world =
  w_files :: "string \<Rightarrow> node option"
  w_repo :: 'g              \<comment> \<open>what git keeps\<close>
  w_locked :: bool          \<comment> \<open>another process holds the apply lock\<close>

definition put :: "string \<Rightarrow> node option \<Rightarrow> 'g world \<Rightarrow> 'g world" where
  "put p n w = w\<lparr>w_files := (w_files w)(p := n)\<rparr>"

definition read_file :: "'g world \<Rightarrow> string \<Rightarrow> string option" where
  "read_file w p = (case w_files w p of Some (File s _) \<Rightarrow> Some s | _ \<Rightarrow> None)"

definition is_symlink :: "'g world \<Rightarrow> string \<Rightarrow> bool" where
  "is_symlink w p = (w_files w p = Some Symlink)"

text \<open>\<open>p.is_symlink() or not p.is_file()\<close> is the negation of this.\<close>

definition regular :: "'g world \<Rightarrow> string \<Rightarrow> bool" where
  "regular w p = (read_file w p \<noteq> None)"

lemma put_simps [simp]:
  "w_files (put p n w) q = (if q = p then n else w_files w q)"
  "w_repo (put p n w) = w_repo w" "w_locked (put p n w) = w_locked w"
  by (simp_all add: put_def)

lemma read_put [simp]:
  "read_file (put p (Some (File s k)) w) q = (if q = p then Some s else read_file w q)"
  "read_file (put p (Some Directory) w) q = (if q = p then None else read_file w q)"
  "read_file (put p None w) q = (if q = p then None else read_file w q)"
  by (simp_all add: read_file_def)

section \<open>Paths\<close>

text \<open>The ancestors of a path below the root and the path itself, from the outermost.\<close>

definition ancestors :: "string \<Rightarrow> string list" where
  "ancestors p = (let parts = split_on (CHR ''/'') p in
     map (\<lambda>i. join_with ''/'' (take (Suc i) parts)) [0..<length parts])"

definition parent_of :: "string \<Rightarrow> string" where
  "parent_of p = join_with ''/'' (butlast (split_on (CHR ''/'') p))"

definition name_of :: "string \<Rightarrow> string" where
  "name_of p = last (split_on (CHR ''/'') p)"

text \<open>\<open>assert_safe_mutable_paths\<close>: neither the root nor anything on the way to a path is a link.\<close>

definition safe_paths :: "'g world \<Rightarrow> string list \<Rightarrow> lock_error check" where
  "safe_paths w ps = for_each (\<lambda>p. for_each (\<lambda>q. raise_if (is_symlink w q) (UnsafePath q)) ([] # ancestors p)) ps"

definition private_regular_file :: "'g world \<Rightarrow> string \<Rightarrow> lock_error check" where
  "private_regular_file w p = (case w_files w p of
     Some (File s n) \<Rightarrow> raise_if (n \<noteq> 1) (NotPrivate p) | _ \<Rightarrow> Inl (NotPrivate p))"

definition preflight_journal :: "'g world \<Rightarrow> string \<Rightarrow> string option \<Rightarrow> lock_error check" where
  "preflight_journal w request_path receipt =
     checks [safe_paths w ([parent_of request_path, request_path] @
        (case receipt of None \<Rightarrow> [] | Some r \<Rightarrow> [parent_of r, r])),
      private_regular_file w request_path]"

text \<open>\<open>path.exists() or path.is_symlink()\<close>\<close>

definition receipt_absent :: "'g world \<Rightarrow> string \<Rightarrow> lock_error check" where
  "receipt_absent w p = raise_if (w_files w p \<noteq> None) ReceiptExists"

section \<open>Runs\<close>

type_synonym ('g, 'a) run = "'g world list \<times> (lock_error + 'a)"

text \<open>Sequencing: the continuation starts in the last state seen.\<close>

definition and_then :: "('g, 'a) run \<Rightarrow> ('g world \<Rightarrow> 'a \<Rightarrow> ('g, 'b) run) \<Rightarrow> ('g, 'b) run" where
  "and_then m f = (case m of
     (t, Inl e) \<Rightarrow> (t, Inl e)
   | (t, Inr x) \<Rightarrow> (case f (last t) x of (t', r) \<Rightarrow> (t @ t', r)))"

text \<open>A check of a state, which changes nothing, and a step that writes.\<close>

definition look :: "'g world \<Rightarrow> lock_error + 'a \<Rightarrow> ('g, 'a) run" where
  "look w r = ([w], r)"

definition write_to :: "'g world \<Rightarrow> ('g, unit) run" where
  "write_to w = ([w], Inr ())"

lemma and_then_Inr:
  "and_then m f = (t, Inr y) \<longleftrightarrow>
    (\<exists>t1 x t2. m = (t1, Inr x) \<and> f (last t1) x = (t2, Inr y) \<and> t = t1 @ t2)"
  by (cases m; cases "snd m") (auto simp: and_then_def split: prod.splits)

lemma and_then_states:
  "\<forall>w \<in> set (fst m). P w \<Longrightarrow> fst m \<noteq> [] \<Longrightarrow>
    (\<And>w x. m = (fst m, Inr x) \<Longrightarrow> w = last (fst m) \<Longrightarrow> \<forall>v \<in> set (fst (f w x)). P v) \<Longrightarrow>
    \<forall>w \<in> set (fst (and_then m f)). P w"
  by (cases m; cases "snd m") (auto simp: and_then_def split: prod.splits)

lemma look_simps [simp]:
  "fst (look w r) = [w]" "snd (look w r) = r" "and_then (look w (Inl e)) f = ([w], Inl e)"
  "look w r = (t, Inr x) \<longleftrightarrow> t = [w] \<and> r = Inr x"
  by (auto simp: look_def and_then_def)

lemma write_to_simps [simp]:
  "fst (write_to w) = [w]" "write_to w = (t, Inr x) \<longleftrightarrow> t = [w]"
  by (auto simp: write_to_def)

section \<open>Writing\<close>

text \<open>\<open>_ensure_safe_repository_directory\<close>: each missing directory on the way is made.\<close>

fun make_directories :: "'g world \<Rightarrow> string list \<Rightarrow> ('g, unit) run" where
  "make_directories w [] = look w (Inr ())"
| "make_directories w (p # ps) =
     (case w_files w p of
        None \<Rightarrow> and_then (write_to (put p (Some Directory) w)) (\<lambda>w' _. make_directories w' ps)
      | Some Directory \<Rightarrow> make_directories w ps
      | Some _ \<Rightarrow> look w (Inl NotDirectory))"

definition ensure_directory :: "'g world \<Rightarrow> string \<Rightarrow> ('g, unit) run" where
  "ensure_directory w p =
     and_then (look w (checks [safe_paths w [p], raise_if (w_files w [] \<noteq> Some Directory) NotDirectory]))
       (\<lambda>w' _. make_directories w' (ancestors p))"

text \<open>The bytes of \<open>_canonical_bytes\<close>.\<close>

definition canonical_bytes :: "json \<Rightarrow> lock_error + string" where
  "canonical_bytes v = (case dumps_sorted v of None \<Rightarrow> Inl (Crashed Unmodelled) | Some s \<Rightarrow> Inr s)"

text \<open>Creating a file with \<open>O_EXCL\<close> and filling it: it is empty in between.\<close>

definition create_file :: "'g world \<Rightarrow> string \<Rightarrow> string \<Rightarrow> ('g, unit) run" where
  "create_file w p content =
     and_then (look w (raise_if (w_files w p \<noteq> None) (OsFailure p))) (\<lambda>w' _.
     and_then (write_to (put p (Some (File [] 1)) w')) (\<lambda>w1 _.
     write_to (put p (Some (File content 1)) w1)))"

definition write_exclusive :: "'g world \<Rightarrow> string \<Rightarrow> json \<Rightarrow> ('g, unit) run" where
  "write_exclusive w p v =
     and_then (ensure_directory w (parent_of p)) (\<lambda>w1 _.
     and_then (look w1 (bindE (safe_paths w1 [p]) (\<lambda>_. canonical_bytes v))) (\<lambda>w2 content.
     create_file w2 p content))"

definition temporary_path :: "string \<Rightarrow> nat \<Rightarrow> string" where
  "temporary_path p pid = parent_of p @ ''/.'' @ name_of p @ ''.tmp-'' @ show_nat pid"

text \<open>\<open>_atomic_replace\<close>: the new content is complete before the rename makes it visible.\<close>

definition atomic_replace :: "'g world \<Rightarrow> nat \<Rightarrow> string \<Rightarrow> json \<Rightarrow> ('g, unit) run" where
  "atomic_replace w pid p v =
     (let temporary = temporary_path p pid in
      and_then (look w (checks [preflight_journal w p None, safe_paths w [temporary]])) (\<lambda>w1 _.
      and_then (look w1 (canonical_bytes v)) (\<lambda>w2 content.
      and_then (create_file w2 temporary content) (\<lambda>w3 _.
      write_to (put temporary None (put p (Some (File content 1)) w3))))))"

text \<open>Opening a lock file, which is made when it is missing.\<close>

definition open_lock :: "'g world \<Rightarrow> string \<Rightarrow> ('g, unit) run" where
  "open_lock w p =
     (case w_files w p of
        None \<Rightarrow> write_to (put p (Some (File [] 1)) w)
      | Some (File s n) \<Rightarrow> look w (raise_if (n \<noteq> 1) LockFile)
      | Some _ \<Rightarrow> look w (Inl LockFile))"

text \<open>\<open>tool_operation_lock(exclusive=True)\<close> of scripts/dev/tool_lock.py; it waits for its turn.\<close>

definition operation_lock_path :: string where
  "operation_lock_path = ''build/tools/.operation.lock''"

definition operation_lock :: "'g world \<Rightarrow> ('g, unit) run" where
  "operation_lock w =
     and_then (look w (safe_paths w [[], ''build'', ''build/tools'', operation_lock_path])) (\<lambda>w1 _.
     and_then (make_directories w1 [''build'', ''build/tools'']) (\<lambda>w2 _.
     open_lock w2 operation_lock_path))"

text \<open>\<open>_apply_lock\<close>: it does not wait.\<close>

definition apply_lock_path :: string where
  "apply_lock_path = ''build/tools/dependency-apply.lock''"

definition apply_lock :: "'g world \<Rightarrow> ('g, unit) run" where
  "apply_lock w =
     and_then (look w (for_each (\<lambda>p. raise_if (is_symlink w p) LockPathSymlink) [[], ''build'', ''build/tools'']))
       (\<lambda>w1 _. and_then (make_directories w1 [''build'', ''build/tools'']) (\<lambda>w2 _.
     and_then (open_lock w2 apply_lock_path) (\<lambda>w3 _.
     look w3 (raise_if (w_locked w3) LockHeld))))"

end
