(* ===== verification/Lock_Receipts.thy ===== *)
theory Lock_Receipts
  imports Lock_World
begin

text \<open>
  Receipts of applied requests: \<open>_canonical_receipt_path\<close>, \<open>_receipt_validation_errors\<close>,
  \<open>_request_lifecycle_errors\<close> and \<open>validate_request\<close> of scripts/dependency-locks/dependency_locks.py,
  for the repository's own root (the \<open>root\<close> argument is for tests).

  \<open>digest\<close> is \<open>hashlib.sha256(...).hexdigest()\<close>; the statements hold for every function in its place.
\<close>

datatype receipt_error =
    ReceiptNotRegular | ReceiptUnreadable | ReceiptNotObject | ReceiptFields | ReceiptVersion | ReceiptKind
  | ReceiptStatus | ReceiptRequestId | ReceiptPacketId | ReceiptRequestPath | RequestBytesUnread
  | RequestNotCanonical | AppliedDigest | AcceptedDigestForm | SameDigests | ReceiptApproval
  | CompletedAtUnreal | CommitForm string | ManifestDigest | ChangesMissing | ChangeFields nat
  | ChangePath nat | ChangeBefore nat | ChangeAfter nat | ChangeRepeats | ChangeUndeclared
  | ValidationsIncomplete | ToolchainInvalid | ProvenanceInvalid | LicenseInvalid | CoverageInvalid
  | TarballInvalid | ReviewUnbound | ReviewBinding | ManifestInvalid | InventoryDrift
  | VulnerabilityInvalid | CountsInvalid | DatabaseInvalid | CleanCloneInvalid
  | CandidateBytes | CommitRange | ChangedPathSet | BeforeDrift string | AfterDrift string
    \<comment> \<open>of the lifecycle\<close>
  | IncompleteTransition | UnexpectedReceipt | MissingReceipt

section \<open>Values\<close>

definition official_npm_registry :: string where
  "official_npm_registry = ''https://registry.npmjs.org/''"

definition trivy_db_repository :: string where
  "trivy_db_repository = ''ghcr.io/aquasecurity/trivy-db:2''"

text \<open>
  \<open>str(value)\<close> where only a commit identifier passes: the text of any other value has a character outside
  0-9a-f, or is shorter.
\<close>

definition commit_text :: "json \<Rightarrow> string" where
  "commit_text v = (case v of JStr s \<Rightarrow> s | JInt n \<Rightarrow> show_integer n | _ \<Rightarrow> [])"

definition commit_id :: "string \<Rightarrow> bool" where
  "commit_id s = full_match ''[0-9a-f]{40}'' s"

text \<open>\<open>isinstance(v, int)\<close>, which a \<open>bool\<close> passes.\<close>

definition int_of :: "json \<Rightarrow> int option" where
  "int_of v = (case v of JInt n \<Rightarrow> Some n | JBool b \<Rightarrow> Some (if b then 1 else 0) | _ \<Rightarrow> None)"

definition member_digest :: "string \<Rightarrow> json dict \<Rightarrow> bool" where
  "member_digest k d = digest_string (get_or_null k d)"

text \<open>\<open>d.get(key, 0)\<close>\<close>

definition get_or_zero :: "string \<Rightarrow> json dict \<Rightarrow> json" where
  "get_or_zero k d = (case dget k d of None \<Rightarrow> JInt 0 | Some v \<Rightarrow> v)"

section \<open>Validations\<close>

definition command_ok :: "string list \<Rightarrow> json \<Rightarrow> bool" where
  "command_ok command v = (case v of
     JDict d \<Rightarrow> get_or_null ''command'' d = jstrs command \<and> member_digest ''stdout_sha256'' d | _ \<Rightarrow> False)"

definition license_digests_ok :: "json dict \<Rightarrow> bool" where
  "license_digests_ok d = (member_digest ''stdout_sha256'' d \<and>
     get_or_null ''command'' d = jstrs [''pnpm'', ''licenses'', ''list'', ''--json''] \<and>
     member_digest ''candidate_install_stdout_sha256'' d \<and> member_digest ''go_module_inventory_sha256'' d \<and>
     member_digest ''pnpm_inventory_sha256'' d)"

definition tarball_item_ok :: "json \<Rightarrow> crash + bool" where
  "tarball_item_ok v = (case v of
     JDict d \<Rightarrow>
       bindE (in_names (get_or_null ''license'' d) package_license_allowlist) (\<lambda>licensed.
       if \<not> licensed then Inr False
       else if \<not> integrity_value_valid (JStr ''npm-sri'') (get_or_null ''integrity'' d) then Inr False
       else bindE (is_https (get_or_empty_str ''source_url'' d)) (\<lambda>https.
         Inr (https \<and> (case get_or_empty_str ''source_url'' d of
           JStr s \<Rightarrow> starts_with s official_npm_registry | _ \<Rightarrow> False))))
   | _ \<Rightarrow> Inr False)"

text \<open>\<open>any(...)\<close> over the items: the first one that fails, or raises, decides.\<close>

fun all_ok :: "('a \<Rightarrow> crash + bool) \<Rightarrow> 'a list \<Rightarrow> crash + bool" where
  "all_ok f [] = Inr True"
| "all_ok f (x # xs) = bindE (f x) (\<lambda>b. if b then all_ok f xs else Inr False)"

definition coverage_counts_ok :: "json dict \<Rightarrow> bool" where
  "coverage_counts_ok d =
     (let supported = get_or_null ''supported_lock_packages'' d in
      case (int_of supported, int_of (get_or_null ''host_inventory_packages'' d),
            get_or_null ''tarball_derived_packages'' d) of
        (Some n, Some h, JList items) \<Rightarrow>
          0 < n \<and> py_eq (get_or_null ''covered_lock_packages'' d) supported \<and> h + int (length items) = n
      | _ \<Rightarrow> False)"

definition coverage_errors :: "json \<Rightarrow> crash + receipt_error list" where
  "coverage_errors v = (case v of
     JDict d \<Rightarrow>
       if \<not> coverage_counts_ok d then Inr [CoverageInvalid]
       else (case get_or_null ''tarball_derived_packages'' d of
         JList items \<Rightarrow> bindE (all_ok tarball_item_ok items) (\<lambda>b. Inr (if b then [] else [TarballInvalid]))
       | _ \<Rightarrow> Inr [CoverageInvalid])
   | _ \<Rightarrow> Inr [CoverageInvalid])"

text \<open>\<open>sorted(request["dependencies"], key=...)\<close>, for dependencies whose keys are strings.\<close>

definition str_at :: "string \<Rightarrow> json dict \<Rightarrow> string" where
  "str_at k d = (case get_or_null k d of JStr s \<Rightarrow> s | _ \<Rightarrow> [])"

definition review_key :: "json dict \<Rightarrow> string list" where
  "review_key d = [str_at ''ecosystem'' d, str_at ''name'' d]"

definition objects_of :: "json \<Rightarrow> json dict list" where
  "objects_of v = (case v of
     JList xs \<Rightarrow> concat (map (\<lambda>x. case x of JDict d \<Rightarrow> [d] | _ \<Rightarrow> []) xs) | _ \<Rightarrow> [])"

definition review_core :: "string list" where
  "review_core = [''ecosystem'', ''name'', ''version'', ''license'', ''integrity'', ''source_url'',
     ''direct_runtime_dependency'']"

definition license_bases :: "string list" where
  "license_bases = [''pnpm-installed-inventory'', ''steward-reviewed-manifest'', ''steward-reviewed-request'']"

definition review_item_ok :: "json dict \<times> json \<Rightarrow> crash + bool" where
  "review_item_ok p = (case p of (dependency, item) \<Rightarrow> (case item of
     JDict d \<Rightarrow>
       if \<not> list_all (\<lambda>k. py_eq (get_or_null k d) (get_or_null k dependency)) review_core then Inr False
       else if \<not> is_str (get_or_null ''integrity_binding'' d) then Inr False
       else in_names (get_or_null ''license_basis'' d) license_bases
   | _ \<Rightarrow> Inr False))"

definition review_errors :: "json dict \<Rightarrow> json \<Rightarrow> crash + receipt_error list" where
  "review_errors request v =
     (let expected = sort_key review_key (objects_of (get_or_null ''dependencies'' request)) in
      case v of
        JList items \<Rightarrow>
          if length items \<noteq> length expected then Inr [ReviewUnbound]
          else bindE (all_ok review_item_ok (zip expected items)) (\<lambda>b. Inr (if b then [] else [ReviewBinding]))
      | _ \<Rightarrow> Inr [ReviewUnbound])"

text \<open>
  The table from names to licences of a tool manifest; \<open>None\<close> is a \<open>KeyError\<close> or \<open>TypeError\<close>. A table with a
  name that is no string equals no JSON object.
\<close>

definition manifest_records :: "json \<Rightarrow> json list option" where
  "manifest_records v = (case v of
     JDict d \<Rightarrow> (case (dget ''runtimes'' d, dget ''tools'' d) of
       (Some (JList a), Some (JList b)) \<Rightarrow> Some (a @ b)
     | (Some (JStr a), Some (JStr b)) \<Rightarrow> if a @ b = [] then Some [] else None
     | _ \<Rightarrow> None)
   | _ \<Rightarrow> None)"

fun license_table :: "json list \<Rightarrow> (json \<times> json) list \<Rightarrow> (json \<times> json) list option" where
  "license_table [] t = Some t"
| "license_table (r # rs) t = (case r of
     JDict d \<Rightarrow> (case (dget ''name'' d, dget ''license'' d) of
       (Some n, Some l) \<Rightarrow> if hashable n then license_table rs (dset n l t) else None | _ \<Rightarrow> None)
   | _ \<Rightarrow> None)"

definition manifest_licenses :: "string option \<Rightarrow> (json \<times> json) list option" where
  "manifest_licenses manifest =
     (case loads (case manifest of None \<Rightarrow> [] | Some s \<Rightarrow> s) of
        None \<Rightarrow> None
      | Some v \<Rightarrow> (case manifest_records v of None \<Rightarrow> None | Some rs \<Rightarrow> license_table rs []))"

definition is_table :: "(json \<times> json) list \<Rightarrow> json \<Rightarrow> bool" where
  "is_table t v = (list_all (\<lambda>(k, _). is_str k) t \<and>
     py_eq v (JDict (map (\<lambda>(k, l). (case k of JStr s \<Rightarrow> s | _ \<Rightarrow> [], l)) t)))"

definition inventory_errors :: "string option \<Rightarrow> json \<Rightarrow> receipt_error list" where
  "inventory_errors manifest v = (case manifest_licenses manifest of
     None \<Rightarrow> [ManifestInvalid]
   | Some table \<Rightarrow> if \<not> is_table table v then [InventoryDrift] else [])"

definition license_errors :: "string option \<Rightarrow> json dict \<Rightarrow> json \<Rightarrow> crash + receipt_error list" where
  "license_errors manifest request v = (case v of
     JDict d \<Rightarrow>
       if \<not> license_digests_ok d then Inr [LicenseInvalid]
       else gather
         [coverage_errors (get_or_null ''pnpm_supported_platform_coverage'' d),
          review_errors request (get_or_null ''requested_dependencies'' d),
          Inr (inventory_errors manifest (get_or_null ''tool_manifest_licenses'' d))]
   | _ \<Rightarrow> Inr [LicenseInvalid])"

definition zero_count :: "string \<Rightarrow> json dict \<Rightarrow> bool" where
  "zero_count k d = py_eq (get_or_zero k d) (JInt 0)"

definition counts_errors :: "json \<Rightarrow> receipt_error list" where
  "counts_errors v = (case v of
     JDict d \<Rightarrow> if zero_count ''high'' d \<and> zero_count ''critical'' d then [] else [CountsInvalid]
   | _ \<Rightarrow> [CountsInvalid])"

definition database_ok :: "json \<Rightarrow> bool" where
  "database_ok v = (case v of
     JDict d \<Rightarrow> get_or_null ''repository'' d = JStr trivy_db_repository \<and>
       member_digest ''metadata_sha256'' d \<and> member_digest ''database_sha256'' d \<and>
       (case get_or_null ''metadata'' d of
          JDict m \<Rightarrow> py_eq (get_or_null ''Version'' m) (JInt 2) | _ \<Rightarrow> False)
   | _ \<Rightarrow> False)"

definition vulnerability_errors :: "json \<Rightarrow> receipt_error list" where
  "vulnerability_errors v = (case v of
     JDict d \<Rightarrow>
       if \<not> (member_digest ''pnpm_audit_stdout_sha256'' d \<and> member_digest ''trivy_stdout_sha256'' d \<and>
             py_eq (get_or_null ''trivy_high_critical_findings'' d) (JInt 0))
       then [VulnerabilityInvalid]
       else counts_errors (get_or_null ''pnpm_counts'' d) @
         (if database_ok (get_or_null ''trivy_database'' d) then [] else [DatabaseInvalid])
   | _ \<Rightarrow> [VulnerabilityInvalid])"

definition clean_clone_ok :: "json \<Rightarrow> json \<Rightarrow> bool" where
  "clean_clone_ok candidate v = (case v of
     JDict d \<Rightarrow> py_eq (get_or_null ''source_commit'' d) candidate \<and> member_digest ''report_sha256'' d \<and>
       member_digest ''stdout_sha256'' d \<and>
       (case get_or_null ''environment'' d of
          JDict e \<Rightarrow> get_or_null ''isolated_home'' e = JBool True \<and>
            get_or_null ''local_clone_no_hardlinks'' e = JBool True \<and>
            get_or_null ''source_worktree_clean'' e = JBool True \<and>
            get_or_null ''cloud_credentials_forwarded'' e = JBool False
        | _ \<Rightarrow> False)
   | _ \<Rightarrow> False)"

definition validation_keys :: "string list" where
  "validation_keys = [''toolchain'', ''deferred_provenance'', ''license'', ''vulnerability'', ''clean_clone'']"

definition toolchain_command :: "string list" where
  "toolchain_command = [''internal:toolchain._bootstrap_unlocked(repair=True)'']"

definition provenance_command :: "string list" where
  "provenance_command = [''internal:_verify_deferred_provenance_unlocked'']"

definition validation_errors ::
  "string option \<Rightarrow> json dict \<Rightarrow> json \<Rightarrow> json \<Rightarrow> crash + receipt_error list" where
  "validation_errors manifest request candidate v = (case v of
     JDict d \<Rightarrow>
       if \<not> keys_are validation_keys d then Inr [ValidationsIncomplete]
       else gather
         [err_if (\<not> command_ok toolchain_command (get_or_null ''toolchain'' d)) ToolchainInvalid,
          err_if (\<not> command_ok provenance_command (get_or_null ''deferred_provenance'' d)) ProvenanceInvalid,
          license_errors manifest request (get_or_null ''license'' d),
          Inr (vulnerability_errors (get_or_null ''vulnerability'' d)),
          err_if (\<not> clean_clone_ok candidate (get_or_null ''clean_clone'' d)) CleanCloneInvalid]
   | _ \<Rightarrow> Inr [ValidationsIncomplete])"

section \<open>Lock changes\<close>

definition change_errors :: "nat \<Rightarrow> json \<Rightarrow> crash + receipt_error list" where
  "change_errors i entry = (case entry of
     JDict d \<Rightarrow>
       if \<not> keys_are [''path'', ''before_sha256'', ''after_sha256''] d then Inr [ChangeFields i]
       else gather
         [err_when (not_in_names (get_or_null ''path'' d) lock_paths) (ChangePath i),
          err_if (get_or_null ''before_sha256'' d \<noteq> JNull \<and> \<not> member_digest ''before_sha256'' d) (ChangeBefore i),
          err_if (\<not> member_digest ''after_sha256'' d) (ChangeAfter i)]
   | _ \<Rightarrow> Inr [ChangeFields i])"

text \<open>\<open>changed_paths\<close>: the root locks named by the entries that have the right fields.\<close>

definition changed_path :: "json \<Rightarrow> string list" where
  "changed_path entry = (case entry of
     JDict d \<Rightarrow>
       if keys_are [''path'', ''before_sha256'', ''after_sha256''] d then
         (case get_or_null ''path'' d of JStr p \<Rightarrow> if p \<in> set lock_paths then [p] else [] | _ \<Rightarrow> [])
       else []
   | _ \<Rightarrow> [])"

definition changed_paths :: "json \<Rightarrow> string list" where
  "changed_paths v = (case v of JList xs \<Rightarrow> concat (map changed_path xs) | _ \<Rightarrow> [])"

definition declared_locks :: "json dict \<Rightarrow> json list" where
  "declared_locks request = (case dget ''affected_lockfiles'' request of Some (JList xs) \<Rightarrow> xs | _ \<Rightarrow> [])"

definition changes_errors :: "json dict \<Rightarrow> json \<Rightarrow> crash + receipt_error list" where
  "changes_errors request v = (case v of
     JList xs \<Rightarrow>
       if xs = [] then Inr [ChangesMissing]
       else gather (map (\<lambda>(i, x). change_errors i x) (zip [0..<length xs] xs) @
         [err_if (\<not> distinct (changed_paths v)) ChangeRepeats,
          (if list_all hashable (declared_locks request)
           then err_if (\<not> set (map JStr (changed_paths v)) \<subseteq> set (declared_locks request)) ChangeUndeclared
           else Inl CrashType)])
   | _ \<Rightarrow> Inr [ChangesMissing])"

section \<open>The receipt and the commits\<close>

definition receipt_keys :: "string list" where
  "receipt_keys = [''schema_version'', ''receipt_kind'', ''status'', ''request_id'', ''packet_id'',
     ''request_path'', ''accepted_request_sha256'', ''applied_request_sha256'', ''base_commit'',
     ''candidate_commit'', ''completed_at'', ''root_lock_changes'', ''tool_manifest_sha256'',
     ''validations'', ''approval'']"

definition receipt_kind :: string where
  "receipt_kind = ''jumpship-serialized-dependency-lock-update''"

definition header_errors :: "string \<Rightarrow> json dict \<Rightarrow> json dict \<Rightarrow> crash + receipt_error list" where
  "header_errors request_path request d =
     (let same = (\<lambda>k e. err_if (\<not> py_eq (get_or_null k d) (get_or_null k request)) e) in gather
       [err_if (\<not> keys_are receipt_keys d) ReceiptFields,
        err_if (\<not> py_eq (get_or_null ''schema_version'' d) (JInt 1)) ReceiptVersion,
        err_if (get_or_null ''receipt_kind'' d \<noteq> JStr receipt_kind) ReceiptKind,
        err_if (get_or_null ''status'' d \<noteq> JStr ''complete'') ReceiptStatus,
        same ''request_id'' ReceiptRequestId,
        same ''packet_id'' ReceiptPacketId,
        err_if (get_or_null ''request_path'' d \<noteq> JStr request_path) ReceiptRequestPath])"

definition binding_errors ::
  "(string \<Rightarrow> string) \<Rightarrow> json dict \<Rightarrow> string \<Rightarrow> json dict \<Rightarrow> crash + receipt_error list" where
  "binding_errors digest request bytes d =
     (case dumps_sorted (JDict request) of
        None \<Rightarrow> Inl Unmodelled
      | Some canonical \<Rightarrow> gather
          [err_if (bytes \<noteq> canonical) RequestNotCanonical,
           err_if (get_or_null ''applied_request_sha256'' d \<noteq> JStr (digest canonical)) AppliedDigest,
           err_if (\<not> member_digest ''accepted_request_sha256'' d) AcceptedDigestForm,
           err_if (get_or_null ''accepted_request_sha256'' d = JStr (digest canonical)) SameDigests,
           err_if (\<not> py_eq (get_or_null ''approval'' d) (get_or_null ''approval'' request)) ReceiptApproval,
           err_if (utc_timestamp (get_or_null ''completed_at'' d) = None) CompletedAtUnreal,
           Inr (map CommitForm (filter (\<lambda>k. \<not> commit_id (commit_text (get_or_null k d)))
             [''base_commit'', ''candidate_commit'']))])"

definition commit_digest :: "(string \<Rightarrow> string) \<Rightarrow> string option \<Rightarrow> json" where
  "commit_digest digest bytes = (case bytes of None \<Rightarrow> JNull | Some s \<Rightarrow> JStr (digest s))"

text \<open>The tool manifest the receipt is checked against: the candidate's, when it names a commit.\<close>

definition receipt_manifest :: "'g world git_program \<Rightarrow> 'g world \<Rightarrow> json dict \<Rightarrow> string option" where
  "receipt_manifest git w d =
     (let candidate = commit_text (get_or_null ''candidate_commit'' d) in
      if commit_id candidate then commit_bytes git w candidate ''tools/manifest.yaml''
      else read_file w ''tools/manifest.yaml'')"

definition drift_errors ::
  "(string \<Rightarrow> string) \<Rightarrow> (string \<Rightarrow> string option) \<Rightarrow> (string \<Rightarrow> string option) \<Rightarrow> json \<Rightarrow>
     crash + receipt_error list" where
  "drift_errors digest before_bytes after_bytes entry = (case entry of
     JDict d \<Rightarrow> bindE (in_names (get_or_null ''path'' d) lock_paths) (\<lambda>lock.
       if \<not> lock then Inr []
       else let p = str_at ''path'' d in gather
         [err_if (commit_digest digest (before_bytes p) \<noteq> get_or_null ''before_sha256'' d) (BeforeDrift p),
          err_if (after_bytes p = None \<or> commit_digest digest (after_bytes p) \<noteq> get_or_null ''after_sha256'' d)
            (AfterDrift p)])
   | _ \<Rightarrow> Inr [])"

text \<open>
  The last part runs when both identifiers have their form. A candidate that is a number cannot be an
  argument of a process; a base that is a number is not the text git prints.
\<close>

definition history_errors ::
  "(string \<Rightarrow> string) \<Rightarrow> 'g world git_program \<Rightarrow> 'g world \<Rightarrow> string \<Rightarrow> json dict \<Rightarrow> crash + receipt_error list" where
  "history_errors digest git w request_path d =
     (let base = commit_text (get_or_null ''base_commit'' d);
          candidate = commit_text (get_or_null ''candidate_commit'' d);
          accepted = commit_bytes git w candidate request_path;
          changes = get_or_null ''root_lock_changes'' d in
      if \<not> (commit_id base \<and> commit_id candidate) then Inr []
      else if \<not> is_str (get_or_null ''candidate_commit'' d) then Inl CrashType
      else gather
        [err_if (accepted = None \<or> commit_digest digest accepted \<noteq> get_or_null ''accepted_request_sha256'' d)
           CandidateBytes,
         (case candidate_changes git w base candidate of
            Inl _ \<Rightarrow> Inr [CommitRange]
          | Inr observed \<Rightarrow>
              if \<not> is_str (get_or_null ''base_commit'' d) then Inr [CommitRange]
              else gather
                (err_if (set (dkeys observed) \<noteq> set (changed_paths changes) \<union> {request_path}) ChangedPathSet #
                 (case changes of
                    JList xs \<Rightarrow>
                      map (drift_errors digest (commit_bytes git w base) (commit_bytes git w candidate)) xs
                  | _ \<Rightarrow> [])))])"

definition receipt_document_errors ::
  "(string \<Rightarrow> string) \<Rightarrow> 'g world git_program \<Rightarrow> 'g world \<Rightarrow> string \<Rightarrow> json dict \<Rightarrow> string \<Rightarrow> json dict \<Rightarrow>
     crash + receipt_error list" where
  "receipt_document_errors digest git w request_path request bytes d =
     (let manifest = receipt_manifest git w d in gather
       [header_errors request_path request d,
        binding_errors digest request bytes d,
        err_if (manifest = None \<or> get_or_null ''tool_manifest_sha256'' d \<noteq> commit_digest digest manifest) ManifestDigest,
        changes_errors request (get_or_null ''root_lock_changes'' d),
        validation_errors manifest request (get_or_null ''candidate_commit'' d) (get_or_null ''validations'' d),
        history_errors digest git w request_path d])"

definition receipt_validation_errors ::
  "(string \<Rightarrow> string) \<Rightarrow> 'g world git_program \<Rightarrow> 'g world \<Rightarrow> string \<Rightarrow> json dict \<Rightarrow> string \<Rightarrow>
     crash + receipt_error list" where
  "receipt_validation_errors digest git w request_path request receipt =
     (case read_file w receipt of
        None \<Rightarrow> Inr [ReceiptNotRegular]
      | Some content \<Rightarrow> (case loads content of
          None \<Rightarrow> Inr [ReceiptUnreadable]
        | Some (JDict d) \<Rightarrow> (case read_file w request_path of
            None \<Rightarrow> gather [header_errors request_path request d, Inr [RequestBytesUnread]]
          | Some bytes \<Rightarrow> receipt_document_errors digest git w request_path request bytes d)
        | Some _ \<Rightarrow> Inr [ReceiptNotObject]))"

section \<open>Lifecycle\<close>

definition receipt_path :: "json dict \<Rightarrow> string" where
  "receipt_path request = ''delivery/mvp/evidence/'' @ str_at ''packet_id'' request @ ''/dependency-locks/'' @
     str_at ''request_id'' request @ ''.json''"

definition identified :: "json dict \<Rightarrow> bool" where
  "identified request = (packet_in_range (get_or_null ''packet_id'' request) \<and>
     (case get_or_null ''request_id'' request of JStr s \<Rightarrow> full_match request_id_pattern s | _ \<Rightarrow> False))"

definition request_lifecycle_errors ::
  "(string \<Rightarrow> string) \<Rightarrow> 'g world git_program \<Rightarrow> 'g world \<Rightarrow> string \<Rightarrow> json dict \<Rightarrow> crash + receipt_error list" where
  "request_lifecycle_errors digest git w request_path request =
     (let exists = w_files w (receipt_path request) \<noteq> None; status = get_or_null ''status'' request in
      if \<not> identified request then Inr []
      else if status = JStr ''accepted'' \<and> exists then Inr [IncompleteTransition]
      else bindE (in_names status [''proposed'', ''rejected'']) (\<lambda>unapplied.
        if unapplied \<and> exists then Inr [UnexpectedReceipt]
        else if status = JStr ''applied'' then
          (if \<not> exists then Inr [MissingReceipt]
           else receipt_validation_errors digest git w request_path request (receipt_path request))
        else Inr []))"

text \<open>
  \<open>validate_request(path)\<close>: the document it returns. A path outside the repository, or of another
  directory, is refused; the path is taken relative to the root, which no link leads out of.
\<close>

definition validate_request ::
  "(string \<Rightarrow> string) \<Rightarrow> 'g world git_program \<Rightarrow> 'g world \<Rightarrow> string \<Rightarrow> lock_error + json dict" where
  "validate_request digest git w p =
     (if is_symlink w p then Inl RequestIsSymlink
      else if parent_of p \<noteq> ''dependency/requests'' then Inl RequestDirectory
      else (case request_errors (name_of p) (read_file w p) of
        Inl c \<Rightarrow> Inl (Crashed c)
      | Inr (e # es) \<Rightarrow> Inl RequestInvalid
      | Inr [] \<Rightarrow> (case read_file w p of
          None \<Rightarrow> Inl RequestInvalid
        | Some content \<Rightarrow> (case loads content of
            Some (JDict request) \<Rightarrow>
              (case request_lifecycle_errors digest git w p request of
                 Inl c \<Rightarrow> Inl (Crashed c)
               | Inr (e # es) \<Rightarrow> Inl RequestInvalid
               | Inr [] \<Rightarrow> Inr request)
          | _ \<Rightarrow> Inl RequestInvalid))))"

end
