(* ===== verification/Lock_Apply.thy ===== *)
theory Lock_Apply
  imports Lock_Receipts
begin

text \<open>
  The serialized apply of scripts/dependency-locks/dependency_locks.py: \<open>apply_request\<close>, with
  \<open>_applied_request\<close> and \<open>_final_apply_cas\<close>. It admits one accepted request whose candidate commit changes
  only root locks and the request, runs the dependency validations, writes the receipt, and then moves the
  request to \<open>applied\<close>; both writes are guarded by a comparison of the repository with what was admitted.

  Arguments of the model that are no code of the repository: \<open>digest\<close>, \<open>git\<close>, the time \<open>now\<close> and the
  process identifier. \<open>run_validations\<close> stands for \<open>_run_dependency_validations\<close>: an arbitrary run with a result.
\<close>

record apply_args =
  a_request :: string
  a_base :: string
  a_expected :: string
  a_confirm :: string

type_synonym 'g validations = "'g world \<Rightarrow> string \<Rightarrow> json dict \<Rightarrow> ('g, json) run"

section \<open>Admission\<close>

text \<open>The request, before any lock is taken.\<close>

definition admit_request ::
  "(string \<Rightarrow> string) \<Rightarrow> 'g world git_program \<Rightarrow> apply_args \<Rightarrow> 'g world \<Rightarrow> lock_error + (json dict \<times> string)" where
  "admit_request digest git args w =
     (let p = a_request args in
      bindE (preflight_journal w p None) (\<lambda>_.
      bindE (validate_request digest git w p) (\<lambda>request.
      case read_file w p of
        None \<Rightarrow> Inl (OsFailure p)
      | Some content \<Rightarrow>
          if a_expected args \<noteq> digest content then Inl ExpectedDigest
          else if get_or_null ''request_id'' request \<noteq> JStr (a_confirm args) then Inl ConfirmId
          else Inr (request, digest content))))"

text \<open>The candidate commit: it is HEAD of a clean main, and changes the request and declared root locks.\<close>

definition check_changes ::
  "string \<Rightarrow> json dict \<Rightarrow> string dict \<Rightarrow> lock_error + string list" where
  "check_changes request_path request changes =
     (let unexpected = filter (\<lambda>p. p \<notin> set lock_paths \<union> {request_path}) (dkeys changes);
          locks = sort (filter (\<lambda>p. p \<in> set lock_paths) (dkeys changes));
          undeclared = filter (\<lambda>p. JStr p \<notin> set (declared_locks request)) locks in
      if unexpected \<noteq> [] then Inl (UnrelatedPaths (sort unexpected))
      else if list_ex (\<lambda>(_, status). status = ''D'') changes then Inl DeletedPath
      else if locks = [] then Inl NoLockChange
      else if undeclared \<noteq> [] then Inl (UndeclaredLocks undeclared)
      else if dget request_path changes \<notin> {Some ''A'', Some ''M''} then Inl RequestNotChanged
      else Inr locks)"

definition admit_candidate ::
  "(string \<Rightarrow> string) \<Rightarrow> 'g world git_program \<Rightarrow> apply_args \<Rightarrow> json dict \<Rightarrow> string \<Rightarrow> 'g world \<Rightarrow>
     lock_error + (string \<times> string list)" where
  "admit_candidate digest git args request accepted w =
     (let base = a_base args; p = a_request args in
      bindE (run_git git w [''branch'', ''--show-current'']) (\<lambda>branch.
      if strip_str branch \<noteq> ''main'' then Inl NotMain else
      bindE (run_git git w [''rev-parse'', ''HEAD'']) (\<lambda>head.
      let candidate = strip_str head in
      if get_or_null ''status'' request \<noteq> JStr ''accepted'' then Inl NotAccepted else
      if \<not> commit_id base then Inl BaseCommitForm else
      bindE (run_git git w [''rev-parse'', ''--verify'', base @ ''^{commit}'']) (\<lambda>resolved.
      if strip_str resolved \<noteq> base then Inl BaseCommitResolve else
      bindE (status_paths git w) (\<lambda>dirty.
      if dirty \<noteq> [] then Inl WorktreeDirty else
      if map_option digest (commit_bytes git w candidate p) \<noteq> Some accepted then Inl HeadRequest else
      bindE (candidate_changes git w base candidate) (\<lambda>changes.
      bindE (check_changes p request changes) (\<lambda>locks. Inr (candidate, locks))))))))"

text \<open>There is no receipt yet.\<close>

definition admit_receipt :: "apply_args \<Rightarrow> json dict \<Rightarrow> 'g world \<Rightarrow> lock_error check" where
  "admit_receipt args request w =
     checks [preflight_journal w (a_request args) (Some (receipt_path request)),
       receipt_absent w (receipt_path request)]"

section \<open>The sealed documents\<close>

text \<open>\<open>_applied_request\<close>: a copy whose status is \<open>applied\<close>.\<close>

definition applied_request :: "json dict \<Rightarrow> lock_error + json dict" where
  "applied_request request =
     (if get_or_null ''status'' request \<noteq> JStr ''accepted'' then Inl NotAccepted
      else Inr (dset ''status'' (JStr ''applied'') request))"

definition lock_digest ::
  "(string \<Rightarrow> string) \<Rightarrow> 'g world git_program \<Rightarrow> 'g world \<Rightarrow> string \<Rightarrow> string \<Rightarrow> string \<Rightarrow> lock_error + json" where
  "lock_digest digest git w base candidate p =
     (case commit_bytes git w candidate p of
        None \<Rightarrow> Inl (MissingLock p)
      | Some after \<Rightarrow> Inr (JDict
          [(''path'', JStr p),
           (''before_sha256'', commit_digest digest (commit_bytes git w base p)),
           (''after_sha256'', JStr (digest after))]))"

definition sealed_receipt ::
  "json dict \<Rightarrow> apply_args \<Rightarrow> string \<Rightarrow> string \<Rightarrow> string \<Rightarrow> string \<Rightarrow> json list \<Rightarrow> string \<Rightarrow> json \<Rightarrow> json dict" where
  "sealed_receipt request args accepted applied candidate now changes manifest validations =
     [(''schema_version'', JInt 1),
      (''receipt_kind'', JStr receipt_kind),
      (''status'', JStr ''complete''),
      (''request_id'', get_or_null ''request_id'' request),
      (''packet_id'', get_or_null ''packet_id'' request),
      (''request_path'', JStr (a_request args)),
      (''accepted_request_sha256'', JStr accepted),
      (''applied_request_sha256'', JStr applied),
      (''base_commit'', JStr (a_base args)),
      (''candidate_commit'', JStr candidate),
      (''completed_at'', JStr now),
      (''root_lock_changes'', JList changes),
      (''tool_manifest_sha256'', JStr manifest),
      (''validations'', validations),
      (''approval'', get_or_null ''approval'' request)]"

text \<open>
  The applied request, the receipt, and the digest of the receipt's bytes, in the state the validations
  leave.
\<close>

definition seal ::
  "(string \<Rightarrow> string) \<Rightarrow> 'g world git_program \<Rightarrow> string \<Rightarrow> apply_args \<Rightarrow> json dict \<Rightarrow> string \<Rightarrow> string \<Rightarrow>
     string list \<Rightarrow> json \<Rightarrow> 'g world \<Rightarrow> lock_error + (json dict \<times> json dict \<times> string)" where
  "seal digest git now args request accepted candidate locks validations w =
     bindE (applied_request request) (\<lambda>applied.
     bindE (canonical_bytes (JDict applied)) (\<lambda>applied_bytes.
     bindE (mapE (lock_digest digest git w (a_base args) candidate) locks) (\<lambda>changes.
     case read_file w ''tools/manifest.yaml'' of
       None \<Rightarrow> Inl (OsFailure ''tools/manifest.yaml'')
     | Some manifest \<Rightarrow>
         (let receipt = sealed_receipt request args accepted (digest applied_bytes) candidate now changes
            (digest manifest) validations in
          bindE (canonical_bytes (JDict receipt)) (\<lambda>receipt_bytes.
          Inr (applied, receipt, digest receipt_bytes))))))"

section \<open>Comparing before writing\<close>

text \<open>\<open>_final_apply_cas\<close>; the status paths are compared as sets.\<close>

definition lock_unchanged ::
  "(string \<Rightarrow> string) \<Rightarrow> 'g world git_program \<Rightarrow> string \<Rightarrow> 'g world \<Rightarrow> string \<Rightarrow> lock_error check" where
  "lock_unchanged digest git candidate w p =
     (case (read_file w p, commit_bytes git w candidate p) of
        (Some s, Some c) \<Rightarrow> raise_if (digest s \<noteq> digest c) (LockChanged p)
      | _ \<Rightarrow> Inl (LockChanged p))"

definition final_cas ::
  "(string \<Rightarrow> string) \<Rightarrow> 'g world git_program \<Rightarrow> string \<Rightarrow> string \<Rightarrow> string \<Rightarrow> string list \<Rightarrow> string \<Rightarrow>
     string list \<Rightarrow> string option \<Rightarrow> 'g world \<Rightarrow> lock_error check" where
  "final_cas digest git request_path accepted candidate locks receipt status expected w =
     bindE (preflight_journal w request_path (Some receipt)) (\<lambda>_.
     bindE (run_git git w [''branch'', ''--show-current'']) (\<lambda>branch.
     if strip_str branch \<noteq> ''main'' then Inl LostMain else
     bindE (run_git git w [''rev-parse'', ''HEAD'']) (\<lambda>head.
     if strip_str head \<noteq> candidate then Inl HeadMoved else
     bindE (status_paths git w) (\<lambda>observed.
     if set observed \<noteq> set status then Inl WorktreeChanged else
     (case read_file w request_path of
        None \<Rightarrow> Inl RequestTypeChanged
      | Some content \<Rightarrow>
          if digest content \<noteq> accepted then Inl RequestBytesChanged
          else if map_option digest (commit_bytes git w candidate request_path) \<noteq> Some accepted
          then Inl CandidateBinding
          else bindE (for_each (lock_unchanged digest git candidate w) locks) (\<lambda>_.
            case expected of
              None \<Rightarrow> receipt_absent w receipt
            | Some e \<Rightarrow> raise_if (map_option digest (read_file w receipt) \<noteq> Some e) JournalChanged))))))"

section \<open>The apply\<close>

text \<open>The two guarded writes.\<close>

definition publish ::
  "(string \<Rightarrow> string) \<Rightarrow> 'g world git_program \<Rightarrow> nat \<Rightarrow> string \<Rightarrow> string \<Rightarrow> string \<Rightarrow> string list \<Rightarrow> string \<Rightarrow>
     json dict \<Rightarrow> json dict \<Rightarrow> string \<Rightarrow> 'g world \<Rightarrow> ('g, unit) run" where
  "publish digest git pid p accepted candidate locks receipt_file applied receipt receipt_digest w =
     (let cas = final_cas digest git p accepted candidate locks receipt_file in
      and_then (look w (cas [] None w)) (\<lambda>w1 _.
      and_then (write_exclusive w1 receipt_file (JDict receipt)) (\<lambda>w2 _.
      and_then (look w2 (cas [receipt_file] (Some receipt_digest) w2)) (\<lambda>w3 _.
      atomic_replace w3 pid p (JDict applied)))))"

definition apply_request ::
  "(string \<Rightarrow> string) \<Rightarrow> 'g world git_program \<Rightarrow> 'g validations \<Rightarrow> string \<Rightarrow> nat \<Rightarrow> apply_args \<Rightarrow> 'g world \<Rightarrow>
     ('g, unit) run" where
  "apply_request digest git run_validations now pid args w =
     and_then (look w (admit_request digest git args w)) (\<lambda>w0 (request, accepted).
     and_then (operation_lock w0) (\<lambda>w1 _.
     and_then (apply_lock w1) (\<lambda>w2 _.
     and_then (look w2 (bindE (admit_candidate digest git args request accepted w2) (\<lambda>c.
         bindE (admit_receipt args request w2) (\<lambda>_. Inr c)))) (\<lambda>w3 (candidate, locks).
     and_then (run_validations w3 candidate request) (\<lambda>w4 validations.
     and_then (look w4 (seal digest git now args request accepted candidate locks validations w4))
       (\<lambda>w5 (applied, receipt, receipt_digest).
     publish digest git pid (a_request args) accepted candidate locks (receipt_path request)
       applied receipt receipt_digest w5))))))"

end
