(* ===== verification/Json_Round_Trip.thy ===== *)
theory Json_Round_Trip
  imports Json_Text
begin

text \<open>
  What \<open>json.dumps(value, indent=2, sort_keys=True)\<close> writes, \<open>json.loads\<close> reads back: the same document
  with the members of every object in key order. Each syntactic class has its own lemma, over an arbitrary
  rest of the text.
\<close>

section \<open>String literals\<close>

lemma hex_digit_value: "k < 16 \<Longrightarrow> hex_value (hex_digit k) = Some k"
  by (auto simp: hex_value_def hex_digit_def Let_def)

lemma unicode_escape_hex:
  "unicode_escape (CHR ''0'') (CHR ''0'') (hex_digit ((of_char c :: nat) div 16))
     (hex_digit ((of_char c :: nat) mod 16)) = Some c"
proof -
  have "(of_char c :: nat) div 16 < 16" using nat_of_char_less_256 [of c] by (simp only: div_less_iff_less_mult)
  then have "hex_value (hex_digit ((of_char c :: nat) div 16)) = Some ((of_char c :: nat) div 16)"
    "hex_value (hex_digit ((of_char c :: nat) mod 16)) = Some ((of_char c :: nat) mod 16)"
    by (simp_all add: hex_digit_value)
  moreover have "hex_value (CHR ''0'') = Some 0" by (simp add: hex_value_def)
  ultimately show ?thesis by (simp add: unicode_escape_def)
qed

lemma control_codes:
  "(of_char c :: nat) = 8 \<Longrightarrow> c = CHR 0x08" "(of_char c :: nat) = 9 \<Longrightarrow> c = CHR 0x09"
  "(of_char c :: nat) = 10 \<Longrightarrow> c = CHR 0x0A" "(of_char c :: nat) = 12 \<Longrightarrow> c = CHR 0x0C"
  "(of_char c :: nat) = 13 \<Longrightarrow> c = CHR 0x0D"
  by (rule of_char_eqI; simp)+

lemma p_string_char:
  "p_string (json_char c @ t) = map_option (\<lambda>(u, r). (c # u, r)) (p_string t)"
proof -
  let ?n = "of_char c :: nat"
  show ?thesis
  proof (cases "c = CHR 0x22 \<or> c = CHR 0x5C \<or> ?n \<in> {8, 9, 10, 12, 13}")
    case True
    then show ?thesis
      by (elim disjE insertE) (auto dest!: control_codes simp: json_char_def unescape_def)
  next
    case False
    then show ?thesis
      by (auto simp: json_char_def Let_def unicode_escape_hex)
  qed
qed

lemma p_string_json_string:
  "p_string (concat (map json_char s) @ CHR 0x22 # r) = Some (s, r)"
  by (induction s) (simp_all add: p_string_char)

section \<open>Numbers\<close>

definition ends_number :: "string \<Rightarrow> bool" where
  "ends_number r = (case r of [] \<Rightarrow> True
     | c # _ \<Rightarrow> \<not> is_digit c \<and> c \<noteq> CHR ''.'' \<and> c \<noteq> CHR ''e'' \<and> c \<noteq> CHR ''E'')"

lemma digits_value_snoc: "digits_value (s @ [c]) = 10 * digits_value s + (of_char c - 48)"
  by (simp add: digits_value_def)

lemma is_digit_char [simp]: "n < 10 \<Longrightarrow> is_digit (char_of (48 + n :: nat))"
  by (simp add: is_digit_def)

lemma digits_value_show: "digits_value (show_nat n) = n"
proof (induction n rule: show_nat.induct)
  case (1 n)
  show ?case
  proof (cases "n < 10")
    case True
    then show ?thesis by (simp add: show_nat.simps [of n] digits_value_def)
  next
    case False
    then have "digits_value (show_nat n) = 10 * (n div 10) + n mod 10"
      using 1 by (simp add: show_nat.simps [of n] digits_value_snoc)
    then show ?thesis by simp
  qed
qed

lemma show_nat_digits: "list_all is_digit (show_nat n)"
proof (induction n rule: show_nat.induct)
  case (1 n)
  then show ?case by (cases "n < 10") (simp_all add: show_nat.simps [of n])
qed

lemma show_nat_nonempty [simp]: "show_nat n \<noteq> []"
  by (subst show_nat.simps) simp

lemma show_nat_leading: "0 < n \<Longrightarrow> hd (show_nat n) \<noteq> CHR ''0''"
proof (induction n rule: show_nat.induct)
  case (1 n)
  show ?case
  proof (cases "n < 10")
    case True
    have "char_of (48 + n) \<noteq> CHR ''0''"
      using True "1.prems" by (auto dest: arg_cong [where f = "of_char :: char \<Rightarrow> nat"])
    with True show ?thesis by (simp add: show_nat.simps [of n])
  next
    case False
    then have "0 < n div 10" by simp
    with False 1 show ?thesis by (simp add: show_nat.simps [of n])
  qed
qed

lemma takeWhile_digits: "list_all is_digit ds \<Longrightarrow> ends_number r \<Longrightarrow> takeWhile is_digit (ds @ r) = ds"
  by (induction ds) (auto simp: ends_number_def split: list.splits)

lemma dropWhile_digits: "list_all is_digit ds \<Longrightarrow> ends_number r \<Longrightarrow> dropWhile is_digit (ds @ r) = r"
  by (induction ds) (auto simp: ends_number_def split: list.splits)

lemma p_int_show: "ends_number r \<Longrightarrow> p_int_part (show_nat n @ r) = Some (show_nat n, r)"
proof -
  assume r: "ends_number r"
  obtain c w where w: "show_nat n = c # w" using show_nat_nonempty [of n] by (cases "show_nat n") auto
  have d: "is_digit c" using show_nat_digits [of n] w by simp
  show ?thesis
  proof (cases "n = 0")
    case True
    have "char_of (48 :: nat) = CHR ''0''" by code_simp
    with True show ?thesis by (simp add: show_nat.simps [of 0] p_int_part_def)
  next
    case False
    then have "c \<noteq> CHR ''0''" using show_nat_leading [of n] w by simp
    then have "p_int_part (show_nat n @ r) =
        Some (takeWhile is_digit (show_nat n @ r), dropWhile is_digit (show_nat n @ r))"
      using d by (simp add: w p_int_part_def)
    then show ?thesis by (simp add: takeWhile_digits dropWhile_digits show_nat_digits r)
  qed
qed

lemma p_number_show:
  "ends_number r \<Longrightarrow>
    p_number neg (show_nat n @ r) = Some (JInt (if neg then - int n else int n), r)"
  by (auto simp: p_number_def p_int_show digits_value_show p_fraction_def p_exponent_def ends_number_def
      split: list.splits)

lemma digit_no_literal:
  assumes "is_digit c" shows "p_literal literals (c # s) = None" "p_literal literals (CHR ''-'' # c # s) = None"
proof -
  have "c \<noteq> x" if "\<not> is_digit x" for x using assms that by auto
  then have ne: "c \<noteq> CHR ''n''" "c \<noteq> CHR ''t''" "c \<noteq> CHR ''f''" "c \<noteq> CHR ''N''" "c \<noteq> CHR ''I''" "c \<noteq> CHR ''-''"
    by (simp_all add: is_digit_def)
  then show "p_literal literals (c # s) = None" "p_literal literals (CHR ''-'' # c # s) = None"
    by (simp_all add: literals_def starts_with_def)
qed

lemma p_scalar_int: "ends_number r \<Longrightarrow> p_scalar (show_int i @ r) = Some (JInt i, r)"
proof -
  assume r: "ends_number r"
  have digit: "\<exists>c w. show_nat n = c # w \<and> is_digit c" for n
    using show_nat_nonempty [of n] show_nat_digits [of n] by (cases "show_nat n") auto
  show ?thesis
  proof (cases "i < 0")
    case True
    obtain c w where w: "show_nat (nat (- i)) = c # w" "is_digit c" using digit by blast
    have "p_number True (c # w @ r) = Some (JInt i, r)"
      using p_number_show [OF r, of True "nat (- i)"] True w by simp
    with True w show ?thesis
      by (simp add: show_int_def p_scalar_def digit_no_literal)
  next
    case False
    obtain c w where w: "show_nat (nat i) = c # w" "is_digit c" using digit by blast
    have "p_number False (c # w @ r) = Some (JInt i, r)"
      using p_number_show [OF r, of False "nat i"] False w by simp
    moreover have "c \<noteq> CHR ''-''" using w(2) by (auto simp: is_digit_def)
    ultimately show ?thesis using False w
      by (simp add: show_int_def p_scalar_def digit_no_literal)
  qed
qed

section \<open>Values\<close>

text \<open>How the text of a value may begin, and how the text after it may begin.\<close>

lemma dump_first:
  "float_free v \<Longrightarrow> \<exists>c w. dump n v = c # w \<and> \<not> is_ws c \<and> c \<noteq> CHR '']''"
proof (cases v)
  case (JInt i)
  obtain c w where "show_nat (nat \<bar>i\<bar>) = c # w" "is_digit c"
    using show_nat_nonempty [of "nat \<bar>i\<bar>"] show_nat_digits [of "nat \<bar>i\<bar>"]
    by (cases "show_nat (nat \<bar>i\<bar>)") auto
  moreover have "\<not> is_ws c" "c \<noteq> CHR '']''" if "is_digit c"
    using that by (auto simp: is_ws_def is_digit_def)
  ultimately show ?thesis using JInt
    by (cases "i < 0") (auto simp: show_int_def is_ws_def)
qed (auto simp: json_string_def is_ws_def)

lemma skip_ws_dump: "float_free v \<Longrightarrow> skip_ws (dump n v @ r) = dump n v @ r"
  using dump_first [of v n] by auto

lemma skip_indent: "skip_ws (indent n @ s) = skip_ws s"
proof -
  have "skip_ws (replicate k (CHR 0x20) @ s) = skip_ws s" for k
    by (induction k) (simp_all add: is_ws_def)
  then show ?thesis by (simp add: indent_def is_ws_def newline_def)
qed

lemma ends_number_simps [simp]:
  "ends_number (CHR '','' # s)" "ends_number (indent n @ s)" "ends_number [newline]"
  by (simp_all add: ends_number_def indent_def newline_def is_digit_def)

lemma p_items_dump:
  assumes "\<And>x k n r. x \<in> set xs \<Longrightarrow> length (dump k x) \<le> n \<Longrightarrow> ends_number r \<Longrightarrow>
      p_value n (dump k x @ r) = Some (x, r)"
    and "list_all float_free xs" and "xs \<noteq> []"
    and "length (sep_lines m (map (dump m) xs)) < n"
  shows "p_items n (sep_lines m (map (dump m) xs) @ indent j @ '']'' @ r) = Some (xs, r)"
  using assms
proof (induction xs arbitrary: n)
  case (Cons x xs)
  obtain n' where n: "n = Suc n'" using Cons.prems(4) by (cases n) auto
  show ?case
  proof (cases xs)
    case Nil
    have "p_value n' (dump m x @ indent j @ '']'' @ r) = Some (x, indent j @ '']'' @ r)"
      using Cons.prems(4) n Nil by (intro Cons.prems(1)) auto
    then show ?thesis by (simp add: n Nil skip_indent is_ws_def)
  next
    case (Cons y ys)
    let ?t = "sep_lines m (map (dump m) xs) @ indent j @ '']'' @ r"
    have eq: "sep_lines m (map (dump m) (x # xs)) @ indent j @ '']'' @ r =
        dump m x @ CHR '','' # indent m @ ?t"
      by (simp add: Cons)
    have "p_value n' (dump m x @ CHR '','' # indent m @ ?t) = Some (x, CHR '','' # indent m @ ?t)"
      using Cons.prems(4) n by (intro Cons.prems(1)) (auto simp: Cons)
    moreover have "p_items n' ?t = Some (xs, r)"
      using Cons.prems n by (intro Cons.IH) (auto simp: Cons)
    moreover have "skip_ws (indent m @ ?t) = ?t"
    proof -
      obtain w where "sep_lines m (map (dump m) xs) = dump m y @ w"
        unfolding Cons by (cases ys) auto
      then show ?thesis using Cons.prems(2) by (simp add: Cons skip_indent skip_ws_dump)
    qed
    ultimately show ?thesis unfolding eq n by (simp add: is_ws_def)
  qed
qed simp

definition member_text :: "nat \<Rightarrow> string \<times> json \<Rightarrow> string" where
  "member_text n = (\<lambda>(k, v). json_string k @ '': '' @ dump n v)"

lemma p_members_dump:
  assumes "\<And>x k n r. x \<in> snd ` set d \<Longrightarrow> length (dump k x) \<le> n \<Longrightarrow> ends_number r \<Longrightarrow>
      p_value n (dump k x @ r) = Some (x, r)"
    and "list_all (\<lambda>(k, v). float_free v) d" and "d \<noteq> []"
    and "distinct (dkeys a @ dkeys d)"
    and "length (sep_lines m (map (member_text m) d)) < n"
  shows "p_members n a (sep_lines m (map (member_text m) d) @ indent j @ ''}'' @ r) = Some (a @ d, r)"
  using assms
proof (induction d arbitrary: n a)
  case (Cons kv d)
  obtain k v where kv: "kv = (k, v)" by (cases kv)
  obtain n' where n: "n = Suc n'" using Cons.prems(5) by (cases n) auto
  have fresh: "dset k v a = a @ [(k, v)]"
    using Cons.prems(4) by (intro dset_fresh) (auto simp: kv)
  have ff: "float_free v" using Cons.prems(2) by (simp add: kv)
  have key: "p_members n a (member_text m kv @ t) =
      (case p_value n' (dump m v @ t) of None \<Rightarrow> None
       | Some (u, r3) \<Rightarrow> (case skip_ws r3 of [] \<Rightarrow> None
          | e # q \<Rightarrow> if e = CHR ''}'' then Some (dset k u a, q)
              else if e = CHR '','' then p_members n' (dset k u a) (skip_ws q) else None))" for t
    by (simp add: n kv member_text_def json_string_def p_string_json_string is_ws_def skip_ws_dump ff)
  show ?case
  proof (cases d)
    case Nil
    have "p_value n' (dump m v @ indent j @ ''}'' @ r) = Some (v, indent j @ ''}'' @ r)"
      using Cons.prems(5) n Nil by (intro Cons.prems(1)) (auto simp: kv member_text_def)
    then show ?thesis using key [of "indent j @ ''}'' @ r"]
      by (simp add: Nil skip_indent is_ws_def fresh kv)
  next
    case (Cons y ys)
    let ?t = "sep_lines m (map (member_text m) d) @ indent j @ ''}'' @ r"
    have eq: "sep_lines m (map (member_text m) (kv # d)) @ indent j @ ''}'' @ r =
        member_text m kv @ CHR '','' # indent m @ ?t"
      by (simp add: Cons)
    have "p_value n' (dump m v @ CHR '','' # indent m @ ?t) = Some (v, CHR '','' # indent m @ ?t)"
      using Cons.prems(5) n by (intro Cons.prems(1)) (auto simp: Cons kv member_text_def)
    moreover have "p_members n' (a @ [(k, v)]) ?t = Some ((a @ [(k, v)]) @ d, r)"
      using Cons.prems n by (intro Cons.IH) (auto simp: Cons kv)
    moreover have "skip_ws (indent m @ ?t) = ?t"
    proof -
      obtain w where "sep_lines m (map (member_text m) d) = member_text m y @ w"
        unfolding Cons by (cases ys) auto
      then show ?thesis by (simp add: skip_indent member_text_def json_string_def is_ws_def split: prod.split)
    qed
    ultimately show ?thesis unfolding eq key by (simp add: is_ws_def fresh kv)
  qed
qed simp

lemma p_value_dump:
  "float_free v \<Longrightarrow> json_wf v \<Longrightarrow> length (dump k v) \<le> n \<Longrightarrow> ends_number r \<Longrightarrow>
    p_value n (dump k v @ r) = Some (v, r)"
proof (induction v arbitrary: k n r)
  case JNull
  then show ?case by (cases n) (simp_all add: p_scalar_def literals_def starts_with_def)
next
  case (JBool b)
  then show ?case by (cases n; cases b) (simp_all add: p_scalar_def literals_def starts_with_def)
next
  case (JInt i)
  obtain c w where c: "show_int i = c # w" "c = CHR ''-'' \<or> is_digit c"
    using show_nat_nonempty [of "nat i"] show_nat_digits [of "nat i"]
    by (cases "show_nat (nat i)"; cases "i < 0") (auto simp: show_int_def)
  then have "c \<noteq> CHR 0x22 \<and> c \<noteq> CHR ''['' \<and> c \<noteq> CHR ''{''" by (auto simp: is_digit_def)
  then show ?case using p_scalar_int [OF JInt.prems(4), of i] JInt.prems(3) c(1)
    by (cases n) simp_all
next
  case (JStr s)
  then show ?case by (cases n) (simp_all add: json_string_def p_string_json_string)
next
  case (JList xs)
  show ?case
  proof (cases "xs = []")
    case True
    then show ?thesis using JList.prems(3) by (cases n) (simp_all add: is_ws_def)
  next
    case False
    let ?ws = "sep_lines (Suc k) (map (dump (Suc k)) xs)"
    obtain n' where n: "n = Suc n'" using JList.prems(3) False by (cases n) auto
    have "p_items n' (?ws @ indent k @ '']'' @ r) = Some (xs, r)"
      using JList.prems False n
      by (intro p_items_dump JList.IH) (auto simp: list_all_iff)
    moreover obtain c w where "?ws = c # w" "\<not> is_ws c" "c \<noteq> CHR '']''"
    proof -
      obtain y ys where xs: "xs = y # ys" using False by (cases xs) auto
      obtain w where "?ws = dump (Suc k) y @ w" unfolding xs by (cases ys) auto
      then show ?thesis using that dump_first [of y "Suc k"] JList.prems(1) by (auto simp: xs)
    qed
    ultimately show ?thesis using False by (simp add: n skip_indent)
  qed
next
  case (JDict d)
  show ?case
  proof (cases "d = []")
    case True
    then show ?thesis using JDict.prems(3) by (cases n) (simp_all add: is_ws_def)
  next
    case False
    let ?ws = "sep_lines (Suc k) (map (member_text (Suc k)) d)"
    have form: "dump k (JDict d) = ''{'' @ indent (Suc k) @ ?ws @ indent k @ ''}''"
      using False by (simp add: member_text_def)
    obtain n' where n: "n = Suc n'" using JDict.prems(3) unfolding form by (cases n) auto
    have "p_members n' [] (?ws @ indent k @ ''}'' @ r) = Some ([] @ d, r)"
    proof (rule p_members_dump)
      fix u j m q
      assume u: "u \<in> snd ` set d" "length (dump j u) \<le> m" "ends_number q"
      then obtain i where i: "(i, u) \<in> set d" by auto
      then have "float_free u" "json_wf u" using JDict.prems by (auto simp: list_all_iff)
      with i u show "p_value m (dump j u @ q) = Some (u, q)"
        by (intro JDict.IH) (auto simp: snds.simps)
    qed (use JDict.prems False n form in auto)
    moreover obtain w where "?ws = CHR 0x22 # w"
      using False by (cases d; cases "tl d") (auto simp: member_text_def json_string_def)
    ultimately show ?thesis unfolding form by (simp add: n skip_indent is_ws_def)
  qed
qed simp

section \<open>Documents\<close>

lemma sort_items_set [simp]: "set (sort_items d) = set d"
  by (simp add: sort_items_def)

lemma dkeys_sort_items: "set (dkeys (sort_items d)) = set (dkeys d)"
  by (simp add: dkeys_def)

lemma distinct_sort_items: "distinct (dkeys (sort_items d)) \<longleftrightarrow> distinct (dkeys d)"
  unfolding dkeys_def sort_items_def
  by (metis distinct_map distinct_sort set_sort)

lemma dget_sort_items: "distinct (dkeys d) \<Longrightarrow> dget k (sort_items d) = dget k d"
proof -
  assume d: "distinct (dkeys d)"
  then have s: "distinct (dkeys (sort_items d))" by (simp add: distinct_sort_items)
  show ?thesis
  proof (cases "dget k d")
    case None
    then show ?thesis by (metis dget_None dkeys_sort_items)
  next
    case (Some v)
    from dget_mem [OF Some] have "(k, v) \<in> set (sort_items d)" by simp
    from dget_distinct_mem [OF s this] Some show ?thesis by simp
  qed
qed

lemma dkeys_map_values [simp]: "dkeys (map (\<lambda>(k, v). (k, f v)) d) = dkeys d"
  by (induction d) auto

lemma json_wf_sort_keys: "json_wf v \<Longrightarrow> json_wf (sort_keys v)"
  by (induction v) (auto simp: list_all_iff distinct_sort_items snds.simps)

lemma float_free_sort_keys: "float_free v \<Longrightarrow> float_free (sort_keys v)"
  by (induction v) (auto simp: list_all_iff snds.simps)

lemma dump_length: "float_free v \<Longrightarrow> 0 < length (dump n v)"
  using dump_first [of v n] by auto

lemma sort_keys_idem [simp]: "sort_keys (sort_keys v) = sort_keys v"
proof (induction v)
  case (JDict d)
  let ?f = "\<lambda>(k, v). (k, sort_keys v)"
  have fst_f: "fst \<circ> ?f = fst" by auto
  have same: "map ?f (sort_items (map ?f d)) = sort_items (map ?f d)"
  proof (rule map_idI)
    fix p assume "p \<in> set (sort_items (map ?f d))"
    then obtain k v where "(k, v) \<in> set d" "p = (k, sort_keys v)" by auto
    then show "?f p = p" using JDict by (auto simp: snds.simps)
  qed
  have "sort_items (sort_items e) = sort_items e" for e :: "json dict"
    by (simp add: sort_items_def sort_key_id_if_sorted)
  then show ?case unfolding sort_keys.simps same by simp
qed (simp_all add: map_idI)

text \<open>Every document that is read has no repeated member.\<close>

lemma p_scalar_wf: "p_scalar s = Some (v, r) \<Longrightarrow> json_wf v"
proof -
  have lit: "p_literal ls s = Some (v, r) \<Longrightarrow> \<forall>(w, u) \<in> set ls. json_wf u \<Longrightarrow> json_wf v" for ls
    by (induction ls s rule: p_literal.induct) (auto split: if_splits)
  have num: "p_number neg u = Some (v, r) \<Longrightarrow> json_wf v" for neg u
    by (auto simp: p_number_def Let_def split: option.splits prod.splits if_splits)
  have "\<forall>(w, u) \<in> set literals. json_wf u" by (simp add: literals_def)
  with lit num show "p_scalar s = Some (v, r) \<Longrightarrow> json_wf v"
    by (auto simp: p_scalar_def split: option.splits list.splits if_splits)
qed

lemma set_dset: "(k', v') \<in> set (dset k v d) \<Longrightarrow> (k', v') = (k, v) \<or> (k', v') \<in> set d"
  by (induction k v d rule: dset.induct) (auto split: if_splits)

lemma json_wf_dset: "json_wf v \<Longrightarrow> json_wf (JDict d) \<Longrightarrow> json_wf (JDict (dset k v d))"
  by (auto simp: list_all_iff distinct_dset dest!: set_dset)

lemma p_wf:
  "p_value n s = Some (v, r) \<Longrightarrow> json_wf v"
  "p_items n s = Some (vs, r) \<Longrightarrow> list_all json_wf vs"
  "p_members n m s = Some (d, r) \<Longrightarrow> json_wf (JDict m) \<Longrightarrow> json_wf (JDict d)"
proof (induction n s and n s and n m s arbitrary: v r and vs r and d r rule: p_value_p_items_p_members.induct)
  case (2 n s)
  show ?case
  proof (cases s)
    case (Cons c q)
    then show ?thesis
      using "2.prems" "2.IH" p_scalar_wf [of s]
      by (auto split: if_splits list.splits simp del: json_wf.simps(6,7)) (auto simp: json_wf.simps)
  qed (use 2 in simp)
next
  case (4 n s)
  then show ?case
    by (auto split: option.splits prod.splits list.splits if_splits)
next
  case (6 n m s)
  from "6.prems"(1) obtain c q where s: "s = c # q" by (cases s) auto
  from "6.prems"(1) obtain k r1 d' r2 u r3 e q' where steps: "c = CHR 0x22" "p_string q = Some (k, r1)"
    "skip_ws r1 = d' # r2" "d' = CHR '':''" "p_value n (skip_ws r2) = Some (u, r3)" "skip_ws r3 = e # q'"
    and last: "if e = CHR ''}'' then Some (dset k u m, q') = Some (d, r)
      else if e = CHR '','' then p_members n (dset k u m) (skip_ws q') = Some (d, r) else False"
    unfolding s by (auto split: option.splits prod.splits list.splits if_splits)
  have u: "json_wf u" using "6.IH"(1) [OF s _ steps(2) refl steps(3)] steps by simp
  have m: "json_wf (JDict (dset k u m))" by (rule json_wf_dset [OF u "6.prems"(2)])
  show ?case
  proof (cases "e = CHR ''}''")
    case True
    then show ?thesis using last m by simp
  next
    case False
    with last have "e = CHR '',''" "p_members n (dset k u m) (skip_ws q') = Some (d, r)" by (simp_all split: if_splits)
    with False show ?thesis
      using "6.IH"(2) [OF s _ steps(2) refl steps(3)] steps m by simp
  qed
qed simp_all

lemma loads_wf: "loads s = Some v \<Longrightarrow> json_wf v"
  by (auto simp: loads_def split: option.splits prod.splits if_splits dest: p_wf(1))

lemma loads_dumps_sorted:
  assumes "json_wf v" and "dumps_sorted v = Some t"
  shows "loads t = Some (sort_keys v)"
proof -
  from assms(2) have ff: "float_free v" and t: "t = dump 0 (sort_keys v) @ [newline]"
    by (auto simp: dumps_sorted_def split: if_splits)
  have ffs: "float_free (sort_keys v)" using ff by (rule float_free_sort_keys)
  have "p_value (length t) t = Some (sort_keys v, [newline])"
    unfolding t by (rule p_value_dump) (auto intro: ffs json_wf_sort_keys assms(1))
  moreover have "skip_ws t = t" unfolding t by (rule skip_ws_dump [OF ffs])
  ultimately show ?thesis by (simp add: loads_def is_ws_def newline_def)
qed

text \<open>
  C7: serializing a document and parsing the text returns the document with its members sorted, and
  serializing that again gives the same text: the bytes depend only on what the document says.
\<close>

theorem json_text_round_trip:
  assumes "json_wf v" and "dumps_sorted v = Some t"
  shows "loads t = Some (sort_keys v) \<and> dumps_sorted (sort_keys v) = Some t"
  using loads_dumps_sorted [OF assms] assms(2) float_free_sort_keys [of v]
  by (auto simp: dumps_sorted_def split: if_splits)

theorem json_text_round_trip_witness:
  "\<exists>t. dumps_sorted (JDict [(''b'', JList [JInt (- 12), JNull]), (''a'', JStr [CHR 0x22, CHR 0x0A])]) = Some t \<and>
     loads t = Some (JDict [(''a'', JStr [CHR 0x22, CHR 0x0A]), (''b'', JList [JInt (- 12), JNull])])"
proof -
  let ?v = "JDict [(''b'', JList [JInt (- 12), JNull]), (''a'', JStr [CHR 0x22, CHR 0x0A])]"
  obtain t where t: "dumps_sorted ?v = Some t" by (simp add: dumps_sorted_def)
  have "sort_keys ?v = JDict [(''a'', JStr [CHR 0x22, CHR 0x0A]), (''b'', JList [JInt (- 12), JNull])]"
    by code_simp
  with json_text_round_trip [OF _ t] t show ?thesis by simp
qed

end
