(* ===== verification/Dependency_Request_Promises.thy ===== *)
theory Dependency_Request_Promises
  imports Dependency_Requests Json_Round_Trip Field_Patterns
begin

text \<open>
  What the request checks guarantee: exactly which integrity values each algorithm admits, and what is known
  of a request without errors.
\<close>

section \<open>Integrity values\<close>

lemma split_while: "s = takeWhile P s @ dropWhile P s"
  by simp

lemma takeWhile_pads:
  "list_all base64_char b \<Longrightarrow> takeWhile base64_char (b @ replicate k (CHR ''='')) = b"
  "list_all base64_char b \<Longrightarrow> dropWhile base64_char (b @ replicate k (CHR ''='')) = replicate k (CHR ''='')"
proof -
  have "\<not> base64_char (CHR ''='')" by (simp add: base64_char_def is_letter_def is_digit_def)
  then show "list_all base64_char b \<Longrightarrow> takeWhile base64_char (b @ replicate k (CHR ''='')) = b"
    "list_all base64_char b \<Longrightarrow> dropWhile base64_char (b @ replicate k (CHR ''='')) = replicate k (CHR ''='')"
    by (induction b; cases k; simp)+
qed

lemma all_pads: "list_all (\<lambda>c. c = CHR ''='') p \<longleftrightarrow> p = replicate (length p) (CHR ''='')"
  by (induction p) auto

lemma base64_lengthD:
  assumes "base64_length s = Some m"
  shows "\<exists>b k. s = b @ replicate k (CHR ''='') \<and> list_all base64_char b \<and>
      (length b mod 4 = 0 \<and> m = 3 * (length b div 4) \<or>
       length b mod 4 \<in> {2, 3} \<and> length b mod 4 + k = 4 \<and> m = 3 * (length b div 4) + (length b mod 4 - 1))"
proof -
  let ?b = "takeWhile base64_char s" and ?p = "dropWhile base64_char s"
  have p: "?p = replicate (length ?p) (CHR ''='')"
    using assms by (auto simp: base64_length_def Let_def all_pads split: if_splits)
  have "list_all base64_char ?b" by (metis list.pred_set set_takeWhileD)
  moreover have "s = ?b @ replicate (length ?p) (CHR ''='')" using p by (metis takeWhile_dropWhile_id)
  moreover have "length ?b mod 4 = 0 \<and> m = 3 * (length ?b div 4) \<or>
      length ?b mod 4 \<in> {2, 3} \<and> length ?b mod 4 + length ?p = 4 \<and> m = 3 * (length ?b div 4) + (length ?b mod 4 - 1)"
  proof -
    have "length ?b mod 4 < 4" by simp
    then have "length ?b mod 4 \<noteq> 0 \<Longrightarrow> length ?b mod 4 \<noteq> 1 \<Longrightarrow> length ?b mod 4 \<in> {2, 3}" by auto
    then show ?thesis using assms by (auto simp: base64_length_def Let_def split: if_splits)
  qed
  ultimately show ?thesis by (intro exI [of _ ?b] exI [of _ "length ?p"]) simp
qed

lemma base64_lengthI:
  assumes "list_all base64_char b" "length b mod 4 \<in> {2, 3}" "length b mod 4 + k = 4"
  shows "base64_length (b @ replicate k (CHR ''='')) = Some (3 * (length b div 4) + (length b mod 4 - 1))"
  using assms by (auto simp: base64_length_def takeWhile_pads all_pads Let_def)

text \<open>How many symbols stand for a number of bytes that is one or two more than a multiple of three.\<close>

lemma symbols_for:
  fixes n k q :: nat
  assumes "n mod 4 = 0 \<and> m = 3 * (n div 4) \<or>
    n mod 4 \<in> {2, 3} \<and> n mod 4 + k = 4 \<and> m = 3 * (n div 4) + (n mod 4 - 1)"
  shows "m = 3 * q + 1 \<Longrightarrow> n = 4 * q + 2 \<and> k = 2" and "m = 3 * q + 2 \<Longrightarrow> n = 4 * q + 3 \<and> k = 1"
proof -
  define a r where ar: "a = n div 4" "r = n mod 4"
  have n: "n = 4 * a + r" "r < 4" by (simp_all add: ar)
  have "r = 0 \<and> m = 3 * a \<or> r \<in> {2, 3} \<and> r + k = 4 \<and> m = 3 * a + (r - 1)"
    using assms unfolding ar .
  then consider "m = 3 * a" | "r = 2" "k = 2" "m = 3 * a + 1" | "r = 3" "k = 1" "m = 3 * a + 2"
    by fastforce
  then show "m = 3 * q + 1 \<Longrightarrow> n = 4 * q + 2 \<and> k = 2" and "m = 3 * q + 2 \<Longrightarrow> n = 4 * q + 3 \<and> k = 1"
    unfolding n(1) by (cases; presburger)+
qed

lemma sri_length:
  "base64_length s = Some 64 \<longleftrightarrow> (\<exists>b. s = b @ ''=='' \<and> length b = 86 \<and> list_all base64_char b)"
proof
  assume "base64_length s = Some 64"
  from base64_lengthD [OF this] obtain b k where s: "s = b @ replicate k (CHR ''='')" "list_all base64_char b"
    and m: "length b mod 4 = 0 \<and> 64 = 3 * (length b div 4) \<or>
       length b mod 4 \<in> {2, 3} \<and> length b mod 4 + k = 4 \<and> 64 = 3 * (length b div 4) + (length b mod 4 - 1)"
    by (elim exE conjE) simp
  from symbols_for(1) [OF m, of 21] s show "\<exists>b. s = b @ ''=='' \<and> length b = 86 \<and> list_all base64_char b"
    by (intro exI [of _ b]) (simp add: numeral_2_eq_2)
next
  assume "\<exists>b. s = b @ ''=='' \<and> length b = 86 \<and> list_all base64_char b"
  then obtain b where "s = b @ replicate 2 (CHR ''='')" "length b = 86" "list_all base64_char b"
    by (auto simp: numeral_2_eq_2)
  with base64_lengthI [of b 2] show "base64_length s = Some 64" by simp
qed

lemma go_sum_length:
  "base64_length s = Some 32 \<longleftrightarrow> (\<exists>b. s = b @ ''='' \<and> length b = 43 \<and> list_all base64_char b)"
proof
  assume "base64_length s = Some 32"
  from base64_lengthD [OF this] obtain b k where s: "s = b @ replicate k (CHR ''='')" "list_all base64_char b"
    and m: "length b mod 4 = 0 \<and> 32 = 3 * (length b div 4) \<or>
       length b mod 4 \<in> {2, 3} \<and> length b mod 4 + k = 4 \<and> 32 = 3 * (length b div 4) + (length b mod 4 - 1)"
    by (elim exE conjE) simp
  from symbols_for(2) [OF m, of 10] s show "\<exists>b. s = b @ ''='' \<and> length b = 43 \<and> list_all base64_char b"
    by (intro exI [of _ b]) simp
next
  assume "\<exists>b. s = b @ ''='' \<and> length b = 43 \<and> list_all base64_char b"
  then obtain b where "s = b @ replicate 1 (CHR ''='')" "length b = 43" "list_all base64_char b" by auto
  with base64_lengthI [of b 1] show "base64_length s = Some 32" by simp
qed

lemma full_match_hash: "full_match hash_pattern s \<longleftrightarrow> lower_hex 64 s"
  unfolding full_match_def compile_hash option.case re_fullmatch_iff
  by (auto simp: den_hash_re)

lemma full_match_sha512: "full_match ''^[0-9a-f]{128}$'' s \<longleftrightarrow> lower_hex 128 s"
proof -
  have "re_compile ''^[0-9a-f]{128}$'' =
      Some (RSeq RBegin (RSeq (RRep (RSet hex_set) 128 (Some 128)) REol))" by code_simp
  then show ?thesis unfolding full_match_def
    by (auto simp: re_fullmatch_iff den_set_rep lower_hex_def list_all_iff in_hex_set simp del: den.simps(8))
qed

lemma den_char:
  "den (RSeq (RSet (CSet False [(c, c)])) r) b u t \<longleftrightarrow> (\<exists>v. u = c # v \<and> den r False v t)"
  by (auto simp: in_cset_def)

lemma full_match_oci: "full_match ''sha256:[0-9a-f]{64}'' s \<longleftrightarrow> (\<exists>h. s = ''sha256:'' @ h \<and> lower_hex 64 h)"
proof -
  have "re_compile ''sha256:[0-9a-f]{64}'' =
      Some (foldr (\<lambda>c r. RSeq (RSet (CSet False [(c, c)])) r) ''sha256:'' hash_re)" by code_simp
  then show ?thesis unfolding full_match_def
    by (auto simp: re_fullmatch_iff den_char den_hash_re simp del: den.simps(6))
qed

text \<open>What each algorithm's values are: the text that stands for a digest of the right number of bytes.\<close>

definition integrity_shape :: "string \<Rightarrow> string \<Rightarrow> bool" where
  "integrity_shape a s \<longleftrightarrow>
     a = ''sha256'' \<and> lower_hex 64 s \<or>
     a = ''sha512'' \<and> lower_hex 128 s \<or>
     a = ''oci-digest'' \<and> (\<exists>h. s = ''sha256:'' @ h \<and> lower_hex 64 h) \<or>
     a = ''npm-sri'' \<and> (\<exists>b. s = ''sha512-'' @ b @ ''=='' \<and> length b = 86 \<and> list_all base64_char b) \<or>
     a = ''go-sum'' \<and> (\<exists>b. s = ''h1:'' @ b @ ''='' \<and> length b = 43 \<and> list_all base64_char b)"

lemma prefix_drop: "starts_with s p \<and> P (drop (length p) s) \<longleftrightarrow> (\<exists>u. s = p @ u \<and> P u)"
  by (auto simp: starts_with_iff)

lemma integrity_value_shape:
  "integrity_value_valid (JStr a) (JStr s) \<longleftrightarrow> integrity_shape a s"
proof -
  have sri: "starts_with s ''sha512-'' \<and> base64_length (drop 7 s) = Some 64 \<longleftrightarrow>
      (\<exists>b. s = ''sha512-'' @ b @ ''=='' \<and> length b = 86 \<and> list_all base64_char b)"
  proof -
    have l: "length ''sha512-'' = 7" by simp
    show ?thesis
      unfolding prefix_drop [of s "''sha512-''" "\<lambda>u. base64_length u = Some 64", unfolded l]
      unfolding sri_length by blast
  qed
  have go: "starts_with s ''h1:'' \<and> base64_length (drop 3 s) = Some 32 \<longleftrightarrow>
      (\<exists>b. s = ''h1:'' @ b @ ''='' \<and> length b = 43 \<and> list_all base64_char b)"
  proof -
    have l: "length ''h1:'' = 3" by simp
    show ?thesis
      unfolding prefix_drop [of s "''h1:''" "\<lambda>u. base64_length u = Some 32", unfolded l]
      unfolding go_sum_length by blast
  qed
  consider "a = ''sha256''" | "a = ''sha512''" | "a = ''oci-digest''" | "a = ''npm-sri''" | "a = ''go-sum''"
    | "a \<noteq> ''sha256''" "a \<noteq> ''sha512''" "a \<noteq> ''oci-digest''" "a \<noteq> ''npm-sri''" "a \<noteq> ''go-sum''"
    by blast
  then show ?thesis
  proof cases
    case 1
    then show ?thesis
      by (simp add: integrity_value_valid_def integrity_shape_def hex_pattern_def
          full_match_hash [unfolded hash_pattern_def])
  next
    case 2
    then show ?thesis
      by (simp add: integrity_value_valid_def integrity_shape_def hex_pattern_def full_match_sha512)
  next
    case 3
    then show ?thesis
      by (simp add: integrity_value_valid_def integrity_shape_def hex_pattern_def full_match_oci)
  next
    case 4
    then show ?thesis
      using sri by (simp add: integrity_value_valid_def integrity_shape_def hex_pattern_def)
  next
    case 5
    then show ?thesis
      using go by (simp add: integrity_value_valid_def integrity_shape_def hex_pattern_def)
  next
    case 6
    then show ?thesis
      by (auto simp: integrity_value_valid_def integrity_shape_def hex_pattern_def)
  qed
qed

text \<open>
  C21: an integrity value is admitted exactly when it is the text of a digest of its algorithm's length, with
  the canonical padding.
\<close>

theorem integrity_values_exact:
  "integrity_value_valid (JStr a) (JStr s) \<longleftrightarrow> integrity_shape a s"
  by (rule integrity_value_shape)

section \<open>A request without errors\<close>

definition dependency_ok :: "json dict \<Rightarrow> bool" where
  "dependency_ok d \<longleftrightarrow>
     set (dkeys d) = set required_dependency \<and>
     (\<exists>e n v l. get_or_null ''ecosystem'' d = JStr e \<and> e \<in> {''go'', ''pnpm'', ''tool''} \<and>
       get_or_null ''name'' d = JStr n \<and> n \<noteq> [] \<and>
       get_or_null ''version'' d = JStr v \<and> full_match exact_version_pattern v \<and>
       get_or_null ''license'' d = JStr l \<and> l \<in> set request_license_allowlist) \<and>
     https_value (get_or_null ''source_url'' d) \<and>
     (\<exists>b. get_or_null ''direct_runtime_dependency'' d = JBool b) \<and>
     (\<exists>i a s. get_or_null ''integrity'' d = JDict i \<and> get_or_null ''algorithm'' i = JStr a \<and>
       get_or_null ''value'' i = JStr s \<and> integrity_shape a s \<and> https_value (get_or_null ''source_url'' i))"

lemma get_or_null_Some: "get_or_null k d \<noteq> JNull \<Longrightarrow> dget k d = Some (get_or_null k d)"
  by (auto simp: get_or_null_def split: option.splits)

lemma https_str: "https_value v \<Longrightarrow> \<exists>s. v = JStr s"
  by (cases v) (auto simp: https_value_def is_https_def split: if_splits)

lemma integrity_value_strs: "integrity_value_valid a v \<Longrightarrow> \<exists>s t. a = JStr s \<and> v = JStr t"
  by (auto simp: integrity_value_valid_def split: json.splits)

lemma integrity_errors_Nil:
  "integrity_errors i v = Inr [] \<Longrightarrow>
    \<exists>d a s. v = JDict d \<and> get_or_null ''algorithm'' d = JStr a \<and> get_or_null ''value'' d = JStr s \<and>
      integrity_shape a s \<and> https_value (get_or_null ''source_url'' d)"
proof -
  assume e: "integrity_errors i v = Inr []"
  then obtain d where v: "v = JDict d" by (cases v) (simp_all add: integrity_errors_def)
  from e have ok: "integrity_value_valid (get_or_null ''algorithm'' d) (get_or_null ''value'' d)"
    and u: "https_value (get_or_null ''source_url'' d)"
    by (auto simp: v integrity_errors_def gather_Nil split: if_splits)
  from integrity_value_strs [OF ok] obtain a s where
    "get_or_null ''algorithm'' d = JStr a" "get_or_null ''value'' d = JStr s" by blast
  with ok u v show ?thesis by (simp add: integrity_value_shape)
qed

lemma dependency_errors_Nil:
  assumes e: "dependency_errors i v = Inr []"
  shows "\<exists>d. v = JDict d \<and> dependency_ok d"
proof -
  from e obtain d where v: "v = JDict d" by (cases v) (simp_all add: dependency_errors_def)
  from e have all: "keys_are required_dependency d"
    "\<exists>s. get_or_null ''ecosystem'' d = JStr s \<and> s \<in> set [''go'', ''pnpm'', ''tool'']"
    "nonempty_str (get_or_null ''name'' d)" "exact_version (get_or_null ''version'' d)"
    "\<exists>s. get_or_null ''license'' d = JStr s \<and> s \<in> set request_license_allowlist"
    "https_value (get_or_empty_str ''source_url'' d)"
    "is_bool (get_or_null ''direct_runtime_dependency'' d)"
    "integrity_errors i (get_or_null ''integrity'' d) = Inr []"
    unfolding v dependency_errors_def json.case gather_Nil by (simp_all split: if_splits)
  have "get_or_empty_str ''source_url'' d = get_or_null ''source_url'' d"
    using all(1) dget_None [of "''source_url''" d]
    by (auto simp: keys_are_def required_dependency_def get_or_empty_str_def get_or_null_def split: option.split)
  moreover have "\<exists>n. get_or_null ''name'' d = JStr n \<and> n \<noteq> []"
    using all(3) by (cases "get_or_null ''name'' d") (simp_all add: nonempty_str_def)
  moreover have "\<exists>n. get_or_null ''version'' d = JStr n \<and> full_match exact_version_pattern n"
    using all(4) by (cases "get_or_null ''version'' d") (simp_all add: exact_version_def)
  moreover note all(1,2,5,6,7) integrity_errors_Nil [OF all(8)]
  ultimately show ?thesis
    by (intro exI [of _ d]) (simp add: v dependency_ok_def keys_are_def is_bool_iff)
qed

lemma dependencies_errors_Nil:
  assumes e: "dependencies_errors v = Inr []"
  shows "\<exists>ds. v = JList (map JDict ds) \<and> ds \<noteq> [] \<and> list_all dependency_ok ds \<and>
    distinct (map (\<lambda>d. (get_or_null ''ecosystem'' d, get_or_null ''name'' d)) ds)"
proof -
  from e obtain xs where v: "v = JList xs" by (cases v) (simp_all add: dependencies_errors_def)
  from e have ne: "xs \<noteq> []" and each: "\<forall>(i, x) \<in> set (zip [0..<length xs] xs). dependency_errors i x = Inr []"
    and rep: "repeated_identities xs = Inr False"
    by (auto simp: v dependencies_errors_def gather_Nil split: if_splits)
  have "\<exists>d. x = JDict d \<and> dependency_ok d" if x: "x \<in> set xs" for x
  proof -
    from x obtain i where "i < length xs" "xs ! i = x" by (auto simp: in_set_conv_nth)
    then have "(i, x) \<in> set (zip [0..<length xs] xs)" by (auto simp: set_zip intro!: exI [of _ i])
    then show ?thesis using each dependency_errors_Nil by blast
  qed
  then have "\<exists>ds. xs = map JDict ds \<and> list_all dependency_ok ds"
  proof (induction xs)
    case (Cons x xs)
    then obtain d ds where "x = JDict d" "dependency_ok d" "xs = map JDict ds" "list_all dependency_ok ds"
      by (metis list.set_intros)
    then show ?case by (intro exI [of _ "d # ds"]) simp
  qed simp
  then obtain ds where ds: "xs = map JDict ds" "list_all dependency_ok ds" by blast
  let ?id = "\<lambda>d. (get_or_null ''ecosystem'' d, get_or_null ''name'' d)"
  have ids: "identities (map JDict es) = map ?id es" for es by (induction es) simp_all
  have eq: "pair_eq (?id d) (?id e') \<longleftrightarrow> ?id d = ?id e'" if "d \<in> set ds" for d e'
  proof -
    have "dependency_ok d" using ds(2) that by (simp add: list_all_iff)
    then obtain e n where "get_or_null ''ecosystem'' d = JStr e" "get_or_null ''name'' d = JStr n"
      unfolding dependency_ok_def by blast
    then show ?thesis by (auto simp: pair_eq_def)
  qed
  have "distinct (map ?id es) \<and> ?id ` set ps \<inter> ?id ` set es = {}"
    if "set ps \<union> set es \<subseteq> set ds" "\<not> has_repeat pair_eq (map ?id ps) (map ?id es)" for ps es
    using that
  proof (induction es arbitrary: ps)
    case (Cons d es)
    have "\<not> has_repeat pair_eq (map ?id (ps @ [d])) (map ?id es)" using Cons.prems(2) by simp
    with Cons.IH [of "ps @ [d]"] Cons.prems(1)
    have "distinct (map ?id es)" "?id ` set (ps @ [d]) \<inter> ?id ` set es = {}" by auto
    moreover have "?id d \<noteq> ?id p" if "p \<in> set ps" for p
    proof -
      have "\<not> pair_eq (?id d) (?id p)" using Cons.prems(2) that by (auto simp: list_ex_iff)
      then show ?thesis using eq [of d p] Cons.prems(1) by auto
    qed
    ultimately show ?case by auto
  qed simp
  from this [of "[]" ds] rep have "distinct (map ?id ds)"
    by (auto simp: repeated_identities_def ds ids split: if_splits)
  with v ds ne show ?thesis by auto
qed

lemma lockfile_errors_Nil:
  assumes e: "lockfile_errors v = Inr []"
  shows "\<exists>ls. v = jstrs ls \<and> ls \<noteq> [] \<and> distinct ls \<and> set ls \<subseteq> set lock_paths"
proof -
  from e obtain xs where v: "v = JList xs" by (cases v) (simp_all add: lockfile_errors_def)
  from e have xs: "xs \<noteq> []" "set xs \<subseteq> JStr ` set lock_paths" "distinct xs"
    by (auto simp: v lockfile_errors_def when_hashable_def split: if_splits)
  then have "\<forall>x \<in> set xs. \<exists>s. x = JStr s" by auto
  then obtain ls where ls: "xs = map JStr ls" unfolding ex_map_conv [symmetric] by blast
  with xs(2) have "set ls \<subseteq> set lock_paths" by auto
  with v xs ls show ?thesis by (auto simp: distinct_map)
qed

lemma approval_errors_Nil:
  assumes e: "approval_errors r = Inr []" and c: "utc_timestamp (get_or_null ''created_at'' r) = Some c"
  shows "\<exists>a t. get_or_null ''approval'' r = JDict a \<and>
    get_or_null ''approver_role'' a = JStr ''p01-root-lock-steward'' \<and>
    utc_timestamp (get_or_null ''approved_at'' a) = Some t \<and> c \<le> t"
proof -
  from e obtain a where a: "get_or_null ''approval'' r = JDict a"
    by (cases "get_or_null ''approval'' r") (simp_all add: approval_errors_def)
  show ?thesis
    using e c by (auto simp: a approval_errors_def gather_Nil split: option.splits if_splits)
qed

lemma accepted_request_facts:
  assumes ok: "document_errors name (JDict r) = Inr []"
  shows "\<exists>p s q. get_or_null ''packet_id'' r = JStr p \<and> full_match packet_pattern p \<and> name = p @ ''.yaml'' \<and>
      get_or_null ''request_id'' r = JStr (p @ q) \<and> full_match request_id_pattern (p @ q) \<and>
      get_or_null ''status'' r = JStr s \<and> s \<in> set statuses \<and>
      (dhas ''approval'' r \<longleftrightarrow> s \<in> {''accepted'', ''applied''})"
    and "dhas ''approval'' r \<Longrightarrow> \<exists>a c t. get_or_null ''approval'' r = JDict a \<and>
      get_or_null ''approver_role'' a = JStr ''p01-root-lock-steward'' \<and>
      utc_timestamp (get_or_null ''created_at'' r) = Some c \<and>
      utc_timestamp (get_or_null ''approved_at'' a) = Some t \<and> c \<le> t"
    and "\<exists>ds. get_or_null ''dependencies'' r = JList (map JDict ds) \<and> ds \<noteq> [] \<and> list_all dependency_ok ds \<and>
      distinct (map (\<lambda>d. (get_or_null ''ecosystem'' d, get_or_null ''name'' d)) ds)"
    and "\<exists>ls. get_or_null ''affected_lockfiles'' r = jstrs ls \<and> ls \<noteq> [] \<and> distinct ls \<and>
      set ls \<subseteq> set lock_paths"
    and "keys_containing_secrets ''$'' (JDict r) = []"
proof -
  from ok have parts: "identity_errors name r = Inr []" "lifecycle_field_errors r = Inr []"
    "dependencies_errors (get_or_null ''dependencies'' r) = Inr []"
    "lockfile_errors (get_or_null ''affected_lockfiles'' r) = Inr []"
    and secrets: "keys_containing_secrets ''$'' (JDict r) = []"
    by (simp_all add: document_errors_def gather_Nil Let_def del: keys_containing_secrets.simps)
  let ?p = "get_or_null ''packet_id'' r" and ?q = "get_or_null ''request_id'' r"
    and ?s = "get_or_null ''status'' r"
  from parts(1) have id: "packet_in_range ?p" "namespaced ?q ?p"
    "bindE (py_str ?p) (\<lambda>s. Inr (name \<noteq> s @ ''.yaml'')) = Inr False"
    "utc_timestamp (get_or_null ''created_at'' r) \<noteq> None"
    by (simp_all add: identity_errors_def gather_Nil Let_def)
  from id(2) obtain i where q: "?q = JStr i" "full_match request_id_pattern i" "?p = JStr (take 3 i)"
    by (cases ?q) (simp_all add: namespaced_def)
  from parts(2) have life: "\<exists>s. ?s = JStr s \<and> s \<in> set statuses"
    "?s = JStr ''proposed'' \<Longrightarrow> \<not> dhas ''approval'' r" "?s = JStr ''rejected'' \<Longrightarrow> \<not> dhas ''approval'' r"
    "?s = JStr ''accepted'' \<or> ?s = JStr ''applied'' \<Longrightarrow> approval_errors r = Inr []"
    by (simp_all add: lifecycle_field_errors_def gather_Nil Let_def)
  from life(1) obtain s where s: "?s = JStr s" "s \<in> set statuses" by blast
  obtain c where c: "utc_timestamp (get_or_null ''created_at'' r) = Some c" using id(4) by blast
  have approved: "\<exists>a t. get_or_null ''approval'' r = JDict a \<and>
      get_or_null ''approver_role'' a = JStr ''p01-root-lock-steward'' \<and>
      utc_timestamp (get_or_null ''approved_at'' a) = Some t \<and> c \<le> t" if "s \<in> {''accepted'', ''applied''}"
    using approval_errors_Nil [OF life(4) c] s that by auto
  have has: "dhas ''approval'' r \<longleftrightarrow> s \<in> {''accepted'', ''applied''}"
  proof
    show "s \<in> {''accepted'', ''applied''}" if "dhas ''approval'' r"
    proof -
      have "s \<noteq> ''proposed''" "s \<noteq> ''rejected''" using that life(2,3) s(1) by auto
      with s(2) show ?thesis unfolding statuses_def by simp
    qed
    show "dhas ''approval'' r" if "s \<in> {''accepted'', ''applied''}"
      using approved [OF that] by (auto simp: dhas_def get_or_null_def split: option.splits)
  qed
  show "\<exists>p s q. ?p = JStr p \<and> full_match packet_pattern p \<and> name = p @ ''.yaml'' \<and>
      ?q = JStr (p @ q) \<and> full_match request_id_pattern (p @ q) \<and> ?s = JStr s \<and> s \<in> set statuses \<and>
      (dhas ''approval'' r \<longleftrightarrow> s \<in> {''accepted'', ''applied''})"
    using id(1,3) q s has
    by (intro exI [of _ "take 3 i"] exI [of _ s] exI [of _ "drop 3 i"]) (simp add: packet_in_range_def)
  show "\<exists>a c t. get_or_null ''approval'' r = JDict a \<and>
      get_or_null ''approver_role'' a = JStr ''p01-root-lock-steward'' \<and>
      utc_timestamp (get_or_null ''created_at'' r) = Some c \<and>
      utc_timestamp (get_or_null ''approved_at'' a) = Some t \<and> c \<le> t" if "dhas ''approval'' r"
    using approved has that c by blast
  show "\<exists>ds. get_or_null ''dependencies'' r = JList (map JDict ds) \<and> ds \<noteq> [] \<and> list_all dependency_ok ds \<and>
      distinct (map (\<lambda>d. (get_or_null ''ecosystem'' d, get_or_null ''name'' d)) ds)"
    by (rule dependencies_errors_Nil) (rule parts)
  show "\<exists>ls. get_or_null ''affected_lockfiles'' r = jstrs ls \<and> ls \<noteq> [] \<and> distinct ls \<and>
      set ls \<subseteq> set lock_paths"
    by (rule lockfile_errors_Nil) (rule parts)
  show "keys_containing_secrets ''$'' (JDict r) = []" by (rule secrets)
qed

text \<open>
  C8: a request without errors names its packet in its identifier and its file name, stands in one of the
  four states with a steward's approval exactly in the approved ones and no earlier than its creation, lists
  distinct exactly pinned dependencies with sound integrity values, affects only root locks and carries no
  secret-bearing key.
\<close>

theorem accepted_request_contract:
  assumes "document_errors name (JDict r) = Inr []"
  shows "(\<exists>p s q. get_or_null ''packet_id'' r = JStr p \<and> full_match packet_pattern p \<and> name = p @ ''.yaml'' \<and>
      get_or_null ''request_id'' r = JStr (p @ q) \<and> full_match request_id_pattern (p @ q) \<and>
      get_or_null ''status'' r = JStr s \<and> s \<in> set statuses \<and>
      (dhas ''approval'' r \<longleftrightarrow> s \<in> {''accepted'', ''applied''})) \<and>
    (dhas ''approval'' r \<longrightarrow> (\<exists>a c t. get_or_null ''approval'' r = JDict a \<and>
      get_or_null ''approver_role'' a = JStr ''p01-root-lock-steward'' \<and>
      utc_timestamp (get_or_null ''created_at'' r) = Some c \<and>
      utc_timestamp (get_or_null ''approved_at'' a) = Some t \<and> c \<le> t)) \<and>
    (\<exists>ds. get_or_null ''dependencies'' r = JList (map JDict ds) \<and> ds \<noteq> [] \<and> list_all dependency_ok ds \<and>
      distinct (map (\<lambda>d. (get_or_null ''ecosystem'' d, get_or_null ''name'' d)) ds)) \<and>
    (\<exists>ls. get_or_null ''affected_lockfiles'' r = jstrs ls \<and> ls \<noteq> [] \<and> distinct ls \<and>
      set ls \<subseteq> set lock_paths) \<and>
    keys_containing_secrets ''$'' (JDict r) = []"
  using accepted_request_facts [OF assms] by (intro conjI impI)

section \<open>A concrete request\<close>

text \<open>The pattern of secret words, compiled once for evaluation.\<close>

definition word_re :: "string \<Rightarrow> re \<Rightarrow> re" where
  "word_re w r = foldr (\<lambda>c. seq_re (RSet (CSet False [(c, c)]))) w r"

definition secret_re :: re where
  "secret_re = RAlt (word_re ''password'' REmpty) (RAlt
     (word_re ''private'' (RSeq (RRep (RSet (CSet False [(CHR ''_'', CHR ''_''), (CHR ''-'', CHR ''-'')])) 0 (Some 1))
       (word_re ''key'' REmpty)))
     (RAlt (word_re ''secret'' REmpty) (RAlt (word_re ''token'' REmpty) (word_re ''credential'' REmpty))))"

lemma compile_secret: "re_compile secret_words = Some secret_re"
  by code_simp

lemma secret_key_code [code]: "secret_key k = re_search secret_re (map lower_char k)"
  by (simp add: secret_key_def compile_secret)

definition sample_members :: "string \<Rightarrow> json dict" where
  "sample_members status =
     [(''affected_builds'', jstrs [''control-plane'']), (''affected_lockfiles'', jstrs [''go.mod'']),
      (''approval'', JDict
        [(''approved_at'', JStr ''2026-07-18T10:23:40Z''), (''approved_by'', JStr ''steward''),
         (''approver_role'', JStr ''p01-root-lock-steward''), (''decision_id'', JStr ''decision'')]),
      (''created_at'', JStr ''2026-07-18T10:23:40Z''),
      (''dependencies'', JList [JDict
        [(''direct_runtime_dependency'', JBool True), (''ecosystem'', JStr ''go''),
         (''integrity'', JDict
           [(''algorithm'', JStr ''go-sum''), (''source_url'', JStr ''https://sum.golang.org/lookup/m@v1.2.3''),
            (''value'', JStr ''h1:VhSvgU2jSli8o3AqIEOTJr7rZwAEUVo4E4XhR94Zfr0='')]),
         (''license'', JStr ''MIT''), (''name'', JStr ''m''), (''purpose'', JStr ''Persistence''),
         (''source_url'', JStr ''https://proxy.golang.org/m''), (''version'', JStr ''v1.2.3'')]]),
      (''packet_id'', JStr ''P04''), (''request_id'', JStr ''P04-dep-m''), (''requested_by'', JStr ''p04''),
      (''risk'', JDict
        [(''data_boundary_impact'', JStr ''none''), (''justification'', JStr ''Needed here.''),
         (''security_sensitive'', JBool True)]),
      (''schema_version'', JInt 1), (''status'', JStr status),
      (''validation_requirements'', jstrs requirement_names)]"

lemma sample_request_ok: "document_errors ''P04.yaml'' (JDict (sample_members ''accepted'')) = Inr []"
  by code_simp

theorem accepted_request_contract_witness:
  "dhas ''approval'' (sample_members ''accepted'') \<and>
   (\<exists>ls. get_or_null ''affected_lockfiles'' (sample_members ''accepted'') = jstrs ls \<and> distinct ls)"
proof -
  have "dhas ''approval'' (sample_members ''accepted'')" by (simp add: dhas_def sample_members_def)
  with accepted_request_contract [OF sample_request_ok] show ?thesis by blast
qed

end
