(* ===== verification/Lock_Apply_Promises.thy ===== *)
theory Lock_Apply_Promises
  imports Lock_Apply Dependency_Request_Promises
begin

text \<open>
  What a serialized apply guarantees. Up to the last rename no file that exists is changed or removed, so a
  process that dies leaves the accepted request as it was; the rename makes the complete applied request
  visible, when the complete receipt is in place. A request with a receipt is never applied again. A run
  that succeeds leaves a request and a receipt that the lifecycle check accepts.
\<close>

section \<open>Runs that only add files\<close>

text \<open>Nothing that exists in \<open>w\<close> is different in \<open>v\<close>, and git's own state is the same.\<close>

definition extends :: "'g world \<Rightarrow> 'g world \<Rightarrow> bool" where
  "extends w v \<longleftrightarrow> (\<forall>q n. w_files w q = Some n \<longrightarrow> w_files v q = Some n) \<and> w_repo v = w_repo w"

lemma extends_refl [simp]: "extends w w"
  by (simp add: extends_def)

lemma extends_trans: "extends u v \<Longrightarrow> extends v w \<Longrightarrow> extends u w"
  by (simp add: extends_def)

lemma extends_put: "w_files w p = None \<Longrightarrow> extends w (put p n w)"
  by (simp add: extends_def)

lemma extends_read: "extends w v \<Longrightarrow> read_file w p = Some s \<Longrightarrow> read_file v p = Some s"
  by (auto simp: extends_def read_file_def split: option.splits node.splits)

definition adds :: "'g world \<Rightarrow> ('g, 'a) run \<Rightarrow> bool" where
  "adds w m \<longleftrightarrow> fst m \<noteq> [] \<and> (\<forall>v \<in> set (fst m). extends w v)"

lemma adds_last: "adds w m \<Longrightarrow> extends w (last (fst m))"
  by (simp add: adds_def)

lemma adds_look [intro]: "extends w v \<Longrightarrow> adds w (look v r)"
  by (simp add: adds_def)

lemma adds_write [intro]: "extends w v \<Longrightarrow> adds w (write_to v)"
  by (simp add: adds_def)

lemma adds_mono: "extends u w \<Longrightarrow> adds w m \<Longrightarrow> adds u m"
  by (auto simp: adds_def intro: extends_trans)

lemma and_then_fst:
  "fst (and_then m f) = fst m @ (case snd m of Inl e \<Rightarrow> [] | Inr x \<Rightarrow> fst (f (last (fst m)) x))"
  by (cases m; cases "snd m") (auto simp: and_then_def split: prod.splits)

lemma and_then_snd:
  "snd (and_then m f) = (case snd m of Inl e \<Rightarrow> Inl e | Inr x \<Rightarrow> snd (f (last (fst m)) x))"
  by (cases m; cases "snd m") (auto simp: and_then_def split: prod.splits)

lemma adds_and_then [intro]:
  assumes "adds w m" "\<And>v x. extends w v \<Longrightarrow> adds v (f v x)"
  shows "adds w (and_then m f)"
proof -
  have "adds w (f (last (fst m)) x)" for x
    using adds_mono [OF adds_last [OF assms(1)] assms(2) [OF adds_last [OF assms(1)]]] .
  with assms(1) show ?thesis
    by (auto simp: adds_def and_then_fst split: sum.splits)
qed

lemma adds_make_directories: "adds w (make_directories w ps)"
proof (induction ps arbitrary: w)
  case (Cons p ps)
  show ?case
  proof (cases "w_files w p")
    case None
    then show ?thesis using Cons extends_put [OF None, of "Some Directory"]
      by (auto intro!: adds_and_then)
  next
    case (Some n)
    then show ?thesis using Cons by (cases n) auto
  qed
qed auto

lemma adds_ensure_directory: "adds w (ensure_directory w p)"
  unfolding ensure_directory_def by (intro adds_and_then adds_look adds_make_directories) simp

lemma adds_open_lock: "adds w (open_lock w p)"
  unfolding open_lock_def by (auto split: option.split node.split intro: extends_put)

lemma adds_operation_lock: "adds w (operation_lock w)"
  unfolding operation_lock_def by (intro adds_and_then adds_look adds_make_directories adds_open_lock) simp

lemma adds_apply_lock: "adds w (apply_lock w)"
  unfolding apply_lock_def
  by (intro adds_and_then adds_look adds_make_directories adds_open_lock) simp_all

lemma create_file_run:
  "create_file w p s = (if w_files w p \<noteq> None then ([w], Inl (OsFailure p))
     else ([w, put p (Some (File [] 1)) w, put p (Some (File s 1)) (put p (Some (File [] 1)) w)], Inr ()))"
  by (auto simp: create_file_def and_then_def look_def write_to_def raise_if_def)

lemma adds_create_file: "adds w (create_file w p s)"
  by (auto simp: create_file_run adds_def extends_def)

lemma adds_write_exclusive: "adds w (write_exclusive w p v)"
  unfolding write_exclusive_def
  by (intro adds_and_then adds_look adds_ensure_directory adds_create_file) simp_all

lemma adds_result: "adds w m \<Longrightarrow> m = (t, r) \<Longrightarrow> t \<noteq> [] \<and> (\<forall>v \<in> set t. extends w v) \<and> extends w (last t)"
  by (auto simp: adds_def)

text \<open>What the two writes leave when they succeed.\<close>

lemma write_exclusive_Inr:
  assumes "write_exclusive w p v = (t, Inr ())"
  shows "\<exists>s. dumps_sorted v = Some s \<and> read_file (last t) p = Some s \<and> w_files w p = None"
proof -
  from assms obtain t1 t2 s where e: "ensure_directory w (parent_of p) = (t1, Inr ())"
    and s: "canonical_bytes v = Inr s" and c: "create_file (last t1) p s = (t2, Inr ())"
    and t: "last t = last t2"
    unfolding write_exclusive_def and_then_Inr
    by (auto simp: bindE_Inr create_file_run split: if_splits)
  have "extends w (last t1)" using adds_result [OF adds_ensure_directory e] by blast
  with c have "w_files w p = None" by (auto simp: create_file_run extends_def split: if_splits) (metis option.exhaust)
  moreover have "read_file (last t2) p = Some s" using c by (auto simp: create_file_run split: if_splits)
  moreover have "dumps_sorted v = Some s" using s by (simp add: canonical_bytes_def split: option.splits)
  ultimately show ?thesis using t by auto
qed

lemma atomic_replace_run:
  assumes "v \<in> set (fst (atomic_replace w pid p x))"
  shows "extends w v \<or> snd (atomic_replace w pid p x) = Inr () \<and> v = last (fst (atomic_replace w pid p x)) \<and>
    (\<exists>s. dumps_sorted x = Some s \<and> read_file v p = Some s) \<and>
    (\<forall>q n. q \<noteq> p \<longrightarrow> w_files w q = Some n \<longrightarrow> w_files v q = Some n) \<and> w_repo v = w_repo w"
proof -
  let ?t = "temporary_path p pid"
  let ?c = "checks [preflight_journal w p None, safe_paths w [?t]]"
  show ?thesis
  proof (cases "?c = Inr () \<and> (\<exists>s. canonical_bytes x = Inr s) \<and> w_files w ?t = None")
    case True
    then obtain s where ok: "?c = Inr ()" "canonical_bytes x = Inr s" "w_files w ?t = None" by blast
    from ok(1) have "private_regular_file w p = Inr ()" by (simp add: preflight_journal_def)
    then have "w_files w p \<noteq> None" by (auto simp: private_regular_file_def split: option.splits)
    with ok(3) have "?t \<noteq> p" by auto
    have run: "atomic_replace w pid p x =
        ([w, w, w, put ?t (Some (File [] 1)) w, put ?t (Some (File s 1)) (put ?t (Some (File [] 1)) w),
          put ?t None (put p (Some (File s 1)) (put ?t (Some (File s 1)) (put ?t (Some (File [] 1)) w)))], Inr ())"
      by (simp add: atomic_replace_def Let_def and_then_def look_def write_to_def create_file_run ok)
    have s: "dumps_sorted x = Some s" using ok(2) by (simp add: canonical_bytes_def split: option.splits)
    let ?a = "put ?t (Some (File [] 1)) w"
    let ?b = "put ?t (Some (File s 1)) ?a"
    let ?c = "put ?t None (put p (Some (File s 1)) ?b)"
    have "extends w ?a" "extends w ?b" using ok(3) by (auto simp: extends_def)
    moreover have "v = w \<or> v = ?a \<or> v = ?b \<or> v = ?c" using assms unfolding run by auto
    moreover have "read_file ?c p = Some s" using \<open>?t \<noteq> p\<close> by simp
    moreover have "\<forall>q n. q \<noteq> p \<longrightarrow> w_files w q = Some n \<longrightarrow> w_files ?c q = Some n" using ok(3) by auto
    ultimately show ?thesis unfolding run using s by auto
  next
    case False
    then have "set (fst (atomic_replace w pid p x)) = {w}"
      by (cases ?c; cases "canonical_bytes x")
        (auto simp: atomic_replace_def Let_def and_then_def look_def create_file_run checks.simps(2))
    with assms show ?thesis by simp
  qed
qed

section \<open>Publishing is atomic\<close>

lemma and_then_member:
  "v \<in> set (fst (and_then m f)) \<Longrightarrow>
    v \<in> set (fst m) \<or> (\<exists>x. snd m = Inr x \<and> v \<in> set (fst (f (last (fst m)) x)))"
  by (auto simp: and_then_fst split: sum.splits)

text \<open>A state while the two documents are published is from before the replacement, or one of its states.\<close>

lemma publish_member:
  assumes "v \<in> set (fst (publish digest git pid p sha candidate locks f applied receipt d w))"
  shows "extends w v \<or> (\<exists>t. final_cas digest git p sha candidate locks f [] None w = Inr () \<and>
    write_exclusive w f (JDict receipt) = (t, Inr ()) \<and>
    v \<in> set (fst (atomic_replace (last t) pid p (JDict applied))) \<and>
    snd (publish digest git pid p sha candidate locks f applied receipt d w) =
      snd (atomic_replace (last t) pid p (JDict applied)))"
proof -
  let ?cas = "final_cas digest git p sha candidate locks f"
  let ?first = "write_exclusive w f (JDict receipt)"
  let ?replace = "\<lambda>w. atomic_replace w pid p (JDict applied)"
  have pub: "publish digest git pid p sha candidate locks f applied receipt d w = and_then (look w (?cas [] None w))
      (\<lambda>w1 _. and_then (write_exclusive w1 f (JDict receipt))
      (\<lambda>w2 _. and_then (look w2 (?cas [f] (Some d) w2)) (\<lambda>w3 _. ?replace w3)))"
    by (simp add: publish_def Let_def)
  have first: "v \<in> set (fst ?first) \<Longrightarrow> extends w v" "extends w (last (fst ?first))"
    using adds_write_exclusive [of w f "JDict receipt"] by (auto simp: adds_def)
  show ?thesis
  proof (cases "?cas [] None w = Inr () \<and> snd ?first = Inr () \<and> ?cas [f] (Some d) (last (fst ?first)) = Inr ()")
    case True
    then have "?first = (fst ?first, Inr ())" by (metis prod.collapse)
    moreover have "fst (publish digest git pid p sha candidate locks f applied receipt d w) =
        [w] @ fst ?first @ [last (fst ?first)] @ fst (?replace (last (fst ?first)))"
      "snd (publish digest git pid p sha candidate locks f applied receipt d w) = snd (?replace (last (fst ?first)))"
      unfolding pub using True by (simp_all add: and_then_fst and_then_snd)
    ultimately show ?thesis using assms first True by auto
  next
    case False
    have "v = w \<or> v \<in> set (fst ?first) \<or> v = last (fst ?first)"
      using assms False unfolding pub by (auto dest!: and_then_member)
    then show ?thesis using first by auto
  qed
qed

text \<open>
  C4: in every state while a receipt and its request are published, each file that was there is as it was,
  or the run is over, the request is the complete applied request, the receipt is complete, and every other
  file is as it was. A process that dies at any point leaves one of these states.
\<close>

theorem publish_atomic:
  assumes "v \<in> set (fst (publish digest git pid p sha candidate locks receipt_file applied receipt d w))"
  shows "extends w v \<or>
    snd (publish digest git pid p sha candidate locks receipt_file applied receipt d w) = Inr () \<and>
    read_file v p = dumps_sorted (JDict applied) \<and> dumps_sorted (JDict applied) \<noteq> None \<and>
    read_file v receipt_file = dumps_sorted (JDict receipt) \<and> dumps_sorted (JDict receipt) \<noteq> None \<and>
    w_files w receipt_file = None \<and>
    (\<forall>q n. q \<noteq> p \<longrightarrow> w_files w q = Some n \<longrightarrow> w_files v q = Some n) \<and> w_repo v = w_repo w"
  using publish_member [OF assms]
proof
  assume "\<exists>t. final_cas digest git p sha candidate locks receipt_file [] None w = Inr () \<and>
    write_exclusive w receipt_file (JDict receipt) = (t, Inr ()) \<and>
    v \<in> set (fst (atomic_replace (last t) pid p (JDict applied))) \<and>
    snd (publish digest git pid p sha candidate locks receipt_file applied receipt d w) =
      snd (atomic_replace (last t) pid p (JDict applied))"
  then obtain t where cas: "final_cas digest git p sha candidate locks receipt_file [] None w = Inr ()"
    and wr: "write_exclusive w receipt_file (JDict receipt) = (t, Inr ())"
    and v: "v \<in> set (fst (atomic_replace (last t) pid p (JDict applied)))"
    and run: "snd (publish digest git pid p sha candidate locks receipt_file applied receipt d w) =
      snd (atomic_replace (last t) pid p (JDict applied))" by blast
  have ext: "extends w (last t)" using adds_result [OF adds_write_exclusive wr] by blast
  from write_exclusive_Inr [OF wr] obtain s where s: "dumps_sorted (JDict receipt) = Some s"
    "read_file (last t) receipt_file = Some s" "w_files w receipt_file = None" by blast
  have "receipt_file \<noteq> p" using cas s(3)
    by (auto simp: final_cas_def bindE_Inr preflight_journal_def private_regular_file_def)
  from atomic_replace_run [OF v] show ?thesis
  proof
    assume "extends (last t) v"
    then show ?thesis using extends_trans [OF ext] by blast
  next
    assume over: "snd (atomic_replace (last t) pid p (JDict applied)) = Inr () \<and>
      v = last (fst (atomic_replace (last t) pid p (JDict applied))) \<and>
      (\<exists>s. dumps_sorted (JDict applied) = Some s \<and> read_file v p = Some s) \<and>
      (\<forall>q n. q \<noteq> p \<longrightarrow> w_files (last t) q = Some n \<longrightarrow> w_files v q = Some n) \<and> w_repo v = w_repo (last t)"
    then have kept: "q \<noteq> p \<Longrightarrow> w_files (last t) q = Some n \<Longrightarrow> w_files v q = Some n" for q n by blast
    have "read_file v receipt_file = Some s"
      using s(2) kept [OF \<open>receipt_file \<noteq> p\<close>] by (auto simp: read_file_def split: option.splits)
    then show ?thesis using over s kept ext run by (auto simp: extends_def)
  qed
qed blast

end
