(* ===== verification/Lock_Sealing.thy ===== *)
theory Lock_Sealing
  imports Lock_Apply_Promises
begin

text \<open>
  The apply as a whole: what it has checked when it succeeds, that a request with a receipt is never applied
  again, and that the lifecycle check accepts what a successful apply leaves behind.
\<close>

section \<open>What an apply has checked\<close>

lemma validate_request_Inr:
  "validate_request digest git w p = Inr r \<Longrightarrow>
    \<exists>content. read_file w p = Some content \<and> loads content = Some (JDict r) \<and>
      document_errors (name_of p) (JDict r) = Inr [] \<and> request_lifecycle_errors digest git w p r = Inr [] \<and>
      parent_of p = ''dependency/requests''"
  by (auto simp: validate_request_def request_errors_def
      split: if_splits sum.splits list.splits option.splits json.splits)

lemma admit_request_Inr:
  "admit_request digest git args w = Inr (r, acc) \<Longrightarrow>
    \<exists>content. read_file w (a_request args) = Some content \<and> loads content = Some (JDict r) \<and>
      document_errors (name_of (a_request args)) (JDict r) = Inr [] \<and>
      request_lifecycle_errors digest git w (a_request args) r = Inr [] \<and>
      acc = digest content \<and> a_expected args = acc \<and> get_or_null ''request_id'' r = JStr (a_confirm args)"
  by (auto simp: admit_request_def Let_def bindE_Inr dest!: validate_request_Inr
      split: option.splits if_splits)

lemma check_changes_Inr:
  assumes "check_changes p r changes = Inr locks" "distinct (dkeys changes)"
    "\<forall>(file, code) \<in> set changes. code \<in> {''A'', ''M'', ''D''}" "p \<notin> set lock_paths"
  shows "set (dkeys changes) = set locks \<union> {p} \<and> distinct locks \<and> locks \<noteq> [] \<and> set locks \<subseteq> set lock_paths \<and>
    JStr ` set locks \<subseteq> set (declared_locks r) \<and> (\<forall>(file, code) \<in> set changes. code \<in> {''A'', ''M''})"
proof -
  let ?locks = "sort (filter (\<lambda>p. p \<in> set lock_paths) (dkeys changes))"
  from assms(1) have eq: "locks = ?locks" and unexpected: "\<forall>q \<in> set (dkeys changes). q \<in> set lock_paths \<union> {p}"
    and kept: "\<not> list_ex (\<lambda>(_, status). status = ''D'') changes" and ne: "?locks \<noteq> []"
    and declared: "\<forall>q \<in> set ?locks. JStr q \<in> set (declared_locks r)"
    and req: "dget p changes \<in> {Some ''A'', Some ''M''}"
    by (auto simp: check_changes_def Let_def filter_empty_conv split: if_splits)
  have "p \<in> set (dkeys changes)" using req dget_is_Some [of p changes] by auto
  with eq unexpected have "set (dkeys changes) = set locks \<union> {p}" by auto
  moreover have "\<forall>(file, code) \<in> set changes. code \<in> {''A'', ''M''}"
    using kept assms(3) by (auto simp: list_ex_iff)
  moreover have "distinct locks" using assms(2) eq by simp
  ultimately show ?thesis using eq ne declared by auto
qed

lemma admit_candidate_Inr:
  assumes "admit_candidate digest git args r acc w = Inr (candidate, locks)"
  shows "\<exists>branch head changes.
    run_git git w [''branch'', ''--show-current''] = Inr branch \<and> strip_str branch = ''main'' \<and>
    run_git git w [''rev-parse'', ''HEAD''] = Inr head \<and> candidate = strip_str head \<and>
    get_or_null ''status'' r = JStr ''accepted'' \<and> commit_id (a_base args) \<and> status_paths git w = Inr [] \<and>
    (\<exists>out. run_git git w [''rev-parse'', ''--verify'', a_base args @ ''^{commit}''] = Inr out \<and> strip_str out = a_base args) \<and>
    map_option digest (commit_bytes git w candidate (a_request args)) = Some acc \<and>
    candidate_changes git w (a_base args) candidate = Inr changes \<and>
    check_changes (a_request args) r changes = Inr locks"
  using assms by (auto simp: admit_candidate_def Let_def bindE_Inr split: if_splits)

lemma candidate_changes_Inr:
  assumes "candidate_changes git w base candidate = Inr changes"
  shows "distinct (dkeys changes) \<and> (\<forall>(file, code) \<in> set changes. code \<in> {''A'', ''M'', ''D''})"
proof -
  from assms obtain out where "parse_diff_name_status_z out = Inr changes"
    by (auto simp: candidate_changes_def bindE_Inr Let_def split: if_splits)
  then have "diff_entries [] (split_on nul out) = Inr changes" by (simp only: parse_diff_name_status_z_def)
  from diff_entries_adds [OF this] show ?thesis by auto
qed

text \<open>The candidate is a commit with exactly one parent, the base.\<close>

definition only_child :: "'g world git_program \<Rightarrow> 'g world \<Rightarrow> string \<Rightarrow> string \<Rightarrow> bool" where
  "only_child git w base candidate \<longleftrightarrow> (\<exists>line c.
     run_git git w [''rev-list'', ''--parents'', ''-n'', ''1'', candidate] = Inr line \<and> words_of line = [c, base])"

lemma candidate_changes_child:
  "candidate_changes git w base candidate = Inr changes \<Longrightarrow> only_child git w base candidate"
  by (auto simp: candidate_changes_def only_child_def bindE_Inr Let_def length_Suc_conv numeral_2_eq_2 split: if_splits)

text \<open>
  The state a write may start from: \<open>main\<close> is checked out at the candidate, the worktree differs from it in the
  given paths only, the request still has the accepted bytes, in the worktree as in the candidate, and the root
  locks have the bytes of the candidate.
\<close>

definition on_main :: "'g world git_program \<Rightarrow> 'g world \<Rightarrow> string \<Rightarrow> bool" where
  "on_main git w candidate \<longleftrightarrow> (\<exists>branch head.
     run_git git w [''branch'', ''--show-current''] = Inr branch \<and> strip_str branch = ''main'' \<and>
     run_git git w [''rev-parse'', ''HEAD''] = Inr head \<and> strip_str head = candidate)"

definition settled ::
  "(string \<Rightarrow> string) \<Rightarrow> 'g world git_program \<Rightarrow> 'g world \<Rightarrow> string \<Rightarrow> string \<Rightarrow> string \<Rightarrow> string list \<Rightarrow> string set \<Rightarrow> bool" where
  "settled digest git w request sha candidate locks paths \<longleftrightarrow>
     on_main git w candidate \<and> (\<exists>ps. status_paths git w = Inr ps \<and> set ps = paths) \<and>
     map_option digest (read_file w request) = Some sha \<and>
     map_option digest (commit_bytes git w candidate request) = Some sha \<and>
     (\<forall>p \<in> set locks. \<exists>s. map_option digest (read_file w p) = Some s \<and>
        map_option digest (commit_bytes git w candidate p) = Some s)"

lemma final_cas_settled:
  assumes "final_cas digest git p acc candidate locks f status expected w = Inr ()"
  shows "settled digest git w p acc candidate locks (set status)"
proof -
  from assms have locks: "for_each (lock_unchanged digest git candidate w) locks = Inr ()"
    and rest: "on_main git w candidate \<and> (\<exists>ps. status_paths git w = Inr ps \<and> set ps = set status) \<and>
      map_option digest (read_file w p) = Some acc \<and> map_option digest (commit_bytes git w candidate p) = Some acc"
    by (auto simp: final_cas_def on_main_def bindE_Inr split: if_splits option.splits)
  have "\<exists>s. map_option digest (read_file w q) = Some s \<and> map_option digest (commit_bytes git w candidate q) = Some s"
    if "q \<in> set locks" for q
    using locks that
    by (auto simp: for_each_Inr lock_unchanged_def split: option.splits dest!: bspec [of "set locks" _ q])
  with rest show ?thesis by (simp add: settled_def)
qed

lemma publish_states: "publish digest git pid p acc candidate locks f applied receipt d w = (t, r) \<Longrightarrow> t \<noteq> []"
  by (drule arg_cong [where f = fst]) (auto simp: publish_def Let_def and_then_fst)

text \<open>The stages of a successful apply and the states between them.\<close>

lemma apply_stages:
  assumes "apply_request digest git rv now pid args w = (t, Inr ())"
  shows "\<exists>r acc u candidate locks t' v applied receipt d t2.
    admit_request digest git args w = Inr (r, acc) \<and> extends w u \<and>
    admit_candidate digest git args r acc u = Inr (candidate, locks) \<and>
    admit_receipt args r u = Inr () \<and>
    rv u candidate r = (t', Inr v) \<and>
    seal digest git now args r acc candidate locks v (last t') = Inr (applied, receipt, d) \<and>
    publish digest git pid (a_request args) acc candidate locks (receipt_path r) applied receipt d (last t') =
      (t2, Inr ()) \<and> last t = last t2 \<and> set t2 \<subseteq> set t"
proof -
  note step = iffD1 [OF and_then_Inr]
  from step [OF assms [unfolded apply_request_def]] obtain x ta where
    a: "admit_request digest git args w = Inr x" and
    A: "and_then (operation_lock w) (\<lambda>w1 _. and_then (apply_lock w1) (\<lambda>w2 _.
      and_then (look w2 (bindE (admit_candidate digest git args (fst x) (snd x) w2) (\<lambda>c.
         bindE (admit_receipt args (fst x) w2) (\<lambda>_. Inr c)))) (\<lambda>w3 (candidate, locks).
      and_then (rv w3 candidate (fst x)) (\<lambda>w4 v.
      and_then (look w4 (seal digest git now args (fst x) (snd x) candidate locks v w4))
        (\<lambda>w5 (applied, receipt, d). publish digest git pid (a_request args) (snd x) candidate locks
          (receipt_path (fst x)) applied receipt d w5))))) = (ta, Inr ())" and t: "t = [w] @ ta"
    by (auto simp: split_beta)
  from step [OF A] obtain t1 u1 tb where b: "operation_lock w = (t1, Inr u1)" and
    B: "and_then (apply_lock (last t1)) (\<lambda>w2 _.
      and_then (look w2 (bindE (admit_candidate digest git args (fst x) (snd x) w2) (\<lambda>c.
         bindE (admit_receipt args (fst x) w2) (\<lambda>_. Inr c)))) (\<lambda>w3 (candidate, locks).
      and_then (rv w3 candidate (fst x)) (\<lambda>w4 v.
      and_then (look w4 (seal digest git now args (fst x) (snd x) candidate locks v w4))
        (\<lambda>w5 (applied, receipt, d). publish digest git pid (a_request args) (snd x) candidate locks
          (receipt_path (fst x)) applied receipt d w5)))) = (tb, Inr ())" and ta: "ta = t1 @ tb"
    by blast
  from step [OF B] obtain t1' u2 tc where c: "apply_lock (last t1) = (t1', Inr u2)" and
    C: "and_then (look (last t1') (bindE (admit_candidate digest git args (fst x) (snd x) (last t1')) (\<lambda>c.
         bindE (admit_receipt args (fst x) (last t1')) (\<lambda>_. Inr c)))) (\<lambda>w3 (candidate, locks).
      and_then (rv w3 candidate (fst x)) (\<lambda>w4 v.
      and_then (look w4 (seal digest git now args (fst x) (snd x) candidate locks v w4))
        (\<lambda>w5 (applied, receipt, d). publish digest git pid (a_request args) (snd x) candidate locks
          (receipt_path (fst x)) applied receipt d w5))) = (tc, Inr ())" and tb: "tb = t1' @ tc"
    by blast
  from step [OF C] obtain y td where d: "admit_candidate digest git args (fst x) (snd x) (last t1') = Inr y"
      "admit_receipt args (fst x) (last t1') = Inr ()" and
    D: "and_then (rv (last t1') (fst y) (fst x)) (\<lambda>w4 v.
      and_then (look w4 (seal digest git now args (fst x) (snd x) (fst y) (snd y) v w4))
        (\<lambda>w5 (applied, receipt, d). publish digest git pid (a_request args) (snd x) (fst y) (snd y)
          (receipt_path (fst x)) applied receipt d w5)) = (td, Inr ())" and tc: "tc = [last t1'] @ td"
    by (auto simp: bindE_Inr split_beta)
  from step [OF D] obtain t' v te where e: "rv (last t1') (fst y) (fst x) = (t', Inr v)" and
    E: "and_then (look (last t') (seal digest git now args (fst x) (snd x) (fst y) (snd y) v (last t')))
        (\<lambda>w5 (applied, receipt, d). publish digest git pid (a_request args) (snd x) (fst y) (snd y)
          (receipt_path (fst x)) applied receipt d w5) = (te, Inr ())" and td: "td = t' @ te"
    by blast
  from step [OF E] obtain z t2 where f: "seal digest git now args (fst x) (snd x) (fst y) (snd y) v (last t') = Inr z"
    and g: "publish digest git pid (a_request args) (snd x) (fst y) (snd y) (receipt_path (fst x))
      (fst z) (fst (snd z)) (snd (snd z)) (last t') = (t2, Inr ())" and te: "te = [last t'] @ t2"
    by (auto simp: split_beta)
  have last: "last t = last t2 \<and> set t2 \<subseteq> set t" using t ta tb tc td te publish_states [OF g] by auto
  have "extends w (last t1)" "extends (last t1) (last t1')"
    using adds_result [OF adds_operation_lock b] adds_result [OF adds_apply_lock c] by blast+
  then have "extends w (last t1')" by (rule extends_trans)
  with a d e f g last show ?thesis
    by (intro exI [of _ "fst x"] exI [of _ "snd x"] exI [of _ "last t1'"] exI [of _ "fst y"] exI [of _ "snd y"]
        exI [of _ t'] exI [of _ v] exI [of _ "fst z"] exI [of _ "fst (snd z)"] exI [of _ "snd (snd z)"] exI [of _ t2])
      simp
qed

lemma seal_Inr:
  assumes "seal digest git now args r acc candidate locks v w = Inr (applied, receipt, d)"
  shows "get_or_null ''status'' r = JStr ''accepted'' \<and> applied = dset ''status'' (JStr ''applied'') r \<and>
    (\<exists>ab changes m rb. dumps_sorted (JDict applied) = Some ab \<and>
      mapE (lock_digest digest git w (a_base args) candidate) locks = Inr changes \<and>
      read_file w ''tools/manifest.yaml'' = Some m \<and>
      receipt = sealed_receipt r args acc (digest ab) candidate now changes (digest m) v \<and>
      dumps_sorted (JDict receipt) = Some rb \<and> d = digest rb)"
  using assms
  by (auto simp: seal_def bindE_Inr applied_request_def canonical_bytes_def Let_def split: if_splits option.splits)

lemma atomic_replace_Inr:
  assumes "atomic_replace w pid p x = (t, Inr ())"
  shows "read_file (last t) p = dumps_sorted x \<and> (\<forall>q n. q \<noteq> p \<longrightarrow> w_files w q = Some n \<longrightarrow> w_files (last t) q = Some n) \<and>
    w_repo (last t) = w_repo w"
proof -
  let ?t = "temporary_path p pid"
  from assms obtain s where s: "canonical_bytes x = Inr s" "w_files w ?t = None" "private_regular_file w p = Inr ()"
    and t: "last t = put ?t None (put p (Some (File s 1)) (put ?t (Some (File s 1)) (put ?t (Some (File [] 1)) w)))"
    unfolding atomic_replace_def Let_def and_then_Inr
    by (auto simp: create_file_run preflight_journal_def split: if_splits)
  from s(3) have "w_files w p \<noteq> None" by (auto simp: private_regular_file_def split: option.splits)
  with s(2) have "?t \<noteq> p" by auto
  moreover have "dumps_sorted x = Some s" using s(1) by (simp add: canonical_bytes_def split: option.splits)
  ultimately show ?thesis using s(2) unfolding t by auto
qed

text \<open>Between the two writes the state is compared again, now with the receipt in it.\<close>

lemma publish_between:
  assumes "publish digest git pid p sha candidate locks f applied receipt d w = (t, Inr ())"
  shows "\<exists>v \<in> set t. settled digest git v p sha candidate locks {f} \<and> read_file v f = dumps_sorted (JDict receipt)"
proof -
  from assms obtain t1 where wr: "write_exclusive w f (JDict receipt) = (t1, Inr ())"
    and cas: "final_cas digest git p sha candidate locks f [f] (Some d) (last t1) = Inr ()" and t: "last t1 \<in> set t"
    unfolding publish_def Let_def and_then_Inr by auto
  from final_cas_settled [OF cas] write_exclusive_Inr [OF wr] t show ?thesis by auto
qed

lemma publish_Inr:
  assumes "publish digest git pid p sha candidate locks f applied receipt d w = (t, Inr ())"
  shows "final_cas digest git p sha candidate locks f [] None w = Inr () \<and>
    read_file (last t) p = dumps_sorted (JDict applied) \<and>
    read_file (last t) f = dumps_sorted (JDict receipt) \<and> w_repo (last t) = w_repo w \<and>
    (\<forall>q n. q \<noteq> p \<longrightarrow> w_files w q = Some n \<longrightarrow> w_files (last t) q = Some n)"
proof -
  from assms obtain t1 t2 where cas: "final_cas digest git p sha candidate locks f [] None w = Inr ()"
    and wr: "write_exclusive w f (JDict receipt) = (t1, Inr ())"
    and rep: "atomic_replace (last t1) pid p (JDict applied) = (t2, Inr ())" and t: "\<exists>t3. t = t3 @ t2"
    unfolding publish_def Let_def and_then_Inr by auto
  have "t2 \<noteq> []" using rep
    by (auto dest!: arg_cong [where f = fst] simp: atomic_replace_def Let_def and_then_fst)
  with t have last: "last t = last t2" by auto
  from write_exclusive_Inr [OF wr] have r: "read_file (last t1) f = dumps_sorted (JDict receipt)"
    "dumps_sorted (JDict receipt) \<noteq> None" "w_files w f = None" by auto
  have ext: "extends w (last t1)" using adds_result [OF adds_write_exclusive wr] by blast
  have "f \<noteq> p" using cas r(3) by (auto simp: final_cas_def bindE_Inr preflight_journal_def private_regular_file_def)
  then show ?thesis
    using cas atomic_replace_Inr [OF rep] r ext unfolding last
    by (auto simp: extends_def read_file_def split: option.splits node.splits)
qed

section \<open>What a successful apply has done\<close>

lemma request_no_lock: "parent_of p = ''dependency/requests'' \<Longrightarrow> p \<notin> set lock_paths"
proof
  assume "parent_of p = ''dependency/requests''" "p \<in> set lock_paths"
  moreover have "list_all (\<lambda>p. parent_of p \<noteq> ''dependency/requests'') lock_paths" by code_simp
  ultimately show False by (simp add: list_all_iff)
qed

lemma admit_request_directory:
  "admit_request digest git args w = Inr x \<Longrightarrow> parent_of (a_request args) = ''dependency/requests''"
  by (auto simp: admit_request_def Let_def bindE_Inr dest!: validate_request_Inr)

text \<open>
  C3: an apply succeeds only for the confirmed bytes of one valid accepted request. When it was admitted \<open>main\<close>
  was checked out and clean, its HEAD held exactly these bytes and was the only child of the given base, which
  resolves to itself, and that commit adds or modifies that request and declared root locks, at least one. Branch,
  HEAD, worktree, request and locks are found the same before the receipt is written, and again, with the receipt
  as the only new path, before the request is replaced. It leaves the applied request and a receipt that binds
  both digests, the commits and the validations, and every other file as the validations left it.
\<close>

theorem apply_seals:
  assumes "apply_request digest git rv now pid args w = (t, Inr ())"
  shows "\<exists>content r u candidate changes locks t' v entries m ab.
    read_file w (a_request args) = Some content \<and> digest content = a_expected args \<and>
    loads content = Some (JDict r) \<and> document_errors (name_of (a_request args)) (JDict r) = Inr [] \<and>
    get_or_null ''status'' r = JStr ''accepted'' \<and> get_or_null ''request_id'' r = JStr (a_confirm args) \<and>
    extends w u \<and> on_main git u candidate \<and> status_paths git u = Inr [] \<and> w_files u (receipt_path r) = None \<and>
    map_option digest (commit_bytes git u candidate (a_request args)) = Some (a_expected args) \<and>
    (\<exists>out. run_git git u [''rev-parse'', ''--verify'', a_base args @ ''^{commit}''] = Inr out \<and> strip_str out = a_base args) \<and>
    only_child git u (a_base args) candidate \<and>
    candidate_changes git u (a_base args) candidate = Inr changes \<and>
    set (dkeys changes) = set locks \<union> {a_request args} \<and> locks \<noteq> [] \<and>
    set locks \<subseteq> set lock_paths \<and> JStr ` set locks \<subseteq> set (declared_locks r) \<and>
    (\<forall>(file, code) \<in> set changes. code \<in> {''A'', ''M''}) \<and>
    rv u candidate r = (t', Inr v) \<and>
    settled digest git (last t') (a_request args) (a_expected args) candidate locks {} \<and>
    (\<exists>between \<in> set t. settled digest git between (a_request args) (a_expected args) candidate locks {receipt_path r} \<and>
      read_file between (receipt_path r) = read_file (last t) (receipt_path r)) \<and>
    read_file (last t) (a_request args) = Some ab \<and>
    dumps_sorted (JDict (dset ''status'' (JStr ''applied'') r)) = Some ab \<and>
    read_file (last t) (receipt_path r) =
      dumps_sorted (JDict (sealed_receipt r args (a_expected args) (digest ab) candidate now entries (digest m) v)) \<and>
    read_file (last t') ''tools/manifest.yaml'' = Some m \<and>
    mapE (lock_digest digest git (last t') (a_base args) candidate) locks = Inr entries \<and>
    (\<forall>q n. q \<noteq> a_request args \<longrightarrow> w_files (last t') q = Some n \<longrightarrow> w_files (last t) q = Some n)"
proof -
  from apply_stages [OF assms] obtain r acc u candidate locks t' v applied receipt d t2 where
    s: "admit_request digest git args w = Inr (r, acc)" "extends w u"
      "admit_candidate digest git args r acc u = Inr (candidate, locks)" "admit_receipt args r u = Inr ()"
      "rv u candidate r = (t', Inr v)"
      "seal digest git now args r acc candidate locks v (last t') = Inr (applied, receipt, d)"
      "publish digest git pid (a_request args) acc candidate locks (receipt_path r) applied receipt d (last t') =
        (t2, Inr ())" and last: "last t = last t2" and states: "set t2 \<subseteq> set t" by blast
  from admit_request_Inr [OF s(1)] obtain content where c: "read_file w (a_request args) = Some content"
    "loads content = Some (JDict r)" "document_errors (name_of (a_request args)) (JDict r) = Inr []"
    "acc = digest content" "a_expected args = acc" "get_or_null ''request_id'' r = JStr (a_confirm args)" by blast
  from admit_candidate_Inr [OF s(3)] obtain changes where k: "status_paths git u = Inr []"
    "candidate_changes git u (a_base args) candidate = Inr changes"
    "check_changes (a_request args) r changes = Inr locks" "on_main git u candidate"
    "map_option digest (commit_bytes git u candidate (a_request args)) = Some acc"
    "\<exists>out. run_git git u [''rev-parse'', ''--verify'', a_base args @ ''^{commit}''] = Inr out \<and> strip_str out = a_base args"
    unfolding on_main_def by blast
  from candidate_changes_Inr [OF k(2)] check_changes_Inr [OF k(3) _ _ request_no_lock [OF admit_request_directory [OF s(1)]]]
  have ch: "set (dkeys changes) = set locks \<union> {a_request args} \<and> distinct locks \<and> locks \<noteq> [] \<and>
    set locks \<subseteq> set lock_paths \<and> JStr ` set locks \<subseteq> set (declared_locks r) \<and>
    (\<forall>(file, code) \<in> set changes. code \<in> {''A'', ''M''})" by blast
  from seal_Inr [OF s(6)] obtain ab entries m where e: "get_or_null ''status'' r = JStr ''accepted''"
    "applied = dset ''status'' (JStr ''applied'') r" "dumps_sorted (JDict applied) = Some ab"
    "mapE (lock_digest digest git (last t') (a_base args) candidate) locks = Inr entries"
    "read_file (last t') ''tools/manifest.yaml'' = Some m"
    "receipt = sealed_receipt r args acc (digest ab) candidate now entries (digest m) v" by blast
  have none: "w_files u (receipt_path r) = None" using s(4) by (simp add: admit_receipt_def receipt_absent_def)
  note p = publish_Inr [OF s(7)]
  have first: "settled digest git (last t') (a_request args) acc candidate locks {}"
    using final_cas_settled [OF p [THEN conjunct1]] by simp
  have second: "\<exists>between \<in> set t. settled digest git between (a_request args) acc candidate locks {receipt_path r} \<and>
      read_file between (receipt_path r) = read_file (last t) (receipt_path r)"
    using publish_between [OF s(7)] p states unfolding last by auto
  show ?thesis using p c k candidate_changes_child [OF k(2)] ch e s(2,5) none first second unfolding last
    by (intro exI [of _ content] exI [of _ r] exI [of _ u] exI [of _ candidate] exI [of _ changes]
        exI [of _ locks] exI [of _ t'] exI [of _ v] exI [of _ entries] exI [of _ m] exI [of _ ab]) simp
qed

section \<open>A receipt is final\<close>

text \<open>A run that fails and only adds files.\<close>

definition fails :: "'g world \<Rightarrow> ('g, 'a) run \<Rightarrow> bool" where
  "fails w m \<longleftrightarrow> adds w m \<and> (\<exists>e. snd m = Inl e)"

lemma fails_and_then:
  assumes "adds w m" "\<And>v x. extends w v \<Longrightarrow> fails w (f v x)"
  shows "fails w (and_then m f)"
  using assms(1) assms(2) [OF adds_last [OF assms(1)]]
  by (auto simp: fails_def adds_def and_then_fst and_then_snd split: sum.splits)

lemma admit_receipt_present: "w_files w (receipt_path r) \<noteq> None \<Longrightarrow> admit_receipt args r w \<noteq> Inr ()"
  by (simp add: admit_receipt_def receipt_absent_def)

text \<open>
  C6: once the receipt of a request exists, whatever its content, an apply of that request fails and leaves
  every existing file as it was: a run that died after its receipt is never completed or repeated.
\<close>

theorem receipt_is_final:
  assumes "read_file w (a_request args) = Some content" and "loads content = Some (JDict r)"
    and "w_files w (receipt_path r) \<noteq> None"
  shows "(\<exists>e. snd (apply_request digest git rv now pid args w) = Inl e) \<and>
    (\<forall>v \<in> set (fst (apply_request digest git rv now pid args w)). extends w v)"
proof (cases "admit_request digest git args w")
  case (Inl e)
  then show ?thesis by (simp add: apply_request_def)
next
  case (Inr x)
  obtain r' acc where x: "x = (r', acc)" by (cases x)
  from admit_request_Inr [OF Inr [unfolded x]] assms(1,2) have r': "r' = r" by auto
  let ?step = "\<lambda>w2. bindE (admit_candidate digest git args r acc w2) (\<lambda>c. bindE (admit_receipt args r w2) (\<lambda>_. Inr c))"
  have stop: "\<exists>e. ?step u = Inl e" if u: "extends w u" for u
  proof -
    from u assms(3) have "w_files u (receipt_path r) \<noteq> None" by (auto simp: extends_def)
    then have "admit_receipt args r u \<noteq> Inr ()" by (rule admit_receipt_present)
    then obtain e where "admit_receipt args r u = Inl e" by (cases "admit_receipt args r u") auto
    then show ?thesis by (cases "admit_candidate digest git args r acc u") auto
  qed
  let ?rest = "\<lambda>u. and_then (look u (?step u)) (\<lambda>w3 (candidate, locks). and_then (rv w3 candidate r) (\<lambda>w4 v.
     and_then (look w4 (seal digest git now args r acc candidate locks v w4)) (\<lambda>w5 (applied, receipt, d).
     publish digest git pid (a_request args) acc candidate locks (receipt_path r) applied receipt d w5)))"
  have run: "apply_request digest git rv now pid args w =
      and_then (look w (Inr (r, acc))) (\<lambda>w0 _. and_then (operation_lock w0) (\<lambda>w1 _. and_then (apply_lock w1) (\<lambda>w2 _. ?rest w2)))"
    unfolding apply_request_def Inr x r' by (simp add: and_then_def look_def)
  have rest: "fails w (?rest u)" if "extends w u" for u
    using stop [OF that] that by (auto simp: fails_def adds_def)
  have "fails w (and_then (look w (Inr (r, acc))) (\<lambda>w0 _. and_then (operation_lock w0) (\<lambda>w1 _. and_then (apply_lock w1) (\<lambda>w2 _. ?rest w2))))"
    by (intro fails_and_then [OF adds_look] fails_and_then [OF adds_mono [OF _ adds_operation_lock]]
        fails_and_then [OF adds_mono [OF _ adds_apply_lock]] rest) simp_all
  then show ?thesis unfolding run by (simp add: fails_def adds_def)
qed

end
