(* ===== verification/Request_Resubmission.thy ===== *)
theory Request_Resubmission
  imports Dependency_Request_Promises
begin

text \<open>
  A request that the document check accepts is accepted again after its status moves from \<open>accepted\<close> to
  \<open>applied\<close> and its text is written and read: no check depends on the order of members, and the two states
  have the same requirements.
\<close>

section \<open>Documents with sorted members\<close>

definition sorted_members :: "json dict \<Rightarrow> json dict" where
  "sorted_members d = sort_items (map (\<lambda>(k, v). (k, sort_keys v)) d)"

lemma sort_keys_members: "sort_keys (JDict d) = JDict (sorted_members d)"
  by (simp add: sorted_members_def)

lemma dkeys_sorted [simp]: "set (dkeys (sorted_members d)) = set (dkeys d)"
  by (simp add: sorted_members_def dkeys_sort_items)

lemma keys_are_sorted [simp]: "keys_are ks (sorted_members d) = keys_are ks d"
  by (simp add: keys_are_def)

lemma get_sorted: "distinct (dkeys d) \<Longrightarrow> get_or_null k (sorted_members d) = sort_keys (get_or_null k d)"
  by (simp add: get_or_null_def sorted_members_def dget_sort_items dget_map_snd split: option.split)

lemma get_or_empty_sorted: "distinct (dkeys d) \<Longrightarrow> get_or_empty_str k (sorted_members d) = sort_keys (get_or_empty_str k d)"
  by (simp add: get_or_empty_str_def sorted_members_def dget_sort_items dget_map_snd split: option.split)

lemma member_wf: "json_wf (JDict d) \<Longrightarrow> json_wf (get_or_null k d)"
  by (auto simp: get_or_null_def list_all_iff dest: dget_mem split: option.split)

text \<open>The tests of single values.\<close>

lemma sort_keys_str [simp]: "sort_keys v = JStr s \<longleftrightarrow> v = JStr s"
  by (cases v) simp_all

lemma sorted_empty [simp]: "sort_items (map f d) = [] \<longleftrightarrow> d = []"
  by (metis length_0_conv length_map length_sort sort_items_def)

lemma sorted_value:
  "packet_in_range (sort_keys v) = packet_in_range v" "namespaced (sort_keys v) p = namespaced v p"
  "has_text (sort_keys v) = has_text v" "nonempty_str (sort_keys v) = nonempty_str v"
  "utc_timestamp (sort_keys v) = utc_timestamp v" "py_str (sort_keys v) = py_str v"
  "exact_version (sort_keys v) = exact_version v" "min_text n (sort_keys v) = min_text n v"
  "is_bool (sort_keys v) = is_bool v" "hashable (sort_keys v) = hashable v" "truthy (sort_keys v) = truthy v"
  "py_eq (sort_keys v) (JInt m) = py_eq v (JInt m)"
  by (cases v; simp add: packet_in_range_def namespaced_def has_text_def nonempty_str_def utc_timestamp_def
      exact_version_def min_text_def is_bool_def hashable_def)+

lemma sorted_names: "in_names (sort_keys v) names = in_names v names"
  unfolding in_names_def sorted_value by (cases v) auto

lemma sorted_https: "is_https (sort_keys v) = is_https v"
  unfolding is_https_def sorted_value by (cases v) simp_all

lemma sorted_integrity_value: "integrity_value_valid (sort_keys a) (sort_keys v) = integrity_value_valid a v"
  by (cases a; cases v) (simp_all add: integrity_value_valid_def)

lemma sorted_namespaced: "namespaced v (sort_keys p) = namespaced v p"
  by (cases v) (auto simp: namespaced_def)

lemmas sorted_same = sorted_value sorted_names sorted_https sorted_integrity_value sorted_namespaced

lemma jstrs_sorted: "\<forall>x \<in> set xs. \<exists>s. x = JStr s \<Longrightarrow> map sort_keys xs = xs"
  by (induction xs) auto

section \<open>The parts of the check\<close>

lemma integrity_sorted: "json_wf v \<Longrightarrow> integrity_errors i (sort_keys v) = integrity_errors i v"
  by (cases v)
    (simp_all add: integrity_errors_def sort_keys_members get_sorted sorted_same del: sort_keys.simps(2))

lemma dependency_sorted: "json_wf v \<Longrightarrow> dependency_errors i (sort_keys v) = dependency_errors i v"
proof (cases v)
  case (JDict d)
  assume wf: "json_wf v"
  then have d: "distinct (dkeys d)" by (simp add: JDict)
  have "integrity_errors i (sort_keys (get_or_null ''integrity'' d)) = integrity_errors i (get_or_null ''integrity'' d)"
    by (rule integrity_sorted, rule member_wf) (use wf JDict in simp)
  then show ?thesis
    using d by (simp add: JDict dependency_errors_def sort_keys_members get_sorted get_or_empty_sorted sorted_same
        del: sort_keys.simps(2))
qed (simp_all add: dependency_errors_def)

lemma risk_sorted:
  assumes "json_wf v"
  shows "risk_errors (sort_keys v) = risk_errors v"
proof (cases v)
  case (JDict d)
  then have d: "distinct (dkeys d)" using assms by simp
  have just: "(case sort_keys u of JStr s \<Rightarrow> 8 \<le> length (strip_str s) | _ \<Rightarrow> False) =
      (case u of JStr s \<Rightarrow> 8 \<le> length (strip_str s) | _ \<Rightarrow> False)" for u
    by (cases u) simp_all
  show ?thesis
    using d by (simp add: JDict risk_errors_def sort_keys_members get_sorted sorted_same just del: sort_keys.simps(2))
qed (simp_all add: risk_errors_def)

lemma lists_sorted:
  "lockfile_errors v = Inr [] \<Longrightarrow> sort_keys v = v"
  "build_errors v = Inr [] \<Longrightarrow> sort_keys v = v"
  "requirement_errors v = Inr [] \<Longrightarrow> sort_keys v = v"
proof -
  show "sort_keys v = v" if "lockfile_errors v = Inr []"
    using lockfile_errors_Nil [OF that] by (auto simp: jstrs_sorted)
  show "sort_keys v = v" if b: "build_errors v = Inr []"
  proof (cases v)
    case (JList xs)
    then have "\<forall>x \<in> set xs. has_text x" using b by (auto simp: build_errors_def list_all_iff split: if_splits)
    moreover have "has_text x \<Longrightarrow> \<exists>s. x = JStr s" for x by (cases x) (simp_all add: has_text_def)
    ultimately have "\<forall>x \<in> set xs. \<exists>s. x = JStr s" by blast
    then show ?thesis using JList jstrs_sorted by simp
  qed (use b in \<open>simp_all add: build_errors_def\<close>)
  show "sort_keys v = v" if r: "requirement_errors v = Inr []"
  proof (cases v)
    case (JList xs)
    then have "set xs = JStr ` set requirement_names"
      using r by (auto simp: requirement_errors_def when_hashable_def split: if_splits)
    then have "\<forall>x \<in> set xs. \<exists>s. x = JStr s" by blast
    then show ?thesis using JList jstrs_sorted by simp
  qed (use r in \<open>simp_all add: requirement_errors_def\<close>)
qed

lemma identities_sorted:
  "list_all json_wf xs \<Longrightarrow>
    identities (map sort_keys xs) = map (\<lambda>(e, n). (sort_keys e, sort_keys n)) (identities xs)"
  by (induction xs rule: identities.induct)
    (simp_all add: sort_keys_members get_sorted del: sort_keys.simps(2))

lemma dependencies_sorted:
  assumes e: "dependencies_errors v = Inr []" and wf: "json_wf v"
  shows "dependencies_errors (sort_keys v) = Inr []"
proof -
  from e obtain xs where v: "v = JList xs" by (cases v) (simp_all add: dependencies_errors_def)
  from dependencies_errors_Nil [OF e] v obtain ds where ds: "xs = map JDict ds" "list_all dependency_ok ds" by auto
  have ids: "identities (map JDict es) = map (\<lambda>d. (get_or_null ''ecosystem'' d, get_or_null ''name'' d)) es" for es
    by (induction es) simp_all
  have "\<forall>p \<in> set (identities xs). (\<lambda>(e, n). (sort_keys e, sort_keys n)) p = p"
    using ds(2) by (auto simp: ds(1) ids list_all_iff dependency_ok_def)
  then have same: "identities (map sort_keys xs) = identities xs"
    using identities_sorted [of xs] wf v by (simp add: map_idI)
  have "dependency_errors i (sort_keys x) = dependency_errors i x" if "x \<in> set xs" for i x
    using that wf v by (intro dependency_sorted) (simp add: list_all_iff)
  then have "dependency_errors i y = Inr []" if "(i, y) \<in> set (zip [0..<length xs] (map sort_keys xs))" for i y
  proof -
    from that obtain x where x: "(i, x) \<in> set (zip [0..<length xs] xs)" "y = sort_keys x" by (auto simp: zip_map2)
    then have "dependency_errors i x = Inr []" using e by (auto simp: v dependencies_errors_def gather_Nil split: if_splits)
    then show ?thesis using \<open>\<And>x i. x \<in> set xs \<Longrightarrow> dependency_errors i (sort_keys x) = dependency_errors i x\<close> x
      by (auto dest: set_zip_rightD)
  qed
  then show ?thesis
    using e by (auto simp: v dependencies_errors_def gather_Nil repeated_identities_def same split: if_splits)
qed

section \<open>Secrets\<close>

fun secretless :: "json \<Rightarrow> bool" where
  "secretless (JDict d) = list_all (\<lambda>(k, v). \<not> secret_key k \<and> secretless v) d"
| "secretless (JList xs) = list_all secretless xs"
| "secretless v = True"

lemma secretless_iff: "keys_containing_secrets l v = [] \<longleftrightarrow> secretless v"
proof (induction l v rule: keys_containing_secrets.induct)
  case (1 l d)
  then show ?case by (auto simp: list_all_iff)
next
  case (2 l xs)
  have "(\<forall>(i, x) \<in> set ps. secretless x) \<longleftrightarrow> (\<forall>x \<in> set (map snd ps). secretless x)" for ps :: "(nat \<times> json) list"
    by auto
  from this [of "zip [0..<length xs] xs"]
  have "(\<forall>(i, x) \<in> set (zip [0..<length xs] xs). secretless x) \<longleftrightarrow> (\<forall>x \<in> set xs. secretless x)" by simp
  with 2 show ?case by (auto simp: list_all_iff)
qed simp_all

lemma secretless_sorted: "secretless (sort_keys v) = secretless v"
  by (induction v) (auto simp: list_all_iff snds.simps)

section \<open>The request\<close>

lemma sort_Nil [simp]: "sort xs = [] \<longleftrightarrow> xs = []"
  by (metis length_0_conv length_sort)

abbreviation applied_members :: "json dict \<Rightarrow> json dict" where
  "applied_members r \<equiv> sorted_members (dset ''status'' (JStr ''applied'') r)"

lemma applied_get:
  "distinct (dkeys r) \<Longrightarrow> k \<noteq> ''status'' \<Longrightarrow> get_or_null k (applied_members r) = sort_keys (get_or_null k r)"
  "distinct (dkeys r) \<Longrightarrow> get_or_null ''status'' (applied_members r) = JStr ''applied''"
  by (simp_all add: get_sorted distinct_dset) (simp_all add: get_or_null_def dget_dset)

lemma approval_sorted:
  assumes "distinct (dkeys r)" "json_wf (get_or_null ''approval'' r)"
  shows "approval_errors (applied_members r) = approval_errors r"
proof -
  have created: "utc_timestamp (get_or_null ''created_at'' (applied_members r)) = utc_timestamp (get_or_null ''created_at'' r)"
    using assms(1) by (simp add: applied_get sorted_same)
  show ?thesis
    using assms unfolding approval_errors_def created
  by (cases "get_or_null ''approval'' r")
    (simp_all add: applied_get sort_keys_members get_sorted sorted_same del: sort_keys.simps(2))
qed

lemma applied_document_ok:
  assumes ok: "document_errors name (JDict r) = Inr []" and accepted: "get_or_null ''status'' r = JStr ''accepted''"
    and wf: "json_wf (JDict r)"
  shows "document_errors name (JDict (applied_members r)) = Inr []"
proof -
  let ?r = "applied_members r"
  have r: "distinct (dkeys r)" using wf by simp
  note get = applied_get [OF r] member_wf [OF wf]
  from ok have parts: "identity_errors name r = Inr []" "lifecycle_field_errors r = Inr []"
    "dependencies_errors (get_or_null ''dependencies'' r) = Inr []" "lockfile_errors (get_or_null ''affected_lockfiles'' r) = Inr []"
    "build_errors (get_or_null ''affected_builds'' r) = Inr []"
    "requirement_errors (get_or_null ''validation_requirements'' r) = Inr []" "risk_errors (get_or_null ''risk'' r) = Inr []"
    "keys_containing_secrets ''$'' (JDict r) = []"
    by (simp_all add: document_errors_def gather_Nil Let_def del: keys_containing_secrets.simps)
  have "dget ''status'' r \<noteq> None" using accepted by (auto simp: get_or_null_def split: option.splits)
  then have keys: "set (dkeys (dset ''status'' (JStr ''applied'') r)) = set (dkeys r)"
    using dget_None [of "''status''" r] by (auto simp: dkeys_dset)
  have has: "dhas k ?r = dhas k r" for k by (simp add: dhas_iff keys)
  have "identity_errors name ?r = Inr []"
    using parts(1) by (simp add: identity_errors_def gather_Nil Let_def keys get sorted_same filter_empty_conv)
  moreover have "lifecycle_field_errors ?r = Inr []"
    using parts(2) accepted
    by (simp add: lifecycle_field_errors_def gather_Nil Let_def get has statuses_def approval_sorted [OF r get(3)])
  moreover have "secretless (JDict ?r)"
  proof -
    have "secretless (JDict (dset ''status'' (JStr ''applied'') r))"
      using parts(8) \<open>dget ''status'' r \<noteq> None\<close> unfolding secretless_iff
      by (auto simp: list_all_iff dest!: set_dset dest: dget_mem)
    then show ?thesis by (simp only: sort_keys_members [symmetric] secretless_sorted)
  qed
  moreover note dependencies_sorted [OF parts(3) get(3)] parts(4-7) lists_sorted(1) [OF parts(4)] lists_sorted(2) [OF parts(5)]
    lists_sorted(3) [OF parts(6)] risk_sorted [OF get(3)]
  ultimately show ?thesis
    by (simp add: document_errors_def gather_Nil Let_def get secretless_iff del: keys_containing_secrets.simps secretless.simps)
qed

end
