(* ===== verification/Lock_Validation.thy ===== *)
theory Lock_Validation
  imports Lock_Sealing Request_Resubmission
begin

text \<open>
  The writer of a receipt and its checker agree: what a successful apply leaves behind is a valid request. The two are separate programs over the same documents (\<open>apply_request\<close> builds the receipt,
  \<open>_receipt_validation_errors\<close> re-reads and re-derives each of its members), and the checker runs on the text,
  so that the members of every object are sorted by then.

  What this rests on is stated as hypotheses about the parameters: that git reads of named commits depend on
  the repository only, that a clean work tree has the committed tool manifest, that HEAD is a commit
  identifier, and that the recorded validations are what the checker expects of them.
\<close>

section \<open>Documents after a round trip\<close>

lemma py_eq_refl: "json_wf v \<Longrightarrow> float_free v \<Longrightarrow> py_eq v v"
proof (induction v)
  case (JList xs)
  then show ?case by (auto simp: list_all_iff zip_same_conv_map)
next
  case (JDict d)
  have "py_eq v v" if "(k, v) \<in> set d" for k v
  proof (rule JDict.IH [OF that])
    show "v \<in> Basic_BNFs.snds (k, v)" by (simp add: snds.simps)
    show "json_wf v" "float_free v" using that JDict.prems by (auto simp: list_all_iff)
  qed
  moreover have "dget k d = Some v" if "(k, v) \<in> set d" for k v
    using dget_distinct_mem [OF _ that] JDict.prems by simp
  ultimately show ?case by (auto simp: list_all_iff)
qed simp_all

lemma member_float_free: "float_free (JDict d) \<Longrightarrow> float_free (get_or_null k d)"
  by (auto simp: get_or_null_def list_all_iff dest: dget_mem split: option.split)

section \<open>The parts of the check\<close>

text \<open>The receipt that \<open>seal\<close> builds, as the checker reads it.\<close>

lemma sealed_distinct: "distinct (dkeys (sealed_receipt r args acc ab candidate now entries m v))"
  by (simp add: sealed_receipt_def)

lemma sealed_get:
  "get_or_null ''schema_version'' (sealed_receipt r args acc ab candidate now entries m v) = JInt 1"
  "get_or_null ''receipt_kind'' (sealed_receipt r args acc ab candidate now entries m v) = JStr receipt_kind"
  "get_or_null ''status'' (sealed_receipt r args acc ab candidate now entries m v) = JStr ''complete''"
  "get_or_null ''request_id'' (sealed_receipt r args acc ab candidate now entries m v) = get_or_null ''request_id'' r"
  "get_or_null ''packet_id'' (sealed_receipt r args acc ab candidate now entries m v) = get_or_null ''packet_id'' r"
  "get_or_null ''request_path'' (sealed_receipt r args acc ab candidate now entries m v) = JStr (a_request args)"
  "get_or_null ''accepted_request_sha256'' (sealed_receipt r args acc ab candidate now entries m v) = JStr acc"
  "get_or_null ''applied_request_sha256'' (sealed_receipt r args acc ab candidate now entries m v) = JStr ab"
  "get_or_null ''base_commit'' (sealed_receipt r args acc ab candidate now entries m v) = JStr (a_base args)"
  "get_or_null ''candidate_commit'' (sealed_receipt r args acc ab candidate now entries m v) = JStr candidate"
  "get_or_null ''completed_at'' (sealed_receipt r args acc ab candidate now entries m v) = JStr now"
  "get_or_null ''root_lock_changes'' (sealed_receipt r args acc ab candidate now entries m v) = JList entries"
  "get_or_null ''tool_manifest_sha256'' (sealed_receipt r args acc ab candidate now entries m v) = JStr m"
  "get_or_null ''validations'' (sealed_receipt r args acc ab candidate now entries m v) = v"
  "get_or_null ''approval'' (sealed_receipt r args acc ab candidate now entries m v) = get_or_null ''approval'' r"
  by (simp_all add: sealed_receipt_def get_or_null_def)

abbreviation read_back :: "json dict \<Rightarrow> apply_args \<Rightarrow> string \<Rightarrow> string \<Rightarrow> string \<Rightarrow> string \<Rightarrow> json list \<Rightarrow> string \<Rightarrow> json \<Rightarrow> json dict" where
  "read_back r args acc ab candidate now entries m v \<equiv>
     sorted_members (sealed_receipt r args acc ab candidate now entries m v)"

lemmas read_back_get = get_sorted [OF sealed_distinct] sealed_get

lemma sealed_keys: "keys_are receipt_keys (sealed_receipt r args acc ab candidate now entries m v)"
  by (simp add: keys_are_def receipt_keys_def sealed_receipt_def)

lemma header_ok:
  assumes "distinct (dkeys r)" "get_or_null ''request_id'' r = JStr i" "get_or_null ''packet_id'' r = JStr k"
  shows "header_errors (a_request args) (applied_members r) (read_back r args acc ab candidate now entries m v) = Inr []"
  using assms
  by (simp add: header_errors_def gather_Nil read_back_get applied_get sealed_keys)

lemma hash_string: "lower_hex 64 s \<Longrightarrow> digest_string (JStr s)"
  using full_match_hash [of s] by (simp add: digest_string_def hash_pattern_def)

lemma dumps_sorted_again: "dumps_sorted v = Some t \<Longrightarrow> dumps_sorted (sort_keys v) = Some t"
  using float_free_sort_keys [of v] by (auto simp: dumps_sorted_def split: if_splits)

lemma binding_ok:
  assumes r: "distinct (dkeys r)" "json_wf (get_or_null ''approval'' r)" "float_free (get_or_null ''approval'' r)"
    and bytes: "dumps_sorted (JDict (dset ''status'' (JStr ''applied'') r)) = Some bytes"
    and acc: "lower_hex 64 acc" "acc \<noteq> digest bytes" and now: "utc_timestamp (JStr now) \<noteq> None"
    and commits: "commit_id (a_base args)" "commit_id candidate"
  shows "binding_errors digest (applied_members r) bytes
    (read_back r args acc (digest bytes) candidate now entries m v) = Inr []"
proof -
  have "dumps_sorted (JDict (applied_members r)) = Some bytes"
    using dumps_sorted_again [OF bytes] by (simp only: sort_keys_members)
  moreover have "py_eq (sort_keys (get_or_null ''approval'' r)) (sort_keys (get_or_null ''approval'' r))"
    by (intro py_eq_refl json_wf_sort_keys float_free_sort_keys r)
  ultimately show ?thesis
    using r acc now commits
    by (simp add: binding_errors_def gather_Nil read_back_get applied_get member_digest_def hash_string commit_text_def)
qed

section \<open>The lock changes\<close>

text \<open>The entry of a lock in the receipt, with its members sorted.\<close>

definition lock_entry ::
  "(string \<Rightarrow> string) \<Rightarrow> 'g world git_program \<Rightarrow> 'g world \<Rightarrow> string \<Rightarrow> string \<Rightarrow> string \<Rightarrow> json" where
  "lock_entry digest git w base candidate p = JDict
     [(''after_sha256'', commit_digest digest (commit_bytes git w candidate p)),
      (''before_sha256'', commit_digest digest (commit_bytes git w base p)), (''path'', JStr p)]"

lemma lock_digest_sorted:
  assumes "lock_digest digest git w base candidate p = Inr e"
  shows "sort_keys e = lock_entry digest git w base candidate p \<and> commit_bytes git w candidate p \<noteq> None"
proof -
  have order: "sort_items [(''path'', x), (''before_sha256'', y), (''after_sha256'', z)] =
      [(''after_sha256'', z), (''before_sha256'', y), (''path'', x)]" for x y z :: json
    by code_simp
  have leaf: "sort_keys (commit_digest digest b) = commit_digest digest b" for b
    by (cases b) (simp_all add: commit_digest_def)
  from assms obtain s where "commit_bytes git w candidate p = Some s"
    "e = JDict [(''path'', JStr p), (''before_sha256'', commit_digest digest (commit_bytes git w base p)),
      (''after_sha256'', JStr (digest s))]" by (auto simp: lock_digest_def split: option.splits)
  then show ?thesis by (simp add: lock_entry_def order leaf) (simp add: commit_digest_def)
qed

lemma lock_digests_sorted:
  "mapE (lock_digest digest git w base candidate) locks = Inr entries \<Longrightarrow>
    map sort_keys entries = map (lock_entry digest git w base candidate) locks \<and>
    (\<forall>p \<in> set locks. commit_bytes git w candidate p \<noteq> None)"
proof (induction locks arbitrary: entries)
  case (Cons p locks)
  from Cons.prems obtain e es where "entries = e # es" "lock_digest digest git w base candidate p = Inr e"
    "mapE (lock_digest digest git w base candidate) locks = Inr es" by (auto simp: bindE_Inr)
  with Cons.IH lock_digest_sorted show ?case by fastforce
qed simp

lemma lock_entry_get:
  "get_or_null ''path'' [(''after_sha256'', a), (''before_sha256'', b), (''path'', c)] = c"
  "get_or_null ''before_sha256'' [(''after_sha256'', a), (''before_sha256'', b), (''path'', c)] = b"
  "get_or_null ''after_sha256'' [(''after_sha256'', a), (''before_sha256'', b), (''path'', c)] = a"
  "keys_are [''path'', ''before_sha256'', ''after_sha256'']
    [(''after_sha256'', a), (''before_sha256'', b), (''path'', c :: json)]"
  by (auto simp: get_or_null_def keys_are_def)

lemma changed_paths_entries:
  "set ps \<subseteq> set lock_paths \<Longrightarrow> changed_paths (JList (map (lock_entry digest git w base candidate) ps)) = ps"
  by (induction ps) (simp_all add: changed_paths_def changed_path_def lock_entry_def lock_entry_get)

lemma declared_get:
  "declared_locks r = (case get_or_null ''affected_lockfiles'' r of JList xs \<Rightarrow> xs | _ \<Rightarrow> [])"
  by (auto simp: declared_locks_def get_or_null_def split: option.split)

lemma changes_ok:
  assumes r: "distinct (dkeys r)" "get_or_null ''affected_lockfiles'' r = jstrs ls"
    and locks: "locks \<noteq> []" "distinct locks" "set locks \<subseteq> set lock_paths" "set locks \<subseteq> set ls"
      "\<forall>p \<in> set locks. commit_bytes git w candidate p \<noteq> None"
    and hex: "\<And>s. lower_hex 64 (digest s)"
  shows "changes_errors (applied_members r) (JList (map (lock_entry digest git w base candidate) locks)) = Inr []"
proof -
  let ?e = "lock_entry digest git w base candidate"
  have "change_errors i (?e p) = Inr []" if p: "p \<in> set locks" for i p
  proof -
    from p locks(3,5) obtain s where "p \<in> set lock_paths" "commit_bytes git w candidate p = Some s" by blast
    then show ?thesis
      by (cases "commit_bytes git w base p")
        (simp_all add: change_errors_def lock_entry_def lock_entry_get gather_Nil member_digest_def commit_digest_def
          hash_string [OF hex])
  qed
  moreover have "declared_locks (applied_members r) = map JStr ls"
    using r by (simp add: declared_get applied_get)
  ultimately show ?thesis
    using locks
    by (auto simp: changed_paths_entries [OF locks(3)] changes_errors_def gather_Nil list_all_iff hashable_def dest!: set_zip_rightD)
qed

section \<open>The commits\<close>

text \<open>What git tells of named commits depends on the repository, not on the work tree.\<close>

definition commit_reads :: "'g world git_program \<Rightarrow> bool" where
  "commit_reads git \<longleftrightarrow> (\<forall>w w' args. w_repo w' = w_repo w \<longrightarrow> args \<noteq> [] \<longrightarrow>
     hd args \<in> {''show'', ''rev-list'', ''diff''} \<longrightarrow> git w' args = git w args)"

lemma commit_reads_same:
  assumes "commit_reads git" "w_repo w' = w_repo w"
  shows "commit_bytes git w' c p = commit_bytes git w c p" "candidate_changes git w' b c = candidate_changes git w b c"
    "lock_entry digest git w' b c p = lock_entry digest git w b c p"
proof -
  from assms have same: "args \<noteq> [] \<Longrightarrow> hd args \<in> {''show'', ''rev-list'', ''diff''} \<Longrightarrow> git w' args = git w args" for args
    unfolding commit_reads_def by blast
  show bytes: "commit_bytes git w' c p = commit_bytes git w c p" for c p by (simp add: commit_bytes_def same)
  have "run_git git w' (a # args) = run_git git w (a # args)" if "a \<in> {''rev-list'', ''diff''}" for a args
    using that by (auto simp: run_git_def same)
  then show "candidate_changes git w' b c = candidate_changes git w b c" by (simp add: candidate_changes_def Let_def cong: if_cong)
  show "lock_entry digest git w' b c p = lock_entry digest git w b c p" by (simp add: lock_entry_def bytes)
qed

lemma history_ok:
  assumes d: "get_or_null ''base_commit'' d = JStr base" "get_or_null ''candidate_commit'' d = JStr candidate"
      "get_or_null ''accepted_request_sha256'' d = JStr acc"
      "get_or_null ''root_lock_changes'' d = JList (map (lock_entry digest git w base candidate) locks)"
    and commits: "map_option digest (commit_bytes git w candidate p) = Some acc"
      "candidate_changes git w base candidate = Inr changes" "set (dkeys changes) = set locks \<union> {p}"
    and locks: "set locks \<subseteq> set lock_paths" "\<forall>p \<in> set locks. commit_bytes git w candidate p \<noteq> None"
  shows "history_errors digest git w p d = Inr []"
proof -
  let ?e = "lock_entry digest git w base candidate"
  have drift: "drift_errors digest (commit_bytes git w base) (commit_bytes git w candidate) (?e q) = Inr []"
    if "q \<in> set locks" for q
    using that locks
    by (auto simp: drift_errors_def lock_entry_def lock_entry_get str_at_def in_names_def hashable_def gather_Nil)
  from commits(1) obtain s where s: "commit_bytes git w candidate p = Some s" "digest s = acc" by auto
  show ?thesis
    using d commits(2,3) s drift
    by (auto simp: changed_paths_entries [OF locks(1)] history_errors_def Let_def commit_text_def is_str_def gather_Nil commit_digest_def)
qed

section \<open>The documents in the final state\<close>

lemma final_cas_clean:
  "final_cas digest git p acc candidate locks f [] None w = Inr () \<Longrightarrow>
    status_paths git w = Inr [] \<and> (\<exists>h. run_git git w [''rev-parse'', ''HEAD''] = Inr h \<and> strip_str h = candidate)"
  by (auto simp: final_cas_def bindE_Inr split: if_splits)

lemma sealed_wf:
  assumes "json_wf (JDict r)" "json_wf v" "mapE (lock_digest digest git w base candidate) locks = Inr entries"
  shows "json_wf (JDict (sealed_receipt r args acc ab candidate now entries m v))"
proof -
  have "json_wf e" if "e \<in> set entries" for e
  proof -
    from mapE_mem [OF assms(3) that] obtain p where "lock_digest digest git w base candidate p = Inr e" by blast
    then show ?thesis by (auto simp: lock_digest_def commit_digest_def split: option.splits)
  qed
  then show ?thesis using assms(1,2) sealed_distinct [of r args acc ab candidate now entries m v]
    by (auto simp: sealed_receipt_def list_all_iff member_wf)
qed

lemma applied_identified:
  assumes "distinct (dkeys r)" "get_or_null ''packet_id'' r = JStr k" "full_match packet_pattern k"
    "get_or_null ''request_id'' r = JStr i" "full_match request_id_pattern i"
  shows "identified (applied_members r)" and "receipt_path (applied_members r) = receipt_path r"
  using assms by (simp_all add: identified_def packet_in_range_def receipt_path_def str_at_def applied_get)

text \<open>When every other part of a receipt is sound, its verdict is that of the recorded validations.\<close>

lemma receipt_document_verdict:
  assumes parts: "header_errors p request d = Inr []" "binding_errors digest request bytes d = Inr []"
      "changes_errors request (get_or_null ''root_lock_changes'' d) = Inr []" "history_errors digest git w p d = Inr []"
    and candidate: "get_or_null ''candidate_commit'' d = JStr candidate" "commit_id candidate"
    and m: "commit_bytes git w candidate ''tools/manifest.yaml'' = Some m"
      "get_or_null ''tool_manifest_sha256'' d = JStr (digest m)"
  shows "receipt_document_errors digest git w p request bytes d =
    validation_errors (Some m) request (JStr candidate) (get_or_null ''validations'' d)"
  using assms by (cases "validation_errors (Some m) request (JStr candidate) (get_or_null ''validations'' d)")
    (simp_all add: receipt_document_errors_def Let_def receipt_manifest_def commit_text_def commit_digest_def gather.simps)

lemma apply_seals_facts:
  assumes "apply_request digest git rv now pid args w = (t, Inr ())"
  shows "\<exists>r bytes. read_file (last t) (a_request args) = Some bytes \<and> loads bytes = Some (JDict (applied_members r)) \<and>
    get_or_null ''status'' (applied_members r) = JStr ''applied''"
proof -
  from apply_stages [OF assms] obtain r acc u candidate locks t' v applied receipt d t2 where
    s: "admit_request digest git args w = Inr (r, acc)"
      "seal digest git now args r acc candidate locks v (last t') = Inr (applied, receipt, d)"
      "publish digest git pid (a_request args) acc candidate locks (receipt_path r) applied receipt d (last t') = (t2, Inr ())"
    and last: "last t = last t2" by blast
  from admit_request_Inr [OF s(1)] loads_wf have wf: "json_wf (JDict r)" by blast
  from seal_Inr [OF s(2)] obtain ab where e: "applied = dset ''status'' (JStr ''applied'') r" "dumps_sorted (JDict applied) = Some ab"
    by blast
  have "read_file (last t) (a_request args) = Some ab" using publish_Inr [OF s(3)] last e(2) by simp
  moreover have "loads ab = Some (JDict (applied_members r))"
    using loads_dumps_sorted [OF _ e(2)] json_wf_dset [OF _ wf] unfolding e(1) sort_keys_members by simp
  moreover have "get_or_null ''status'' (applied_members r) = JStr ''applied''" using wf by (simp add: applied_get)
  ultimately show ?thesis by blast
qed

text \<open>
  C2: what a successful apply leaves behind is judged by \<open>validate_request\<close> exactly as the recorded dependency
  validations are: the request is read back with status \<open>applied\<close> and its receipt passes every check of its
  own, of the request, the commits and the manifest, so that the answer is the one \<open>validation_errors\<close> gives
  on the record \<open>_run_dependency_validations\<close> returned. That record need not pass: the checker asks more of it
  than the writer.
\<close>

theorem sealed_request_verdict:
  assumes run: "apply_request digest git rv now pid args w = (t, Inr ())"
    and reads: "commit_reads git"
    and head: "\<And>u h. run_git git u [''rev-parse'', ''HEAD''] = Inr h \<Longrightarrow> commit_id (strip_str h)"
    and clean: "\<And>u h. run_git git u [''rev-parse'', ''HEAD''] = Inr h \<Longrightarrow> status_paths git u = Inr [] \<Longrightarrow>
      commit_bytes git u (strip_str h) ''tools/manifest.yaml'' = read_file u ''tools/manifest.yaml''"
    and hex: "\<And>s. lower_hex 64 (digest s)"
    and fresh: "\<And>s. read_file (last t) (a_request args) = Some s \<Longrightarrow> digest s \<noteq> a_expected args"
    and now: "utc_timestamp (JStr now) \<noteq> None"
    and kept: "\<And>u c r t' v. rv u c r = (t', Inr v) \<Longrightarrow> w_repo (last t') = w_repo u \<and> json_wf v"
  shows "\<exists>content r u candidate t' v.
    read_file w (a_request args) = Some content \<and> loads content = Some (JDict r) \<and>
    rv u candidate r = (t', Inr v) \<and> get_or_null ''status'' (applied_members r) = JStr ''applied'' \<and>
    validate_request digest git (last t) (a_request args) =
      (case validation_errors (commit_bytes git (last t) candidate ''tools/manifest.yaml'') (applied_members r)
              (JStr candidate) (sort_keys v) of
         Inl crash \<Rightarrow> Inl (Crashed crash)
       | Inr [] \<Rightarrow> Inr (applied_members r)
       | Inr (_ # _) \<Rightarrow> Inl RequestInvalid)"
proof -
  from apply_stages [OF run] obtain r acc u candidate locks t' v applied receipt d t2 where
    s: "admit_request digest git args w = Inr (r, acc)" "admit_candidate digest git args r acc u = Inr (candidate, locks)"
      "rv u candidate r = (t', Inr v)" "seal digest git now args r acc candidate locks v (last t') = Inr (applied, receipt, d)"
      "publish digest git pid (a_request args) acc candidate locks (receipt_path r) applied receipt d (last t') = (t2, Inr ())"
    and last: "last t = last t2" by blast
  from admit_request_Inr [OF s(1)] obtain content where c: "loads content = Some (JDict r)"
    "document_errors (name_of (a_request args)) (JDict r) = Inr []" "acc = digest content" "a_expected args = acc"
    "read_file w (a_request args) = Some content" by blast
  have wf: "json_wf (JDict r)" and r: "distinct (dkeys r)" using loads_wf [OF c(1)] by simp_all
  from accepted_request_facts(1) [OF c(2)] obtain k i where
    ids: "get_or_null ''packet_id'' r = JStr k" "full_match packet_pattern k"
      "get_or_null ''request_id'' r = JStr i" "full_match request_id_pattern i" by blast
  from accepted_request_facts(4) [OF c(2)] obtain ls where ls: "get_or_null ''affected_lockfiles'' r = jstrs ls" by blast
  from admit_candidate_Inr [OF s(2)] obtain changes where k: "commit_id (a_base args)"
    "map_option digest (commit_bytes git u candidate (a_request args)) = Some acc"
    "candidate_changes git u (a_base args) candidate = Inr changes" "check_changes (a_request args) r changes = Inr locks"
    "get_or_null ''status'' r = JStr ''accepted''" by blast
  from candidate_changes_Inr [OF k(3)] check_changes_Inr [OF k(4) _ _ request_no_lock [OF admit_request_directory [OF s(1)]]]
  have ch: "set (dkeys changes) = set locks \<union> {a_request args}" "distinct locks" "locks \<noteq> []"
    "set locks \<subseteq> set lock_paths" "JStr ` set locks \<subseteq> set (declared_locks r)" by blast+
  have declared: "set locks \<subseteq> set ls" using ch(5) ls by (auto simp: declared_get)
  from seal_Inr [OF s(4)] obtain ab entries m where e: "applied = dset ''status'' (JStr ''applied'') r"
    "dumps_sorted (JDict applied) = Some ab" "mapE (lock_digest digest git (last t') (a_base args) candidate) locks = Inr entries"
    "read_file (last t') ''tools/manifest.yaml'' = Some m"
    "receipt = sealed_receipt r args acc (digest ab) candidate now entries (digest m) v"
    "dumps_sorted (JDict receipt) \<noteq> None" by blast
  from publish_Inr [OF s(5)] have p: "final_cas digest git (a_request args) acc candidate locks (receipt_path r) [] None (last t') = Inr ()"
    "read_file (last t) (a_request args) = Some ab" "read_file (last t) (receipt_path r) = dumps_sorted (JDict receipt)"
    "w_repo (last t) = w_repo (last t')" unfolding last e(2) by blast+
  note rv = kept [OF s(3)]
  have repo: "w_repo (last t) = w_repo u" using p(4) rv by simp
  note same = commit_reads_same [OF reads repo] and same' = commit_reads_same [OF reads p(4)]
  from final_cas_clean [OF p(1)] head clean e(4) have cand: "commit_id candidate"
    and "commit_bytes git (last t') candidate ''tools/manifest.yaml'' = Some m" by auto
  then have m: "commit_bytes git (last t) candidate ''tools/manifest.yaml'' = Some m" by (simp add: same')
  let ?r = "applied_members r" and ?d = "read_back r args acc (digest ab) candidate now entries (digest m) v"
  have changes: "get_or_null ''root_lock_changes'' ?d = JList (map (lock_entry digest git (last t) (a_base args) candidate) locks)"
    and present: "\<forall>p \<in> set locks. commit_bytes git (last t) candidate p \<noteq> None"
    using lock_digests_sorted [OF e(3)] by (simp_all add: read_back_get same')
  have again: "loads ab = Some (JDict ?r)"
    using loads_dumps_sorted [OF _ e(2)] json_wf_dset [OF _ wf] unfolding e(1) sort_keys_members by simp
  obtain rb where rb: "dumps_sorted (JDict receipt) = Some rb" using e(6) by blast
  have receipt: "loads rb = Some (JDict ?d)"
    using loads_dumps_sorted [OF _ rb] sealed_wf [OF wf _ e(3)] rv unfolding e(5) sort_keys_members by simp
  have "float_free (JDict applied)" using e(2) by (auto simp: dumps_sorted_def split: if_splits)
  from member_float_free [OF this, of "''approval''"] have ff: "float_free (get_or_null ''approval'' r)"
    by (simp add: e(1) get_or_null_def dget_dset)
  let ?v = "validation_errors (Some m) ?r (JStr candidate) (sort_keys v)"
  have verdict: "receipt_document_errors digest git (last t) (a_request args) ?r ab ?d =
    validation_errors (Some m) ?r (JStr candidate) (get_or_null ''validations'' ?d)"
  proof (rule receipt_document_verdict)
    show "header_errors (a_request args) ?r ?d = Inr []" using r ids by (intro header_ok)
    show "binding_errors digest ?r ab ?d = Inr []"
      using r member_wf [OF wf] ff e(1,2) hex fresh [OF p(2)] c(3,4) now k(1) cand by (intro binding_ok) auto
    show "changes_errors ?r (get_or_null ''root_lock_changes'' ?d) = Inr []"
      unfolding changes using r ls ch declared present hex by (intro changes_ok)
    show "history_errors digest git (last t) (a_request args) ?d = Inr []"
      using changes k(2,3) ch present by (intro history_ok) (simp_all add: read_back_get same)
  qed (simp_all add: read_back_get cand m)
  obtain n where there: "w_files (last t) (receipt_path r) = Some n" and read: "read_file (last t) (receipt_path r) = Some rb"
    using p(3) rb by (auto simp: read_file_def split: option.splits)
  have "identified ?r" "receipt_path ?r = receipt_path r" by (fact applied_identified [OF r ids])+
  then have "request_lifecycle_errors digest git (last t) (a_request args) ?r = ?v"
    using there read p(2) receipt verdict
    by (simp add: request_lifecycle_errors_def Let_def applied_get r receipt_validation_errors_def in_names_def hashable_def
        read_back_get)
  moreover have "document_errors (name_of (a_request args)) (JDict ?r) = Inr []"
    by (rule applied_document_ok [OF c(2) k(5) wf])
  moreover have "\<not> is_symlink (last t) (a_request args)" using p(2) by (auto simp: is_symlink_def read_file_def)
  ultimately have "validate_request digest git (last t) (a_request args) =
      (case ?v of Inl crash \<Rightarrow> Inl (Crashed crash) | Inr [] \<Rightarrow> Inr ?r | Inr (_ # _) \<Rightarrow> Inl RequestInvalid)"
    using admit_request_directory [OF s(1)] p(2) again
    by (simp add: validate_request_def request_errors_def split: sum.split list.split)
  then show ?thesis using c(1,5) s(3) m applied_get(2) [OF r]
    by (intro exI [of _ content] exI [of _ r] exI [of _ u] exI [of _ candidate] exI [of _ t'] exI [of _ v]) simp
qed

end
