(* ===== verification/Lock_Examples.thy ===== *)
theory Lock_Examples
  imports Lock_Validation
begin

text \<open>
  A repository in which a serialized apply succeeds: one accepted request that changes \<open>go.mod\<close>, a work tree
  whose directories exist, and a git program that answers for two commits. The content of the request
  is a parameter of the world, so that no evaluation looks into it.
\<close>

definition sample_request :: string where
  "sample_request = ''dependency/requests/P04.yaml''"

definition sample_receipt :: string where
  "sample_receipt = ''delivery/mvp/evidence/P04/dependency-locks/P04-dep-m.json''"

definition sample_base :: string where
  "sample_base = replicate 40 (CHR ''a'')"

definition sample_candidate :: string where
  "sample_candidate = replicate 40 (CHR ''b'')"

definition sample_args :: "string \<Rightarrow> apply_args" where
  "sample_args c = \<lparr>a_request = sample_request, a_base = sample_base, a_expected = c, a_confirm = ''P04-dep-m''\<rparr>"

definition sample_manifest :: string where
  "sample_manifest = the (dumps_sorted (JDict [(''runtimes'', JList []), (''tools'', JList [])]))"

definition sample_git :: "string \<Rightarrow> 'g world git_program" where
  "sample_git c w args =
     (if args = [''branch'', ''--show-current''] then (0, ''main'')
      else if args = [''rev-parse'', ''HEAD''] then (0, sample_candidate)
      else if args = [''rev-parse'', ''--verify'', sample_base @ ''^{commit}''] then (0, sample_base)
      else if args = status_command then
        (0, (if w_files w sample_receipt = None then [] else ''?? '' @ sample_receipt @ [nul]) @
          (if read_file w ''tools/manifest.yaml'' = Some sample_manifest then [] else '' M tools/manifest.yaml'' @ [nul]))
      else if args = [''rev-list'', ''--parents'', ''-n'', ''1'', sample_candidate]
      then (0, sample_candidate @ '' '' @ sample_base)
      else if args = [''diff'', ''--name-status'', ''--no-renames'', ''-z'', sample_base, sample_candidate]
      then (0, render_changes [(''go.mod'', ''M''), (sample_request, ''M'')])
      else if args = [''show'', sample_candidate @ '':'' @ sample_request] then (0, c)
      else if args = [''show'', sample_candidate @ '':go.mod''] then (0, ''after'')
      else if args = [''show'', sample_candidate @ '':tools/manifest.yaml''] then (0, sample_manifest)
      else (128, []))"

definition sample_world :: "string \<Rightarrow> unit world" where
  "sample_world c = \<lparr>w_files = map_of
     [([], Directory), (''build'', Directory), (''build/tools'', Directory),
      (operation_lock_path, File [] 1), (apply_lock_path, File [] 1),
      (''dependency'', Directory), (''dependency/requests'', Directory), (sample_request, File c 1),
      (''go.mod'', File ''after'' 1), (''tools'', Directory), (''tools/manifest.yaml'', File sample_manifest 1),
      (''delivery'', Directory), (''delivery/mvp'', Directory), (''delivery/mvp/evidence'', Directory),
      (''delivery/mvp/evidence/P04'', Directory), (''delivery/mvp/evidence/P04/dependency-locks'', Directory)],
     w_repo = (), w_locked = False\<rparr>"

definition sample_content :: string where
  "sample_content = the (dumps_sorted (JDict (sample_members ''accepted'')))"

lemma sample_sorted: "sort_keys (JDict (sample_members s)) = JDict (sample_members s)"
  by code_simp

lemma sample_wf: "json_wf (JDict (sample_members s))"
  by code_simp

lemma sample_dumps: "dumps_sorted (JDict (sample_members ''accepted'')) = Some sample_content"
  by (simp add: sample_content_def dumps_sorted_def sample_members_def requirement_names_def)

lemma sample_loads: "loads sample_content = Some (JDict (sample_members ''accepted''))"
  using loads_dumps_sorted [OF sample_wf sample_dumps] by (simp only: sample_sorted)

lemma sample_git_simps:
  "run_git (sample_git c) w [''branch'', ''--show-current''] = Inr ''main''"
  "run_git (sample_git c) w [''rev-parse'', ''HEAD''] = Inr sample_candidate"
  "run_git (sample_git c) w [''rev-parse'', ''--verify'', sample_base @ ''^{commit}''] = Inr sample_base"
  "run_git (sample_git c) w status_command =
    Inr ((if w_files w sample_receipt = None then [] else ''?? '' @ sample_receipt @ [nul]) @
      (if read_file w ''tools/manifest.yaml'' = Some sample_manifest then [] else '' M tools/manifest.yaml'' @ [nul]))"
  "run_git (sample_git c) w [''rev-list'', ''--parents'', ''-n'', ''1'', sample_candidate] =
    Inr (sample_candidate @ '' '' @ sample_base)"
  "run_git (sample_git c) w [''diff'', ''--name-status'', ''--no-renames'', ''-z'', sample_base, sample_candidate] =
    Inr (render_changes [(''go.mod'', ''M''), (sample_request, ''M'')])"
  by (simp_all add: sample_git_def run_git_def status_command_def)

lemma sample_commits:
  "commit_bytes (sample_git c) w sample_candidate sample_request = Some c"
  "commit_bytes (sample_git c) w sample_candidate ''go.mod'' = Some ''after''"
  "commit_bytes (sample_git c) w sample_base ''go.mod'' = None"
  by (simp_all add: sample_git_def commit_bytes_def status_command_def sample_request_def sample_candidate_def sample_base_def)

lemma sample_files:
  "w_files (sample_world c) [] = Some Directory"
  "w_files (sample_world c) ''build'' = Some Directory"
  "w_files (sample_world c) ''build/tools'' = Some Directory"
  "w_files (sample_world c) operation_lock_path = Some (File [] 1)"
  "w_files (sample_world c) apply_lock_path = Some (File [] 1)"
  "w_files (sample_world c) sample_request = Some (File c 1)"
  "w_files (sample_world c) ''go.mod'' = Some (File ''after'' 1)"
  "w_files (sample_world c) ''tools/manifest.yaml'' = Some (File sample_manifest 1)"
  "w_files (sample_world c) sample_receipt = None"
  "w_locked (sample_world c) = False"
  by (simp_all add: sample_world_def operation_lock_path_def apply_lock_path_def sample_request_def sample_receipt_def)

lemma sample_receipt_path: "receipt_path (sample_members ''accepted'') = sample_receipt"
  by code_simp

lemma sample_paths:
  "preflight_journal (sample_world c) sample_request None = Inr ()"
  "preflight_journal (sample_world c) sample_request (Some sample_receipt) = Inr ()"
  by code_simp+

lemma sample_lifecycle:
  "request_lifecycle_errors digest git (sample_world c) sample_request (sample_members ''accepted'') = Inr []"
  by code_simp

lemma sample_read:
  "read_file (sample_world c) sample_request = Some c"
  "read_file (sample_world c) ''go.mod'' = Some ''after''"
  "read_file (sample_world c) ''tools/manifest.yaml'' = Some sample_manifest"
  by (simp_all add: read_file_def sample_files)

lemma sample_names: "name_of sample_request = ''P04.yaml''" "parent_of sample_request = ''dependency/requests''"
  by code_simp+

lemma sample_members_get:
  "get_or_null ''request_id'' (sample_members s) = JStr ''P04-dep-m''"
  "get_or_null ''status'' (sample_members s) = JStr s"
  "declared_locks (sample_members s) = [JStr ''go.mod'']"
  by code_simp+

lemma sample_args_simps [simp]:
  "a_request (sample_args e) = sample_request" "a_base (sample_args e) = sample_base"
  "a_expected (sample_args e) = e" "a_confirm (sample_args e) = ''P04-dep-m''"
  by (simp_all add: sample_args_def)

lemma sample_admit_request:
  assumes "loads c = Some (JDict (sample_members ''accepted''))"
  shows "admit_request digest git (sample_args (digest c)) (sample_world c) = Inr (sample_members ''accepted'', digest c)"
proof -
  have "validate_request digest git (sample_world c) sample_request = Inr (sample_members ''accepted'')"
    using assms
    by (simp add: validate_request_def is_symlink_def sample_files sample_names request_errors_def sample_read
        sample_request_ok sample_lifecycle)
  then show ?thesis by (simp add: admit_request_def sample_paths sample_read sample_members_get)
qed

lemma sample_locks:
  "operation_lock (sample_world c) = (replicate 3 (sample_world c), Inr ())"
  "apply_lock (sample_world c) = (replicate 4 (sample_world c), Inr ())"
proof -
  have safe: "safe_paths (sample_world c) [[], ''build'', ''build/tools'', operation_lock_path] = Inr ()"
    by code_simp
  show "operation_lock (sample_world c) = (replicate 3 (sample_world c), Inr ())"
    by (simp add: operation_lock_def safe and_then_def look_def open_lock_def sample_files numeral_3_eq_3 raise_if_def for_each_def checks.simps(2))
  show "apply_lock (sample_world c) = (replicate 4 (sample_world c), Inr ())"
    by (simp add: apply_lock_def and_then_def look_def open_lock_def sample_files is_symlink_def eval_nat_numeral raise_if_def for_each_def checks.simps(2))
qed

lemma sample_changes:
  "candidate_changes (sample_git c) w sample_base sample_candidate = Inr [(''go.mod'', ''M''), (sample_request, ''M'')]"
proof -
  have "words_of (sample_candidate @ '' '' @ sample_base) = [sample_candidate, sample_base]" by code_simp
  moreover have "parse_diff_name_status_z (render_changes [(''go.mod'', ''M''), (sample_request, ''M'')]) =
      Inr [(''go.mod'', ''M''), (sample_request, ''M'')]" by code_simp
  ultimately show ?thesis by (simp add: candidate_changes_def sample_git_simps)
qed

lemma sample_admit_candidate:
  "admit_candidate digest (sample_git c) (sample_args (digest c)) (sample_members ''accepted'') (digest c) (sample_world c) =
     Inr (sample_candidate, [''go.mod''])"
proof -
  have strips: "strip_str ''main'' = ''main''" "strip_str sample_candidate = sample_candidate"
    "strip_str sample_base = sample_base" "commit_id sample_base" by code_simp+
  have "status_paths (sample_git c) (sample_world c) = Inr []"
    by (simp add: status_paths_def sample_git_simps sample_files sample_read parse_status_z_def status_entry_def)
  moreover have "check_changes sample_request (sample_members ''accepted'') [(''go.mod'', ''M''), (sample_request, ''M'')] =
      Inr [''go.mod'']" by code_simp
  ultimately show ?thesis
    by (simp add: admit_candidate_def sample_git_simps strips sample_members_get sample_commits sample_changes)
qed

lemma sample_admit_receipt:
  "admit_receipt (sample_args (digest c)) (sample_members ''accepted'') (sample_world c) = Inr ()"
  by (simp add: admit_receipt_def sample_receipt_path sample_paths receipt_absent_def sample_files raise_if_def for_each_def checks.simps(2))

section \<open>The apply\<close>

text \<open>The validations succeed for the sample's candidate and request only, with a given document.\<close>

definition sample_validations :: "json \<Rightarrow> 'g validations" where
  "sample_validations v w candidate request =
     ([w], if candidate = sample_candidate \<and> request = sample_members ''accepted'' then Inr v else Inl (ValidationFailed []))"

definition sample_now :: string where
  "sample_now = ''2026-07-18T10:23:40Z''"

abbreviation sample_applied :: "json dict" where
  "sample_applied \<equiv> dset ''status'' (JStr ''applied'') (sample_members ''accepted'')"

lemma sample_applied_members: "sample_applied = sample_members ''applied''"
  by code_simp

definition sample_sealed :: "(string \<Rightarrow> string) \<Rightarrow> json \<Rightarrow> string \<Rightarrow> string \<Rightarrow> json dict" where
  "sample_sealed digest v c ab = sealed_receipt (sample_members ''accepted'') (sample_args (digest c)) (digest c) (digest ab)
     sample_candidate sample_now
     [JDict [(''path'', JStr ''go.mod''), (''before_sha256'', JNull), (''after_sha256'', JStr (digest ''after''))]]
     (digest sample_manifest) v"

lemma float_free_sealed: "float_free v \<Longrightarrow> float_free (JDict (sample_sealed digest v c ab))"
  by (simp add: sample_sealed_def sealed_receipt_def sample_members_def get_or_null_def)

lemma sample_seal:
  assumes "float_free v"
  shows "\<exists>ab rb. dumps_sorted (JDict sample_applied) = Some ab \<and> dumps_sorted (JDict (sample_sealed digest v c ab)) = Some rb \<and>
    seal digest (sample_git c) sample_now (sample_args (digest c)) (sample_members ''accepted'') (digest c) sample_candidate
      [''go.mod''] v (sample_world c) = Inr (sample_applied, sample_sealed digest v c ab, digest rb)"
proof -
  have "float_free (JDict sample_applied)"
    unfolding sample_applied_members by (simp add: sample_members_def requirement_names_def)
  then obtain ab where ab: "dumps_sorted (JDict sample_applied) = Some ab" by (simp add: dumps_sorted_def)
  obtain rb where rb: "dumps_sorted (JDict (sample_sealed digest v c ab)) = Some rb"
    using float_free_sealed [OF assms, of digest c ab] by (simp add: dumps_sorted_def)
  have "seal digest (sample_git c) sample_now (sample_args (digest c)) (sample_members ''accepted'') (digest c)
      sample_candidate [''go.mod''] v (sample_world c) = Inr (sample_applied, sample_sealed digest v c ab, digest rb)"
    using ab rb
    by (simp add: seal_def applied_request_def sample_members_get canonical_bytes_def lock_digest_def sample_commits
        commit_digest_def sample_read sample_sealed_def Let_def)
  with ab rb show ?thesis by blast
qed

text \<open>The state between the two writes.\<close>

definition sample_middle :: "string \<Rightarrow> string \<Rightarrow> unit world" where
  "sample_middle c rb = put sample_receipt (Some (File rb 1)) (put sample_receipt (Some (File [] 1)) (sample_world c))"

lemma sample_cas:
  "final_cas digest (sample_git c) sample_request (digest c) sample_candidate [''go.mod''] sample_receipt [] None
    (sample_world c) = Inr ()"
  "final_cas digest (sample_git c) sample_request (digest c) sample_candidate [''go.mod''] sample_receipt [sample_receipt]
    (Some (digest rb)) (sample_middle c rb) = Inr ()"
proof -
  have strips: "strip_str ''main'' = ''main''" "strip_str sample_candidate = sample_candidate" by code_simp+
  have "status_paths (sample_git c) (sample_world c) = Inr []"
    by (simp add: status_paths_def sample_git_simps sample_files sample_read parse_status_z_def status_entry_def)
  then show "final_cas digest (sample_git c) sample_request (digest c) sample_candidate [''go.mod''] sample_receipt [] None
      (sample_world c) = Inr ()"
    by (simp add: final_cas_def sample_paths sample_git_simps strips sample_read sample_commits lock_unchanged_def
        receipt_absent_def sample_files raise_if_def for_each_def checks.simps(2))
  have pre: "preflight_journal (sample_middle c rb) sample_request (Some sample_receipt) = Inr ()" by code_simp
  have "parse_status_z (''?? '' @ sample_receipt @ [nul]) = Inr [sample_receipt]" by code_simp
  then have "status_paths (sample_git c) (sample_middle c rb) = Inr [sample_receipt]"
    by (simp add: status_paths_def sample_git_simps sample_middle_def sample_read) (simp add: sample_receipt_def)
  moreover have "read_file (sample_middle c rb) sample_request = Some c" "read_file (sample_middle c rb) ''go.mod'' = Some ''after''"
    "read_file (sample_middle c rb) sample_receipt = Some rb"
    by (simp_all add: sample_middle_def sample_read) (simp_all add: sample_request_def sample_receipt_def)
  ultimately show "final_cas digest (sample_git c) sample_request (digest c) sample_candidate [''go.mod''] sample_receipt
      [sample_receipt] (Some (digest rb)) (sample_middle c rb) = Inr ()"
    by (simp add: final_cas_def pre sample_git_simps strips sample_commits lock_unchanged_def raise_if_def for_each_def checks.simps(2))
qed

lemma sample_publish:
  assumes "dumps_sorted (JDict receipt) = Some rb" "dumps_sorted (JDict applied) = Some ab"
  shows "snd (publish digest (sample_git c) 7 sample_request (digest c) sample_candidate [''go.mod''] sample_receipt
    applied receipt (digest rb) (sample_world c)) = Inr ()"
proof -
  have dir: "ensure_directory (sample_world c) (parent_of sample_receipt) = (replicate 2 (sample_world c), Inr ())"
  proof -
    have "safe_paths (sample_world c) [parent_of sample_receipt] = Inr ()" by code_simp
    moreover have "make_directories (sample_world c) (ancestors (parent_of sample_receipt)) = look (sample_world c) (Inr ())"
    proof -
      have "ancestors (parent_of sample_receipt) = [''delivery'', ''delivery/mvp'', ''delivery/mvp/evidence'',
        ''delivery/mvp/evidence/P04'', ''delivery/mvp/evidence/P04/dependency-locks'']" by code_simp
      then show ?thesis by (simp add: sample_world_def operation_lock_path_def apply_lock_path_def sample_request_def)
    qed
    ultimately show ?thesis
      by (simp add: ensure_directory_def sample_files and_then_def look_def numeral_2_eq_2 raise_if_def for_each_def checks.simps(2))
  qed
  have "safe_paths (sample_world c) [sample_receipt] = Inr ()" by code_simp
  then have write_run: "write_exclusive (sample_world c) sample_receipt (JDict receipt) =
      ([sample_world c, sample_world c, sample_world c, sample_world c,
        put sample_receipt (Some (File [] 1)) (sample_world c), sample_middle c rb], Inr ())"
    using assms
    by (simp add: write_exclusive_def dir and_then_def look_def canonical_bytes_def create_file_run sample_files
        sample_middle_def numeral_2_eq_2)
  have "checks [preflight_journal (sample_middle c rb) sample_request None,
      safe_paths (sample_middle c rb) [temporary_path sample_request 7]] = Inr ()" by code_simp
  moreover have "w_files (sample_middle c rb) (temporary_path sample_request 7) = None" by code_simp
  ultimately have "snd (atomic_replace (sample_middle c rb) 7 sample_request (JDict applied)) = Inr ()"
    using assms
    by (simp add: atomic_replace_def Let_def and_then_snd and_then_fst canonical_bytes_def create_file_run checks.simps(2) write_to_def)
  then show ?thesis
    by (simp add: publish_def Let_def and_then_snd and_then_fst sample_cas write_run)
qed

lemma sample_apply:
  assumes "float_free v"
  shows "\<exists>t. apply_request digest (sample_git sample_content) (sample_validations v) sample_now 7
     (sample_args (digest sample_content)) (sample_world sample_content) = (t, Inr ())"
proof -
  let ?run = "apply_request digest (sample_git sample_content) (sample_validations v) sample_now 7
     (sample_args (digest sample_content)) (sample_world sample_content)"
  obtain ab rb where s: "dumps_sorted (JDict sample_applied) = Some ab"
    "dumps_sorted (JDict (sample_sealed digest v sample_content ab)) = Some rb"
    "seal digest (sample_git sample_content) sample_now (sample_args (digest sample_content)) (sample_members ''accepted'')
      (digest sample_content) sample_candidate [''go.mod''] v (sample_world sample_content) =
      Inr (sample_applied, sample_sealed digest v sample_content ab, digest rb)"
    using sample_seal [OF assms, of digest sample_content] by blast
  have "snd ?run = Inr ()"
    by (simp add: apply_request_def and_then_snd and_then_fst sample_admit_request [OF sample_loads] sample_locks
        sample_admit_candidate sample_admit_receipt sample_validations_def s(3) sample_receipt_path
        sample_publish [OF s(2,1)])
  then show ?thesis by (metis prod.collapse)
qed

section \<open>Sound validations\<close>

text \<open>A digest that tells the accepted text from every other.\<close>

definition sample_digest :: "string \<Rightarrow> string" where
  "sample_digest s = replicate 64 (if s = sample_content then CHR ''a'' else CHR ''b'')"

definition some_digest :: json where
  "some_digest = JStr (replicate 64 (CHR ''c''))"

definition sample_record :: json where
  "sample_record = JDict
     [(''toolchain'', JDict [(''command'', jstrs toolchain_command), (''stdout_sha256'', some_digest)]),
      (''deferred_provenance'', JDict [(''command'', jstrs provenance_command), (''stdout_sha256'', some_digest)]),
      (''license'', JDict
        [(''candidate_install_stdout_sha256'', some_digest), (''command'', jstrs [''pnpm'', ''licenses'', ''list'', ''--json'']),
         (''stdout_sha256'', some_digest), (''license_counts'', JDict []),
         (''pnpm_supported_platform_coverage'', JDict
           [(''supported_lock_packages'', JInt 1), (''covered_lock_packages'', JInt 1), (''host_inventory_packages'', JInt 1),
            (''tarball_derived_packages'', JList [])]),
         (''go_module_inventory_sha256'', some_digest), (''pnpm_inventory_sha256'', some_digest),
         (''requested_dependencies'', JList [JDict
           [(''ecosystem'', JStr ''go''), (''name'', JStr ''m''), (''version'', JStr ''v1.2.3''), (''license'', JStr ''MIT''),
            (''integrity'', JDict
              [(''algorithm'', JStr ''go-sum''), (''source_url'', JStr ''https://sum.golang.org/lookup/m@v1.2.3''),
               (''value'', JStr ''h1:VhSvgU2jSli8o3AqIEOTJr7rZwAEUVo4E4XhR94Zfr0='')]),
            (''source_url'', JStr ''https://proxy.golang.org/m''), (''direct_runtime_dependency'', JBool True),
            (''integrity_binding'', JStr ''go.sum:module''), (''license_basis'', JStr ''steward-reviewed-request'')]]),
         (''tool_manifest_licenses'', JDict [])]),
      (''vulnerability'', JDict
        [(''pnpm_audit_stdout_sha256'', some_digest), (''pnpm_counts'', JDict [(''high'', JInt 0)]),
         (''trivy_stdout_sha256'', some_digest), (''trivy_high_critical_findings'', JInt 0),
         (''trivy_database'', JDict
           [(''repository'', JStr trivy_db_repository), (''metadata_sha256'', some_digest), (''database_sha256'', some_digest),
            (''metadata'', JDict [(''Version'', JInt 2)])])]),
      (''clean_clone'', JDict
        [(''report_sha256'', some_digest), (''source_commit'', JStr sample_candidate), (''command'', JStr ''clean-clone''),
         (''stdout_sha256'', some_digest), (''environment'', JDict
           [(''isolated_home'', JBool True), (''local_clone_no_hardlinks'', JBool True), (''source_worktree_clean'', JBool True),
            (''cloud_credentials_forwarded'', JBool False)])])]"

lemma sample_record_wf: "json_wf sample_record" "float_free sample_record"
  by code_simp+

lemma sample_record_passes:
  "validation_errors (Some sample_manifest) (applied_members (sample_members ''accepted'')) (JStr sample_candidate)
     (sort_keys sample_record) = Inr []"
  by code_simp

lemma sample_manifest_commit:
  "commit_bytes (sample_git c) w sample_candidate ''tools/manifest.yaml'' = Some sample_manifest"
  by (simp add: sample_git_def commit_bytes_def status_command_def sample_request_def sample_candidate_def sample_base_def)

section \<open>The properties on this repository\<close>

theorem apply_seals_witness:
  "\<exists>t ab. apply_request sample_digest (sample_git sample_content) (sample_validations JNull) sample_now 7
      (sample_args (sample_digest sample_content)) (sample_world sample_content) = (t, Inr ()) \<and>
    read_file (last t) sample_request = Some ab \<and> dumps_sorted (JDict sample_applied) = Some ab"
proof -
  obtain t where t: "apply_request sample_digest (sample_git sample_content) (sample_validations JNull) sample_now 7
      (sample_args (sample_digest sample_content)) (sample_world sample_content) = (t, Inr ())"
    using sample_apply [of JNull sample_digest] by auto
  from apply_seals [OF t] obtain content r ab where "read_file (sample_world sample_content) sample_request = Some content"
    "loads content = Some (JDict r)" "read_file (last t) sample_request = Some ab"
    "dumps_sorted (JDict (dset ''status'' (JStr ''applied'') r)) = Some ab" by auto
  with t sample_loads show ?thesis by (auto simp: sample_read)
qed

theorem receipt_is_final_witness:
  "\<exists>e. snd (apply_request sample_digest (sample_git sample_content) (sample_validations JNull) sample_now 7
     (sample_args (sample_digest sample_content)) (sample_middle sample_content [])) = Inl e"
proof -
  have "read_file (sample_middle sample_content []) (a_request (sample_args (sample_digest sample_content))) = Some sample_content"
    by (simp add: sample_middle_def sample_read) (simp add: sample_request_def sample_receipt_def)
  moreover have "w_files (sample_middle sample_content []) (receipt_path (sample_members ''accepted'')) \<noteq> None"
    by (simp add: sample_receipt_path sample_middle_def)
  ultimately show ?thesis using receipt_is_final [OF _ sample_loads] by blast
qed

theorem publish_atomic_witness:
  "\<exists>v. v \<in> set (fst (publish sample_digest (sample_git []) 7 sample_request [] sample_candidate [''go.mod''] sample_receipt
      [] [] [] (sample_world []))) \<and>
    (extends (sample_world []) v \<or> read_file v sample_request = dumps_sorted (JDict []))"
proof -
  let ?t = "fst (publish sample_digest (sample_git []) 7 sample_request [] sample_candidate [''go.mod''] sample_receipt
      [] [] [] (sample_world []))"
  have "?t \<noteq> []" by (rule publish_states [OF surjective_pairing])
  then have "last ?t \<in> set ?t" by (rule last_in_set)
  with publish_atomic [OF this] show ?thesis by blast
qed

lemma sample_heads:
  assumes "run_git (sample_git c) u [''rev-parse'', ''HEAD''] = Inr h"
  shows "strip_str h = sample_candidate" "commit_id (strip_str h)"
proof -
  have "strip_str sample_candidate = sample_candidate" "commit_id sample_candidate" by code_simp+
  then show "strip_str h = sample_candidate" "commit_id (strip_str h)" using assms by (simp_all add: sample_git_simps)
qed

lemma sample_clean:
  assumes "status_paths (sample_git c) u = Inr []"
  shows "read_file u ''tools/manifest.yaml'' = Some sample_manifest"
proof (rule ccontr)
  assume "read_file u ''tools/manifest.yaml'' \<noteq> Some sample_manifest"
  moreover have "parse_status_z (''?? '' @ sample_receipt @ [nul] @ '' M tools/manifest.yaml'' @ [nul]) \<noteq> Inr []"
    "parse_status_z ('' M tools/manifest.yaml'' @ [nul]) \<noteq> Inr []" by code_simp+
  ultimately show False using assms by (simp add: status_paths_def sample_git_simps split: if_splits)
qed

theorem sealed_request_verdict_witness:
  "\<exists>t d. apply_request sample_digest (sample_git sample_content) (sample_validations sample_record) sample_now 7
      (sample_args (sample_digest sample_content)) (sample_world sample_content) = (t, Inr ()) \<and>
    validate_request sample_digest (sample_git sample_content) (last t) sample_request = Inr d \<and>
    get_or_null ''status'' d = JStr ''applied''"
proof -
  obtain t where t: "apply_request sample_digest (sample_git sample_content) (sample_validations sample_record) sample_now 7
      (sample_args (sample_digest sample_content)) (sample_world sample_content) = (t, Inr ())"
    using sample_apply [OF sample_record_wf(2), of sample_digest] by blast
  have reads: "commit_reads (sample_git sample_content)"
  proof -
    have other: "args \<noteq> status_command \<Longrightarrow> sample_git sample_content w' args = sample_git sample_content w args"
      for w w' :: "'g world" and args by (simp add: sample_git_def)
    have "hd args \<in> {''show'', ''rev-list'', ''diff''} \<Longrightarrow> args \<noteq> status_command" for args
      by (auto simp: status_command_def)
    then show ?thesis unfolding commit_reads_def using other by blast
  qed
  have letters: "is_lower_hex (CHR ''a'')" "is_lower_hex (CHR ''b'')" by code_simp+
  then have hex: "lower_hex 64 (sample_digest s)" for s by (simp add: sample_digest_def lower_hex_def list_all_iff)
  have other: "sample_digest s \<noteq> sample_digest sample_content" if r: "read_file (last t) sample_request = Some s" for s
  proof -
    from apply_seals_facts [OF t] r obtain q where "loads s = Some (JDict q)" "get_or_null ''status'' q = JStr ''applied''" by auto
    then show ?thesis using sample_loads sample_members_get(2) [of "''accepted''"] by (auto simp: sample_digest_def)
  qed
  have now: "utc_timestamp (JStr sample_now) \<noteq> None" by code_simp
  let ?args = "sample_args (sample_digest sample_content)"
  have "\<exists>content r (u :: unit world) c t' v. read_file (sample_world sample_content :: unit world) (a_request ?args) = Some content \<and>
    loads content = Some (JDict r) \<and> sample_validations sample_record u c r = (t', Inr v) \<and>
    get_or_null ''status'' (applied_members r) = JStr ''applied'' \<and>
    validate_request sample_digest (sample_git sample_content) (last t) (a_request ?args) =
      (case validation_errors (commit_bytes (sample_git sample_content) (last t) c ''tools/manifest.yaml'') (applied_members r)
              (JStr c) (sort_keys v) of
         Inl crash \<Rightarrow> Inl (Crashed crash) | Inr [] \<Rightarrow> Inr (applied_members r) | Inr (_ # _) \<Rightarrow> Inl RequestInvalid)"
  proof (rule sealed_request_verdict [OF t reads _ _ hex _ now])
    show "commit_id (strip_str h)" if "run_git (sample_git sample_content) u [''rev-parse'', ''HEAD''] = Inr h" for u h
      using that by (rule sample_heads)
    show "commit_bytes (sample_git sample_content) u (strip_str h) ''tools/manifest.yaml'' = read_file u ''tools/manifest.yaml''"
      if "run_git (sample_git sample_content) u [''rev-parse'', ''HEAD''] = Inr h" "status_paths (sample_git sample_content) u = Inr []" for u h
      using sample_heads [OF that(1)] sample_clean [OF that(2)] by (simp add: sample_manifest_commit)
    show "sample_digest s \<noteq> a_expected ?args" if "read_file (last t) (a_request ?args) = Some s" for s
      using other that by simp
    show "w_repo (last t') = w_repo u \<and> json_wf v" if "sample_validations sample_record u c r = (t', Inr v)" for u c r t' v
      using that sample_record_wf by (auto simp: sample_validations_def split: if_splits)
  qed
  then obtain r c t' v and u :: "unit world" where v: "sample_validations sample_record u c r = (t', Inr v)"
    and status: "get_or_null ''status'' (applied_members r) = JStr ''applied''"
    and verdict: "validate_request sample_digest (sample_git sample_content) (last t) (a_request ?args) =
      (case validation_errors (commit_bytes (sample_git sample_content) (last t) c ''tools/manifest.yaml'') (applied_members r)
              (JStr c) (sort_keys v) of
         Inl crash \<Rightarrow> Inl (Crashed crash) | Inr [] \<Rightarrow> Inr (applied_members r) | Inr (_ # _) \<Rightarrow> Inl RequestInvalid)"
    by blast
  from v sample_record_passes
  have "validation_errors (commit_bytes (sample_git sample_content) (last t) c ''tools/manifest.yaml'') (applied_members r)
      (JStr c) (sort_keys v) = Inr []"
    by (auto simp: sample_validations_def sample_manifest_commit split: if_splits)
  with verdict t status show ?thesis by auto
qed

end
