(* ===== verification/Spec2Isabelle.thy ===== *)
theory Spec2Isabelle
  imports Workflow_Traffic Workflow_Gates Core_Contracts Transition_Fixtures Compatibility_History
    Packet_Release Import_Boundaries Jsonc Lock_Examples
begin

text \<open>
  Verification of the contract tooling of jumpship: the Python programs that generate, check and guard the
  contracts of the product (internal/contracts) and of its build (scripts).

  \<^bold>\<open>The program.\<close> internal/contracts/codegen builds JSON Schemas from small builders (model.py) in
  declaration modules (core_contracts.py and others); generate.py collects them, compares their surface with a
  checked-in baseline and writes the artifacts. internal/contracts/tests/schema_validator.py validates instances
  against the schemas. scripts/packets/packet_contract.py checks the work-packet graph and the make command
  contract; scripts/architecture/architecture_check.py checks the import boundaries of the Go and web sources.
  scripts/dependency-locks/dependency_locks.py checks dependency requests and applies one accepted request to
  the root locks. The first four meet in the schemas: what the builders emit is what the validator checks, what the transition
  fixtures exercise and what the compatibility gate protects.

  \<^bold>\<open>Conventions\<close> (Prelude, Json). A raised exception is \<open>Inl\<close>, a returned value \<open>Inr\<close>; a Python \<open>dict\<close> is an
  association list in insertion order; JSON keeps \<open>int\<close> and \<open>float\<close> apart, a float is the rational it denotes; a
  \<open>str\<close> is a list of characters, each one code point below U+0100. Definitions carry the source's names in lower
  case without the leading underscore.

  \<^bold>\<open>Validator\<close> (schema_validator.py). Regex, Regex_Parse: the regular expressions the patterns use, compiled and
  matched by a backtracking search, with a declarative meaning. Schema_Def: \<open>_validate_schema_definition\<close>. Py_Float: the
  binary64 arithmetic of \<open>multipleOf\<close>. Schema_Validator: registry, references, \<open>validate\<close>; its recursion limit is the
  interpreter's, \<open>RecursionError\<close> when reached. Validator_Fuel: a larger limit never changes an answer.
  Validator_Safety: on a local schema and a limit above its size validation never fails for another reason than the
  instance. Schema_Semantics: \<open>sat\<close>, the declarative meaning of a schema, and that the validator decides it.

  \<^bold>\<open>Builders and documents\<close> (model.py, core_contracts.py). Contract_Model: the builders and \<open>schema\<close>. Schema_Facts,
  Field_Patterns, Contract_Semantics: what the emitted schemas mean. Core_Schemas_A to D: the 24 documents,
  Core_Builders and Core_Contracts: each is well formed and within the fragment the validator decides.

  \<^bold>\<open>State machines\<close> (core_contracts.py). Transition_Graph: tables, runs, reachability, the locale
  \<open>transition_table\<close> and its refinements. Workflow_Tables: the nine tables, each an instance. Workflow_Schemas: edge
  constraints and envelopes. Workflow_Facts, Wellformed, Promises: a machine's contract enumerates its edges.
  Workflow_Envelopes, Traffic, Gates: what an accepted transition envelope guarantees. Transition_Fixtures: the
  generated fixtures are exhaustive partitions that the contracts classify alike.

  \<^bold>\<open>Compatibility\<close> (generate.py). Compatibility: the surface of a schema, \<open>_compare_compatibility\<close>, the baseline decision.
  Compatibility_Promises: the policy \<open>preserves\<close> as a relation on values, and that the comparison decides it on
  well-shaped surfaces (\<open>surface_ok\<close>). Compatibility_History: generator runs as steps, and \<open>lineage\<close>, the
  invariant of any sequence of them.

  \<^bold>\<open>Packets\<close> (packet_contract.py). Topological_Sort: the counter-based sort over any graph, its counter-free reference
  \<open>greedy\<close>, the locale \<open>dependency_graph\<close>. Packet_Graph, Packet_Promises: dependency expressions, nodes, the cycle
  report. Packet_Commands, Packet_Catalog, Packet_Command_Promises: targets, selectors, hooks, adapters, the catalogue.
  Packet_Release: the released graph as an instance of the locale, and the properties.

  \<^bold>\<open>Import boundaries\<close> (architecture_check.py). Import_Graph: path predicates, the rule table, breadth-first
  search, violations. Import_Promises: the search is exact and its paths are shortest. Import_Boundaries: the check
  reports exactly the forbidden pairs. Jsonc: the two passes over TypeScript configurations, each exact on texts read
  as code, literals and comments.

  \<^bold>\<open>Dependency locks\<close> (dependency_locks.py, tool_lock.py). Json_Text, Json_Round_Trip: \<open>json.dumps\<close> and \<open>json.loads\<close>,
  and that what is written is read back. Lock_Values, Dependency_Requests: the value checks and every error of a
  request; Dependency_Request_Promises: what a request without errors is; Request_Resubmission: it stays one when
  applied. Git_Outputs: what is read of git. Lock_World: files, runs as the lists of visible states, atomic writes.
  Lock_Receipts: receipt validation. Lock_Apply: \<open>apply_request\<close>. Lock_Apply_Promises: publishing is atomic;
  Lock_Sealing: what a successful apply has checked, twice, and left, and that a receipt is final; Lock_Validation: the
  checker judges what the writer wrote as it judges the recorded validations, which need not pass it. Lock_Examples: a
  concrete repository. git, SHA-256, the clock and the dependency validations are arguments; what a theorem needs of
  them is a hypothesis in its statement. \<open>_run_dependency_validations\<close> is code of the repository that is not
  modelled: the argument that stands for it is any run with any record.

  \<^bold>\<open>Fuel and bounds.\<close> The recursion limit of \<open>validate\<close> is a parameter; a limit above the size of schema and instance is
  enough for schemas without references. The packet sort is given the number of nodes as rounds, the breadth-first
  search one more than the number of distinct targets, \<open>replace_str\<close> the length of its text; each is proved or by
  construction enough; the JSON reader is given the length of the text.
  The JSONC passes end by a measure. Properties of patterns are for \<open>re.search\<close>, where a dollar sign also
  matches before a final line break. The interpreter's own limits are idealised: the recursion limit counts the
  nested calls of \<open>validate\<close> and not the frames of \<open>_json_equal\<close> and other helpers, and reading and writing
  JSON text has neither the limit of 4300 digits on integers nor one on nesting.

  \<^bold>\<open>Not modelled.\<close> Processes, network and clock: the walk and the lexers that produce import sites, make and
  document scanning of the packet command line, git receipts of packets, the CI runners, the developer toolchain,
  and of the dependency locks the tools that \<open>_run_dependency_validations\<close> runs, the checks of the tool manifest and
  the workspaces, and the lock-file readers. Text whose meaning is another language's: generated Go, TypeScript
  and protobuf, the OpenAPI and protobuf sections of the compatibility surface (the comparison takes them as given).
  The remaining declaration modules (application_api_contracts.py, quality_release_contracts.py) and the literal case
  documents of the fixtures, which use the same builders. SHA-256 is library code. The text of a float, characters
  above U+00FF, NaN inside a compared surface and signed zeros are outside the model.
\<close>

end
